(* ===== verification/Go_Prelude.thy ===== *)
theory Go_Prelude
  imports Main "HOL-Library.Char_ord" "HOL-Library.List_Lexorder" "HOL-Library.Multiset"
begin

text \<open>
  What the operator uses of the Go language and its standard library: strings as byte
  lists with \<open>strings.TrimSpace\<close>, \<open>ToUpper\<close>, \<open>ToLower\<close>, \<open>EqualFold\<close>, \<open>Contains\<close>,
  \<open>SplitN\<close>, \<open>Join\<close> and the formatting verbs, \<open>time.Duration\<close> at its 64-bit width,
  and \<open>sort.Slice\<close>. The generic lemmas the component theories share are collected here.
\<close>

section \<open>Collections of facts\<close>

named_theorems go_string \<open>evaluation of the string routines on literals\<close>
named_theorems trim_simps \<open>normal forms under TrimSpace\<close>

section \<open>Strings\<close>

text \<open>
  A Go string is a sequence of bytes; \<^typ>\<open>string\<close> is a list of 8-bit characters, and
  the library's lexicographic order on it is Go's \<open><\<close>.
  \<open>unicode.IsSpace\<close> holds of the runes below, given by their UTF-8 encodings.
\<close>

definition spaceRunes :: "string list" where
  "spaceRunes =
     [[CHR 0x20], [CHR 0x09], [CHR 0x0A], [CHR 0x0B], [CHR 0x0C], [CHR 0x0D],
      [CHR 0xC2, CHR 0x85], [CHR 0xC2, CHR 0xA0],
      [CHR 0xE1, CHR 0x9A, CHR 0x80],
      [CHR 0xE2, CHR 0x80, CHR 0x80], [CHR 0xE2, CHR 0x80, CHR 0x81],
      [CHR 0xE2, CHR 0x80, CHR 0x82], [CHR 0xE2, CHR 0x80, CHR 0x83],
      [CHR 0xE2, CHR 0x80, CHR 0x84], [CHR 0xE2, CHR 0x80, CHR 0x85],
      [CHR 0xE2, CHR 0x80, CHR 0x86], [CHR 0xE2, CHR 0x80, CHR 0x87],
      [CHR 0xE2, CHR 0x80, CHR 0x88], [CHR 0xE2, CHR 0x80, CHR 0x89],
      [CHR 0xE2, CHR 0x80, CHR 0x8A], [CHR 0xE2, CHR 0x80, CHR 0xA8],
      [CHR 0xE2, CHR 0x80, CHR 0xA9], [CHR 0xE2, CHR 0x80, CHR 0xAF],
      [CHR 0xE2, CHR 0x81, CHR 0x9F], [CHR 0xE3, CHR 0x80, CHR 0x80]]"

definition startsWith :: "'a list \<Rightarrow> 'a list \<Rightarrow> bool" where
  "startsWith p s \<longleftrightarrow> take (length p) s = p"

text \<open>Removes leading occurrences of the given non-empty sequences, as long as there is one.\<close>

function trimPrefixes :: "'a list list \<Rightarrow> 'a list \<Rightarrow> 'a list" where
  "trimPrefixes ps s =
     (case find (\<lambda>p. p \<noteq> [] \<and> startsWith p s) ps of
        None \<Rightarrow> s
      | Some p \<Rightarrow> trimPrefixes ps (drop (length p) s))"
  by pat_completeness auto
termination
proof (relation "measure (\<lambda>(ps, s). length s)", goal_cases)
  case 1
  then show ?case by simp
next
  case (2 ps s p)
  then have "p \<noteq> []" and "startsWith p s"
    by (auto simp: find_Some_iff)
  then have "s \<noteq> []" by (cases s) (auto simp: startsWith_def)
  with \<open>p \<noteq> []\<close> show ?case by simp
qed

declare trimPrefixes.simps [simp del]

definition TrimSpace :: "string \<Rightarrow> string" where
  "TrimSpace s =
     rev (trimPrefixes (map rev spaceRunes) (rev (trimPrefixes spaceRunes s)))"

lemma startsWith_prefix: "startsWith p s \<Longrightarrow> startsWith p (s @ t)"
proof -
  assume *: "startsWith p s"
  then have "length p \<le> length s"
    by (auto simp: startsWith_def dest: arg_cong [where f = length])
  with * show ?thesis by (simp add: startsWith_def)
qed

definition untrimmed :: "'a list list \<Rightarrow> 'a list \<Rightarrow> bool" where
  "untrimmed ps s \<longleftrightarrow> find (\<lambda>p. p \<noteq> [] \<and> startsWith p s) ps \<noteq> None"

lemma untrimmed_iff: "untrimmed ps s \<longleftrightarrow> (\<exists>p\<in>set ps. p \<noteq> [] \<and> startsWith p s)"
  by (auto simp: untrimmed_def find_None_iff)

lemma trimPrefixes_fix: "\<not> untrimmed ps s \<Longrightarrow> trimPrefixes ps s = s"
  by (subst trimPrefixes.simps) (simp add: untrimmed_def)

lemma trimPrefixes_done: "\<not> untrimmed ps (trimPrefixes ps s)"
proof (induction ps s rule: trimPrefixes.induct)
  case (1 ps s)
  then show ?case
    by (subst trimPrefixes.simps) (auto simp: untrimmed_def split: option.splits)
qed

lemma trimPrefixes_suffix: "\<exists>u. s = u @ trimPrefixes ps s"
proof (induction ps s rule: trimPrefixes.induct)
  case (1 ps s)
  show ?case
  proof (cases "find (\<lambda>p. p \<noteq> [] \<and> startsWith p s) ps")
    case None
    then show ?thesis by (subst trimPrefixes.simps) simp
  next
    case (Some p)
    with 1 obtain u where "drop (length p) s = u @ trimPrefixes ps (drop (length p) s)"
      by blast
    moreover have "trimPrefixes ps s = trimPrefixes ps (drop (length p) s)"
      using Some by (subst trimPrefixes.simps) simp
    ultimately have "s = (take (length p) s @ u) @ trimPrefixes ps s"
      by (metis append_assoc append_take_drop_id)
    then show ?thesis by blast
  qed
qed

lemma untrimmed_append: "untrimmed ps s \<Longrightarrow> untrimmed ps (s @ t)"
  by (auto simp: untrimmed_iff intro: startsWith_prefix)

text \<open>Trimming is idempotent: what is left neither starts nor ends with a space rune.\<close>

lemma TrimSpace_idem [simp, trim_simps]: "TrimSpace (TrimSpace s) = TrimSpace s"
proof -
  let ?l = "trimPrefixes spaceRunes s"
  let ?r = "trimPrefixes (map rev spaceRunes) (rev ?l)"
  obtain u where "rev ?l = u @ ?r"
    using trimPrefixes_suffix by blast
  then have "?l = rev ?r @ rev u"
    by (metis rev_append rev_rev_ident)
  moreover have "\<not> untrimmed spaceRunes ?l"
    by (rule trimPrefixes_done)
  ultimately have "\<not> untrimmed spaceRunes (rev ?r)"
    by (metis untrimmed_append)
  then have "trimPrefixes spaceRunes (rev ?r) = rev ?r"
    by (rule trimPrefixes_fix)
  moreover have "trimPrefixes (map rev spaceRunes) ?r = ?r"
    by (rule trimPrefixes_fix) (rule trimPrefixes_done)
  ultimately show ?thesis by (simp add: TrimSpace_def)
qed

lemma TrimSpace_Nil [simp, trim_simps]: "TrimSpace [] = []"
proof -
  have "\<not> untrimmed ps []" for ps :: "string list"
    by (auto simp: untrimmed_iff startsWith_def)
  then show ?thesis by (simp add: TrimSpace_def trimPrefixes_fix)
qed

text \<open>A string whose first and last bytes are printable ASCII is its own trimmed form.\<close>

definition graphic :: "char \<Rightarrow> bool" where
  "graphic c \<longleftrightarrow> 33 \<le> (of_char c :: nat) \<and> (of_char c :: nat) \<le> 126"

lemma graphic_trimPrefixes:
  assumes "graphic c" and "\<forall>p\<in>set ps. p \<noteq> [] \<longrightarrow> \<not> graphic (hd p)"
  shows "trimPrefixes ps (c # s) = c # s"
proof (rule trimPrefixes_fix)
  have "startsWith p (c # s) \<Longrightarrow> p \<noteq> [] \<Longrightarrow> hd p = c" for p
    by (cases p) (auto simp: startsWith_def)
  with assms show "\<not> untrimmed ps (c # s)"
    by (auto simp: untrimmed_iff)
qed

lemma spaceRunes_not_graphic:
  "\<forall>p\<in>set spaceRunes. p \<noteq> [] \<longrightarrow> \<not> graphic (hd p)"
  "\<forall>p\<in>set (map rev spaceRunes). p \<noteq> [] \<longrightarrow> \<not> graphic (hd p)"
  by (simp_all add: spaceRunes_def graphic_def)

lemma TrimSpace_graphic [go_string]:
  assumes "s \<noteq> []" "graphic (hd s)" "graphic (last s)"
  shows "TrimSpace s = s"
proof -
  obtain c t where s: "s = c # t" using assms(1) by (cases s) auto
  obtain d u where r: "rev s = d # u" using assms(1) by (cases "rev s") auto
  have "hd (rev s) = last s" using assms(1) by (simp add: hd_rev)
  with r have "d = last s" by simp
  with assms s r show ?thesis
    by (metis (no_types) TrimSpace_def graphic_trimPrefixes list.sel(1) rev_rev_ident
        spaceRunes_not_graphic)
qed

subsection \<open>Case conversion, searching, splitting\<close>

definition upperASCII :: "char \<Rightarrow> char" where
  "upperASCII c =
     (let n = of_char c :: nat in if 97 \<le> n \<and> n \<le> 122 then char_of (n - 32) else c)"

definition lowerASCII :: "char \<Rightarrow> char" where
  "lowerASCII c =
     (let n = of_char c :: nat in if 65 \<le> n \<and> n \<le> 90 then char_of (n + 32) else c)"

text \<open>
  \<open>strings.ToUpper\<close>. The operator applies it to Agent scopes only and compares the result
  with \<open>ACCOUNT\<close>, \<open>ORG\<close> and \<open>PROJECT\<close>; no rune outside ASCII has an upper case among
  the letters of those words, so leaving bytes above 127 alone decides the same comparisons.
\<close>

definition ToUpper :: "string \<Rightarrow> string" where
  "ToUpper s = map upperASCII s"

text \<open>
  \<open>strings.ToLower\<close>. The result is only searched for ASCII text; U+0130 and U+212A are the
  runes outside ASCII whose lower case is an ASCII letter.
\<close>

fun ToLower :: "string \<Rightarrow> string" where
  "ToLower [] = []"
| "ToLower (c # s) =
     (if startsWith [CHR 0xC4, CHR 0xB0] (c # s) then CHR ''i'' # ToLower (drop 1 s)
      else if startsWith [CHR 0xE2, CHR 0x84, CHR 0xAA] (c # s) then CHR ''k'' # ToLower (drop 2 s)
      else lowerASCII c # ToLower s)"

text \<open>
  \<open>strings.EqualFold\<close>, used against the same three words, none of whose letters has a
  case-folding partner outside ASCII.
\<close>

definition EqualFold :: "string \<Rightarrow> string \<Rightarrow> bool" where
  "EqualFold s t \<longleftrightarrow> map upperASCII s = map upperASCII t"

fun Contains :: "string \<Rightarrow> string \<Rightarrow> bool" where
  "Contains [] p = startsWith p []"
| "Contains (c # s) p = (startsWith p (c # s) \<or> Contains s p)"

text \<open>The part after the first dot, if any: \<open>strings.SplitN(s, ".", 2)\<close> has two parts
  exactly when \<open>s\<close> contains a dot, and the second is this one.\<close>

fun afterDot :: "string \<Rightarrow> string option" where
  "afterDot [] = None"
| "afterDot (c # s) = (if c = CHR ''.'' then Some s else afterDot s)"

lemma Contains_dot: "Contains s ''.'' \<longleftrightarrow> CHR ''.'' \<in> set s"
  by (induction s) (auto simp: startsWith_def)

lemma afterDot_None: "afterDot s = None \<longleftrightarrow> CHR ''.'' \<notin> set s"
  by (induction s) auto

lemma afterDot_Some: "afterDot s = Some t \<Longrightarrow> \<exists>u. s = u @ ''.'' @ t \<and> CHR ''.'' \<notin> set u"
proof (induction s)
  case Nil
  then show ?case by simp
next
  case (Cons c s)
  show ?case
  proof (cases "c = CHR ''.''")
    case True
    with Cons.prems show ?thesis by (intro exI [of _ "[]"]) simp
  next
    case False
    with Cons obtain u where "s = u @ ''.'' @ t" "CHR ''.'' \<notin> set u" by auto
    with False show ?thesis by (intro exI [of _ "c # u"]) simp
  qed
qed

lemma afterDot_shorter: "afterDot s = Some t \<Longrightarrow> length t < length s"
  by (induction s) (auto split: if_splits)

fun Join :: "string list \<Rightarrow> string \<Rightarrow> string" where
  "Join [] sep = []"
| "Join [x] sep = x"
| "Join (x # xs) sep = x @ sep @ Join xs sep"

subsection \<open>Formatting verbs\<close>

definition digit :: "nat \<Rightarrow> char" where
  "digit n = char_of (48 + n)"

fun decimal :: "nat \<Rightarrow> string" where
  "decimal n = (if n < 10 then [digit n] else decimal (n div 10) @ [digit (n mod 10)])"

declare decimal.simps [simp del]

definition fmt_d :: "int \<Rightarrow> string" where
  "fmt_d i = (if i < 0 then ''-'' @ decimal (nat (- i)) else decimal (nat i))"

definition hexdigit :: "nat \<Rightarrow> char" where
  "hexdigit n = (if n < 10 then char_of (48 + n) else char_of (87 + n))"

text \<open>
  \<open>strconv.Quote\<close>, the verb \<open>%q\<close>. Bytes above 127 are kept, as Quote keeps printable runes;
  the texts it produces are condition messages and error texts, which no branch inspects.
\<close>

definition quoteByte :: "char \<Rightarrow> string" where
  "quoteByte c =
     (let n = of_char c :: nat in
      if n = 34 then [CHR 92, CHR 34]
      else if n = 92 then [CHR 92, CHR 92]
      else if n = 7 then [CHR 92, CHR ''a'']
      else if n = 8 then [CHR 92, CHR ''b'']
      else if n = 12 then [CHR 92, CHR ''f'']
      else if n = 10 then [CHR 92, CHR ''n'']
      else if n = 13 then [CHR 92, CHR ''r'']
      else if n = 9 then [CHR 92, CHR ''t'']
      else if n = 11 then [CHR 92, CHR ''v'']
      else if n < 32 \<or> n = 127 then [CHR 92, CHR ''x'', hexdigit (n div 16), hexdigit (n mod 16)]
      else [c])"

definition fmt_q :: "string \<Rightarrow> string" where
  "fmt_q s = [CHR 34] @ concat (map quoteByte s) @ [CHR 34]"

section \<open>Durations and instants\<close>

text \<open>
  \<open>time.Duration\<close> is an int64 count of nanoseconds: sums wrap around, and the difference of
  two instants saturates (\<open>time.Time.Sub\<close>). An instant is its nanosecond count.
\<close>

type_synonym Duration = int
type_synonym Time = int

definition minDuration :: Duration where "minDuration = - (2 ^ 63)"
definition maxDuration :: Duration where "maxDuration = 2 ^ 63 - 1"

definition Nanosecond :: Duration where "Nanosecond = 1"
definition Second :: Duration where "Second = 1000000000"
definition Minute :: Duration where "Minute = 60 * Second"

definition wrapDuration :: "int \<Rightarrow> Duration" where
  "wrapDuration i = (i + 2 ^ 63) mod 2 ^ 64 - 2 ^ 63"

definition timeSub :: "Time \<Rightarrow> Time \<Rightarrow> Duration" where
  "timeSub t u = max minDuration (min maxDuration (t - u))"

lemma wrapDuration_id: "minDuration \<le> i \<Longrightarrow> i \<le> maxDuration \<Longrightarrow> wrapDuration i = i"
  by (simp add: wrapDuration_def minDuration_def maxDuration_def)

lemma wrapDuration_range: "minDuration \<le> wrapDuration i \<and> wrapDuration i \<le> maxDuration"
proof -
  have "0 \<le> (i + 2 ^ 63) mod 2 ^ 64" and "(i + 2 ^ 63) mod 2 ^ 64 < 2 ^ 64"
    by simp_all
  then show ?thesis
    by (simp add: wrapDuration_def minDuration_def maxDuration_def)
qed

end
