(* ===== verification/Go_Errors.thy ===== *)
theory Go_Errors
  imports Go_Prelude
begin

text \<open>
  Go error values. An error is its text and what it unwraps to; \<open>errors.Is\<close> and \<open>errors.As\<close>
  search the tree of wrapped errors depth first. The sentinels are the package variables of
  the operator, and the verdict an API error retains is declared here because it is a
  component of the error value.
\<close>

section \<open>Error values\<close>

text \<open>\<open>harness.Verdict\<close> (\<open>internal/harness/errors.go\<close>).\<close>

datatype Verdict =
    VerdictAbsent
  | VerdictConflict
  | VerdictDenied
  | VerdictTransient
  | VerdictFailed

text \<open>The package variables made with \<open>errors.New\<close>.\<close>

datatype sentinel =
    ErrProjectMappingAlreadyExists
  | ErrProjectMappingCreateOutcomeUnknown
  | ErrAgentAlreadyExists
  | ErrAgentNotFound
  | ErrAgentCreateOutcomeUnknown
  | ErrHarnessAgentAlreadyExists
  | ErrHarnessAgentOwnershipUnknown

text \<open>
  \<^item> \<open>ErrNew\<close>: a sentinel;
  \<^item> \<open>ErrFmt text wrapped\<close>: \<open>fmt.Errorf\<close>, with the errors its \<open>%w\<close> verbs wrap;
  \<^item> \<open>ErrJoin\<close>: \<open>errors.Join\<close>;
  \<^item> \<open>ErrResponse\<close>: \<open>*harness.ResponseError\<close>;
  \<^item> \<open>ErrStatus reason text\<close>: an API-machinery status error;
  \<^item> \<open>ErrSDK text body deadline timeout\<close>: an error of the Harness SDK: the response body of a
    \<open>GenericSwaggerError\<close>, whether it is \<open>context.DeadlineExceeded\<close>, and the answer of its
    \<open>Timeout\<close> method where it has one.
\<close>

datatype go_error =
    ErrNew sentinel
  | ErrFmt string "go_error list"
  | ErrJoin "go_error list"
  | ErrResponse string string int Verdict go_error
  | ErrStatus string string
  | ErrSDK string "string option" bool "bool option"

text \<open>The tree of an error in the order \<open>errors.Is\<close> and \<open>errors.As\<close> visit it.\<close>

fun errorTree :: "go_error \<Rightarrow> go_error list" where
  "errorTree (ErrFmt t es) = ErrFmt t es # concat (map errorTree es)"
| "errorTree (ErrJoin es) = ErrJoin es # concat (map errorTree es)"
| "errorTree (ErrResponse op d c v e) = ErrResponse op d c v e # errorTree e"
| "errorTree e = [e]"

definition errorsIs :: "go_error \<Rightarrow> sentinel \<Rightarrow> bool" where
  "errorsIs e s \<longleftrightarrow> ErrNew s \<in> set (errorTree e)"

fun firstSome :: "('a \<Rightarrow> 'b option) \<Rightarrow> 'a list \<Rightarrow> 'b option" where
  "firstSome f [] = None"
| "firstSome f (x # xs) = (case f x of Some y \<Rightarrow> Some y | None \<Rightarrow> firstSome f xs)"

text \<open>\<open>errors.As\<close> at the four targets the operator uses.\<close>

fun asResponse :: "go_error \<Rightarrow> Verdict option" where
  "asResponse (ErrResponse op d c v e) = Some v"
| "asResponse _ = None"

fun asSwaggerBody :: "go_error \<Rightarrow> string option" where
  "asSwaggerBody (ErrSDK t b d w) = b"
| "asSwaggerBody _ = None"

fun asTimeout :: "go_error \<Rightarrow> bool option" where
  "asTimeout (ErrSDK t b d w) = w"
| "asTimeout _ = None"

fun isDeadline :: "go_error \<Rightarrow> bool" where
  "isDeadline (ErrSDK t b d w) = d"
| "isDeadline _ = False"

definition errorsAs :: "(go_error \<Rightarrow> 'b option) \<Rightarrow> go_error \<Rightarrow> 'b option" where
  "errorsAs f e = firstSome f (errorTree e)"

definition errorsIsDeadlineExceeded :: "go_error \<Rightarrow> bool" where
  "errorsIsDeadlineExceeded e \<longleftrightarrow> list_ex isDeadline (errorTree e)"

text \<open>\<open>errors.Join\<close> of two possibly nil errors: nil operands are dropped, and the join of
  nothing is nil.\<close>

fun errorsJoin :: "go_error option \<Rightarrow> go_error option \<Rightarrow> go_error option" where
  "errorsJoin None None = None"
| "errorsJoin (Some e) None = Some (ErrJoin [e])"
| "errorsJoin None (Some e) = Some (ErrJoin [e])"
| "errorsJoin (Some e) (Some f) = Some (ErrJoin [e, f])"

section \<open>Texts\<close>

fun sentinelText :: "sentinel \<Rightarrow> string" where
  "sentinelText ErrProjectMappingAlreadyExists = ''app project mapping already exists''"
| "sentinelText ErrProjectMappingCreateOutcomeUnknown = ''app project mapping create outcome is unknown''"
| "sentinelText ErrAgentAlreadyExists = ''harness GitOps agent already exists''"
| "sentinelText ErrAgentNotFound = ''harness GitOps agent not found''"
| "sentinelText ErrAgentCreateOutcomeUnknown = ''harness GitOps agent create outcome is unknown''"
| "sentinelText ErrHarnessAgentAlreadyExists = ''harness GitOps agent already exists''"
| "sentinelText ErrHarnessAgentOwnershipUnknown = ''harness GitOps agent ownership is not proven''"

fun verdictText :: "Verdict \<Rightarrow> string" where
  "verdictText VerdictAbsent = ''Absent''"
| "verdictText VerdictConflict = ''Conflict''"
| "verdictText VerdictDenied = ''Denied''"
| "verdictText VerdictTransient = ''Transient''"
| "verdictText VerdictFailed = ''Failed''"

text \<open>\<open>error.Error()\<close>; the case of \<open>ErrResponse\<close> is \<open>(*ResponseError).Error\<close>.\<close>

fun Error :: "go_error \<Rightarrow> string" where
  "Error (ErrNew s) = sentinelText s"
| "Error (ErrFmt t es) = t"
| "Error (ErrJoin es) = Join (map Error es) [CHR 10]"
| "Error (ErrResponse op d c v e) =
     (if c \<noteq> 0 then
        op @ '' for '' @ d @ '' failed with HTTP '' @ fmt_d c @ '' ('' @ verdictText v @ ''): '' @ Error e
      else
        op @ '' for '' @ d @ '' failed ('' @ verdictText v @ ''): '' @ Error e)"
| "Error (ErrStatus r t) = t"
| "Error (ErrSDK t b d w) = t"

section \<open>Searching wrapped errors\<close>

lemma errorTree_self: "e \<in> set (errorTree e)"
  by (cases e) auto

lemma errorsIs_simps [simp]:
  "errorsIs (ErrNew s) t \<longleftrightarrow> s = t"
  "errorsIs (ErrFmt x es) t \<longleftrightarrow> (\<exists>e\<in>set es. errorsIs e t)"
  "errorsIs (ErrJoin es) t \<longleftrightarrow> (\<exists>e\<in>set es. errorsIs e t)"
  "errorsIs (ErrResponse op d c v e) t \<longleftrightarrow> errorsIs e t"
  "\<not> errorsIs (ErrStatus r x) t"
  "\<not> errorsIs (ErrSDK x b dl w) t"
  by (auto simp: errorsIs_def)

lemma errorsAs_response [simp]:
  "errorsAs asResponse (ErrResponse op d c v e) = Some v"
  by (simp add: errorsAs_def)

lemma firstSome_append: "firstSome f (xs @ ys) =
  (case firstSome f xs of Some y \<Rightarrow> Some y | None \<Rightarrow> firstSome f ys)"
  by (induction xs) (auto split: option.splits)

lemma firstSome_None: "firstSome f xs = None \<longleftrightarrow> (\<forall>x\<in>set xs. f x = None)"
  by (induction xs) (auto split: option.splits)

lemma errorsJoin_None [simp]: "errorsJoin a b = None \<longleftrightarrow> a = None \<and> b = None"
  by (cases a; cases b) auto

end
