(* ===== verification/Harness_Errors.thy ===== *)
theory Harness_Errors
  imports Go_Errors
begin

text \<open>
  \<open>internal/harness/errors.go\<close>: the verdict of a failed Harness call is derived from the HTTP
  status alone, is retained through wrapping, and absence is HTTP 404 only.
\<close>

section \<open>Classification\<close>

text \<open>\<open>ClassifyResponse\<close>. The response is its status code, \<open>None\<close> for a nil response.\<close>

definition ClassifyResponse :: "int option \<Rightarrow> go_error option \<Rightarrow> Verdict" where
  "ClassifyResponse response err =
     (case response of
        None \<Rightarrow> VerdictTransient
      | Some statusCode \<Rightarrow>
          if statusCode = 404 then VerdictAbsent
          else if statusCode = 409 then VerdictConflict
          else if statusCode = 401 \<or> statusCode = 403 then VerdictDenied
          else if statusCode = 408 \<or> statusCode = 429 \<or> 500 \<le> statusCode then VerdictTransient
          else
            (case err of
               None \<Rightarrow> VerdictFailed
             | Some e \<Rightarrow>
                 if errorsIsDeadlineExceeded e then VerdictTransient
                 else if errorsAs asTimeout e = Some True then VerdictTransient
                 else VerdictFailed))"

text \<open>\<open>VerdictOf\<close>; the empty verdict of a nil error is \<open>None\<close>.\<close>

definition VerdictOf :: "go_error option \<Rightarrow> Verdict option" where
  "VerdictOf err =
     (case err of
        None \<Rightarrow> None
      | Some e \<Rightarrow>
          (case errorsAs asResponse e of
             Some v \<Rightarrow> Some v
           | None \<Rightarrow> Some VerdictFailed))"

definition ErrorBody :: "go_error \<Rightarrow> string" where
  "ErrorBody err =
     (case errorsAs asSwaggerBody err of
        Some body \<Rightarrow> TrimSpace body
      | None \<Rightarrow> '''')"

definition APIError :: "string \<Rightarrow> string \<Rightarrow> int option \<Rightarrow> go_error option \<Rightarrow> go_error option" where
  "APIError operation resourceDescription response err =
     (case err of
        None \<Rightarrow> None
      | Some e \<Rightarrow>
          (let body = ErrorBody e;
               wrapped =
                 (if body \<noteq> '''' then ErrFmt (Error e @ '' (body: '' @ body @ '')'') [e] else e);
               statusCode = (case response of None \<Rightarrow> 0 | Some c \<Rightarrow> c)
           in Some (ErrResponse operation resourceDescription statusCode
                      (ClassifyResponse response err) wrapped)))"

section \<open>Properties\<close>

lemma Classify_Absent_iff [simp]:
  "ClassifyResponse response err = VerdictAbsent \<longleftrightarrow> response = Some 404"
  by (auto simp: ClassifyResponse_def split: option.splits)

lemma Classify_Conflict_iff:
  "ClassifyResponse response err = VerdictConflict \<longleftrightarrow> response = Some 409"
  by (auto simp: ClassifyResponse_def split: option.splits)

lemma APIError_eq_None [simp]: "APIError op d response err = None \<longleftrightarrow> err = None"
  by (auto simp: APIError_def Let_def split: option.splits)

text \<open>
  C6: the absence verdict is exactly HTTP 404. Whatever the SDK error, its body or its
  wrapping, a classified API error reads as absent through \<open>VerdictOf\<close> if and only if the
  response carried status 404, also after the error has been wrapped by \<open>fmt.Errorf\<close>.
\<close>

theorem verdict_absent_is_404:
  assumes "APIError op d response err = Some e"
  shows "(VerdictOf (Some e) = Some VerdictAbsent \<longleftrightarrow> response = Some 404) \<and>
    (VerdictOf (Some (ErrFmt t [e])) = Some VerdictAbsent \<longleftrightarrow> response = Some 404)"
proof -
  from assms obtain c w where e: "e = ErrResponse op d c (ClassifyResponse response err) w"
    by (auto simp: APIError_def Let_def split: option.splits)
  then have "errorsAs asResponse e = Some (ClassifyResponse response err)"
    by simp
  moreover have "errorsAs asResponse (ErrFmt t [e]) = Some (ClassifyResponse response err)"
    using e by (simp add: errorsAs_def)
  ultimately show ?thesis
    by (simp add: VerdictOf_def)
qed

theorem verdict_absent_is_404_witness:
  "APIError ''list'' ''agent'' (Some 403) (Some (ErrSDK ''denied'' (Some ''not found'') False None))
     = Some (ErrResponse ''list'' ''agent'' 403 VerdictDenied
         (ErrFmt ''denied (body: not found)'' [ErrSDK ''denied'' (Some ''not found'') False None]))
   \<and> VerdictOf (Some (ErrFmt ''wrapped'' [ErrResponse ''list'' ''agent'' 403 VerdictDenied
         (ErrFmt ''denied (body: not found)'' [ErrSDK ''denied'' (Some ''not found'') False None])]))
       \<noteq> Some VerdictAbsent"
proof -
  let ?e = "ErrSDK ''denied'' (Some ''not found'') False None"
  have body: "TrimSpace ''not found'' = ''not found''"
    by (rule TrimSpace_graphic) (simp_all add: graphic_def)
  have *: "APIError ''list'' ''agent'' (Some 403) (Some ?e) =
      Some (ErrResponse ''list'' ''agent'' 403 VerdictDenied
        (ErrFmt ''denied (body: not found)'' [?e]))"
    by (simp add: APIError_def ErrorBody_def errorsAs_def ClassifyResponse_def body)
  show ?thesis using * verdict_absent_is_404 [OF *, of "''wrapped''"] by simp
qed

end
