(* ===== verification/Harness_Identifiers.thy ===== *)
theory Harness_Identifiers
  imports Go_Prelude
begin

text \<open>
  \<open>internal/harness/identifiers.go\<close>: which organization and project an API call carries for an
  Agent scope, and the scope-prefixed variants of an identifier that path-based endpoints
  accept.
\<close>

section \<open>Definitions\<close>

text \<open>\<open>optional.String\<close> is an option; an empty value is omitted.\<close>

definition OptionalString :: "string \<Rightarrow> string option" where
  "OptionalString value =
     (let value = TrimSpace value in if value = '''' then None else Some value)"

definition OrgIdentifierForScope :: "string \<Rightarrow> string \<Rightarrow> string" where
  "OrgIdentifierForScope scope orgIdentifier =
     (if EqualFold (TrimSpace scope) ''ORG'' \<or> EqualFold (TrimSpace scope) ''PROJECT''
      then TrimSpace orgIdentifier
      else '''')"

definition OptionalOrgIdentifier :: "string \<Rightarrow> string \<Rightarrow> string option" where
  "OptionalOrgIdentifier scope orgIdentifier =
     OptionalString (OrgIdentifierForScope scope orgIdentifier)"

definition ProjectIdentifierForScope :: "string \<Rightarrow> string \<Rightarrow> string" where
  "ProjectIdentifierForScope scope projectIdentifier =
     (if EqualFold (TrimSpace scope) ''PROJECT'' then TrimSpace projectIdentifier else '''')"

definition OptionalProjectIdentifier :: "string \<Rightarrow> string \<Rightarrow> string option" where
  "OptionalProjectIdentifier scope projectIdentifier =
     OptionalString (ProjectIdentifierForScope scope projectIdentifier)"

text \<open>The closure \<open>add\<close> of \<open>ScopedIdentifierCandidates\<close>.\<close>

definition addCandidate :: "string list \<Rightarrow> string \<Rightarrow> string list" where
  "addCandidate candidates value =
     (let value = TrimSpace value in
      if value = '''' then candidates
      else if value \<in> set candidates then candidates
      else candidates @ [value])"

definition ScopedIdentifierCandidates :: "string \<Rightarrow> string \<Rightarrow> string list" where
  "ScopedIdentifierCandidates scope identifier =
     (let identifier = TrimSpace identifier in
      if identifier = '''' then []
      else if Contains identifier ''.'' then
        (let candidates = addCandidate [] identifier in
         case afterDot identifier of
           Some part \<Rightarrow> addCandidate candidates part
         | None \<Rightarrow> candidates)
      else
        (let candidates =
           (if EqualFold scope ''ORG'' then addCandidate [] (''org.'' @ identifier)
            else if EqualFold scope ''ACCOUNT'' then addCandidate [] (''account.'' @ identifier)
            else [])
         in addCandidate candidates identifier))"

definition IdentifiersEquivalent :: "string \<Rightarrow> string \<Rightarrow> string \<Rightarrow> bool" where
  "IdentifiersEquivalent scope left right =
     (let left = TrimSpace left; right = TrimSpace right in
      if left = '''' \<or> right = '''' then False
      else if left = right then True
      else list_ex (\<lambda>candidate. left = candidate) (ScopedIdentifierCandidates scope right))"

section \<open>Candidates\<close>

lemma set_addCandidate:
  "set (addCandidate cs v) = (if TrimSpace v = '''' then set cs else insert (TrimSpace v) (set cs))"
  by (auto simp: addCandidate_def Let_def)

lemma distinct_addCandidate: "distinct cs \<Longrightarrow> distinct (addCandidate cs v)"
  by (auto simp: addCandidate_def Let_def)

lemma length_addCandidate: "length (addCandidate cs v) \<le> Suc (length cs)"
  by (auto simp: addCandidate_def Let_def)

lemma candidates_blank [simp]: "ScopedIdentifierCandidates scope [] = []"
  by (simp add: ScopedIdentifierCandidates_def)

lemma candidates_trim [simp]:
  "ScopedIdentifierCandidates scope (TrimSpace i) = ScopedIdentifierCandidates scope i"
  by (simp add: ScopedIdentifierCandidates_def)

lemma candidates_Nil_iff: "ScopedIdentifierCandidates scope i = [] \<longleftrightarrow> TrimSpace i = ''''"
  by (auto simp: ScopedIdentifierCandidates_def addCandidate_def Let_def split: option.splits)

lemma candidates_self:
  "TrimSpace i \<noteq> '''' \<Longrightarrow> TrimSpace i \<in> set (ScopedIdentifierCandidates scope i)"
  by (auto simp: ScopedIdentifierCandidates_def Let_def set_addCandidate split: option.splits)

lemma candidates_distinct: "distinct (ScopedIdentifierCandidates scope i)"
  by (auto simp: ScopedIdentifierCandidates_def Let_def intro!: distinct_addCandidate split: option.splits)

lemma candidates_length: "length (ScopedIdentifierCandidates scope i) \<le> 2"
proof -
  have one: "length (addCandidate [] v) \<le> 1" for v
    using length_addCandidate [of "[]" v] by simp
  have two: "length (addCandidate (addCandidate [] v) w) \<le> 2" for v w
    using length_addCandidate [of "addCandidate [] v" w] one [of v] by simp
  have "length (addCandidate [] v) \<le> 2" for v
    using one [of v] by simp
  with two show ?thesis
    by (auto simp: ScopedIdentifierCandidates_def Let_def split: option.splits)
qed

lemma candidates_trimmed:
  "c \<in> set (ScopedIdentifierCandidates scope i) \<Longrightarrow> c \<noteq> '''' \<and> TrimSpace c = c"
  by (auto simp: ScopedIdentifierCandidates_def Let_def set_addCandidate split: option.splits if_splits)

text \<open>Comparing with an identifier is membership among its candidates.\<close>

lemma IdentifiersEquivalent_iff:
  "IdentifiersEquivalent scope left right \<longleftrightarrow>
     TrimSpace left \<noteq> '''' \<and> TrimSpace left \<in> set (ScopedIdentifierCandidates scope right)"
proof -
  have "TrimSpace left \<noteq> '''' \<Longrightarrow> TrimSpace left = TrimSpace right \<Longrightarrow>
      TrimSpace left \<in> set (ScopedIdentifierCandidates scope right)"
    using candidates_self by metis
  moreover have "TrimSpace right = '''' \<Longrightarrow> ScopedIdentifierCandidates scope right = []"
    by (simp add: candidates_Nil_iff)
  ultimately show ?thesis
    by (auto simp: IdentifiersEquivalent_def Let_def list_ex_iff)
qed

lemma IdentifiersEquivalent_refl:
  "TrimSpace i \<noteq> '''' \<Longrightarrow> IdentifiersEquivalent scope i i"
  by (simp add: IdentifiersEquivalent_def)

lemma IdentifiersEquivalent_trim [simp]:
  "IdentifiersEquivalent scope (TrimSpace l) r = IdentifiersEquivalent scope l r"
  "IdentifiersEquivalent scope l (TrimSpace r) = IdentifiersEquivalent scope l r"
  by (simp_all add: IdentifiersEquivalent_def)

lemma IdentifiersEquivalent_nonblank:
  "IdentifiersEquivalent scope l r \<Longrightarrow> TrimSpace l \<noteq> '''' \<and> TrimSpace r \<noteq> ''''"
  by (auto simp: IdentifiersEquivalent_def Let_def split: if_splits)

section \<open>Scopes\<close>

lemma OptionalString_trim [simp]: "OptionalString (TrimSpace s) = OptionalString s"
  by (simp add: OptionalString_def)

text \<open>
  C30: the lookup candidates of an identifier are usable path segments in preferred order. For
  every scope and every identifier that is not blank there are one or two candidates, they
  are distinct, trimmed and non-empty, the trimmed identifier is among them, and the
  equivalence check accepts exactly the candidates.
\<close>

theorem scoped_candidates_wellformed:
  assumes "TrimSpace identifier \<noteq> ''''"
  shows "let cs = ScopedIdentifierCandidates scope identifier in
    1 \<le> length cs \<and> length cs \<le> 2 \<and> distinct cs \<and>
    list_all (\<lambda>c. c \<noteq> '''' \<and> TrimSpace c = c) cs \<and>
    TrimSpace identifier \<in> set cs \<and>
    (\<forall>left. IdentifiersEquivalent scope left identifier \<longleftrightarrow> TrimSpace left \<in> set cs)"
proof -
  let ?cs = "ScopedIdentifierCandidates scope identifier"
  have "?cs \<noteq> []" using assms by (simp add: candidates_Nil_iff)
  then have "1 \<le> length ?cs" by (cases ?cs) auto
  moreover have "IdentifiersEquivalent scope left identifier \<longleftrightarrow> TrimSpace left \<in> set ?cs" for left
    using candidates_trimmed by (auto simp: IdentifiersEquivalent_iff)
  ultimately show ?thesis
    using candidates_self [OF assms] candidates_trimmed
    by (simp add: Let_def candidates_length candidates_distinct list_all_iff)
qed

theorem scoped_candidates_wellformed_witness:
  "TrimSpace ''agent1'' \<noteq> '''' \<and>
   ScopedIdentifierCandidates ''ORG'' ''agent1'' = [''org.agent1'', ''agent1''] \<and>
   IdentifiersEquivalent ''ORG'' ''org.agent1'' ''agent1''"
proof -
  have t: "TrimSpace ''agent1'' = ''agent1''" "TrimSpace ''org.agent1'' = ''org.agent1''"
    by (rule TrimSpace_graphic, simp_all add: graphic_def)+
  have c: "ScopedIdentifierCandidates ''ORG'' ''agent1'' = [''org.agent1'', ''agent1'']"
    using t by (simp add: ScopedIdentifierCandidates_def addCandidate_def Let_def Contains_dot
        EqualFold_def)
  from t have "TrimSpace ''agent1'' \<noteq> ''''" by simp
  from scoped_candidates_wellformed [OF this, of "''ORG''"] c t show ?thesis
    by (simp add: Let_def)
qed

text \<open>
  The equivalence of identifiers is not symmetric: a raw identifier is accepted against a
  dotted one by dropping the dotted one's first segment, whatever the segment and the scope,
  but at PROJECT scope the dotted identifier is not accepted against the raw one.
\<close>

lemma identifiers_equivalent_not_symmetric:
  "IdentifiersEquivalent ''PROJECT'' ''x'' ''a.x'' \<and>
   \<not> IdentifiersEquivalent ''PROJECT'' ''a.x'' ''x''"
proof -
  have t: "TrimSpace ''x'' = ''x''" "TrimSpace ''a.x'' = ''a.x''"
    by (rule TrimSpace_graphic, simp_all add: graphic_def)+
  then show ?thesis
    by (simp add: IdentifiersEquivalent_iff ScopedIdentifierCandidates_def addCandidate_def
        Let_def Contains_dot EqualFold_def upperASCII_def)
qed

text \<open>
  An Agent lookup carries the organization at ORG and PROJECT scope only and the project at
  PROJECT scope only, for every spelling of the scope that \<open>EqualFold\<close> accepts; a blank value
  is omitted from the request rather than sent empty.
\<close>

lemma scope_controls_request_identifiers:
  "OptionalOrgIdentifier scope org =
     (if ToUpper (TrimSpace scope) \<in> {''ORG'', ''PROJECT''} \<and> TrimSpace org \<noteq> ''''
      then Some (TrimSpace org) else None) \<and>
   OptionalProjectIdentifier scope project =
     (if ToUpper (TrimSpace scope) = ''PROJECT'' \<and> TrimSpace project \<noteq> ''''
      then Some (TrimSpace project) else None)"
proof -
  have "EqualFold s ''ORG'' \<longleftrightarrow> ToUpper s = ''ORG''"
    and "EqualFold s ''PROJECT'' \<longleftrightarrow> ToUpper s = ''PROJECT''" for s
    by (simp_all add: EqualFold_def ToUpper_def upperASCII_def)
  then show ?thesis
    by (auto simp: OptionalOrgIdentifier_def OptionalProjectIdentifier_def OptionalString_def
        OrgIdentifierForScope_def ProjectIdentifierForScope_def)
qed

end
