(* ===== verification/Api_Types.thy ===== *)
theory Api_Types
  imports Go_Errors
begin

text \<open>
  The custom resources of \<open>api/v1alpha1\<close>, the part of the Kubernetes object model the
  operator reads and writes (metadata, conditions, Secrets), and the value types of the
  Harness SDK. Fields carry a short prefix where two Go structs share a field name.
\<close>

section \<open>Kubernetes object model\<close>

text \<open>
  \<open>metav1.ObjectMeta\<close>. A zero \<open>CreationTimestamp\<close> is \<open>0\<close>; \<open>DeletionTimestamp\<close> is a pointer,
  and \<open>IsZero\<close> holds for nil and for a pointer to the zero time.
\<close>

record ObjectMeta =
  Name :: string
  Namespace :: string
  UID :: string
  ResourceVersion :: string
  Generation :: int
  CreationTimestamp :: Time
  DeletionTimestamp :: "Time option"
  Finalizers :: "string list"

definition timeIsZero :: "Time option \<Rightarrow> bool" where
  "timeIsZero t \<longleftrightarrow> t = None \<or> t = Some 0"

datatype ConditionStatus = ConditionTrue | ConditionFalse | ConditionUnknown

record Condition =
  c_Type :: string
  c_Status :: ConditionStatus
  c_ObservedGeneration :: int
  c_LastTransitionTime :: Time
  c_Reason :: string
  c_Message :: string

text \<open>\<open>client.ObjectKey\<close>: namespace and name.\<close>

type_synonym ObjectKey = "string \<times> string"

record Secret =
  sec_Name :: string
  sec_Namespace :: string
  sec_Labels :: "string \<rightharpoonup> string"
  sec_Type :: string
  sec_Data :: "string \<rightharpoonup> string"
  sec_OwnerReferences :: "string list"

text \<open>\<open>ctrl.Result\<close>, of which the operator sets \<open>RequeueAfter\<close> only.\<close>

record Result =
  RequeueAfter :: Duration

definition emptyResult :: Result where
  "emptyResult = \<lparr>RequeueAfter = 0\<rparr>"

definition requeueAfter :: "Duration \<Rightarrow> Result" where
  "requeueAfter d = \<lparr>RequeueAfter = d\<rparr>"

section \<open>HarnessGitopsAgent\<close>

text \<open>
  String enumerations: the unset value, the declared constants, and any other string (which
  the API server's validation rejects, but the code's comparisons would still meet).
\<close>

datatype ResourceOwnership =
    OwnershipUnset
  | OwnershipManaged
  | OwnershipAdopted
  | OwnershipExternal
  | OwnershipOther string

datatype AgentCreationState =
    AgentCreationUnset
  | AgentCreationPending
  | AgentCreationOutcomeUnknown
  | AgentCreationOther string

record HarnessGitopsAgentSpec =
  as_Name :: string
  as_Operator :: string
  as_Identifier :: string
  as_AccountId :: string
  as_OrgId :: string
  as_ProjectId :: string
  as_Type :: string
  as_Scope :: string
  as_ExistingAgentIdentifier :: string
  as_ApiKeySecretRef :: string
  as_TokenSecretRef :: string

record HarnessGitopsAgentStatus =
  ast_CreationState :: AgentCreationState
  ast_AgentIdentifier :: string
  ast_AgentOwnership :: ResourceOwnership
  ast_Conditions :: "Condition list"

record HarnessGitopsAgent =
  a_Meta :: ObjectMeta
  a_Spec :: HarnessGitopsAgentSpec
  a_Status :: HarnessGitopsAgentStatus

section \<open>HarnessGitopsProjectMapping\<close>

record HarnessGitopsAgentReference =
  ref_Name :: string

record HarnessGitopsProjectMappingSpec =
  ms_AgentRef :: HarnessGitopsAgentReference
  ms_AppProject :: string
  ms_OrgID :: string
  ms_ProjectID :: string
  ms_AutoCreateServiceEnv :: bool
  ms_AdoptMappingID :: string

record HarnessGitopsProjectMappingAgentStatus =
  ra_Identifier :: string
  ra_AccountID :: string
  ra_Scope :: string
  ra_OrgID :: string
  ra_ProjectID :: string

record HarnessGitopsProjectMappingTargetStatus =
  rt_OrgID :: string
  rt_ProjectID :: string
  rt_AppProject :: string
  rt_AutoCreateServiceEnv :: bool

record HarnessGitopsProjectMappingRemoteStatus =
  r_MappingID :: string
  r_Ownership :: ResourceOwnership
  r_Agent :: HarnessGitopsProjectMappingAgentStatus
  r_Target :: HarnessGitopsProjectMappingTargetStatus

datatype MappingCreationState =
    MappingCreationUnset
  | MappingCreationPending
  | MappingCreationOutcomeUnknown
  | MappingCreationOther string

record HarnessGitopsProjectMappingStatus =
  mst_ObservedGeneration :: int
  mst_CreationState :: MappingCreationState
  mst_Remote :: "HarnessGitopsProjectMappingRemoteStatus option"
  mst_Conditions :: "Condition list"

record HarnessGitopsProjectMapping =
  m_Meta :: ObjectMeta
  m_Spec :: HarnessGitopsProjectMappingSpec
  m_Status :: HarnessGitopsProjectMappingStatus

text \<open>The texts of the enumerations, as the formatting verbs print them.\<close>

fun ownershipText :: "ResourceOwnership \<Rightarrow> string" where
  "ownershipText OwnershipUnset = ''''"
| "ownershipText OwnershipManaged = ''Managed''"
| "ownershipText OwnershipAdopted = ''Adopted''"
| "ownershipText OwnershipExternal = ''External''"
| "ownershipText (OwnershipOther s) = s"

fun mappingCreationText :: "MappingCreationState \<Rightarrow> string" where
  "mappingCreationText MappingCreationUnset = ''''"
| "mappingCreationText MappingCreationPending = ''Pending''"
| "mappingCreationText MappingCreationOutcomeUnknown = ''OutcomeUnknown''"
| "mappingCreationText (MappingCreationOther s) = s"

fun agentCreationText :: "AgentCreationState \<Rightarrow> string" where
  "agentCreationText AgentCreationUnset = ''''"
| "agentCreationText AgentCreationPending = ''Pending''"
| "agentCreationText AgentCreationOutcomeUnknown = ''OutcomeUnknown''"
| "agentCreationText (AgentCreationOther s) = s"

section \<open>Validation rules of the custom resource definitions\<close>

text \<open>
  The rules the status types of a Mapping carry as kubebuilder markers: ownership requires a
  remote mapping ID, a creation state requires the resolved remote tuple, the required
  strings are not empty, and the enumerations admit their declared constants only. An unset
  enumeration is omitted from the encoded status. The rules of the condition list (one entry
  per type, the pattern of a reason, the length of a message) are not part of it: they are
  kept by the library function that sets a condition.
\<close>

definition remoteStatusValid :: "HarnessGitopsProjectMappingRemoteStatus \<Rightarrow> bool" where
  "remoteStatusValid r \<longleftrightarrow>
     (r_Ownership r = OwnershipUnset \<or> r_MappingID r \<noteq> '''') \<and>
     r_Ownership r \<in> {OwnershipUnset, OwnershipManaged, OwnershipAdopted, OwnershipExternal} \<and>
     ra_Identifier (r_Agent r) \<noteq> '''' \<and> ra_AccountID (r_Agent r) \<noteq> '''' \<and>
     ra_Scope (r_Agent r) \<in> {''ACCOUNT'', ''ORG'', ''PROJECT''} \<and>
     rt_OrgID (r_Target r) \<noteq> '''' \<and> rt_ProjectID (r_Target r) \<noteq> '''' \<and>
     rt_AppProject (r_Target r) \<noteq> ''''"

definition mappingStatusValid :: "HarnessGitopsProjectMappingStatus \<Rightarrow> bool" where
  "mappingStatusValid s \<longleftrightarrow>
     (mst_CreationState s = MappingCreationUnset \<or> mst_Remote s \<noteq> None) \<and>
     mst_CreationState s
       \<in> {MappingCreationUnset, MappingCreationPending, MappingCreationOutcomeUnknown} \<and>
     (case mst_Remote s of None \<Rightarrow> True | Some r \<Rightarrow> remoteStatusValid r)"

section \<open>Values of the Harness SDK\<close>

record V1AppProjectMappingV2 =
  v_Identifier :: string
  v_AgentIdentifier :: string
  v_AccountIdentifier :: string
  v_OrgIdentifier :: string
  v_ProjectIdentifier :: string
  v_ArgoProjectName :: string
  v_AutoCreateServiceEnv :: bool

record MappingListOpts =
  lo_AccountIdentifier :: "string option"
  lo_OrgIdentifier :: "string option"
  lo_ProjectIdentifier :: "string option"
  lo_ArgoProjectName :: "string option"

record V1AppProjectMappingCreateRequestV2 =
  cr_AgentIdentifier :: string
  cr_AccountIdentifier :: string
  cr_OrgIdentifier :: string
  cr_ProjectIdentifier :: string
  cr_ArgoProjectName :: string
  cr_AutoCreateServiceEnv :: bool

record MappingDeleteOpts =
  do_AccountIdentifier :: "string option"
  do_OrgIdentifier :: "string option"
  do_ProjectIdentifier :: "string option"

datatype V1ConnectedStatus = CONNECTED_STATUS_UNSET | CONNECTED | ConnectedStatusOther string

datatype Servicev1HealthStatus = HEALTH_STATUS_UNSET | HEALTHY | HealthStatusOther string

record V1ComponentHealth =
  ch_Status :: "Servicev1HealthStatus option"
  ch_Message :: string

record V1AgentHealth =
  ah_ConnectionStatus :: "V1ConnectedStatus option"
  ah_HarnessGitopsAgent :: "V1ComponentHealth option"

record V1Agent =
  va_Name :: string
  va_Identifier :: string
  va_PrefixedIdentifier :: string
  va_AccountIdentifier :: string
  va_OrgIdentifier :: string
  va_ProjectIdentifier :: string
  va_Operator :: "string option"
  va_Scope :: "string option"
  va_Type :: "string option"
  va_Tags :: "string \<rightharpoonup> string"
  va_Credentials :: "string option"
  va_Health :: "V1AgentHealth option"
  va_Metadata :: "(string \<times> bool) option"

record AgentGetOpts =
  go_OrgIdentifier :: "string option"
  go_ProjectIdentifier :: "string option"
  go_Scope :: "string option"
  go_WithCredentials :: "bool option"

record AgentDeleteOpts =
  ad_AccountIdentifier :: "string option"
  ad_OrgIdentifier :: "string option"
  ad_ProjectIdentifier :: "string option"
  ad_Name :: "string option"
  ad_Type :: "string option"
  ad_Scope :: "string option"

end
