(* ===== verification/World.thy ===== *)
theory World
  imports Api_Types "HOL-Library.State_Monad"
begin

text \<open>
  The boundary of the operator. The Kubernetes API (through controller-runtime's cached
  client and the uncached API reader), the dynamic client, the Harness SDK and the helper
  functions of the Kubernetes libraries are not part of the repository: they are parameters.
  A stateful service is a function from the history of all calls made so far to its answer,
  so that a theorem for every service covers concurrent writers, stale caches and failures
  of every kind. Every call is recorded in the history as an event with its answer.
  The operator's code runs in the state monad over that history.
\<close>

section \<open>Events\<close>

text \<open>Which reader a read went through: the cached client or the uncached API reader.\<close>

datatype ReaderKind = CachedClient | UncachedReader

text \<open>What an SDK endpoint returns: a value, the HTTP response's status code (\<open>None\<close>: no
  response) and an error (\<open>None\<close>: nil).\<close>

type_synonym 'a sdk_result = "'a \<times> int option \<times> go_error option"

datatype event =
    EvGetMapping ReaderKind ObjectKey "go_error + HarnessGitopsProjectMapping"
  | EvGetAgent ReaderKind ObjectKey "go_error + HarnessGitopsAgent"
  | EvGetSecret ReaderKind ObjectKey "go_error + Secret"
  | EvGetAppProject ObjectKey "go_error option"
  | EvListMappings ReaderKind "string option" "go_error + HarnessGitopsProjectMapping list"
  | EvListMappingsByIndex string string "go_error + HarnessGitopsProjectMapping list"
  | EvUpdateMapping HarnessGitopsProjectMapping "go_error + HarnessGitopsProjectMapping"
  | EvUpdateMappingStatus HarnessGitopsProjectMapping "go_error + HarnessGitopsProjectMapping"
  | EvDeleteMappingCR HarnessGitopsProjectMapping "go_error option"
  | EvUpdateAgent HarnessGitopsAgent "go_error + HarnessGitopsAgent"
  | EvUpdateAgentStatus HarnessGitopsAgent "go_error + HarnessGitopsAgent"
  | EvCreateOrUpdateSecret ObjectKey "go_error + Secret"
  | EvSdkListMappings string string MappingListOpts "V1AppProjectMappingV2 list sdk_result"
  | EvSdkCreateMapping string V1AppProjectMappingCreateRequestV2 string
      "V1AppProjectMappingV2 sdk_result"
  | EvSdkDeleteMapping string string string MappingDeleteOpts "unit sdk_result"
  | EvSdkCreateAgent string V1Agent "V1Agent sdk_result"
  | EvSdkGetAgent string string string AgentGetOpts "V1Agent sdk_result"
  | EvSdkDeleteAgent string string AgentDeleteOpts "unit sdk_result"
  | EvSdkRegenerate string string "V1Agent sdk_result"

type_synonym history = "event list"
type_synonym 'a M = "(history, 'a) state"

abbreviation ret :: "'a \<Rightarrow> 'a M" where
  "ret \<equiv> State_Monad.return"

text \<open>One call of a service: ask it, given the history so far, and record the answer.\<close>

definition call :: "(history \<Rightarrow> 'a) \<Rightarrow> ('a \<Rightarrow> event) \<Rightarrow> 'a M" where
  "call f ev = State (\<lambda>h. (f h, h @ [ev (f h)]))"

text \<open>Reading the clock leaves no trace.\<close>

definition peek :: "(history \<Rightarrow> 'a) \<Rightarrow> 'a M" where
  "peek f = State (\<lambda>h. (f h, h))"

lemma run_call [simp]: "run_state (call f ev) h = (f h, h @ [ev (f h)])"
  by (simp add: call_def)

lemma run_peek [simp]: "run_state (peek f) h = (f h, h)"
  by (simp add: peek_def)

section \<open>Services\<close>

text \<open>\<open>client.Reader\<close>: \<open>Get\<close> and \<open>List\<close> at the kinds the operator reads.\<close>

record Reader =
  rd_Kind :: ReaderKind
  rd_GetMapping :: "history \<Rightarrow> ObjectKey \<Rightarrow> go_error + HarnessGitopsProjectMapping"
  rd_GetAgent :: "history \<Rightarrow> ObjectKey \<Rightarrow> go_error + HarnessGitopsAgent"
  rd_GetSecret :: "history \<Rightarrow> ObjectKey \<Rightarrow> go_error + Secret"
  rd_GetAppProject :: "history \<Rightarrow> ObjectKey \<Rightarrow> go_error option"
  rd_ListMappings :: "history \<Rightarrow> string option \<Rightarrow> go_error + HarnessGitopsProjectMapping list"

text \<open>\<open>client.Client\<close>: a reader and the writes. An update returns the object as the server
  stored it, which the client decodes into the caller's object.\<close>

record Client =
  cl_Reader :: Reader
  cl_ListMappingsByIndex :: "history \<Rightarrow> string \<Rightarrow> string \<Rightarrow> go_error + HarnessGitopsProjectMapping list"
  cl_UpdateMapping :: "history \<Rightarrow> HarnessGitopsProjectMapping \<Rightarrow> go_error + HarnessGitopsProjectMapping"
  cl_UpdateMappingStatus :: "history \<Rightarrow> HarnessGitopsProjectMapping \<Rightarrow> go_error + HarnessGitopsProjectMapping"
  cl_DeleteMapping :: "history \<Rightarrow> HarnessGitopsProjectMapping \<Rightarrow> go_error option"
  cl_UpdateAgent :: "history \<Rightarrow> HarnessGitopsAgent \<Rightarrow> go_error + HarnessGitopsAgent"
  cl_UpdateAgentStatus :: "history \<Rightarrow> HarnessGitopsAgent \<Rightarrow> go_error + HarnessGitopsAgent"
  cl_CreateOrUpdateSecret :: "history \<Rightarrow> Secret \<Rightarrow> (Secret \<Rightarrow> go_error + Secret) \<Rightarrow> go_error + Secret"

text \<open>\<open>dynamic.Interface\<close>, of which the operator gets AppProjects.\<close>

record DynamicClient =
  dy_GetAppProject :: "history \<Rightarrow> ObjectKey \<Rightarrow> go_error option"

text \<open>\<open>*nextgen.APIClient\<close>: the SDK endpoints. The first argument after the history is the API
  key of the request context.\<close>

record APIClient =
  sdk_ListMappings :: "history \<Rightarrow> string \<Rightarrow> string \<Rightarrow> MappingListOpts \<Rightarrow> V1AppProjectMappingV2 list sdk_result"
  sdk_CreateMapping :: "history \<Rightarrow> string \<Rightarrow> V1AppProjectMappingCreateRequestV2 \<Rightarrow> string \<Rightarrow> V1AppProjectMappingV2 sdk_result"
  sdk_DeleteMapping :: "history \<Rightarrow> string \<Rightarrow> string \<Rightarrow> string \<Rightarrow> MappingDeleteOpts \<Rightarrow> unit sdk_result"
  sdk_CreateAgent :: "history \<Rightarrow> string \<Rightarrow> V1Agent \<Rightarrow> V1Agent sdk_result"
  sdk_GetAgent :: "history \<Rightarrow> string \<Rightarrow> string \<Rightarrow> string \<Rightarrow> AgentGetOpts \<Rightarrow> V1Agent sdk_result"
  sdk_DeleteAgent :: "history \<Rightarrow> string \<Rightarrow> string \<Rightarrow> AgentDeleteOpts \<Rightarrow> unit sdk_result"
  sdk_RegenerateCredentials :: "history \<Rightarrow> string \<Rightarrow> string \<Rightarrow> V1Agent sdk_result"

text \<open>The HTTP settings of \<open>nextgen.Configuration\<close> the operator changes.\<close>

record Configuration =
  cfg_RetryMax :: int
  cfg_Timeout :: Duration

text \<open>
  The functions of the Kubernetes and SDK libraries the operator calls, and the clock.
  \<open>lib_SetStatusCondition\<close> takes the current time, which it stores on a status transition.
  The SDK's status enumerations are strings, printed with \<open>%s\<close>.
\<close>

record Library =
  lib_Now :: "history \<Rightarrow> Time"
  lib_IsNotFound :: "go_error \<Rightarrow> bool"
  lib_NewBadRequest :: "string \<Rightarrow> go_error"
  lib_SetStatusCondition :: "Time \<Rightarrow> Condition list \<Rightarrow> Condition \<Rightarrow> Condition list"
  lib_FindStatusCondition :: "Condition list \<Rightarrow> string \<Rightarrow> Condition option"
  lib_ContainsFinalizer :: "string list \<Rightarrow> string \<Rightarrow> bool"
  lib_AddFinalizer :: "string list \<Rightarrow> string \<Rightarrow> string list"
  lib_RemoveFinalizer :: "string list \<Rightarrow> string \<Rightarrow> string list"
  lib_SetControllerReference :: "HarnessGitopsAgent \<Rightarrow> Secret \<Rightarrow> go_error + Secret"
  lib_NewConfiguration :: Configuration
  lib_NewAPIClient :: "Configuration \<Rightarrow> APIClient option"
  lib_ConnectedStatusText :: "V1ConnectedStatus \<Rightarrow> string"
  lib_HealthStatusText :: "Servicev1HealthStatus \<Rightarrow> string"

text \<open>\<open>client.IgnoreNotFound\<close>: nil on a NotFound error, otherwise the error itself.\<close>

definition IgnoreNotFound :: "Library \<Rightarrow> go_error \<Rightarrow> go_error option" where
  "IgnoreNotFound L err = (if lib_IsNotFound L err then None else Some err)"

section \<open>Recorded calls\<close>

definition GetMapping :: "Reader \<Rightarrow> ObjectKey \<Rightarrow> (go_error + HarnessGitopsProjectMapping) M" where
  "GetMapping rd key = call (\<lambda>h. rd_GetMapping rd h key) (EvGetMapping (rd_Kind rd) key)"

definition GetAgent :: "Reader \<Rightarrow> ObjectKey \<Rightarrow> (go_error + HarnessGitopsAgent) M" where
  "GetAgent rd key = call (\<lambda>h. rd_GetAgent rd h key) (EvGetAgent (rd_Kind rd) key)"

definition GetSecret :: "Reader \<Rightarrow> ObjectKey \<Rightarrow> (go_error + Secret) M" where
  "GetSecret rd key = call (\<lambda>h. rd_GetSecret rd h key) (EvGetSecret (rd_Kind rd) key)"

definition GetAppProject :: "Reader \<Rightarrow> ObjectKey \<Rightarrow> go_error option M" where
  "GetAppProject rd key = call (\<lambda>h. rd_GetAppProject rd h key) (EvGetAppProject key)"

definition DynamicGetAppProject :: "DynamicClient \<Rightarrow> ObjectKey \<Rightarrow> go_error option M" where
  "DynamicGetAppProject dc key = call (\<lambda>h. dy_GetAppProject dc h key) (EvGetAppProject key)"

definition ListMappings ::
  "Reader \<Rightarrow> string option \<Rightarrow> (go_error + HarnessGitopsProjectMapping list) M" where
  "ListMappings rd ns = call (\<lambda>h. rd_ListMappings rd h ns) (EvListMappings (rd_Kind rd) ns)"

definition ListMappingsByIndex ::
  "Client \<Rightarrow> string \<Rightarrow> string \<Rightarrow> (go_error + HarnessGitopsProjectMapping list) M" where
  "ListMappingsByIndex cl ns agentName =
     call (\<lambda>h. cl_ListMappingsByIndex cl h ns agentName) (EvListMappingsByIndex ns agentName)"

definition UpdateMapping ::
  "Client \<Rightarrow> HarnessGitopsProjectMapping \<Rightarrow> (go_error + HarnessGitopsProjectMapping) M" where
  "UpdateMapping cl m = call (\<lambda>h. cl_UpdateMapping cl h m) (EvUpdateMapping m)"

definition UpdateMappingStatus ::
  "Client \<Rightarrow> HarnessGitopsProjectMapping \<Rightarrow> (go_error + HarnessGitopsProjectMapping) M" where
  "UpdateMappingStatus cl m = call (\<lambda>h. cl_UpdateMappingStatus cl h m) (EvUpdateMappingStatus m)"

definition DeleteMappingCR :: "Client \<Rightarrow> HarnessGitopsProjectMapping \<Rightarrow> go_error option M" where
  "DeleteMappingCR cl m = call (\<lambda>h. cl_DeleteMapping cl h m) (EvDeleteMappingCR m)"

definition UpdateAgent :: "Client \<Rightarrow> HarnessGitopsAgent \<Rightarrow> (go_error + HarnessGitopsAgent) M" where
  "UpdateAgent cl a = call (\<lambda>h. cl_UpdateAgent cl h a) (EvUpdateAgent a)"

definition UpdateAgentStatus :: "Client \<Rightarrow> HarnessGitopsAgent \<Rightarrow> (go_error + HarnessGitopsAgent) M" where
  "UpdateAgentStatus cl a = call (\<lambda>h. cl_UpdateAgentStatus cl h a) (EvUpdateAgentStatus a)"

definition CreateOrUpdateSecret ::
  "Client \<Rightarrow> Secret \<Rightarrow> (Secret \<Rightarrow> go_error + Secret) \<Rightarrow> (go_error + Secret) M" where
  "CreateOrUpdateSecret cl s mutate =
     call (\<lambda>h. cl_CreateOrUpdateSecret cl h s mutate)
       (EvCreateOrUpdateSecret (sec_Namespace s, sec_Name s))"

definition SdkListMappings ::
  "APIClient \<Rightarrow> string \<Rightarrow> string \<Rightarrow> MappingListOpts \<Rightarrow> V1AppProjectMappingV2 list sdk_result M" where
  "SdkListMappings c key cand opts =
     call (\<lambda>h. sdk_ListMappings c h key cand opts) (EvSdkListMappings key cand opts)"

definition SdkCreateMapping ::
  "APIClient \<Rightarrow> string \<Rightarrow> V1AppProjectMappingCreateRequestV2 \<Rightarrow> string \<Rightarrow> V1AppProjectMappingV2 sdk_result M" where
  "SdkCreateMapping c key body cand =
     call (\<lambda>h. sdk_CreateMapping c h key body cand) (EvSdkCreateMapping key body cand)"

definition SdkDeleteMapping ::
  "APIClient \<Rightarrow> string \<Rightarrow> string \<Rightarrow> string \<Rightarrow> MappingDeleteOpts \<Rightarrow> unit sdk_result M" where
  "SdkDeleteMapping c key cand mid opts =
     call (\<lambda>h. sdk_DeleteMapping c h key cand mid opts) (EvSdkDeleteMapping key cand mid opts)"

definition SdkCreateAgent :: "APIClient \<Rightarrow> string \<Rightarrow> V1Agent \<Rightarrow> V1Agent sdk_result M" where
  "SdkCreateAgent c key body =
     call (\<lambda>h. sdk_CreateAgent c h key body) (EvSdkCreateAgent key body)"

definition SdkGetAgent ::
  "APIClient \<Rightarrow> string \<Rightarrow> string \<Rightarrow> string \<Rightarrow> AgentGetOpts \<Rightarrow> V1Agent sdk_result M" where
  "SdkGetAgent c key cand account opts =
     call (\<lambda>h. sdk_GetAgent c h key cand account opts) (EvSdkGetAgent key cand account opts)"

definition SdkDeleteAgent :: "APIClient \<Rightarrow> string \<Rightarrow> string \<Rightarrow> AgentDeleteOpts \<Rightarrow> unit sdk_result M" where
  "SdkDeleteAgent c key cand opts =
     call (\<lambda>h. sdk_DeleteAgent c h key cand opts) (EvSdkDeleteAgent key cand opts)"

definition SdkRegenerate :: "APIClient \<Rightarrow> string \<Rightarrow> string \<Rightarrow> V1Agent sdk_result M" where
  "SdkRegenerate c key cand =
     call (\<lambda>h. sdk_RegenerateCredentials c h key cand) (EvSdkRegenerate key cand)"

lemmas recorded_calls =
  GetMapping_def GetAgent_def GetSecret_def GetAppProject_def DynamicGetAppProject_def
  ListMappings_def ListMappingsByIndex_def UpdateMapping_def UpdateMappingStatus_def
  DeleteMappingCR_def UpdateAgent_def UpdateAgentStatus_def CreateOrUpdateSecret_def
  SdkListMappings_def SdkCreateMapping_def SdkDeleteMapping_def SdkCreateAgent_def
  SdkGetAgent_def SdkDeleteAgent_def SdkRegenerate_def

end
