(* ===== verification/Trace_Logic.thy ===== *)
theory Trace_Logic
  imports World
begin

text \<open>
  Reasoning about runs: the result of an action from a history and the events it appends.
  \<open>grows\<close> says that an action only appends to the history, \<open>emits P\<close> that every event it
  appends satisfies \<open>P\<close>. Both are closed under the monad's operations, so that one
  introduction-rule proof per operation covers all its branches.
\<close>

named_theorems emits_intro \<open>introduction rules for emits\<close>
named_theorems run_simps \<open>results and events of composed actions\<close>

definition result :: "'a M \<Rightarrow> history \<Rightarrow> 'a" where
  "result m h = fst (run_state m h)"

definition emitted :: "'a M \<Rightarrow> history \<Rightarrow> history" where
  "emitted m h = drop (length h) (snd (run_state m h))"

definition grows :: "'a M \<Rightarrow> bool" where
  "grows m \<longleftrightarrow> (\<forall>h. \<exists>es. snd (run_state m h) = h @ es)"

definition emits :: "(event \<Rightarrow> bool) \<Rightarrow> 'a M \<Rightarrow> bool" where
  "emits P m \<longleftrightarrow> grows m \<and> (\<forall>h. \<forall>e\<in>set (emitted m h). P e)"

lemma run_eq: "grows m \<Longrightarrow> run_state m h = (result m h, h @ emitted m h)"
  unfolding grows_def result_def emitted_def
  by (metis append_eq_conv_conj prod.collapse)

section \<open>Growing histories\<close>

lemma grows_ret [simp]: "grows (ret x)"
  by (simp add: grows_def)

lemma grows_call [simp]: "grows (call f ev)"
  by (simp add: grows_def)

lemma grows_peek [simp]: "grows (peek f)"
  by (simp add: grows_def)

lemma grows_bind [simp]:
  assumes "grows m" and "\<And>a. grows (f a)"
  shows "grows (State_Monad.bind m f)"
  unfolding grows_def
proof
  fix h
  have "run_state (State_Monad.bind m f) h = run_state (f (result m h)) (h @ emitted m h)"
    using run_eq [OF assms(1)] by simp
  then show "\<exists>es. snd (run_state (State_Monad.bind m f) h) = h @ es"
    using run_eq [OF assms(2)] by simp
qed

lemma grows_recorded [simp]:
  "grows (GetMapping rd key)" "grows (GetAgent rd key)" "grows (GetSecret rd key)"
  "grows (GetAppProject rd key)" "grows (DynamicGetAppProject dc key)" "grows (ListMappings rd ns)"
  "grows (ListMappingsByIndex cl n1 n2)" "grows (UpdateMapping cl m)" "grows (UpdateMappingStatus cl m)"
  "grows (DeleteMappingCR cl m)" "grows (UpdateAgent cl a)" "grows (UpdateAgentStatus cl a)"
  "grows (CreateOrUpdateSecret cl s f)"
  by (simp_all add: recorded_calls)

section \<open>Results and events\<close>

lemma result_ret [simp, run_simps]: "result (ret x) h = x"
  by (simp add: result_def)

lemma emitted_ret [simp, run_simps]: "emitted (ret x) h = []"
  by (simp add: emitted_def)

lemma result_call [simp, run_simps]: "result (call f ev) h = f h"
  by (simp add: result_def)

lemma emitted_call [simp, run_simps]: "emitted (call f ev) h = [ev (f h)]"
  by (simp add: emitted_def)

lemma result_peek [simp, run_simps]: "result (peek f) h = f h"
  by (simp add: result_def)

lemma emitted_peek [simp, run_simps]: "emitted (peek f) h = []"
  by (simp add: emitted_def)

lemma result_bind [run_simps]:
  "grows m \<Longrightarrow>
     result (State_Monad.bind m f) h = result (f (result m h)) (h @ emitted m h)"
  by (simp add: result_def [of "State_Monad.bind m f"] result_def [of "f _"] run_eq)

lemma emitted_bind [run_simps]:
  assumes "grows m" and "grows (f (result m h))"
  shows "emitted (State_Monad.bind m f) h =
    emitted m h @ emitted (f (result m h)) (h @ emitted m h)"
proof -
  have "run_state (State_Monad.bind m f) h =
      (result (f (result m h)) (h @ emitted m h),
       (h @ emitted m h) @ emitted (f (result m h)) (h @ emitted m h))"
    using run_eq [OF assms(1), of h] run_eq [OF assms(2)] by simp
  then show ?thesis by (simp add: emitted_def [of "State_Monad.bind m f"])
qed

text \<open>The events of the last action of a sequence are among those of the sequence.\<close>

lemma emitted_tail:
  assumes "grows m" and "\<exists>e\<in>set (emitted (f (result m h)) (h @ emitted m h)). P e"
  shows "\<exists>e\<in>set (emitted (State_Monad.bind m f) h). P e"
proof -
  have "run_state (State_Monad.bind m f) h = run_state (f (result m h)) (h @ emitted m h)"
    using run_eq [OF assms(1), of h] by simp
  then have "emitted (f (result m h)) (h @ emitted m h) =
      drop (length (emitted m h)) (emitted (State_Monad.bind m f) h)"
    by (simp add: emitted_def [of "State_Monad.bind m f"] emitted_def [of "f _"] add.commute)
  with assms(2) show ?thesis by (metis in_set_dropD)
qed

section \<open>Classes of events\<close>

lemma emits_grows: "emits P m \<Longrightarrow> grows m"
  by (simp add: emits_def)

lemma emits_mem: "emits P m \<Longrightarrow> e \<in> set (emitted m h) \<Longrightarrow> P e"
  by (auto simp: emits_def)

lemma emits_mono: "emits P m \<Longrightarrow> (\<And>e. P e \<Longrightarrow> Q e) \<Longrightarrow> emits Q m"
  by (auto simp: emits_def)

lemma emits_conj: "emits P m \<Longrightarrow> emits Q m \<Longrightarrow> emits (\<lambda>e. P e \<and> Q e) m"
  by (auto simp: emits_def)

lemma emits_ret [emits_intro]: "emits P (ret x)"
  by (simp add: emits_def)

lemma emits_peek [emits_intro]: "emits P (peek f)"
  by (simp add: emits_def)

lemma emits_call [emits_intro]: "(\<And>x. P (ev x)) \<Longrightarrow> emits P (call f ev)"
  by (simp add: emits_def)

lemma emits_bind [emits_intro]:
  assumes "emits P m" and "\<And>a. emits P (f a)"
  shows "emits P (State_Monad.bind m f)"
proof -
  have g: "grows m" "\<And>a. grows (f a)"
    using assms by (auto simp: emits_def)
  then show ?thesis
    using assms by (auto simp: emits_def emitted_bind)
qed

lemma emits_if [emits_intro]:
  "(c \<Longrightarrow> emits P m) \<Longrightarrow> (\<not> c \<Longrightarrow> emits P n) \<Longrightarrow> emits P (if c then m else n)"
  by simp

lemma emits_Let [emits_intro]: "(\<And>x. x = t \<Longrightarrow> emits P (f x)) \<Longrightarrow> emits P (Let t f)"
  by (simp add: Let_def)

lemma emits_case_sum [emits_intro]:
  "(\<And>e. s = Inl e \<Longrightarrow> emits P (f e)) \<Longrightarrow> (\<And>x. s = Inr x \<Longrightarrow> emits P (g x)) \<Longrightarrow>
     emits P (case s of Inl e \<Rightarrow> f e | Inr x \<Rightarrow> g x)"
  by (simp split: sum.split)

lemma emits_case_option [emits_intro]:
  "(s = None \<Longrightarrow> emits P f) \<Longrightarrow> (\<And>x. s = Some x \<Longrightarrow> emits P (g x)) \<Longrightarrow>
     emits P (case s of None \<Rightarrow> f | Some x \<Rightarrow> g x)"
  by (simp split: option.split)

lemma emits_case_prod [emits_intro]:
  "(\<And>a b. p = (a, b) \<Longrightarrow> emits P (f a b)) \<Longrightarrow> emits P (case p of (a, b) \<Rightarrow> f a b)"
  by (simp split: prod.split)

lemma emits_case_list [emits_intro]:
  "(xs = [] \<Longrightarrow> emits P f) \<Longrightarrow> (\<And>y ys. xs = y # ys \<Longrightarrow> emits P (g y ys)) \<Longrightarrow>
     emits P (case xs of [] \<Rightarrow> f | y # ys \<Rightarrow> g y ys)"
  by (simp split: list.split)

text \<open>\<open>grows\<close> is the case of \<open>emits\<close> with no restriction.\<close>

lemma grows_emits: "grows m \<longleftrightarrow> emits (\<lambda>_. True) m"
  by (simp add: emits_def)

text \<open>Case distinctions grow when every branch does.\<close>

lemma grows_cases:
  "(\<And>e. grows (f e)) \<Longrightarrow> (\<And>x. grows (g x)) \<Longrightarrow> grows (case_sum f g s)"
  "grows m \<Longrightarrow> (\<And>y. grows (k y)) \<Longrightarrow> grows (case_option m k x)"
  "(\<And>a b. grows (d a b)) \<Longrightarrow> grows (case_prod d p)"
  "grows m \<Longrightarrow> grows n \<Longrightarrow> grows (if c then m else n)"
  by (simp_all split: sum.split option.split prod.split)

section \<open>Guards\<close>

text \<open>
  \<open>guarded G m h\<close>: run from \<open>h\<close>, every event the action appends satisfies \<open>G\<close> together with
  the history before it. It is how "this call is made only after that" is stated.
\<close>

named_theorems guarded_intro \<open>introduction rules for guarded\<close>

definition guarded :: "(history \<Rightarrow> event \<Rightarrow> bool) \<Rightarrow> 'a M \<Rightarrow> history \<Rightarrow> bool" where
  "guarded G m h \<longleftrightarrow>
     (\<exists>es. snd (run_state m h) = h @ es) \<and>
     (\<forall>pre e post. emitted m h = pre @ e # post \<longrightarrow> G (h @ pre) e)"

lemma guarded_run: "guarded G m h \<Longrightarrow> run_state m h = (result m h, h @ emitted m h)"
  unfolding guarded_def result_def emitted_def by (metis append_eq_conv_conj prod.collapse)

lemma guarded_event:
  "guarded G m h \<Longrightarrow> emitted m h = pre @ e # post \<Longrightarrow> G (h @ pre) e"
  by (auto simp: guarded_def)

lemma guarded_ret [guarded_intro]: "guarded G (ret x) h"
  by (simp add: guarded_def)

lemma guarded_peek [guarded_intro]: "guarded G (peek f) h"
  by (simp add: guarded_def)

lemma guarded_call [guarded_intro]: "G h (ev (f h)) \<Longrightarrow> guarded G (call f ev) h"
  by (auto simp: guarded_def Cons_eq_append_conv)

lemma guarded_bind [guarded_intro]:
  assumes m: "guarded G m h" and f: "guarded G (f (result m h)) (h @ emitted m h)"
  shows "guarded G (State_Monad.bind m f) h"
proof -
  let ?es = "emitted m h" and ?fs = "emitted (f (result m h)) (h @ emitted m h)"
  have run: "run_state (State_Monad.bind m f) h =
      (result (f (result m h)) (h @ ?es), (h @ ?es) @ ?fs)"
    using guarded_run [OF m] guarded_run [OF f] by simp
  then have ev: "emitted (State_Monad.bind m f) h = ?es @ ?fs"
    by (simp add: emitted_def [of "State_Monad.bind m f"])
  have "G (h @ pre) e" if *: "?es @ ?fs = pre @ e # post" for pre e post
    using * unfolding append_eq_append_conv2
  proof (elim exE disjE conjE)
    fix us
    assume "?es = pre @ us" "us @ ?fs = e # post"
    then show ?thesis
      using guarded_event [OF m] guarded_event [OF f, of "[]"] by (cases us) auto
  next
    fix us
    assume "?es @ us = pre" "?fs = us @ e # post"
    then show ?thesis using guarded_event [OF f, of us e post] by auto
  qed
  then show ?thesis using run ev by (simp add: guarded_def)
qed

lemma guarded_if [guarded_intro]:
  "(c \<Longrightarrow> guarded G m h) \<Longrightarrow> (\<not> c \<Longrightarrow> guarded G n h) \<Longrightarrow> guarded G (if c then m else n) h"
  by simp

lemma guarded_Let [guarded_intro]:
  "(\<And>x. x = t \<Longrightarrow> guarded G (f x) h) \<Longrightarrow> guarded G (Let t f) h"
  by (simp add: Let_def)

lemma guarded_case_sum [guarded_intro]:
  "(\<And>e. s = Inl e \<Longrightarrow> guarded G (f e) h) \<Longrightarrow> (\<And>x. s = Inr x \<Longrightarrow> guarded G (g x) h) \<Longrightarrow>
     guarded G (case s of Inl e \<Rightarrow> f e | Inr x \<Rightarrow> g x) h"
  by (simp split: sum.split)

lemma guarded_case_option [guarded_intro]:
  "(s = None \<Longrightarrow> guarded G f h) \<Longrightarrow> (\<And>x. s = Some x \<Longrightarrow> guarded G (g x) h) \<Longrightarrow>
     guarded G (case s of None \<Rightarrow> f | Some x \<Rightarrow> g x) h"
  by (simp split: option.split)

lemma guarded_case_prod [guarded_intro]:
  "(\<And>a b. p = (a, b) \<Longrightarrow> guarded G (f a b) h) \<Longrightarrow> guarded G (case p of (a, b) \<Rightarrow> f a b) h"
  by (simp split: prod.split)

text \<open>An action whose events all satisfy the guard whatever came before.\<close>

lemma guarded_emits:
  assumes "emits P m" and "\<And>pre e. P e \<Longrightarrow> G pre e"
  shows "guarded G m h"
proof -
  have "G (h @ pre) e" if "emitted m h = pre @ e # post" for pre e post
    using assms(2) [OF emits_mem [OF assms(1), of e h]] that by simp
  then show ?thesis using assms(1) by (auto simp: guarded_def emits_def grows_def)
qed

lemma guarded_mono:
  "guarded G m h \<Longrightarrow> (\<And>es e. G (h @ es) e \<Longrightarrow> H (h @ es) e) \<Longrightarrow> guarded H m h"
  by (auto simp: guarded_def)

text \<open>An action with one event, and one whose events need to know where it started.\<close>

lemma guarded_one:
  assumes "grows m" and "\<And>e. emitted m h = [e] \<Longrightarrow> G h e" and "\<exists>e. emitted m h = [e]"
  shows "guarded G m h"
proof -
  from assms(3) obtain e where e: "emitted m h = [e]" by blast
  with assms(2) have "G h e" by blast
  with assms(1) e show ?thesis by (auto simp: guarded_def grows_def Cons_eq_append_conv)
qed

lemma guarded_emits_from:
  assumes "emits P m" and "\<And>fs e. P e \<Longrightarrow> G (h @ fs) e"
  shows "guarded G m h"
proof -
  have "G (h @ pre) e" if "emitted m h = pre @ e # post" for pre e post
    using assms(2) [OF emits_mem [OF assms(1), of e h]] that by simp
  then show ?thesis using assms(1) by (auto simp: guarded_def emits_def grows_def)
qed

end
