(* ===== verification/Sample_World.thy ===== *)
theory Sample_World
  imports Trace_Logic
begin

text \<open>
  A concrete instance of the parameters of \<open>World\<close>, with the documented behaviour of the
  library functions and services that answer from fixed tables. It is used in witnesses only:
  it shows that the hypotheses of the properties can hold together.
\<close>

section \<open>Library\<close>

fun sampleIsNotFound :: "go_error \<Rightarrow> bool" where
  "sampleIsNotFound (ErrStatus reason text) \<longleftrightarrow> reason = ''NotFound''"
| "sampleIsNotFound _ \<longleftrightarrow> False"

text \<open>Sets the condition of the given type, and its transition time when the status changes.\<close>

fun sampleSetStatusCondition :: "Time \<Rightarrow> Condition list \<Rightarrow> Condition \<Rightarrow> Condition list" where
  "sampleSetStatusCondition now [] c = [c\<lparr>c_LastTransitionTime := now\<rparr>]"
| "sampleSetStatusCondition now (d # ds) c =
     (if c_Type d = c_Type c then
        (if c_Status d = c_Status c
         then c\<lparr>c_LastTransitionTime := c_LastTransitionTime d\<rparr>
         else c\<lparr>c_LastTransitionTime := now\<rparr>) # ds
      else d # sampleSetStatusCondition now ds c)"

definition emptyV1Mapping :: V1AppProjectMappingV2 where
  "emptyV1Mapping =
     \<lparr>v_Identifier = '''', v_AgentIdentifier = '''', v_AccountIdentifier = '''',
      v_OrgIdentifier = '''', v_ProjectIdentifier = '''', v_ArgoProjectName = '''',
      v_AutoCreateServiceEnv = False\<rparr>"

definition emptyV1Agent :: V1Agent where
  "emptyV1Agent =
     \<lparr>va_Name = '''', va_Identifier = '''', va_PrefixedIdentifier = '''',
      va_AccountIdentifier = '''', va_OrgIdentifier = '''', va_ProjectIdentifier = '''',
      va_Operator = None, va_Scope = None, va_Type = None, va_Tags = (\<lambda>_. None),
      va_Credentials = None, va_Health = None, va_Metadata = None\<rparr>"

text \<open>A Harness that answers every request with HTTP 404.\<close>

definition absentError :: go_error where
  "absentError = ErrSDK ''404 Not Found'' None False None"

definition absentAPI :: APIClient where
  "absentAPI =
     \<lparr>sdk_ListMappings = (\<lambda>h key cand opts. ([], Some 404, Some absentError)),
      sdk_CreateMapping = (\<lambda>h key body cand. (emptyV1Mapping, Some 404, Some absentError)),
      sdk_DeleteMapping = (\<lambda>h key cand mid opts. ((), Some 404, Some absentError)),
      sdk_CreateAgent = (\<lambda>h key body. (emptyV1Agent, Some 404, Some absentError)),
      sdk_GetAgent = (\<lambda>h key cand account opts. (emptyV1Agent, Some 404, Some absentError)),
      sdk_DeleteAgent = (\<lambda>h key cand opts. ((), Some 404, Some absentError)),
      sdk_RegenerateCredentials = (\<lambda>h key cand. (emptyV1Agent, Some 404, Some absentError))\<rparr>"

definition sampleLibrary :: "APIClient \<Rightarrow> Library" where
  "sampleLibrary api =
     \<lparr>lib_Now = (\<lambda>h. 1000 * Second),
      lib_IsNotFound = sampleIsNotFound,
      lib_NewBadRequest = ErrStatus ''BadRequest'',
      lib_SetStatusCondition = sampleSetStatusCondition,
      lib_FindStatusCondition = (\<lambda>cs t. find (\<lambda>c. c_Type c = t) cs),
      lib_ContainsFinalizer = (\<lambda>fs f. f \<in> set fs),
      lib_AddFinalizer = (\<lambda>fs f. if f \<in> set fs then fs else fs @ [f]),
      lib_RemoveFinalizer = (\<lambda>fs f. filter (\<lambda>g. g \<noteq> f) fs),
      lib_SetControllerReference = (\<lambda>a s. Inr (s\<lparr>sec_OwnerReferences := [UID (a_Meta a)]\<rparr>)),
      lib_NewConfiguration = \<lparr>cfg_RetryMax = 10, cfg_Timeout = 0\<rparr>,
      lib_NewAPIClient = (\<lambda>cfg. Some api),
      lib_ConnectedStatusText = (\<lambda>_. ''status''),
      lib_HealthStatusText = (\<lambda>_. ''health'')\<rparr>"

section \<open>Kubernetes\<close>

definition notFound :: go_error where
  "notFound = ErrStatus ''NotFound'' ''not found''"

text \<open>A reader over fixed lists of objects and one API-key Secret value for every name.\<close>

definition metaKey :: "ObjectMeta \<Rightarrow> ObjectKey" where
  "metaKey m = (Namespace m, Name m)"

definition apiKeySecret :: Secret where
  "apiKeySecret =
     \<lparr>sec_Name = ''key'', sec_Namespace = ''ns'', sec_Labels = (\<lambda>_. None), sec_Type = ''Opaque'',
      sec_Data = [''api_key'' \<mapsto> ''k1''], sec_OwnerReferences = []\<rparr>"

definition sampleReader ::
  "ReaderKind \<Rightarrow> HarnessGitopsAgent list \<Rightarrow> HarnessGitopsProjectMapping list \<Rightarrow> Reader" where
  "sampleReader kind agents mappings =
     \<lparr>rd_Kind = kind,
      rd_GetMapping = (\<lambda>h key.
        case find (\<lambda>m. metaKey (m_Meta m) = key) mappings of None \<Rightarrow> Inl notFound | Some m \<Rightarrow> Inr m),
      rd_GetAgent = (\<lambda>h key.
        case find (\<lambda>a. metaKey (a_Meta a) = key) agents of None \<Rightarrow> Inl notFound | Some a \<Rightarrow> Inr a),
      rd_GetSecret = (\<lambda>h key. if snd key = ''key'' then Inr apiKeySecret else Inl notFound),
      rd_GetAppProject = (\<lambda>h key. None),
      rd_ListMappings = (\<lambda>h ns. Inr mappings)\<rparr>"

text \<open>Writes succeed and return the object as sent.\<close>

definition sampleClient :: "Reader \<Rightarrow> Client" where
  "sampleClient rd =
     \<lparr>cl_Reader = rd,
      cl_ListMappingsByIndex = (\<lambda>h ns n. rd_ListMappings rd h (Some ns)),
      cl_UpdateMapping = (\<lambda>h m. Inr m),
      cl_UpdateMappingStatus = (\<lambda>h m. Inr m),
      cl_DeleteMapping = (\<lambda>h m. None),
      cl_UpdateAgent = (\<lambda>h a. Inr a),
      cl_UpdateAgentStatus = (\<lambda>h a. Inr a),
      cl_CreateOrUpdateSecret = (\<lambda>h s f. f s)\<rparr>"

definition sampleMeta :: "string \<Rightarrow> string \<Rightarrow> ObjectMeta" where
  "sampleMeta name uid =
     \<lparr>Name = name, Namespace = ''ns'', UID = uid, ResourceVersion = ''1'', Generation = 1,
      CreationTimestamp = 5, DeletionTimestamp = None, Finalizers = []\<rparr>"

definition sampleAgent :: HarnessGitopsAgent where
  "sampleAgent =
     \<lparr>a_Meta = sampleMeta ''agent'' ''u-agent'',
      a_Spec =
        \<lparr>as_Name = ''agent'', as_Operator = ''ARGO'', as_Identifier = ''agent1'',
         as_AccountId = ''acc'', as_OrgId = ''org1'', as_ProjectId = '''',
         as_Type = ''MANAGED_ARGO_PROVIDER'', as_Scope = ''ORG'', as_ExistingAgentIdentifier = '''',
         as_ApiKeySecretRef = ''key'', as_TokenSecretRef = ''tok''\<rparr>,
      a_Status =
        \<lparr>ast_CreationState = AgentCreationUnset, ast_AgentIdentifier = ''agent1'',
         ast_AgentOwnership = OwnershipManaged,
         ast_Conditions =
           [\<lparr>c_Type = ''Healthy'', c_Status = ConditionTrue, c_ObservedGeneration = 1,
             c_LastTransitionTime = 5, c_Reason = ''AgentHealthy'', c_Message = ''ok''\<rparr>]\<rparr>\<rparr>"

definition sampleMapping :: HarnessGitopsProjectMapping where
  "sampleMapping =
     \<lparr>m_Meta = sampleMeta ''map'' ''u-map'',
      m_Spec =
        \<lparr>ms_AgentRef = \<lparr>ref_Name = ''agent''\<rparr>, ms_AppProject = ''app'', ms_OrgID = '''',
         ms_ProjectID = ''proj'', ms_AutoCreateServiceEnv = False, ms_AdoptMappingID = ''''\<rparr>,
      m_Status =
        \<lparr>mst_ObservedGeneration = 0, mst_CreationState = MappingCreationUnset,
         mst_Remote = None, mst_Conditions = []\<rparr>\<rparr>"

text \<open>The remote row that matches the sample mapping.\<close>

definition sampleRow :: V1AppProjectMappingV2 where
  "sampleRow =
     \<lparr>v_Identifier = ''row1'', v_AgentIdentifier = ''agent1'', v_AccountIdentifier = ''acc'',
      v_OrgIdentifier = ''org1'', v_ProjectIdentifier = ''proj'', v_ArgoProjectName = ''app'',
      v_AutoCreateServiceEnv = False\<rparr>"

lemmas sample_defs =
  sampleLibrary_def absentAPI_def absentError_def emptyV1Mapping_def emptyV1Agent_def
  notFound_def metaKey_def apiKeySecret_def sampleReader_def sampleClient_def sampleMeta_def
  sampleAgent_def sampleMapping_def sampleRow_def

section \<open>Trimmed sample strings\<close>

lemma sample_trims [simp]:
  "TrimSpace ''k1'' = ''k1''" "TrimSpace ''agent'' = ''agent''" "TrimSpace ''agent1'' = ''agent1''"
  "TrimSpace ''acc'' = ''acc''" "TrimSpace ''org1'' = ''org1''" "TrimSpace ''proj'' = ''proj''"
  "TrimSpace ''app'' = ''app''" "TrimSpace ''ORG'' = ''ORG''" "TrimSpace ''row1'' = ''row1''"
  "TrimSpace ''org.agent1'' = ''org.agent1''" "TrimSpace ''ACCOUNT'' = ''ACCOUNT''"
  "TrimSpace ''PROJECT'' = ''PROJECT''" "TrimSpace ''ARGO'' = ''ARGO''"
  "TrimSpace ''u-agent'' = ''u-agent''" "TrimSpace ''u-map'' = ''u-map''"
  "TrimSpace ''MANAGED_ARGO_PROVIDER'' = ''MANAGED_ARGO_PROVIDER''" "TrimSpace ''ok'' = ''ok''"
  by (rule TrimSpace_graphic, simp_all add: graphic_def)+

end
