(* ===== verification/Harness_Session.thy ===== *)
theory Harness_Session
  imports Sample_World
begin

text \<open>
  \<open>internal/harness/session.go\<close>: a session is an SDK client and a non-blank API key, read from
  the key \<open>api_key\<close> of a Secret the caller names.
\<close>

section \<open>Definitions\<close>

definition DefaultHTTPTimeout :: Duration where
  "DefaultHTTPTimeout = 60 * Second"

record Session =
  s_client :: APIClient
  s_apiKey :: string

definition NewSessionWithClient :: "string \<Rightarrow> APIClient option \<Rightarrow> go_error + Session" where
  "NewSessionWithClient apiKey sdkClient =
     (let apiKey = TrimSpace apiKey in
      if apiKey = '''' then Inl (ErrFmt ''harness API key is empty'' [])
      else
        (case sdkClient of
           None \<Rightarrow> Inl (ErrFmt ''harness SDK client is nil'' [])
         | Some c \<Rightarrow> Inr \<lparr>s_client = c, s_apiKey = apiKey\<rparr>))"

definition NewSession :: "Library \<Rightarrow> string \<Rightarrow> go_error + Session" where
  "NewSession L apiKey =
     (let apiKey = TrimSpace apiKey in
      if apiKey = '''' then Inl (ErrFmt ''harness API key is empty'' [])
      else
        (let cfg = (lib_NewConfiguration L)\<lparr>cfg_RetryMax := 0, cfg_Timeout := DefaultHTTPTimeout\<rparr>
         in NewSessionWithClient apiKey (lib_NewAPIClient L cfg)))"

text \<open>The reader is a pointer in the source; its nil check is the first branch.\<close>

definition SessionFromSecret ::
  "Library \<Rightarrow> Reader option \<Rightarrow> ObjectKey \<Rightarrow> (go_error + Session) M" where
  "SessionFromSecret L reader key =
     (case reader of
        None \<Rightarrow> ret (Inl (ErrFmt ''kubernetes Secret reader is nil'' []))
      | Some rd \<Rightarrow> do {
          got \<leftarrow> GetSecret rd key;
          (case got of
             Inl err \<Rightarrow> ret (Inl err)
           | Inr secret \<Rightarrow>
               (case sec_Data secret ''api_key'' of
                  None \<Rightarrow> ret (Inl (lib_NewBadRequest L ''api_key not found in secret''))
                | Some apiKey \<Rightarrow>
                    if length apiKey = 0
                    then ret (Inl (lib_NewBadRequest L ''api_key not found in secret''))
                    else ret (NewSession L apiKey)))
        })"

section \<open>Properties\<close>

fun isSecretRead :: "event \<Rightarrow> bool" where
  "isSecretRead (EvGetSecret k key x) = True"
| "isSecretRead _ = False"

lemma emits_SessionFromSecret: "emits isSecretRead (SessionFromSecret L reader key)"
  unfolding SessionFromSecret_def GetSecret_def
  by (intro emits_intro) simp

lemmas grows_SessionFromSecret [simp] = emits_grows [OF emits_SessionFromSecret]

text \<open>
  C28: a session always carries the trimmed, non-blank API key of the Secret that was read, and a
  client configured without SDK retries and with the 60 second timeout; the only call made
  is one read of that Secret, and a missing or blank key is an error.
\<close>

theorem session_from_secret_sound:
  assumes "result (SessionFromSecret L (Some rd) key) h = Inr s"
  shows "\<exists>secret apiKey cfg.
    emitted (SessionFromSecret L (Some rd) key) h = [EvGetSecret (rd_Kind rd) key (Inr secret)] \<and>
    sec_Data secret ''api_key'' = Some apiKey \<and>
    s_apiKey s = TrimSpace apiKey \<and> s_apiKey s \<noteq> '''' \<and>
    lib_NewAPIClient L cfg = Some (s_client s) \<and>
    cfg_RetryMax cfg = 0 \<and> cfg_Timeout cfg = 60000000000"
proof (cases "rd_GetSecret rd h key")
  case (Inl err)
  with assms show ?thesis
    by (simp add: SessionFromSecret_def GetSecret_def run_simps)
next
  case (Inr secret)
  with assms show ?thesis
    by (auto simp: SessionFromSecret_def GetSecret_def NewSession_def NewSessionWithClient_def
        Let_def DefaultHTTPTimeout_def Second_def emitted_def result_def
        split: option.splits if_splits intro!: exI)
qed

theorem session_from_secret_sound_witness:
  "let m = SessionFromSecret (sampleLibrary absentAPI) (Some (sampleReader UncachedReader [] []))
      (''ns'', ''key'')
   in result m [] = Inr \<lparr>s_client = absentAPI, s_apiKey = ''k1''\<rparr> \<and>
      (\<exists>secret apiKey. emitted m [] = [EvGetSecret UncachedReader (''ns'', ''key'') (Inr secret)] \<and>
         sec_Data secret ''api_key'' = Some apiKey \<and> TrimSpace apiKey = ''k1'')"
proof -
  let ?L = "sampleLibrary absentAPI" and ?rd = "sampleReader UncachedReader [] []"
  let ?s = "\<lparr>s_client = absentAPI, s_apiKey = ''k1''\<rparr>"
  have *: "result (SessionFromSecret ?L (Some ?rd) (''ns'', ''key'')) [] = Inr ?s"
    by (simp add: SessionFromSecret_def GetSecret_def NewSession_def NewSessionWithClient_def
        Let_def result_def sampleLibrary_def sampleReader_def apiKeySecret_def)
  have k: "rd_Kind ?rd = UncachedReader" by (simp add: sampleReader_def)
  obtain secret apiKey where
    "emitted (SessionFromSecret ?L (Some ?rd) (''ns'', ''key'')) [] =
       [EvGetSecret UncachedReader (''ns'', ''key'') (Inr secret)]"
    "sec_Data secret ''api_key'' = Some apiKey" "s_apiKey ?s = TrimSpace apiKey"
    using session_from_secret_sound [OF *] k by auto
  with * show ?thesis unfolding Let_def by auto
qed

end
