(* ===== verification/Mapping_SDK.thy ===== *)
theory Mapping_SDK
  imports Harness_Errors Harness_Identifiers Harness_Session
begin

text \<open>
  \<open>internal/resource/projectmapping/sdk.go\<close>: the request and row types of the Mapping
  controller, the interface \<open>mappingReconcileAPI\<close> its reconciler relies on, and the
  implementation over the Harness SDK, which tries the identifier candidates in order and
  moves on after HTTP 404 only.
\<close>

section \<open>Types\<close>

record Scope =
  sc_OrgIdentifier :: string
  sc_ProjectIdentifier :: string

definition emptyScope :: Scope where
  "emptyScope = \<lparr>sc_OrgIdentifier = '''', sc_ProjectIdentifier = ''''\<rparr>"

record ProjectMappingRequest =
  q_AccountIdentifier :: string
  q_AgentIdentifier :: string
  q_AgentScope :: string
  q_Agent :: Scope
  q_Mapping :: Scope
  q_ArgoProjectName :: string
  q_AutoCreateServiceEnv :: bool

record ProjectMapping =
  pm_Identifier :: string
  pm_AgentIdentifier :: string
  pm_AccountIdentifier :: string
  pm_OrgIdentifier :: string
  pm_ProjectIdentifier :: string
  pm_ArgoProjectName :: string
  pm_AutoCreateServiceEnv :: bool

text \<open>The interface \<open>mappingReconcileAPI\<close> of \<open>reconciler.go\<close>.\<close>

record mappingReconcileAPI =
  api_List :: "Session \<Rightarrow> ProjectMappingRequest \<Rightarrow> (go_error + ProjectMapping list) M"
  api_Create :: "Session \<Rightarrow> ProjectMappingRequest \<Rightarrow> (go_error + ProjectMapping) M"
  api_Delete :: "Session \<Rightarrow> ProjectMappingRequest \<Rightarrow> string \<Rightarrow> go_error option M"

section \<open>Helpers\<close>

definition isProjectMappingConflict :: "int option \<Rightarrow> go_error \<Rightarrow> bool" where
  "isProjectMappingConflict response err \<longleftrightarrow>
     ClassifyResponse response (Some err) = VerdictConflict \<or>
     Contains (ToLower (ErrorBody err)) ''already exists''"

definition mappingAPIError :: "string \<Rightarrow> string \<Rightarrow> int option \<Rightarrow> go_error option \<Rightarrow> go_error option" where
  "mappingAPIError operation agentIdentifier response err =
     APIError operation (''agentIdentifier='' @ fmt_q agentIdentifier) response err"

definition projectMappingFromSDK :: "V1AppProjectMappingV2 \<Rightarrow> ProjectMapping" where
  "projectMappingFromSDK mapping =
     \<lparr>pm_Identifier = v_Identifier mapping,
      pm_AgentIdentifier = v_AgentIdentifier mapping,
      pm_AccountIdentifier = v_AccountIdentifier mapping,
      pm_OrgIdentifier = v_OrgIdentifier mapping,
      pm_ProjectIdentifier = v_ProjectIdentifier mapping,
      pm_ArgoProjectName = v_ArgoProjectName mapping,
      pm_AutoCreateServiceEnv = v_AutoCreateServiceEnv mapping\<rparr>"

section \<open>SDKProjectMappingAPI\<close>

definition listOpts :: "ProjectMappingRequest \<Rightarrow> MappingListOpts" where
  "listOpts request =
     \<lparr>lo_AccountIdentifier = Some (q_AccountIdentifier request),
      lo_OrgIdentifier = OptionalString (sc_OrgIdentifier (q_Agent request)),
      lo_ProjectIdentifier = OptionalString (sc_ProjectIdentifier (q_Agent request)),
      lo_ArgoProjectName = Some (q_ArgoProjectName request)\<rparr>"

fun listLoop ::
  "Session \<Rightarrow> ProjectMappingRequest \<Rightarrow> string list \<Rightarrow> go_error option \<Rightarrow>
     (go_error + ProjectMapping list) M" where
  "listLoop session request [] lastErr =
     ret (case lastErr of None \<Rightarrow> Inr [] | Some e \<Rightarrow> Inl e)"
| "listLoop session request (candidate # candidates) lastErr = do {
     (response, httpResponse, err) \<leftarrow>
       SdkListMappings (s_client session) (s_apiKey session) candidate (listOpts request);
     (case err of
        None \<Rightarrow> ret (Inr (map projectMappingFromSDK response))
      | Some e \<Rightarrow>
          (let lastErr = mappingAPIError ''list AppProject mappings'' candidate httpResponse err in
           if ClassifyResponse httpResponse err \<noteq> VerdictAbsent
           then ret (case lastErr of None \<Rightarrow> Inr [] | Some e \<Rightarrow> Inl e)
           else listLoop session request candidates lastErr))
   }"

definition SDK_List :: "Session \<Rightarrow> ProjectMappingRequest \<Rightarrow> (go_error + ProjectMapping list) M" where
  "SDK_List session request =
     (let candidates = ScopedIdentifierCandidates (q_AgentScope request) (q_AgentIdentifier request) in
      if length candidates = 0
      then ret (Inl (ErrFmt ''list AppProject mappings: empty agent identifier'' []))
      else listLoop session request candidates None)"

definition createBody :: "ProjectMappingRequest \<Rightarrow> string \<Rightarrow> V1AppProjectMappingCreateRequestV2" where
  "createBody request candidate =
     \<lparr>cr_AgentIdentifier = candidate,
      cr_AccountIdentifier = q_AccountIdentifier request,
      cr_OrgIdentifier = sc_OrgIdentifier (q_Mapping request),
      cr_ProjectIdentifier = sc_ProjectIdentifier (q_Mapping request),
      cr_ArgoProjectName = q_ArgoProjectName request,
      cr_AutoCreateServiceEnv = q_AutoCreateServiceEnv request\<rparr>"

text \<open>The zero \<open>ProjectMapping\<close>, returned beside an error that is nil at the end of the loop.\<close>

definition emptyProjectMapping :: ProjectMapping where
  "emptyProjectMapping =
     \<lparr>pm_Identifier = '''', pm_AgentIdentifier = '''', pm_AccountIdentifier = '''',
      pm_OrgIdentifier = '''', pm_ProjectIdentifier = '''', pm_ArgoProjectName = '''',
      pm_AutoCreateServiceEnv = False\<rparr>"

definition createAccepted :: "string \<Rightarrow> V1AppProjectMappingV2 \<Rightarrow> go_error + ProjectMapping" where
  "createAccepted candidate response =
     (let mapping = projectMappingFromSDK response in
      if pm_Identifier mapping = ''''
      then Inl (ErrFmt
             (sentinelText ErrProjectMappingCreateOutcomeUnknown @
              '': Harness returned a successful response without an identifier'')
             [ErrNew ErrProjectMappingCreateOutcomeUnknown])
      else if pm_AgentIdentifier mapping = ''''
      then Inr (mapping\<lparr>pm_AgentIdentifier := candidate\<rparr>)
      else Inr mapping)"

fun createLoop ::
  "Session \<Rightarrow> ProjectMappingRequest \<Rightarrow> string list \<Rightarrow> go_error option \<Rightarrow>
     (go_error + ProjectMapping) M" where
  "createLoop session request [] lastErr =
     ret (case lastErr of None \<Rightarrow> Inr emptyProjectMapping | Some e \<Rightarrow> Inl e)"
| "createLoop session request (candidate # candidates) lastErr = do {
     (response, httpResponse, err) \<leftarrow>
       SdkCreateMapping (s_client session) (s_apiKey session) (createBody request candidate) candidate;
     (case err of
        None \<Rightarrow> ret (createAccepted candidate response)
      | Some e \<Rightarrow>
          if isProjectMappingConflict httpResponse e
          then ret (Inl (ErrNew ErrProjectMappingAlreadyExists))
          else if ClassifyResponse httpResponse err = VerdictTransient
          then ret (Inl (ErrFmt
                 (sentinelText ErrProjectMappingCreateOutcomeUnknown @ '': '' @ Error e)
                 [ErrNew ErrProjectMappingCreateOutcomeUnknown, e]))
          else
            (let lastErr = mappingAPIError ''create AppProject mapping'' candidate httpResponse err in
             if ClassifyResponse httpResponse err \<noteq> VerdictAbsent
             then ret (case lastErr of None \<Rightarrow> Inr emptyProjectMapping | Some e \<Rightarrow> Inl e)
             else createLoop session request candidates lastErr))
   }"

definition SDK_Create :: "Session \<Rightarrow> ProjectMappingRequest \<Rightarrow> (go_error + ProjectMapping) M" where
  "SDK_Create session request =
     (let candidates = ScopedIdentifierCandidates (q_AgentScope request) (q_AgentIdentifier request) in
      if length candidates = 0
      then ret (Inl (ErrFmt ''create AppProject mapping: empty agent identifier'' []))
      else createLoop session request candidates None)"

definition deleteOpts :: "ProjectMappingRequest \<Rightarrow> MappingDeleteOpts" where
  "deleteOpts request =
     \<lparr>do_AccountIdentifier = Some (q_AccountIdentifier request),
      do_OrgIdentifier = OptionalString (sc_OrgIdentifier (q_Mapping request)),
      do_ProjectIdentifier = OptionalString (sc_ProjectIdentifier (q_Mapping request))\<rparr>"

fun deleteLoop ::
  "Session \<Rightarrow> ProjectMappingRequest \<Rightarrow> string \<Rightarrow> string list \<Rightarrow> go_error option M" where
  "deleteLoop session request mappingID [] = ret None"
| "deleteLoop session request mappingID (candidate # candidates) = do {
     (response, httpResponse, err) \<leftarrow>
       SdkDeleteMapping (s_client session) (s_apiKey session) candidate mappingID (deleteOpts request);
     (case err of
        None \<Rightarrow> ret None
      | Some e \<Rightarrow>
          if ClassifyResponse httpResponse err = VerdictAbsent
          then deleteLoop session request mappingID candidates
          else ret (mappingAPIError ''delete AppProject mapping'' candidate httpResponse err))
   }"

definition SDK_Delete :: "Session \<Rightarrow> ProjectMappingRequest \<Rightarrow> string \<Rightarrow> go_error option M" where
  "SDK_Delete session request mappingID =
     (let candidates = ScopedIdentifierCandidates (q_AgentScope request) (q_AgentIdentifier request) in
      if length candidates = 0
      then ret (Some (ErrFmt ''delete AppProject mapping: empty agent identifier'' []))
      else deleteLoop session request mappingID candidates)"

definition SDKProjectMappingAPI :: mappingReconcileAPI where
  "SDKProjectMappingAPI =
     \<lparr>api_List = SDK_List, api_Create = SDK_Create, api_Delete = SDK_Delete\<rparr>"

section \<open>The calls each operation makes\<close>

fun isListCall :: "event \<Rightarrow> bool" where
  "isListCall (EvSdkListMappings key cand opts x) = True"
| "isListCall _ = False"

fun isCreateCall :: "event \<Rightarrow> bool" where
  "isCreateCall (EvSdkCreateMapping key body cand x) = True"
| "isCreateCall _ = False"

fun isDeleteCall :: "event \<Rightarrow> bool" where
  "isDeleteCall (EvSdkDeleteMapping key cand mid opts x) = True"
| "isDeleteCall _ = False"

fun isDeleteCallFor :: "string \<Rightarrow> ProjectMappingRequest \<Rightarrow> event \<Rightarrow> bool" where
  "isDeleteCallFor mid' q (EvSdkDeleteMapping key cand mid opts x) \<longleftrightarrow>
     mid = mid' \<and> opts = deleteOpts q \<and>
     cand \<in> set (ScopedIdentifierCandidates (q_AgentScope q) (q_AgentIdentifier q))"
| "isDeleteCallFor mid' q _ \<longleftrightarrow> False"

fun isCreateCallFor :: "ProjectMappingRequest \<Rightarrow> event \<Rightarrow> bool" where
  "isCreateCallFor q (EvSdkCreateMapping key body cand x) \<longleftrightarrow> body = createBody q cand"
| "isCreateCallFor q _ \<longleftrightarrow> False"

text \<open>The answers 404: the endpoint returned an error with that status.\<close>

fun answered404 :: "event \<Rightarrow> bool" where
  "answered404 (EvSdkListMappings key cand opts (x, http, err)) \<longleftrightarrow> http = Some 404 \<and> err \<noteq> None"
| "answered404 (EvSdkCreateMapping key body cand (x, http, err)) \<longleftrightarrow> http = Some 404 \<and> err \<noteq> None"
| "answered404 (EvSdkDeleteMapping key cand mid opts (x, http, err)) \<longleftrightarrow> http = Some 404 \<and> err \<noteq> None"
| "answered404 _ \<longleftrightarrow> False"

text \<open>A call the endpoint answered with success.\<close>

fun answeredOk :: "event \<Rightarrow> bool" where
  "answeredOk (EvSdkListMappings key cand opts (x, http, err)) \<longleftrightarrow> err = None"
| "answeredOk (EvSdkCreateMapping key body cand (x, http, err)) \<longleftrightarrow> err = None"
| "answeredOk (EvSdkDeleteMapping key cand mid opts (x, http, err)) \<longleftrightarrow> err = None"
| "answeredOk _ \<longleftrightarrow> False"

lemma emits_listLoop: "emits isListCall (listLoop s q cs lastErr)"
  by (induction cs arbitrary: lastErr)
    (auto simp: SdkListMappings_def intro!: emits_intro)

lemma emits_createLoop: "emits (isCreateCallFor q) (createLoop s q cs lastErr)"
  by (induction cs arbitrary: lastErr)
    (auto simp: SdkCreateMapping_def intro!: emits_intro)

lemma emits_deleteLoop:
  assumes "set cs \<subseteq> set (ScopedIdentifierCandidates (q_AgentScope q) (q_AgentIdentifier q))"
  shows "emits (isDeleteCallFor mid q) (deleteLoop s q mid cs)"
  using assms
  by (induction cs) (auto simp: SdkDeleteMapping_def intro!: emits_intro)

lemma emits_deleteLoop_call: "emits isDeleteCall (deleteLoop s q mid cs)"
  by (induction cs) (auto simp: SdkDeleteMapping_def intro!: emits_intro)

lemma emits_SDK_List: "emits isListCall (SDK_List s q)"
  by (auto simp: SDK_List_def Let_def intro!: emits_intro emits_listLoop)

lemma emits_SDK_Create: "emits (isCreateCallFor q) (SDK_Create s q)"
  by (auto simp: SDK_Create_def Let_def intro!: emits_intro emits_createLoop)

lemma emits_SDK_Delete: "emits (isDeleteCallFor mid q) (SDK_Delete s q mid)"
  by (auto simp: SDK_Delete_def Let_def intro!: emits_intro emits_deleteLoop)

lemmas grows_mapping_sdk [simp] =
  emits_grows [OF emits_listLoop] emits_grows [OF emits_createLoop]
  emits_grows [OF emits_deleteLoop_call]
  emits_grows [OF emits_SDK_List] emits_grows [OF emits_SDK_Create] emits_grows [OF emits_SDK_Delete]

section \<open>Falling back to the next candidate\<close>

lemma mappingAPIError_nil [simp]:
  "mappingAPIError op c http err = None \<longleftrightarrow> err = None"
  "None = mappingAPIError op c http err \<longleftrightarrow> err = None"
  by (simp_all add: mappingAPIError_def eq_commute [of None])

text \<open>One round of each loop: the call, then more rounds only after a 404.\<close>

lemma listLoop_round:
  assumes "sdk_ListMappings (s_client s) h (s_apiKey s) c (listOpts q) = (rows, http, err)"
  shows "emitted (listLoop s q (c # cs) lastErr) h =
      EvSdkListMappings (s_apiKey s) c (listOpts q) (rows, http, err) #
        (if http = Some 404 \<and> err \<noteq> None
         then emitted (listLoop s q cs (mappingAPIError ''list AppProject mappings'' c http err))
           (h @ [EvSdkListMappings (s_apiKey s) c (listOpts q) (rows, http, err)])
         else []) \<and>
    result (listLoop s q (c # cs) lastErr) h =
      (if err = None then Inr (map projectMappingFromSDK rows)
       else if http = Some 404
       then result (listLoop s q cs (mappingAPIError ''list AppProject mappings'' c http err))
           (h @ [EvSdkListMappings (s_apiKey s) c (listOpts q) (rows, http, err)])
       else Inl (the (mappingAPIError ''list AppProject mappings'' c http err)))"
  using assms
  by (auto simp: SdkListMappings_def result_bind emitted_bind Let_def mappingAPIError_def
      split: option.splits)

lemma createLoop_round:
  assumes "sdk_CreateMapping (s_client s) h (s_apiKey s) (createBody q c) c = (row, http, err)"
  shows "emitted (createLoop s q (c # cs) lastErr) h =
      EvSdkCreateMapping (s_apiKey s) (createBody q c) c (row, http, err) #
        (if http = Some 404 \<and> err \<noteq> None \<and> \<not> isProjectMappingConflict http (the err)
         then emitted (createLoop s q cs (mappingAPIError ''create AppProject mapping'' c http err))
           (h @ [EvSdkCreateMapping (s_apiKey s) (createBody q c) c (row, http, err)])
         else []) \<and>
    result (createLoop s q (c # cs) lastErr) h =
      (case err of
         None \<Rightarrow> createAccepted c row
       | Some e \<Rightarrow>
           if isProjectMappingConflict http e then Inl (ErrNew ErrProjectMappingAlreadyExists)
           else if ClassifyResponse http err = VerdictTransient
           then Inl (ErrFmt (sentinelText ErrProjectMappingCreateOutcomeUnknown @ '': '' @ Error e)
                  [ErrNew ErrProjectMappingCreateOutcomeUnknown, e])
           else if http = Some 404
           then result (createLoop s q cs (mappingAPIError ''create AppProject mapping'' c http err))
             (h @ [EvSdkCreateMapping (s_apiKey s) (createBody q c) c (row, http, err)])
           else Inl (the (mappingAPIError ''create AppProject mapping'' c http err)))"
  using assms
  by (auto simp: SdkCreateMapping_def result_bind emitted_bind Let_def mappingAPIError_def
      ClassifyResponse_def split: option.splits)

lemma deleteLoop_round:
  assumes "sdk_DeleteMapping (s_client s) h (s_apiKey s) c mid (deleteOpts q) = (u, http, err)"
  shows "emitted (deleteLoop s q mid (c # cs)) h =
      EvSdkDeleteMapping (s_apiKey s) c mid (deleteOpts q) (u, http, err) #
        (if http = Some 404 \<and> err \<noteq> None
         then emitted (deleteLoop s q mid cs)
           (h @ [EvSdkDeleteMapping (s_apiKey s) c mid (deleteOpts q) (u, http, err)])
         else []) \<and>
    result (deleteLoop s q mid (c # cs)) h =
      (if err = None then None
       else if http = Some 404
       then result (deleteLoop s q mid cs)
           (h @ [EvSdkDeleteMapping (s_apiKey s) c mid (deleteOpts q) (u, http, err)])
       else mappingAPIError ''delete AppProject mapping'' c http err)"
  using assms
  by (auto simp: SdkDeleteMapping_def result_bind emitted_bind split: option.splits)

declare listLoop.simps(2) [simp del] createLoop.simps(2) [simp del] deleteLoop.simps(2) [simp del]

lemma butlast_round:
  "list_all P (butlast es) \<Longrightarrow> P e \<Longrightarrow> list_all P (butlast (e # es))"
  by (cases es) auto

lemma listLoop_fallback: "list_all answered404 (butlast (emitted (listLoop s q cs lastErr) h))"
proof (induction cs arbitrary: lastErr h)
  case Nil
  then show ?case by simp
next
  case (Cons c cs)
  obtain rows http err where
    a: "sdk_ListMappings (s_client s) h (s_apiKey s) c (listOpts q) = (rows, http, err)"
    by (metis prod_cases3)
  show ?case
    using listLoop_round [OF a, of cs lastErr] Cons.IH by (auto intro!: butlast_round)
qed

lemma createLoop_fallback: "list_all answered404 (butlast (emitted (createLoop s q cs lastErr) h))"
proof (induction cs arbitrary: lastErr h)
  case Nil
  then show ?case by simp
next
  case (Cons c cs)
  obtain row http err where
    a: "sdk_CreateMapping (s_client s) h (s_apiKey s) (createBody q c) c = (row, http, err)"
    by (metis prod_cases3)
  show ?case
    using createLoop_round [OF a, of cs lastErr] Cons.IH by (auto intro!: butlast_round)
qed

lemma deleteLoop_fallback: "list_all answered404 (butlast (emitted (deleteLoop s q mid cs) h))"
proof (induction cs arbitrary: h)
  case Nil
  then show ?case by simp
next
  case (Cons c cs)
  obtain u http err where
    a: "sdk_DeleteMapping (s_client s) h (s_apiKey s) c mid (deleteOpts q) = (u, http, err)"
    by (metis prod_cases3)
  show ?case
    using deleteLoop_round [OF a, of cs] Cons.IH by (auto intro!: butlast_round)
qed

text \<open>A list result is the answer of a recorded call.\<close>

lemma listLoop_rows:
  assumes "result (listLoop s q cs lastErr) h = Inr ms" and "lastErr \<noteq> None \<or> cs \<noteq> []"
  shows "\<exists>cand rows http. EvSdkListMappings (s_apiKey s) cand (listOpts q) (rows, http, None)
      \<in> set (emitted (listLoop s q cs lastErr) h) \<and> ms = map projectMappingFromSDK rows"
  using assms
proof (induction cs arbitrary: lastErr h)
  case Nil
  then show ?case by auto
next
  case (Cons c cs)
  obtain rows http err where
    a: "sdk_ListMappings (s_client s) h (s_apiKey s) c (listOpts q) = (rows, http, err)"
    by (metis prod_cases3)
  show ?case
  proof (cases "err = None")
    case True
    with Cons.prems listLoop_round [OF a, of cs lastErr] show ?thesis by auto
  next
    case False
    with Cons.prems listLoop_round [OF a, of cs lastErr] have
      n: "http = Some 404" and
      r: "result (listLoop s q cs (mappingAPIError ''list AppProject mappings'' c http err))
        (h @ [EvSdkListMappings (s_apiKey s) c (listOpts q) (rows, http, err)]) = Inr ms"
      by (auto split: if_splits)
    have "mappingAPIError ''list AppProject mappings'' c http err \<noteq> None"
      using False by simp
    with Cons.IH [OF r] obtain cand rows' http' where
      "EvSdkListMappings (s_apiKey s) cand (listOpts q) (rows', http', None) \<in> set (emitted
        (listLoop s q cs (mappingAPIError ''list AppProject mappings'' c http err))
        (h @ [EvSdkListMappings (s_apiKey s) c (listOpts q) (rows, http, err)]))"
      "ms = map projectMappingFromSDK rows'"
      by blast
    with listLoop_round [OF a, of cs lastErr] n False show ?thesis by auto
  qed
qed

text \<open>
  The calls of a delete that confirm that the row is gone: one call per candidate in order, each
  for the given ID and request, all but the last answered 404; and the last one succeeded, or
  was answered 404 too and was the last candidate.
\<close>

fun isDeleteOf :: "string \<Rightarrow> ProjectMappingRequest \<Rightarrow> string \<Rightarrow> event \<Rightarrow> bool" where
  "isDeleteOf mid' q cand' (EvSdkDeleteMapping key cand mid opts x) \<longleftrightarrow>
     mid = mid' \<and> opts = deleteOpts q \<and> cand = cand'"
| "isDeleteOf mid' q cand' _ \<longleftrightarrow> False"

definition rowDeleted :: "string \<Rightarrow> ProjectMappingRequest \<Rightarrow> string list \<Rightarrow> history \<Rightarrow> bool" where
  "rowDeleted mid q candidates es \<longleftrightarrow>
     es \<noteq> [] \<and> length es \<le> length candidates \<and>
     list_all2 (isDeleteOf mid q) (take (length es) candidates) es \<and>
     list_all answered404 (butlast es) \<and>
     (answeredOk (last es) \<or> answered404 (last es) \<and> length es = length candidates)"

lemma rowDeleted_Cons:
  "isDeleteOf mid q c e \<Longrightarrow> answeredOk e \<Longrightarrow> rowDeleted mid q (c # cs) [e]"
  "isDeleteOf mid q c e \<Longrightarrow> answered404 e \<Longrightarrow> rowDeleted mid q [c] [e]"
  "isDeleteOf mid q c e \<Longrightarrow> answered404 e \<Longrightarrow> rowDeleted mid q cs es \<Longrightarrow> rowDeleted mid q (c # cs) (e # es)"
  by (auto simp: rowDeleted_def)

text \<open>A nil delete result means that the row is confirmed to be gone.\<close>

lemma deleteLoop_nil:
  assumes "result (deleteLoop s q mid cs) h = None" and "cs \<noteq> []"
  shows "rowDeleted mid q cs (emitted (deleteLoop s q mid cs) h)"
  using assms
proof (induction cs arbitrary: h)
  case Nil
  then show ?case by simp
next
  case (Cons c cs)
  obtain u http err where
    a: "sdk_DeleteMapping (s_client s) h (s_apiKey s) c mid (deleteOpts q) = (u, http, err)"
    by (metis prod_cases3)
  let ?e = "EvSdkDeleteMapping (s_apiKey s) c mid (deleteOpts q) (u, http, err)"
  note round = deleteLoop_round [OF a, of cs]
  show ?case
  proof (cases "err = None")
    case True
    with round show ?thesis by (simp add: rowDeleted_Cons(1))
  next
    case False
    with Cons.prems round have n: "http = Some 404"
      and r: "result (deleteLoop s q mid cs) (h @ [?e]) = None"
      by (auto split: if_splits)
    show ?thesis
    proof (cases "cs = []")
      case True
      with n False round show ?thesis by (simp add: rowDeleted_Cons(2))
    next
      case nonempty: False
      from Cons.IH [OF r nonempty] n False round show ?thesis by (simp add: rowDeleted_Cons(3))
    qed
  qed
qed

lemma SDK_Delete_nil:
  assumes "result (SDK_Delete s q mid) h = None"
  shows "rowDeleted mid q (ScopedIdentifierCandidates (q_AgentScope q) (q_AgentIdentifier q))
    (emitted (SDK_Delete s q mid) h)"
  using assms deleteLoop_nil by (auto simp: SDK_Delete_def Let_def split: if_splits)

text \<open>
  What the answer to a POST says, by its HTTP status: a conflict is 409 or a body that says so; a
  row may have been created when there was no answer, the answer was 408, 429 or a server
  error, the transfer timed out, or a success carries no identifier; every other error is
  plain. A success that is answered in full names the row.
\<close>

definition timedOut :: "go_error \<Rightarrow> bool" where
  "timedOut e \<longleftrightarrow> errorsIsDeadlineExceeded e \<or> errorsAs asTimeout e = Some True"

definition conflictAnswer :: "int option \<Rightarrow> go_error \<Rightarrow> bool" where
  "conflictAnswer http e \<longleftrightarrow> http = Some 409 \<or> Contains (ToLower (ErrorBody e)) ''already exists''"

definition ambiguousAnswer :: "int option \<Rightarrow> go_error \<Rightarrow> bool" where
  "ambiguousAnswer http e \<longleftrightarrow>
     (case http of
        None \<Rightarrow> True
      | Some c \<Rightarrow> c = 408 \<or> c = 429 \<or> 500 \<le> c \<or> c \<notin> {401, 403, 404} \<and> timedOut e)"

fun acceptedCreate :: "string \<Rightarrow> event \<Rightarrow> bool" where
  "acceptedCreate mid (EvSdkCreateMapping key body cand (row, http, None)) \<longleftrightarrow>
     v_Identifier row = mid \<and> mid \<noteq> ''''"
| "acceptedCreate mid _ \<longleftrightarrow> False"

text \<open>The error that reports the answer to a POST: which sentinels it carries.\<close>

fun errorTells :: "event \<Rightarrow> go_error \<Rightarrow> bool" where
  "errorTells (EvSdkCreateMapping key body cand (row, http, None)) err \<longleftrightarrow>
     v_Identifier row = '''' \<and> errorsIs err ErrProjectMappingCreateOutcomeUnknown"
| "errorTells (EvSdkCreateMapping key body cand (row, http, Some e)) err \<longleftrightarrow>
     (if conflictAnswer http e then err = ErrNew ErrProjectMappingAlreadyExists
      else if ambiguousAnswer http e then errorsIs err ErrProjectMappingCreateOutcomeUnknown
      else (\<forall>t. errorsIs err t \<longleftrightarrow> errorsIs e t))"
| "errorTells _ err \<longleftrightarrow> False"

definition createTells :: "event \<Rightarrow> go_error + ProjectMapping \<Rightarrow> bool" where
  "createTells e out \<longleftrightarrow>
     (case out of Inr m \<Rightarrow> acceptedCreate (pm_Identifier m) e | Inl err \<Rightarrow> errorTells e err)"

lemma createAccepted_cases:
  "createAccepted c row = Inr m \<Longrightarrow> pm_Identifier m = v_Identifier row \<and> v_Identifier row \<noteq> ''''"
  "createAccepted c row = Inl e \<Longrightarrow>
     v_Identifier row = '''' \<and> errorsIs e ErrProjectMappingCreateOutcomeUnknown"
  by (auto simp: createAccepted_def Let_def projectMappingFromSDK_def split: if_splits)

lemma conflict_iff: "isProjectMappingConflict http e \<longleftrightarrow> conflictAnswer http e"
  by (simp add: isProjectMappingConflict_def conflictAnswer_def Classify_Conflict_iff)

lemma transient_iff:
  "http \<noteq> Some 409 \<Longrightarrow> ClassifyResponse http (Some e) = VerdictTransient \<longleftrightarrow> ambiguousAnswer http e"
  by (auto simp: ClassifyResponse_def ambiguousAnswer_def timedOut_def split: option.splits)

lemma mappingAPIError_is:
  "mappingAPIError op c http (Some e) = Some err \<Longrightarrow> errorsIs err t \<longleftrightarrow> errorsIs e t"
  by (auto simp: mappingAPIError_def APIError_def Let_def split: if_splits)

lemma createLoop_outcome:
  assumes "cs \<noteq> []"
  shows "emitted (createLoop s q cs lastErr) h \<noteq> [] \<and>
    createTells (last (emitted (createLoop s q cs lastErr) h)) (result (createLoop s q cs lastErr) h)"
  using assms
proof (induction cs arbitrary: lastErr h)
  case Nil
  then show ?case by simp
next
  case (Cons c cs)
  obtain row http err where
    a: "sdk_CreateMapping (s_client s) h (s_apiKey s) (createBody q c) c = (row, http, err)"
    by (metis prod_cases3)
  note round = createLoop_round [OF a, of cs lastErr]
  show ?case
  proof (cases err)
    case None
    with round show ?thesis
      by (auto simp: createTells_def split: sum.split dest: createAccepted_cases)
  next
    case (Some e)
    obtain err' where err': "mappingAPIError ''create AppProject mapping'' c http (Some e) = Some err'"
      using mappingAPIError_nil by fastforce
    note same = mappingAPIError_is [OF err']
    show ?thesis
    proof (cases "cs = [] \<or> http \<noteq> Some 404 \<or> conflictAnswer http e")
      case True
      then show ?thesis
        using round Some err' same
        by (auto simp: createTells_def conflict_iff transient_iff conflictAnswer_def ambiguousAnswer_def
            split: option.splits)
    next
      case False
      then have "ClassifyResponse http (Some e) \<noteq> VerdictTransient" by (simp add: ClassifyResponse_def)
      with False Cons.IH [of "Some err'" "h @ [EvSdkCreateMapping (s_apiKey s) (createBody q c) c (row, http, err)]"]
      show ?thesis using round Some err' by (auto simp: conflict_iff)
    qed
  qed
qed

section \<open>The interface as a contract\<close>

text \<open>
  What the reconciler relies on of a \<open>mappingReconcileAPI\<close>: each operation makes calls of its
  own kind only, deletes name the requested ID and request, a successful list is the answer of
  a recorded call, and a nil delete means that the calls confirmed the row to be gone.
\<close>

locale mapping_api =
  fixes api :: mappingReconcileAPI
  assumes list_calls: "emits isListCall (api_List api s q)"
    and create_calls: "emits (isCreateCallFor q) (api_Create api s q)"
    and delete_calls: "emits (isDeleteCallFor mid q) (api_Delete api s q mid)"
    and list_rows: "result (api_List api s q) h = Inr ms \<Longrightarrow>
      \<exists>cand rows http. EvSdkListMappings (s_apiKey s) cand (listOpts q) (rows, http, None)
        \<in> set (emitted (api_List api s q) h) \<and> ms = map projectMappingFromSDK rows"
    and delete_gone: "result (api_Delete api s q mid) h = None \<Longrightarrow>
      rowDeleted mid q (ScopedIdentifierCandidates (q_AgentScope q) (q_AgentIdentifier q))
        (emitted (api_Delete api s q mid) h)"
begin

lemma grows_list: "grows (api_List api s q)"
  using list_calls by (rule emits_grows)

lemma grows_create: "grows (api_Create api s q)"
  using create_calls by (rule emits_grows)

lemma grows_delete: "grows (api_Delete api s q mid)"
  using delete_calls by (rule emits_grows)

end

lemma SDK_List_rows:
  assumes "result (SDK_List s q) h = Inr ms"
  shows "\<exists>cand rows http. EvSdkListMappings (s_apiKey s) cand (listOpts q) (rows, http, None)
    \<in> set (emitted (SDK_List s q) h) \<and> ms = map projectMappingFromSDK rows"
proof (cases "ScopedIdentifierCandidates (q_AgentScope q) (q_AgentIdentifier q) = []")
  case True
  with assms show ?thesis by (simp add: SDK_List_def)
next
  case False
  with assms listLoop_rows show ?thesis
    by (auto simp: SDK_List_def Let_def)
qed

interpretation sdk: mapping_api SDKProjectMappingAPI
  by unfold_locales
    (auto simp only: SDKProjectMappingAPI_def mappingReconcileAPI.select_convs
      intro: emits_SDK_List emits_SDK_Create emits_SDK_Delete SDK_List_rows SDK_Delete_nil)

section \<open>Properties\<close>

text \<open>
  C20: a mapping is created at most once per call of Create. The POST is repeated with the next
  identifier candidate only after the previous POST was answered 404, every POST carries the
  requested tuple, and there are at most two of them.
\<close>

theorem mapping_create_posts_again_only_after_404:
  "let es = emitted (SDK_Create s q) h in
     list_all answered404 (butlast es) \<and> list_all (isCreateCallFor q) es \<and> length es \<le> 2"
proof -
  let ?cs = "ScopedIdentifierCandidates (q_AgentScope q) (q_AgentIdentifier q)"
  have len: "length (emitted (createLoop s q cs lastErr) h) \<le> length cs" for cs lastErr h
  proof (induction cs arbitrary: lastErr h)
    case Nil
    then show ?case by simp
  next
    case (Cons c cs)
    obtain row http err where
      a: "sdk_CreateMapping (s_client s) h (s_apiKey s) (createBody q c) c = (row, http, err)"
      by (metis prod_cases3)
    show ?case using createLoop_round [OF a, of cs lastErr] Cons.IH by auto
  qed
  have "length (emitted (SDK_Create s q) h) \<le> 2"
    using len [of ?cs None h] candidates_length [of "q_AgentScope q" "q_AgentIdentifier q"]
    by (simp add: SDK_Create_def Let_def)
  moreover have "list_all answered404 (butlast (emitted (SDK_Create s q) h))"
    using createLoop_fallback by (simp add: SDK_Create_def Let_def)
  moreover have "list_all (isCreateCallFor q) (emitted (SDK_Create s q) h)"
    using emits_SDK_Create by (auto simp: list_all_iff emits_def)
  ultimately show ?thesis by (simp add: Let_def)
qed

text \<open>
  C21: the outcome of Create says what Harness answered. Without an Agent identifier nothing is
  sent. Otherwise all POSTs but the last were answered 404, and the outcome is decided by the
  answer to the last one: a returned row is the one a successful answer named; an answer that
  leaves open whether the row was created (none at all, 408, 429, a server error, a timeout, or
  a success without an identifier) gives \<open>ErrProjectMappingCreateOutcomeUnknown\<close>; a conflict
  gives \<open>ErrProjectMappingAlreadyExists\<close>; and every other error is returned with the sentinels
  of the SDK's own error only. The last group is all the reconciler takes for a rejection; it
  includes a success status whose body could not be read.
\<close>

theorem mapping_create_outcome_sound:
  "let es = emitted (SDK_Create s q) h; out = result (SDK_Create s q) h in
   if TrimSpace (q_AgentIdentifier q) = ''''
   then es = [] \<and> (\<exists>err. out = Inl err \<and> (\<forall>t. \<not> errorsIs err t))
   else es \<noteq> [] \<and> list_all answered404 (butlast es) \<and> createTells (last es) out"
proof -
  let ?cs = "ScopedIdentifierCandidates (q_AgentScope q) (q_AgentIdentifier q)"
  have "?cs = [] \<longleftrightarrow> TrimSpace (q_AgentIdentifier q) = ''''" by (rule candidates_Nil_iff)
  with createLoop_outcome [of ?cs s q None h] createLoop_fallback [of s q ?cs None h] show ?thesis
    by (simp add: SDK_Create_def Let_def)
qed

text \<open>
  The finding behind the last clause: a POST that Harness answered with a success status, but
  whose body could not be read and did not time out, is reported like a rejection: the error
  carries no sentinel but those of the SDK's own error.
\<close>

lemma unread_success_is_plain:
  assumes "ScopedIdentifierCandidates (q_AgentScope q) (q_AgentIdentifier q) = cand # cs"
    and "sdk_CreateMapping (s_client s) h (s_apiKey s) (createBody q cand) cand = (row, Some code, Some e)"
    and "200 \<le> code" "code < 300" and "\<not> timedOut e" and "ErrorBody e = ''''"
  shows "\<exists>err. result (SDK_Create s q) h = Inl err \<and> (\<forall>t. errorsIs err t \<longleftrightarrow> errorsIs e t)"
proof -
  have plain: "\<not> conflictAnswer (Some code) e" "\<not> ambiguousAnswer (Some code) e"
    using assms(3-6) by (auto simp: conflictAnswer_def ambiguousAnswer_def startsWith_def)
  then have "ClassifyResponse (Some code) (Some e) \<noteq> VerdictTransient"
    using transient_iff [of "Some code" e] by (auto simp: conflictAnswer_def)
  with plain assms(1,3,4) createLoop_round [OF assms(2), of cs None]
  have "result (SDK_Create s q) h =
      Inl (the (mappingAPIError ''create AppProject mapping'' cand (Some code) (Some e)))"
    by (simp add: SDK_Create_def Let_def conflict_iff)
  moreover obtain err where "mappingAPIError ''create AppProject mapping'' cand (Some code) (Some e) = Some err"
    using mappingAPIError_nil by fastforce
  ultimately show ?thesis using mappingAPIError_is by fastforce
qed

text \<open>
  C22: Delete reports success only when the row is gone. If it returns nil, it called the
  identifier candidates in order, each with the given mapping ID and the request's target
  scope; all calls but the last were answered 404; and the last call succeeded, or it was
  answered 404 as well and every candidate had been tried.
\<close>

theorem mapping_delete_nil_means_gone:
  assumes "result (SDK_Delete s q mid) h = None"
  shows "rowDeleted mid q (ScopedIdentifierCandidates (q_AgentScope q) (q_AgentIdentifier q))
    (emitted (SDK_Delete s q mid) h)"
  using assms deleteLoop_nil [of s q mid _ h] by (auto simp: SDK_Delete_def Let_def split: if_splits)

definition sampleRequest :: ProjectMappingRequest where
  "sampleRequest =
     \<lparr>q_AccountIdentifier = ''acc'', q_AgentIdentifier = ''agent1'', q_AgentScope = ''ORG'',
      q_Agent = \<lparr>sc_OrgIdentifier = ''org1'', sc_ProjectIdentifier = ''''\<rparr>,
      q_Mapping = \<lparr>sc_OrgIdentifier = ''org1'', sc_ProjectIdentifier = ''proj''\<rparr>,
      q_ArgoProjectName = ''app'', q_AutoCreateServiceEnv = False\<rparr>"

definition sampleSession :: "APIClient \<Rightarrow> Session" where
  "sampleSession c = \<lparr>s_client = c, s_apiKey = ''k1''\<rparr>"

lemma sample_candidates [simp]:
  "ScopedIdentifierCandidates ''ORG'' ''agent1'' = [''org.agent1'', ''agent1'']"
  by (simp add: ScopedIdentifierCandidates_def addCandidate_def Contains_dot EqualFold_def Let_def)

theorem mapping_delete_nil_means_gone_witness:
  "let es = emitted (SDK_Delete (sampleSession absentAPI) sampleRequest ''row1'') [] in
   result (SDK_Delete (sampleSession absentAPI) sampleRequest ''row1'') [] = None \<and>
   length es = 2 \<and> rowDeleted ''row1'' sampleRequest [''org.agent1'', ''agent1''] es"
proof -
  have *: "result (SDK_Delete (sampleSession absentAPI) sampleRequest ''row1'') [] = None"
    by (simp add: SDK_Delete_def sampleSession_def sampleRequest_def deleteLoop.simps
        SdkDeleteMapping_def absentAPI_def absentError_def result_def)
  have "length (emitted (SDK_Delete (sampleSession absentAPI) sampleRequest ''row1'') []) = 2"
    by (simp add: SDK_Delete_def sampleSession_def sampleRequest_def deleteLoop.simps
        SdkDeleteMapping_def absentAPI_def absentError_def emitted_def)
  with mapping_delete_nil_means_gone [OF *] * show ?thesis
    by (simp add: Let_def sampleRequest_def)
qed

end
