(* ===== verification/Mapping_Scope.thy ===== *)
theory Mapping_Scope
  imports Mapping_SDK
begin

text \<open>
  \<open>internal/resource/projectmapping/scope.go\<close>: resolving the Agent lookup scope and the mapped
  project scope of a Mapping from the two custom resources, without contacting Harness.
\<close>

section \<open>Definitions\<close>

definition agentScopeAccount :: string where "agentScopeAccount = ''ACCOUNT''"
definition agentScopeOrg :: string where "agentScopeOrg = ''ORG''"
definition agentScopeProject :: string where "agentScopeProject = ''PROJECT''"

lemmas agentScope_defs = agentScopeAccount_def agentScopeOrg_def agentScopeProject_def

text \<open>The switch over the scope; the request comes with both scopes empty.\<close>

definition resolveScopes ::
  "string \<Rightarrow> string \<Rightarrow> string \<Rightarrow> string \<Rightarrow> string \<Rightarrow> string \<Rightarrow> ProjectMappingRequest \<Rightarrow>
     go_error + ProjectMappingRequest" where
  "resolveScopes specScope scope agentOrgID agentProjectID targetOrgID targetProjectID request =
     (if scope = agentScopeProject then
        (if agentOrgID = '''' \<or> agentProjectID = '''' then
           Inl (ErrFmt ''PROJECT-scoped Agent requires spec.orgId and spec.projectId'' [])
         else if targetOrgID \<noteq> '''' \<and> targetOrgID \<noteq> agentOrgID then
           Inl (ErrFmt (''spec.orgId '' @ fmt_q targetOrgID @
             '' must be empty or match the PROJECT-scoped Agent org '' @ fmt_q agentOrgID) [])
         else if targetProjectID \<noteq> '''' \<and> targetProjectID \<noteq> agentProjectID then
           Inl (ErrFmt (''spec.projectId '' @ fmt_q targetProjectID @
             '' must be empty or match the PROJECT-scoped Agent project '' @ fmt_q agentProjectID) [])
         else
           (let agentScope =
              \<lparr>sc_OrgIdentifier = agentOrgID, sc_ProjectIdentifier = agentProjectID\<rparr>
            in Inr (request\<lparr>q_Agent := agentScope, q_Mapping := agentScope\<rparr>)))
      else if scope = agentScopeOrg then
        (if agentOrgID = '''' then
           Inl (ErrFmt ''ORG-scoped Agent requires spec.orgId'' [])
         else if targetOrgID \<noteq> '''' \<and> targetOrgID \<noteq> agentOrgID then
           Inl (ErrFmt (''spec.orgId '' @ fmt_q targetOrgID @
             '' must be empty or match the ORG-scoped Agent org '' @ fmt_q agentOrgID) [])
         else if targetProjectID = '''' then
           Inl (ErrFmt ''spec.projectId is required for an ORG-scoped Agent'' [])
         else
           Inr (request\<lparr>
             q_Agent := \<lparr>sc_OrgIdentifier = agentOrgID, sc_ProjectIdentifier = ''''\<rparr>,
             q_Mapping := \<lparr>sc_OrgIdentifier = agentOrgID, sc_ProjectIdentifier = targetProjectID\<rparr>\<rparr>))
      else if scope = agentScopeAccount then
        (if targetOrgID = '''' \<or> targetProjectID = '''' then
           Inl (ErrFmt ''spec.orgId and spec.projectId are required for an ACCOUNT-scoped Agent'' [])
         else
           Inr (request\<lparr>
             q_Mapping := \<lparr>sc_OrgIdentifier = targetOrgID, sc_ProjectIdentifier = targetProjectID\<rparr>\<rparr>))
      else
        Inl (ErrFmt (''unsupported Agent scope '' @ fmt_q specScope @
          '': expected ACCOUNT, ORG, or PROJECT'') []))"

definition resolveProjectMappingRequest ::
  "HarnessGitopsAgent option \<Rightarrow> HarnessGitopsProjectMapping option \<Rightarrow> go_error + ProjectMappingRequest" where
  "resolveProjectMappingRequest agentPtr mappingPtr =
     (case agentPtr of
        None \<Rightarrow> Inl (ErrFmt ''referenced HarnessGitopsAgent is nil'' [])
      | Some agent \<Rightarrow>
     (case mappingPtr of
        None \<Rightarrow> Inl (ErrFmt ''harnessGitopsProjectMapping is nil'' [])
      | Some mapping \<Rightarrow>
     (if Namespace (a_Meta agent) \<noteq> Namespace (m_Meta mapping) then
        Inl (ErrFmt (''spec.agentRef must reference an Agent in the same namespace '' @
          fmt_q (Namespace (m_Meta mapping))) [])
      else if TrimSpace (ref_Name (ms_AgentRef (m_Spec mapping))) \<noteq> Name (a_Meta agent) then
        Inl (ErrFmt (''spec.agentRef.name '' @ fmt_q (ref_Name (ms_AgentRef (m_Spec mapping))) @
          '' does not match Agent '' @ fmt_q (Name (a_Meta agent))) [])
      else
        (let existing = TrimSpace (as_ExistingAgentIdentifier (a_Spec agent));
             agentIdentifier =
               (if existing = '''' then TrimSpace (ast_AgentIdentifier (a_Status agent)) else existing);
             accountID = TrimSpace (as_AccountId (a_Spec agent));
             appProject = TrimSpace (ms_AppProject (m_Spec mapping))
         in
         if agentIdentifier = '''' then
           Inl (ErrFmt (''agent '' @ Namespace (a_Meta agent) @ ''/'' @ Name (a_Meta agent) @
             '' is not registered: status.agentIdentifier is empty'') [])
         else if accountID = '''' then
           Inl (ErrFmt (''agent '' @ Namespace (a_Meta agent) @ ''/'' @ Name (a_Meta agent) @
             '' has an empty spec.accountId'') [])
         else if appProject = '''' then
           Inl (ErrFmt ''spec.appProject must not be empty'' [])
         else
           (let scope = ToUpper (TrimSpace (as_Scope (a_Spec agent)));
                agentOrgID = TrimSpace (as_OrgId (a_Spec agent));
                agentProjectID = TrimSpace (as_ProjectId (a_Spec agent));
                targetOrgID = TrimSpace (ms_OrgID (m_Spec mapping));
                targetProjectID = TrimSpace (ms_ProjectID (m_Spec mapping));
                request =
                  \<lparr>q_AccountIdentifier = accountID, q_AgentIdentifier = agentIdentifier,
                   q_AgentScope = scope, q_Agent = emptyScope, q_Mapping = emptyScope,
                   q_ArgoProjectName = appProject,
                   q_AutoCreateServiceEnv = ms_AutoCreateServiceEnv (m_Spec mapping)\<rparr>
            in resolveScopes (as_Scope (a_Spec agent)) scope agentOrgID agentProjectID
                 targetOrgID targetProjectID request)))))"

section \<open>Well-formed requests\<close>

text \<open>
  The invariant of every resolved request: trimmed and complete, with the Agent tuple and the
  target tuple related as the Agent scope demands.
\<close>

definition scopesAgree :: "string \<Rightarrow> Scope \<Rightarrow> Scope \<Rightarrow> bool" where
  "scopesAgree scope agentScope target \<longleftrightarrow>
     (scope = agentScopeAccount \<and> agentScope = emptyScope \<or>
      scope = agentScopeOrg \<and> sc_OrgIdentifier agentScope = sc_OrgIdentifier target \<and>
        sc_ProjectIdentifier agentScope = '''' \<or>
      scope = agentScopeProject \<and> agentScope = target) \<and>
     sc_OrgIdentifier target \<noteq> '''' \<and> sc_ProjectIdentifier target \<noteq> ''''"

definition scopeTrimmed :: "Scope \<Rightarrow> bool" where
  "scopeTrimmed s \<longleftrightarrow>
     TrimSpace (sc_OrgIdentifier s) = sc_OrgIdentifier s \<and>
     TrimSpace (sc_ProjectIdentifier s) = sc_ProjectIdentifier s"

definition requestWF :: "ProjectMappingRequest \<Rightarrow> bool" where
  "requestWF q \<longleftrightarrow>
     q_AccountIdentifier q \<noteq> '''' \<and> q_AgentIdentifier q \<noteq> '''' \<and> q_ArgoProjectName q \<noteq> '''' \<and>
     TrimSpace (q_AccountIdentifier q) = q_AccountIdentifier q \<and>
     TrimSpace (q_AgentIdentifier q) = q_AgentIdentifier q \<and>
     TrimSpace (q_ArgoProjectName q) = q_ArgoProjectName q \<and>
     scopeTrimmed (q_Agent q) \<and> scopeTrimmed (q_Mapping q) \<and>
     scopesAgree (q_AgentScope q) (q_Agent q) (q_Mapping q)"

lemma scope_names [simp]:
  "agentScopeAccount \<noteq> agentScopeOrg" "agentScopeAccount \<noteq> agentScopeProject"
  "agentScopeOrg \<noteq> agentScopeProject" "agentScopeOrg \<noteq> agentScopeAccount"
  "agentScopeProject \<noteq> agentScopeAccount" "agentScopeProject \<noteq> agentScopeOrg"
  by (simp_all add: agentScope_defs)

lemma scope_names_fixed [simp]:
  "TrimSpace agentScopeAccount = agentScopeAccount" "ToUpper agentScopeAccount = agentScopeAccount"
  "TrimSpace agentScopeOrg = agentScopeOrg" "ToUpper agentScopeOrg = agentScopeOrg"
  "TrimSpace agentScopeProject = agentScopeProject" "ToUpper agentScopeProject = agentScopeProject"
  by (simp_all add: agentScope_defs ToUpper_def upperASCII_def)

lemma requestWF_scope:
  "requestWF q \<Longrightarrow>
     ToUpper (TrimSpace (q_AgentScope q)) = q_AgentScope q \<and> TrimSpace (q_AgentScope q) = q_AgentScope q"
  by (auto simp: requestWF_def scopesAgree_def)

section \<open>The resolution table\<close>

text \<open>
  The abstract contract: which request a pair of resources denotes, read off the scope table of
  the documentation. The existing Agent identifier takes precedence over the registered one.
\<close>

definition agentIdentifierOf :: "HarnessGitopsAgent \<Rightarrow> string" where
  "agentIdentifierOf a =
     (if TrimSpace (as_ExistingAgentIdentifier (a_Spec a)) \<noteq> ''''
      then TrimSpace (as_ExistingAgentIdentifier (a_Spec a))
      else TrimSpace (ast_AgentIdentifier (a_Status a)))"

definition targetAllowed :: "string \<Rightarrow> string \<Rightarrow> bool" where
  "targetAllowed given agentValue \<longleftrightarrow> TrimSpace given = '''' \<or> TrimSpace given = TrimSpace agentValue"

definition denotesRequest ::
  "HarnessGitopsAgent \<Rightarrow> HarnessGitopsProjectMapping \<Rightarrow> ProjectMappingRequest \<Rightarrow> bool" where
  "denotesRequest a m q \<longleftrightarrow>
     Namespace (a_Meta a) = Namespace (m_Meta m) \<and>
     Name (a_Meta a) = TrimSpace (ref_Name (ms_AgentRef (m_Spec m))) \<and>
     requestWF q \<and>
     q_AgentIdentifier q = agentIdentifierOf a \<and>
     q_AccountIdentifier q = TrimSpace (as_AccountId (a_Spec a)) \<and>
     q_ArgoProjectName q = TrimSpace (ms_AppProject (m_Spec m)) \<and>
     q_AutoCreateServiceEnv q = ms_AutoCreateServiceEnv (m_Spec m) \<and>
     q_AgentScope q = ToUpper (TrimSpace (as_Scope (a_Spec a))) \<and>
     (q_AgentScope q = agentScopeAccount \<longrightarrow>
        sc_OrgIdentifier (q_Mapping q) = TrimSpace (ms_OrgID (m_Spec m)) \<and>
        sc_ProjectIdentifier (q_Mapping q) = TrimSpace (ms_ProjectID (m_Spec m))) \<and>
     (q_AgentScope q = agentScopeOrg \<longrightarrow>
        sc_OrgIdentifier (q_Agent q) = TrimSpace (as_OrgId (a_Spec a)) \<and>
        targetAllowed (ms_OrgID (m_Spec m)) (as_OrgId (a_Spec a)) \<and>
        sc_ProjectIdentifier (q_Mapping q) = TrimSpace (ms_ProjectID (m_Spec m))) \<and>
     (q_AgentScope q = agentScopeProject \<longrightarrow>
        sc_OrgIdentifier (q_Agent q) = TrimSpace (as_OrgId (a_Spec a)) \<and>
        sc_ProjectIdentifier (q_Agent q) = TrimSpace (as_ProjectId (a_Spec a)) \<and>
        targetAllowed (ms_OrgID (m_Spec m)) (as_OrgId (a_Spec a)) \<and>
        targetAllowed (ms_ProjectID (m_Spec m)) (as_ProjectId (a_Spec a)))"

lemma resolve_sound:
  assumes "resolveProjectMappingRequest (Some a) (Some m) = Inr q"
  shows "denotesRequest a m q"
  using assms
  by (auto simp: resolveProjectMappingRequest_def resolveScopes_def Let_def denotesRequest_def
      requestWF_def scopesAgree_def scopeTrimmed_def agentIdentifierOf_def targetAllowed_def
      emptyScope_def split: if_splits)

text \<open>Up to the scope table, resolution is a chain of checks; this is what is left after them.\<close>

lemma resolve_header:
  assumes "denotesRequest a m q"
  shows "resolveProjectMappingRequest (Some a) (Some m) =
    resolveScopes (as_Scope (a_Spec a)) (q_AgentScope q) (TrimSpace (as_OrgId (a_Spec a)))
      (TrimSpace (as_ProjectId (a_Spec a))) (TrimSpace (ms_OrgID (m_Spec m)))
      (TrimSpace (ms_ProjectID (m_Spec m)))
      (q\<lparr>q_Agent := emptyScope, q_Mapping := emptyScope\<rparr>)"
proof -
  have facts: "Namespace (a_Meta a) = Namespace (m_Meta m)"
    "TrimSpace (ref_Name (ms_AgentRef (m_Spec m))) = Name (a_Meta a)"
    "agentIdentifierOf a = q_AgentIdentifier q" "q_AgentIdentifier q \<noteq> ''''"
    "TrimSpace (as_AccountId (a_Spec a)) = q_AccountIdentifier q" "q_AccountIdentifier q \<noteq> ''''"
    "TrimSpace (ms_AppProject (m_Spec m)) = q_ArgoProjectName q" "q_ArgoProjectName q \<noteq> ''''"
    "ms_AutoCreateServiceEnv (m_Spec m) = q_AutoCreateServiceEnv q"
    "ToUpper (TrimSpace (as_Scope (a_Spec a))) = q_AgentScope q"
    using assms unfolding denotesRequest_def requestWF_def by metis+
  have ident: "(if TrimSpace (as_ExistingAgentIdentifier (a_Spec a)) = ''''
      then TrimSpace (ast_AgentIdentifier (a_Status a))
      else TrimSpace (as_ExistingAgentIdentifier (a_Spec a))) = q_AgentIdentifier q"
    using facts(3) by (simp add: agentIdentifierOf_def split: if_splits)
  show ?thesis
    unfolding resolveProjectMappingRequest_def option.case Let_def ident
    using facts by (cases q) simp
qed

lemma resolve_complete:
  assumes "denotesRequest a m q"
  shows "resolveProjectMappingRequest (Some a) (Some m) = Inr q"
proof -
  have agree: "scopesAgree (q_AgentScope q) (q_Agent q) (q_Mapping q)"
    using assms unfolding denotesRequest_def requestWF_def by metis
  then consider "q_AgentScope q = agentScopeAccount" | "q_AgentScope q = agentScopeOrg"
    | "q_AgentScope q = agentScopeProject"
    by (auto simp: scopesAgree_def)
  then show ?thesis
  proof cases
    case 1
    with assms agree show ?thesis
      unfolding resolve_header [OF assms]
      by (simp add: denotesRequest_def resolveScopes_def scopesAgree_def)
  next
    case 2
    with assms agree show ?thesis
      unfolding resolve_header [OF assms]
      by (auto simp: denotesRequest_def resolveScopes_def scopesAgree_def targetAllowed_def)
  next
    case 3
    with assms agree show ?thesis
      unfolding resolve_header [OF assms]
      by (auto simp: denotesRequest_def resolveScopes_def scopesAgree_def targetAllowed_def Let_def)
  qed
qed

section \<open>Properties\<close>

text \<open>
  C19: resolution implements the scope table exactly. A pair of resources resolves to a request if
  and only if the request is the one the table denotes: same namespace and name, the existing
  Agent identifier before the registered one, ACCOUNT Agents map any organization and
  project, ORG Agents only projects of their organization, and PROJECT Agents only their own
  project; the request is then complete and trimmed.
\<close>

theorem resolve_iff_denotes:
  "resolveProjectMappingRequest (Some a) (Some m) = Inr q \<longleftrightarrow> denotesRequest a m q"
  using resolve_sound resolve_complete by blast

lemma resolve_requestWF:
  "resolveProjectMappingRequest (Some a) (Some m) = Inr q \<Longrightarrow> requestWF q"
  using resolve_sound by (simp add: denotesRequest_def)

end
