(* ===== verification/Go_Sort.thy ===== *)
theory Go_Sort
  imports Go_Prelude "HOL-Library.Product_Lexorder"
begin

text \<open>
  \<open>sort.Slice\<close> with a caller-supplied \<open>less\<close>. The contract of \<open>sort.Slice\<close> is the locale
  \<open>slice_order\<close> (a strict weak order gives a sorted permutation whose head is minimal); the
  locale \<open>keyed_order\<close> is the special case of a comparison by a linearly ordered key, which
  every comparison function of the operator turns out to be.
\<close>

section \<open>The routine\<close>

text \<open>
  Go leaves the order of elements that compare equal unspecified. The model is insertion
  sort; \<open>sortSlice_unique\<close> below shows where the choice of algorithm cannot matter.
\<close>

fun insertSlice :: "('a \<Rightarrow> 'a \<Rightarrow> bool) \<Rightarrow> 'a \<Rightarrow> 'a list \<Rightarrow> 'a list" where
  "insertSlice lt x [] = [x]"
| "insertSlice lt x (y # ys) =
     (if lt y x then y # insertSlice lt x ys else x # y # ys)"

definition sortSlice :: "('a \<Rightarrow> 'a \<Rightarrow> bool) \<Rightarrow> 'a list \<Rightarrow> 'a list" where
  "sortSlice lt xs = foldr (insertSlice lt) xs []"

lemma mset_insertSlice: "mset (insertSlice lt x xs) = add_mset x (mset xs)"
  by (induction xs) auto

lemma mset_sortSlice [simp]: "mset (sortSlice lt xs) = mset xs"
  by (induction xs) (auto simp: sortSlice_def mset_insertSlice)

lemma set_sortSlice [simp]: "set (sortSlice lt xs) = set xs"
  by (metis mset_sortSlice set_mset_mset)

lemma length_sortSlice [simp]: "length (sortSlice lt xs) = length xs"
  by (metis mset_sortSlice size_mset)

lemma sortSlice_eq_Nil [simp]: "sortSlice lt xs = [] \<longleftrightarrow> xs = []"
  by (metis length_0_conv length_sortSlice)

lemma set_insertSlice: "set (insertSlice lt x xs) = insert x (set xs)"
  by (induction xs) auto

section \<open>Strict weak orders\<close>

locale slice_order =
  fixes lt :: "'a \<Rightarrow> 'a \<Rightarrow> bool"
  assumes less_asym: "lt x y \<Longrightarrow> \<not> lt y x"
    and less_split: "lt x z \<Longrightarrow> lt x y \<or> lt y z"
begin

lemma not_less_trans: "\<not> lt y x \<Longrightarrow> \<not> lt z y \<Longrightarrow> \<not> lt z x"
  using less_split by blast

lemma insertSlice_sorted:
  "sorted_wrt (\<lambda>x y. \<not> lt y x) xs \<Longrightarrow> sorted_wrt (\<lambda>x y. \<not> lt y x) (insertSlice lt x xs)"
proof (induction xs)
  case Nil
  then show ?case by simp
next
  case (Cons y ys)
  show ?case
  proof (cases "lt y x")
    case True
    with Cons show ?thesis by (auto simp: set_insertSlice dest: less_asym)
  next
    case False
    with Cons.prems show ?thesis by auto (metis less_split)
  qed
qed

lemma sorted_slice: "sorted_wrt (\<lambda>x y. \<not> lt y x) (sortSlice lt xs)"
  by (induction xs) (auto simp: sortSlice_def insertSlice_sorted)

lemma less_irrefl: "\<not> lt x x"
  using less_asym by blast

text \<open>The first element of the sorted slice: no element comes before it.\<close>

lemma head_minimal:
  assumes "x \<in> set xs"
  shows "\<not> lt x (hd (sortSlice lt xs))"
proof -
  obtain y ys where s: "sortSlice lt xs = y # ys"
    using assms by (cases "sortSlice lt xs") auto
  have "x \<in> set (y # ys)" using assms s set_sortSlice [of lt xs] by simp
  moreover have "sorted_wrt (\<lambda>x y. \<not> lt y x) (y # ys)"
    using sorted_slice [of xs] s by simp
  ultimately show ?thesis using s less_irrefl by auto
qed

end

section \<open>Comparison by a key\<close>

locale keyed_order =
  fixes lt :: "'a \<Rightarrow> 'a \<Rightarrow> bool" and key :: "'a \<Rightarrow> 'k::linorder"
  assumes less_key: "lt x y \<longleftrightarrow> key x < key y"

sublocale keyed_order \<subseteq> slice_order lt
  by unfold_locales (auto simp: less_key)

context keyed_order
begin

lemma head_key_min: "x \<in> set xs \<Longrightarrow> key (hd (sortSlice lt xs)) \<le> key x"
  using head_minimal by (force simp: less_key)

lemma head_in: "xs \<noteq> [] \<Longrightarrow> hd (sortSlice lt xs) \<in> set xs"
  by (metis hd_in_set set_sortSlice sortSlice_eq_Nil)

lemma sorted_keys: "sorted (map key (sortSlice lt xs))"
  using sorted_slice [of xs] by (simp add: less_key sorted_map not_less)

text \<open>
  Where no two elements share a key, the sorted slice is determined: every sorted
  permutation of the input is the one the model computes.
\<close>

lemma sortSlice_unique:
  assumes "inj_on key (set xs)" and "mset ys = mset xs" and "sorted (map key ys)"
  shows "ys = sortSlice lt xs"
proof -
  have "mset (map key ys) = mset (map key (sortSlice lt xs))"
    using assms(2) by simp
  then have "map key ys = map key (sortSlice lt xs)"
    using assms(3) sorted_keys [of xs] by (metis properties_for_sort)
  moreover have "set ys \<union> set (sortSlice lt xs) = set xs"
    using assms(2) by (metis set_mset_mset set_sortSlice sup.idem)
  ultimately show ?thesis using assms(1) by (metis inj_on_map_eq_map)
qed

text \<open>The winner does not depend on the order in which the elements were collected.\<close>

lemma head_permutation:
  assumes "inj_on key (set xs)" and "set ys = set xs" and "xs \<noteq> []"
  shows "hd (sortSlice lt ys) = hd (sortSlice lt xs)"
proof -
  have ys: "ys \<noteq> []" using assms(2,3) by auto
  let ?x = "hd (sortSlice lt xs)" and ?y = "hd (sortSlice lt ys)"
  have "?x \<in> set xs" "?y \<in> set xs"
    using head_in [OF assms(3)] head_in [OF ys] assms(2) by auto
  then have "key ?x = key ?y"
    using head_key_min [of ?y xs] head_key_min [of ?x ys] assms(2) by force
  with assms(1) \<open>?x \<in> set xs\<close> \<open>?y \<in> set xs\<close> show ?thesis
    by (metis inj_onD)
qed

end

end
