(* ===== verification/Mapping_Kubernetes.thy ===== *)
theory Mapping_Kubernetes
  imports Mapping_Scope Go_Sort
begin

text \<open>
  \<open>internal/resource/projectmapping/kubernetes.go\<close>: the intervals of the Mapping controller and
  their validation, the AppProject existence check, the Agent-reference index and the
  requests an Agent event enqueues. Registration with the manager is not modelled.
\<close>

section \<open>Definitions\<close>

definition DefaultAppProjectPendingRetryInterval :: Duration where
  "DefaultAppProjectPendingRetryInterval = 20 * Second"

definition DefaultHarnessMappingResyncInterval :: Duration where
  "DefaultHarnessMappingResyncInterval = 5 * Minute"

definition MinimumMappingInterval :: Duration where
  "MinimumMappingInterval = Second"

definition immediateRequeueInterval :: Duration where
  "immediateRequeueInterval = Nanosecond"

lemmas interval_defs =
  DefaultAppProjectPendingRetryInterval_def DefaultHarnessMappingResyncInterval_def
  MinimumMappingInterval_def immediateRequeueInterval_def Second_def Minute_def Nanosecond_def

text \<open>\<open>MinimumMappingInterval\<close> prints as \<open>1s\<close>.\<close>

definition ValidateMappingIntervals :: "Duration \<Rightarrow> Duration \<Rightarrow> go_error option" where
  "ValidateMappingIntervals pendingRetry harnessResync =
     (if pendingRetry < MinimumMappingInterval then
        Some (ErrFmt ''appProject pending retry interval must be at least 1s'' [])
      else if harnessResync < MinimumMappingInterval then
        Some (ErrFmt ''harness mapping resync interval must be at least 1s'' [])
      else None)"

definition appProjectExists ::
  "Library \<Rightarrow> Reader \<Rightarrow> DynamicClient option \<Rightarrow> string \<Rightarrow> string \<Rightarrow> (go_error + bool) M" where
  "appProjectExists L reader dynamicClient namespace name =
     (case dynamicClient of
        Some dc \<Rightarrow> do {
          err \<leftarrow> DynamicGetAppProject dc (namespace, name);
          ret (case err of
                 None \<Rightarrow> Inr True
               | Some e \<Rightarrow>
                   if lib_IsNotFound L e then Inr False
                   else Inl (ErrFmt (''get AppProject '' @ namespace @ ''/'' @ name @ '': '' @ Error e) [e]))
        }
      | None \<Rightarrow> do {
          err \<leftarrow> GetAppProject reader (namespace, name);
          ret (case err of
                 None \<Rightarrow> Inr True
               | Some e \<Rightarrow>
                   if lib_IsNotFound L e then Inr False
                   else Inl (ErrFmt (''get AppProject '' @ namespace @ ''/'' @ name @ '': '' @ Error e) [e]))
        })"

text \<open>\<open>client.Object\<close> at the dynamic types the type assertions distinguish.\<close>

datatype ClientObject =
    AgentObject HarnessGitopsAgent
  | MappingObject HarnessGitopsProjectMapping
  | OtherObject

definition projectMappingAgentRefIndexValues :: "ClientObject \<Rightarrow> string list" where
  "projectMappingAgentRefIndexValues object =
     (case object of
        MappingObject mapping \<Rightarrow>
          (let agentName = TrimSpace (ref_Name (ms_AgentRef (m_Spec mapping))) in
           if agentName = '''' then [] else [agentName])
      | _ \<Rightarrow> [])"

definition requestLess :: "ObjectKey \<Rightarrow> ObjectKey \<Rightarrow> bool" where
  "requestLess left right =
     (if fst left \<noteq> fst right then fst left < fst right else snd left < snd right)"

definition objectKeyOf :: "HarnessGitopsProjectMapping \<Rightarrow> ObjectKey" where
  "objectKeyOf m = (Namespace (m_Meta m), Name (m_Meta m))"

definition agentToProjectMappingRequests :: "Client \<Rightarrow> ClientObject \<Rightarrow> ObjectKey list M" where
  "agentToProjectMappingRequests mappingClient object =
     (case object of
        AgentObject agent \<Rightarrow> do {
          listed \<leftarrow> ListMappingsByIndex mappingClient (Namespace (a_Meta agent)) (Name (a_Meta agent));
          ret (case listed of
                 Inl err \<Rightarrow> []
               | Inr mappings \<Rightarrow> sortSlice requestLess (map objectKeyOf mappings))
        }
      | _ \<Rightarrow> ret [])"

section \<open>Order of requests\<close>

interpretation request_order: keyed_order requestLess "\<lambda>key. key"
  by unfold_locales (auto simp: requestLess_def less_prod_def)

section \<open>The calls the existence check makes\<close>

fun isAppProjectRead :: "event \<Rightarrow> bool" where
  "isAppProjectRead (EvGetAppProject key x) = True"
| "isAppProjectRead _ = False"

lemma emits_appProjectExists: "emits isAppProjectRead (appProjectExists L rd dc ns n)"
  unfolding appProjectExists_def recorded_calls
  by (auto intro!: emits_intro split: option.splits)

lemmas grows_appProjectExists [simp] = emits_grows [OF emits_appProjectExists]

section \<open>Properties\<close>

text \<open>
  C29: an Agent event reaches exactly its Mappings. With an index that lists the stored Mappings of
  a namespace by their index values, the requests enqueued for an Agent are the keys of the
  Mappings of its namespace whose trimmed reference names it, in ascending order, each as
  often as it is stored.
\<close>

theorem agent_event_enqueues_its_mappings:
  assumes "cl_ListMappingsByIndex cl h (Namespace (a_Meta agent)) (Name (a_Meta agent)) =
      Inr (filter (\<lambda>m. Namespace (m_Meta m) = Namespace (a_Meta agent) \<and>
        Name (a_Meta agent) \<in> set (projectMappingAgentRefIndexValues (MappingObject m))) stored)"
    and "Name (a_Meta agent) \<noteq> ''''"
  shows "let requests = result (agentToProjectMappingRequests cl (AgentObject agent)) h in
    sorted requests \<and>
    mset requests = mset (map objectKeyOf (filter (\<lambda>m.
      Namespace (m_Meta m) = Namespace (a_Meta agent) \<and>
      TrimSpace (ref_Name (ms_AgentRef (m_Spec m))) = Name (a_Meta agent)) stored))"
proof -
  have "filter (\<lambda>m. Namespace (m_Meta m) = Namespace (a_Meta agent) \<and>
        Name (a_Meta agent) \<in> set (projectMappingAgentRefIndexValues (MappingObject m))) stored =
      filter (\<lambda>m. Namespace (m_Meta m) = Namespace (a_Meta agent) \<and>
        TrimSpace (ref_Name (ms_AgentRef (m_Spec m))) = Name (a_Meta agent)) stored"
    using assms(2) by (intro filter_cong) (auto simp: projectMappingAgentRefIndexValues_def Let_def)
  then show ?thesis
    using assms(1) request_order.sorted_keys
    by (simp add: agentToProjectMappingRequests_def ListMappingsByIndex_def result_bind Let_def)
qed

theorem agent_event_enqueues_its_mappings_witness:
  "let cl = sampleClient (sampleReader CachedClient [sampleAgent] [sampleMapping]) in
   mset (result (agentToProjectMappingRequests cl (AgentObject sampleAgent)) []) =
     {#(''ns'', ''map'')#}"
proof -
  let ?cl = "sampleClient (sampleReader CachedClient [sampleAgent] [sampleMapping])"
  have "cl_ListMappingsByIndex ?cl [] (Namespace (a_Meta sampleAgent)) (Name (a_Meta sampleAgent)) =
      Inr (filter (\<lambda>m. Namespace (m_Meta m) = Namespace (a_Meta sampleAgent) \<and>
        Name (a_Meta sampleAgent) \<in> set (projectMappingAgentRefIndexValues (MappingObject m)))
        [sampleMapping])"
    by (simp add: sample_defs projectMappingAgentRefIndexValues_def)
  moreover have "Name (a_Meta sampleAgent) \<noteq> ''''" by (simp add: sample_defs)
  ultimately have "mset (result (agentToProjectMappingRequests ?cl (AgentObject sampleAgent)) []) =
      mset (map objectKeyOf (filter (\<lambda>m.
      Namespace (m_Meta m) = Namespace (a_Meta sampleAgent) \<and>
      TrimSpace (ref_Name (ms_AgentRef (m_Spec m))) = Name (a_Meta sampleAgent)) [sampleMapping]))"
    using agent_event_enqueues_its_mappings [of ?cl "[]" sampleAgent "[sampleMapping]"]
    by (simp add: Let_def)
  then show ?thesis by (simp add: Let_def sample_defs objectKeyOf_def)
qed

end
