(* ===== verification/Resource_Finalizer.thy ===== *)
theory Resource_Finalizer
  imports Sample_World
begin

text \<open>
  \<open>internal/resource/finalizer.go\<close>: persisting a finalizer before any remote work and removing
  it after cleanup. The Go code is generic over \<open>client.Object\<close>; here the object is given by
  its access functions, and the two custom resources instantiate the contract.
\<close>

section \<open>Definitions\<close>

text \<open>The part of \<open>client.Object\<close> and \<open>client.Writer\<close> the two functions use.\<close>

record 'o ObjectWriter =
  ow_Finalizers :: "'o \<Rightarrow> string list"
  ow_SetFinalizers :: "string list \<Rightarrow> 'o \<Rightarrow> 'o"
  ow_Update :: "'o \<Rightarrow> (go_error + 'o) M"

text \<open>The result, whether the caller returns at once, and the error.\<close>

definition EnsureFinalizer ::
  "Library \<Rightarrow> 'o ObjectWriter \<Rightarrow> 'o \<Rightarrow> string \<Rightarrow> (Result \<times> bool \<times> go_error option) M" where
  "EnsureFinalizer L w object finalizer =
     (if lib_ContainsFinalizer L (ow_Finalizers w object) finalizer
      then ret (emptyResult, False, None)
      else do {
        updated \<leftarrow> ow_Update w
          (ow_SetFinalizers w (lib_AddFinalizer L (ow_Finalizers w object) finalizer) object);
        (case updated of
           Inl err \<Rightarrow> ret (emptyResult, True, Some err)
         | Inr object \<Rightarrow> ret (requeueAfter Nanosecond, True, None))
      })"

definition RemoveFinalizer ::
  "Library \<Rightarrow> 'o ObjectWriter \<Rightarrow> 'o \<Rightarrow> string \<Rightarrow> go_error option M" where
  "RemoveFinalizer L w object finalizer = do {
     updated \<leftarrow> ow_Update w
       (ow_SetFinalizers w (lib_RemoveFinalizer L (ow_Finalizers w object) finalizer) object);
     ret (case updated of Inl err \<Rightarrow> Some err | Inr object \<Rightarrow> None)
   }"

definition mappingWriter :: "Client \<Rightarrow> HarnessGitopsProjectMapping ObjectWriter" where
  "mappingWriter cl =
     \<lparr>ow_Finalizers = (\<lambda>m. Finalizers (m_Meta m)),
      ow_SetFinalizers = (\<lambda>fs m. m\<lparr>m_Meta := (m_Meta m)\<lparr>Finalizers := fs\<rparr>\<rparr>),
      ow_Update = UpdateMapping cl\<rparr>"

definition agentWriter :: "Client \<Rightarrow> HarnessGitopsAgent ObjectWriter" where
  "agentWriter cl =
     \<lparr>ow_Finalizers = (\<lambda>a. Finalizers (a_Meta a)),
      ow_SetFinalizers = (\<lambda>fs a. a\<lparr>a_Meta := (a_Meta a)\<lparr>Finalizers := fs\<rparr>\<rparr>),
      ow_Update = UpdateAgent cl\<rparr>"

section \<open>Contract\<close>

text \<open>
  What the functions rely on of an object: setting the finalizers is what reading them returns,
  and an update is one recorded call whose event determines the object sent.
\<close>

locale finalizer_object =
  fixes w :: "'o ObjectWriter" and ev :: "'o \<Rightarrow> (go_error + 'o) \<Rightarrow> event"
  assumes get_set: "ow_Finalizers w (ow_SetFinalizers w fs object) = fs"
    and one_update: "\<exists>answer. emitted (ow_Update w object) h = [ev object answer]
      \<and> result (ow_Update w object) h = answer"
    and update_grows: "grows (ow_Update w object)"
begin

text \<open>The events of the two functions, and what a nil error means.\<close>

lemma ensure_events:
  "emitted (EnsureFinalizer L w object f) h =
     (if lib_ContainsFinalizer L (ow_Finalizers w object) f then []
      else let sent = ow_SetFinalizers w (lib_AddFinalizer L (ow_Finalizers w object) f) object
           in [ev sent (result (ow_Update w sent) h)])"
proof -
  let ?sent = "ow_SetFinalizers w (lib_AddFinalizer L (ow_Finalizers w object) f) object"
  obtain answer where "emitted (ow_Update w ?sent) h = [ev ?sent answer]"
    "result (ow_Update w ?sent) h = answer"
    using one_update by blast
  then show ?thesis
    using update_grows [of ?sent]
    by (auto simp: EnsureFinalizer_def Let_def emitted_bind split: sum.splits)
qed

lemma ensure_done:
  "fst (snd (result (EnsureFinalizer L w object f) h)) \<longleftrightarrow>
     \<not> lib_ContainsFinalizer L (ow_Finalizers w object) f"
  using update_grows
  by (auto simp: EnsureFinalizer_def result_bind split: sum.splits)

lemma ensure_result:
  "lib_ContainsFinalizer L (ow_Finalizers w object) f \<Longrightarrow>
     EnsureFinalizer L w object f = ret (emptyResult, False, None)"
  by (simp add: EnsureFinalizer_def)

lemma remove_events:
  "emitted (RemoveFinalizer L w object f) h =
     (let sent = ow_SetFinalizers w (lib_RemoveFinalizer L (ow_Finalizers w object) f) object
      in [ev sent (result (ow_Update w sent) h)])"
proof -
  let ?sent = "ow_SetFinalizers w (lib_RemoveFinalizer L (ow_Finalizers w object) f) object"
  obtain answer where "emitted (ow_Update w ?sent) h = [ev ?sent answer]"
    "result (ow_Update w ?sent) h = answer"
    using one_update by blast
  then show ?thesis
    using update_grows [of ?sent] by (auto simp: RemoveFinalizer_def Let_def emitted_bind)
qed

lemma ensure_emits:
  assumes "\<And>answer. P (ev (ow_SetFinalizers w (lib_AddFinalizer L (ow_Finalizers w object) f) object) answer)"
  shows "emits P (EnsureFinalizer L w object f)"
proof -
  have "grows (EnsureFinalizer L w object f)"
    using update_grows
    by (auto simp: EnsureFinalizer_def grows_emits intro!: emits_intro)
  then show ?thesis using assms by (auto simp: emits_def ensure_events Let_def)
qed

lemma remove_emits:
  assumes "\<And>answer. P (ev (ow_SetFinalizers w (lib_RemoveFinalizer L (ow_Finalizers w object) f) object) answer)"
  shows "emits P (RemoveFinalizer L w object f)"
proof -
  have "grows (RemoveFinalizer L w object f)"
    using update_grows
    by (auto simp: RemoveFinalizer_def grows_emits intro!: emits_intro)
  then show ?thesis using assms by (auto simp: emits_def remove_events Let_def)
qed

end

interpretation mapping_finalizer: finalizer_object "mappingWriter cl" EvUpdateMapping
  by unfold_locales (simp_all add: mappingWriter_def UpdateMapping_def)

interpretation agent_finalizer: finalizer_object "agentWriter cl" EvUpdateAgent
  by unfold_locales (simp_all add: agentWriter_def UpdateAgent_def)

section \<open>Properties\<close>

text \<open>The documented behaviour of \<open>controllerutil\<close> on finalizer lists.\<close>

definition finalizerLaws :: "Library \<Rightarrow> bool" where
  "finalizerLaws L \<longleftrightarrow>
     (\<forall>fs f. lib_ContainsFinalizer L fs f \<longleftrightarrow> f \<in> set fs) \<and>
     (\<forall>fs f. set (lib_AddFinalizer L fs f) = insert f (set fs)) \<and>
     (\<forall>fs f. set (lib_RemoveFinalizer L fs f) = set fs - {f})"

text \<open>
  C27: the finalizer is durable before anything else happens. Reconciliation goes on in the same
  pass only when the object already carries the finalizer, and then nothing was written;
  otherwise the one call made is an update of the object with the finalizer added and all
  its other finalizers kept, and the pass ends.
\<close>

theorem ensure_finalizer_durable:
  assumes "finalizerLaws L"
  shows "let run = EnsureFinalizer L (mappingWriter cl) m f;
             (r, stop, err) = result run h
    in if f \<in> set (Finalizers (m_Meta m)) then emitted run h = [] \<and> \<not> stop \<and> err = None
       else stop \<and> (\<exists>sent answer. emitted run h = [EvUpdateMapping sent answer] \<and>
         set (Finalizers (m_Meta sent)) = insert f (set (Finalizers (m_Meta m))) \<and>
         m_Spec sent = m_Spec m \<and> m_Status sent = m_Status m \<and>
         (err = None \<longleftrightarrow> (\<exists>stored. answer = Inr stored)))"
  using assms
  by (auto simp: finalizerLaws_def EnsureFinalizer_def mappingWriter_def UpdateMapping_def
      result_bind emitted_bind Let_def split: prod.splits sum.splits)

theorem ensure_finalizer_durable_witness:
  "finalizerLaws (sampleLibrary absentAPI) \<and>
   emitted (EnsureFinalizer (sampleLibrary absentAPI) (mappingWriter (sampleClient (sampleReader CachedClient [] [])))
     sampleMapping ''fin'') [] \<noteq> []"
proof -
  have laws: "finalizerLaws (sampleLibrary absentAPI)"
    by (auto simp: finalizerLaws_def sampleLibrary_def)
  have "''fin'' \<notin> set (Finalizers (m_Meta sampleMapping))"
    by (simp add: sampleMapping_def sampleMeta_def)
  with ensure_finalizer_durable [OF laws,
      of "sampleClient (sampleReader CachedClient [] [])" sampleMapping "''fin''" "[]"] laws
  show ?thesis by (auto simp: Let_def split: prod.splits)
qed

end
