(* ===== verification/Mapping_State.thy ===== *)
theory Mapping_State
  imports Mapping_Kubernetes Resource_Finalizer
begin

text \<open>
  \<open>internal/resource/projectmapping/state.go\<close> and the reconciler's type and constants: selecting
  the remote row a Mapping is about, the remote snapshots stored in its status, and the
  status writes.
\<close>

section \<open>The reconciler\<close>

text \<open>\<open>Reconciler\<close> of \<open>reconciler.go\<close>; \<open>rc_mappingAPI\<close> and \<open>rc_appProjectClient\<close> may be nil.\<close>

record Reconciler =
  rc_Client :: Client
  rc_APIReader :: "Reader option"
  rc_APIKeySecretNamespace :: string
  rc_AppProjectPendingRetryInterval :: Duration
  rc_HarnessMappingResyncInterval :: Duration
  rc_mappingAPI :: "mappingReconcileAPI option"
  rc_appProjectClient :: "DynamicClient option"

definition harnessProjectMappingFinalizer :: string where
  "harnessProjectMappingFinalizer = ''infrastructure.harness.io/project-mapping-finalizer''"

abbreviation projectMappingReadyCondition :: string where
  "projectMappingReadyCondition \<equiv> ''Ready''"

section \<open>Selecting a row\<close>

record projectMappingSelection =
  sel_mapping :: "ProjectMapping option"
  sel_conflict :: bool
  sel_adoptConflict :: bool
  sel_duplicate :: bool

definition emptySelection :: projectMappingSelection where
  "emptySelection =
     \<lparr>sel_mapping = None, sel_conflict = False, sel_adoptConflict = False, sel_duplicate = False\<rparr>"

definition isDeletionOwnership :: "ResourceOwnership \<Rightarrow> bool" where
  "isDeletionOwnership ownership \<longleftrightarrow>
     ownership = OwnershipManaged \<or> ownership = OwnershipAdopted"

definition isUncertainCreationState :: "MappingCreationState \<Rightarrow> bool" where
  "isUncertainCreationState state \<longleftrightarrow>
     state = MappingCreationPending \<or> state = MappingCreationOutcomeUnknown"

definition projectMappingMatches :: "ProjectMapping \<Rightarrow> ProjectMappingRequest \<Rightarrow> bool" where
  "projectMappingMatches mapping request \<longleftrightarrow>
     TrimSpace (pm_Identifier mapping) \<noteq> '''' \<and>
     IdentifiersEquivalent (q_AgentScope request) (pm_AgentIdentifier mapping)
       (q_AgentIdentifier request) \<and>
     TrimSpace (pm_AccountIdentifier mapping) = TrimSpace (q_AccountIdentifier request) \<and>
     TrimSpace (pm_OrgIdentifier mapping) = TrimSpace (sc_OrgIdentifier (q_Mapping request)) \<and>
     TrimSpace (pm_ProjectIdentifier mapping) = TrimSpace (sc_ProjectIdentifier (q_Mapping request)) \<and>
     TrimSpace (pm_ArgoProjectName mapping) = TrimSpace (q_ArgoProjectName request) \<and>
     pm_AutoCreateServiceEnv mapping = q_AutoCreateServiceEnv request"

definition projectMappingWithID :: "ProjectMapping list \<Rightarrow> string \<Rightarrow> ProjectMapping option" where
  "projectMappingWithID mappings mappingID =
     (if mappingID = '''' then None
      else find (\<lambda>mapping. TrimSpace (pm_Identifier mapping) = mappingID) mappings)"

text \<open>The remembered ID and ownership, zero where there is no remote status.\<close>

definition rememberedIDOf :: "HarnessGitopsProjectMapping \<Rightarrow> string" where
  "rememberedIDOf resource =
     (case mst_Remote (m_Status resource) of None \<Rightarrow> '''' | Some r \<Rightarrow> TrimSpace (r_MappingID r))"

definition rememberedOwnershipOf :: "HarnessGitopsProjectMapping \<Rightarrow> ResourceOwnership" where
  "rememberedOwnershipOf resource =
     (case mst_Remote (m_Status resource) of None \<Rightarrow> OwnershipUnset | Some r \<Rightarrow> r_Ownership r)"

text \<open>
  The loop over the listed rows. Its state is the exact rows in order and the three flags
  \<open>rememberedOwnedMismatch\<close>, \<open>conflict\<close> and \<open>adoptConflict\<close>.
\<close>

record selectionScan =
  scan_exact :: "ProjectMapping list"
  scan_ownedMismatch :: bool
  scan_conflict :: bool
  scan_adoptConflict :: bool

definition scanStep ::
  "ProjectMappingRequest \<Rightarrow> bool \<Rightarrow> string \<Rightarrow> string \<Rightarrow> ProjectMapping \<Rightarrow> selectionScan \<Rightarrow> selectionScan" where
  "scanStep request rememberedOwned rememberedID adoptID mapping scan =
     (let scan =
        (if rememberedOwned \<and> TrimSpace (pm_Identifier mapping) = rememberedID \<and>
            \<not> projectMappingMatches mapping request
         then scan\<lparr>scan_ownedMismatch := True\<rparr> else scan)
      in
      if TrimSpace (pm_ArgoProjectName mapping) \<noteq> TrimSpace (q_ArgoProjectName request) then scan
      else if projectMappingMatches mapping request
      then scan\<lparr>scan_exact := scan_exact scan @ [mapping]\<rparr>
      else
        (let scan = scan\<lparr>scan_conflict := True\<rparr> in
         if adoptID \<noteq> '''' \<and> TrimSpace (pm_Identifier mapping) = adoptID
         then scan\<lparr>scan_adoptConflict := True\<rparr> else scan))"

definition scanMappings ::
  "ProjectMapping list \<Rightarrow> ProjectMappingRequest \<Rightarrow> bool \<Rightarrow> string \<Rightarrow> string \<Rightarrow> selectionScan" where
  "scanMappings mappings request rememberedOwned rememberedID adoptID =
     fold (scanStep request rememberedOwned rememberedID adoptID) mappings
       \<lparr>scan_exact = [], scan_ownedMismatch = False, scan_conflict = False, scan_adoptConflict = False\<rparr>"

definition selectProjectMapping ::
  "ProjectMapping list \<Rightarrow> ProjectMappingRequest \<Rightarrow> HarnessGitopsProjectMapping \<Rightarrow> projectMappingSelection" where
  "selectProjectMapping mappings request resource =
     (let rememberedID = rememberedIDOf resource;
          rememberedOwnership = rememberedOwnershipOf resource;
          rememberedOwned = (rememberedID \<noteq> '''' \<and> isDeletionOwnership rememberedOwnership);
          adoptID = TrimSpace (ms_AdoptMappingID (m_Spec resource));
          scan = scanMappings mappings request rememberedOwned rememberedID adoptID;
          exact = scan_exact scan;
          conflict = scan_conflict scan;
          adoptConflict = scan_adoptConflict scan
      in
      if scan_ownedMismatch scan then emptySelection\<lparr>sel_conflict := True\<rparr>
      else if length exact = 0 then
        emptySelection\<lparr>sel_conflict := conflict, sel_adoptConflict := adoptConflict\<rparr>
      else
        (let rememberedHasPriority =
               (rememberedID \<noteq> '''' \<and>
                (isDeletionOwnership rememberedOwnership \<or>
                 isUncertainCreationState (mst_CreationState (m_Status resource))));
             final =
               (case projectMappingWithID exact rememberedID of
                  Some selected \<Rightarrow> emptySelection\<lparr>sel_mapping := Some selected\<rparr>
                | None \<Rightarrow>
                    if length exact = 1 then emptySelection\<lparr>sel_mapping := Some (exact ! 0)\<rparr>
                    else emptySelection\<lparr>sel_conflict := conflict, sel_adoptConflict := adoptConflict,
                      sel_duplicate := True\<rparr>);
             afterPriority =
               (if adoptID \<noteq> '''' then
                  (case projectMappingWithID exact adoptID of
                     Some selected \<Rightarrow> emptySelection\<lparr>sel_mapping := Some selected\<rparr>
                   | None \<Rightarrow> final)
                else final)
         in
         if rememberedHasPriority then
           (case projectMappingWithID exact rememberedID of
              Some selected \<Rightarrow> emptySelection\<lparr>sel_mapping := Some selected\<rparr>
            | None \<Rightarrow> afterPriority)
         else afterPriority))"

section \<open>Remote snapshots\<close>

definition remoteStatusForRequest ::
  "ProjectMappingRequest \<Rightarrow> HarnessGitopsProjectMappingRemoteStatus" where
  "remoteStatusForRequest request =
     \<lparr>r_MappingID = '''', r_Ownership = OwnershipUnset,
      r_Agent =
        \<lparr>ra_Identifier = TrimSpace (q_AgentIdentifier request),
         ra_AccountID = TrimSpace (q_AccountIdentifier request),
         ra_Scope = ToUpper (TrimSpace (q_AgentScope request)),
         ra_OrgID = TrimSpace (sc_OrgIdentifier (q_Agent request)),
         ra_ProjectID = TrimSpace (sc_ProjectIdentifier (q_Agent request))\<rparr>,
      r_Target =
        \<lparr>rt_OrgID = TrimSpace (sc_OrgIdentifier (q_Mapping request)),
         rt_ProjectID = TrimSpace (sc_ProjectIdentifier (q_Mapping request)),
         rt_AppProject = TrimSpace (q_ArgoProjectName request),
         rt_AutoCreateServiceEnv = q_AutoCreateServiceEnv request\<rparr>\<rparr>"

definition remoteStatusForObserved ::
  "ProjectMappingRequest \<Rightarrow> ProjectMapping \<Rightarrow> HarnessGitopsProjectMappingRemoteStatus" where
  "remoteStatusForObserved request mapping =
     (let remote = (remoteStatusForRequest request)\<lparr>r_MappingID := TrimSpace (pm_Identifier mapping)\<rparr>;
          agentID = TrimSpace (pm_AgentIdentifier mapping)
      in if agentID \<noteq> '''' then remote\<lparr>r_Agent := (r_Agent remote)\<lparr>ra_Identifier := agentID\<rparr>\<rparr>
         else remote)"

definition unresolvedRemoteStatus ::
  "HarnessGitopsProjectMappingRemoteStatus option \<Rightarrow> ProjectMappingRequest \<Rightarrow>
     HarnessGitopsProjectMappingRemoteStatus" where
  "unresolvedRemoteStatus current request =
     (case current of
        None \<Rightarrow> remoteStatusForRequest request
      | Some remote \<Rightarrow> remote\<lparr>r_Ownership := OwnershipUnset\<rparr>)"

definition preserveMappingFailureState ::
  "HarnessGitopsProjectMappingStatus \<Rightarrow> ProjectMappingRequest \<Rightarrow> MappingCreationState \<Rightarrow>
     HarnessGitopsProjectMappingStatus" where
  "preserveMappingFailureState status request startedCreationState =
     (if (case mst_Remote status of None \<Rightarrow> False | Some r \<Rightarrow> isDeletionOwnership (r_Ownership r))
      then status
      else if isUncertainCreationState startedCreationState then
        status\<lparr>mst_CreationState := MappingCreationOutcomeUnknown,
          mst_Remote := Some (unresolvedRemoteStatus (mst_Remote status) request)\<rparr>
      else
        status\<lparr>mst_CreationState := MappingCreationUnset,
          mst_Remote := Some (remoteStatusForRequest request)\<rparr>)"

section \<open>Status writes\<close>

type_synonym mutation =
  "(HarnessGitopsProjectMappingStatus \<Rightarrow> HarnessGitopsProjectMappingStatus) option"

text \<open>The status \<open>setReady\<close> computes, at the given time.\<close>

definition readyStatus ::
  "Library \<Rightarrow> Time \<Rightarrow> HarnessGitopsProjectMapping \<Rightarrow> ConditionStatus \<Rightarrow> string \<Rightarrow> string \<Rightarrow>
     mutation \<Rightarrow> HarnessGitopsProjectMappingStatus" where
  "readyStatus L now mapping conditionStatus reason message mutate =
     (let status = (case mutate of None \<Rightarrow> m_Status mapping | Some f \<Rightarrow> f (m_Status mapping));
          status = status\<lparr>mst_ObservedGeneration := Generation (m_Meta mapping)\<rparr>
      in status\<lparr>mst_Conditions :=
           lib_SetStatusCondition L now (mst_Conditions status)
             \<lparr>c_Type = projectMappingReadyCondition, c_Status = conditionStatus,
              c_ObservedGeneration = Generation (m_Meta mapping), c_LastTransitionTime = 0,
              c_Reason = reason, c_Message = message\<rparr>\<rparr>)"

text \<open>
  \<open>setReady\<close> returns its error and the caller's object as it leaves it: mutated, and decoded
  from the server's answer when an update succeeded.
\<close>

definition setReady ::
  "Library \<Rightarrow> Reconciler \<Rightarrow> HarnessGitopsProjectMapping \<Rightarrow> ConditionStatus \<Rightarrow> string \<Rightarrow> string \<Rightarrow>
     mutation \<Rightarrow> (go_error option \<times> HarnessGitopsProjectMapping) M" where
  "setReady L r mapping conditionStatus reason message mutate = do {
     now \<leftarrow> peek (lib_Now L);
     let before = m_Status mapping;
     let mapping = mapping\<lparr>m_Status :=
           readyStatus L now mapping conditionStatus reason message mutate\<rparr>;
     (if before = m_Status mapping then ret (None, mapping)
      else do {
        updated \<leftarrow> UpdateMappingStatus (rc_Client r) mapping;
        ret (case updated of
               Inl err \<Rightarrow> (Some err, mapping)
             | Inr stored \<Rightarrow> (None, stored))
      })
   }"

definition returnAPIError ::
  "Library \<Rightarrow> Reconciler \<Rightarrow> HarnessGitopsProjectMapping \<Rightarrow> string \<Rightarrow> go_error \<Rightarrow>
     (Result \<times> go_error option) M" where
  "returnAPIError L r mapping message err = do {
     (statusErr, mapping) \<leftarrow>
       setReady L r mapping ConditionFalse ''VerificationFailed'' message None;
     ret (emptyResult, errorsJoin (Some err) statusErr)
   }"

definition apiReader :: "Reconciler \<Rightarrow> Reader" where
  "apiReader r = (case rc_APIReader r of Some rd \<Rightarrow> rd | None \<Rightarrow> cl_Reader (rc_Client r))"

definition sessionForAgent ::
  "Library \<Rightarrow> Reconciler \<Rightarrow> HarnessGitopsAgent \<Rightarrow> (go_error + Session) M" where
  "sessionForAgent L r agent =
     (let secretNamespace = TrimSpace (rc_APIKeySecretNamespace r);
          secretNamespace =
            (if secretNamespace = '''' then Namespace (a_Meta agent) else secretNamespace)
      in SessionFromSecret L (Some (apiReader r))
           (secretNamespace, as_ApiKeySecretRef (a_Spec agent)))"

definition projectMappingAPI :: "Reconciler \<Rightarrow> mappingReconcileAPI" where
  "projectMappingAPI r =
     (case rc_mappingAPI r of Some api \<Rightarrow> api | None \<Rightarrow> SDKProjectMappingAPI)"

definition pendingRetryInterval :: "Reconciler \<Rightarrow> Duration" where
  "pendingRetryInterval r =
     (if rc_AppProjectPendingRetryInterval r > 0 then rc_AppProjectPendingRetryInterval r
      else DefaultAppProjectPendingRetryInterval)"

definition resyncInterval :: "Reconciler \<Rightarrow> Duration" where
  "resyncInterval r =
     (if rc_HarnessMappingResyncInterval r > 0 then rc_HarnessMappingResyncInterval r
      else DefaultHarnessMappingResyncInterval)"

section \<open>Events of status writes\<close>

fun isStatusWrite :: "event \<Rightarrow> bool" where
  "isStatusWrite (EvUpdateMappingStatus m x) = True"
| "isStatusWrite _ = False"

text \<open>A status write of the given resource with a given status, up to the Ready condition and the
  observed generation.\<close>

definition remoteState ::
  "HarnessGitopsProjectMappingStatus \<Rightarrow>
     MappingCreationState \<times> HarnessGitopsProjectMappingRemoteStatus option" where
  "remoteState s = (mst_CreationState s, mst_Remote s)"

definition mutated :: "mutation \<Rightarrow> HarnessGitopsProjectMappingStatus \<Rightarrow> HarnessGitopsProjectMappingStatus" where
  "mutated mutate s = (case mutate of None \<Rightarrow> s | Some f \<Rightarrow> f s)"

fun writesRemoteState ::
  "HarnessGitopsProjectMapping \<Rightarrow>
     MappingCreationState \<times> HarnessGitopsProjectMappingRemoteStatus option \<Rightarrow> event \<Rightarrow> bool" where
  "writesRemoteState m st (EvUpdateMappingStatus m' x) \<longleftrightarrow>
     m_Meta m' = m_Meta m \<and> m_Spec m' = m_Spec m \<and> remoteState (m_Status m') = st"
| "writesRemoteState m st _ \<longleftrightarrow> False"

lemma remoteState_readyStatus [simp]:
  "remoteState (readyStatus L now m cs reason msg mutate) = remoteState (mutated mutate (m_Status m))"
  by (simp add: readyStatus_def remoteState_def mutated_def Let_def split: option.split)

lemma emits_setReady:
  "emits (writesRemoteState m (remoteState (mutated mutate (m_Status m))))
     (setReady L r m cs reason msg mutate)"
  unfolding setReady_def recorded_calls
  by (auto intro!: emits_intro)

lemmas grows_setReady [simp] = emits_grows [OF emits_setReady]

lemma setReady_status_writes: "emits isStatusWrite (setReady L r m cs reason msg mutate)"
  by (rule emits_mono [OF emits_setReady]) (auto elim: writesRemoteState.elims)

text \<open>
  What a nil error of \<open>setReady\<close> means when the remote state changes: the write was sent and the
  server accepted it.
\<close>

lemma setReady_persisted:
  assumes "result (setReady L r m cs reason msg mutate) h = (None, m')"
    and "remoteState (mutated mutate (m_Status m)) \<noteq> remoteState (m_Status m)"
  shows "\<exists>sent stored. emitted (setReady L r m cs reason msg mutate) h =
      [EvUpdateMappingStatus sent (Inr stored)] \<and> m' = stored \<and>
    m_Meta sent = m_Meta m \<and> m_Spec sent = m_Spec m \<and>
    remoteState (m_Status sent) = remoteState (mutated mutate (m_Status m))"
proof -
  let ?s = "readyStatus L (lib_Now L h) m cs reason msg mutate"
  have "remoteState ?s = remoteState (mutated mutate (m_Status m))" by simp
  then have "m_Status m \<noteq> ?s" using assms(2) by metis
  with assms(1) show ?thesis
    by (auto simp: setReady_def UpdateMappingStatus_def result_bind emitted_bind Let_def
        split: sum.splits)
qed

text \<open>
  A condition is reported by the given calls: the resource's status with the observed generation
  and the Ready condition set, and nothing else changed, is written once; or no write is
  needed because the status is that already. It is stored when the server accepted the write.
\<close>

definition withReady ::
  "Library \<Rightarrow> Time \<Rightarrow> HarnessGitopsProjectMapping \<Rightarrow> ConditionStatus \<Rightarrow> string \<Rightarrow> string \<Rightarrow>
     HarnessGitopsProjectMapping" where
  "withReady L now m conditionStatus reason message =
     m\<lparr>m_Status := (m_Status m)
       \<lparr>mst_ObservedGeneration := Generation (m_Meta m),
        mst_Conditions := lib_SetStatusCondition L now (mst_Conditions (m_Status m))
          \<lparr>c_Type = ''Ready'', c_Status = conditionStatus,
           c_ObservedGeneration = Generation (m_Meta m), c_LastTransitionTime = 0,
           c_Reason = reason, c_Message = message\<rparr>\<rparr>\<rparr>"

definition conditionReported ::
  "Library \<Rightarrow> HarnessGitopsProjectMapping \<Rightarrow> ConditionStatus \<Rightarrow> string \<Rightarrow> string \<Rightarrow> history \<Rightarrow> bool" where
  "conditionReported L m conditionStatus reason message es \<longleftrightarrow>
     (\<exists>now. let reported = withReady L now m conditionStatus reason message in
        es = [] \<and> reported = m \<or> (\<exists>answer. es = [EvUpdateMappingStatus reported answer]))"

fun statusStored :: "event \<Rightarrow> bool" where
  "statusStored (EvUpdateMappingStatus m (Inr stored)) = True"
| "statusStored _ = False"

definition conditionStored ::
  "Library \<Rightarrow> HarnessGitopsProjectMapping \<Rightarrow> ConditionStatus \<Rightarrow> string \<Rightarrow> string \<Rightarrow> history \<Rightarrow> bool" where
  "conditionStored L m conditionStatus reason message es \<longleftrightarrow>
     conditionReported L m conditionStatus reason message es \<and> list_all statusStored es"

lemma withReady_status:
  "withReady L now m cs reason msg = m\<lparr>m_Status := readyStatus L now m cs reason msg None\<rparr>"
  by (simp add: withReady_def readyStatus_def Let_def)

lemma setReady_reports:
  "conditionReported L m cs reason msg (emitted (setReady L r m cs reason msg None) h)"
proof -
  let ?s = "readyStatus L (lib_Now L h) m cs reason msg None"
  have "m_Status m = ?s \<Longrightarrow> m\<lparr>m_Status := ?s\<rparr> = m" by (metis HarnessGitopsProjectMapping.surjective HarnessGitopsProjectMapping.update_convs(3))
  then show ?thesis
    unfolding conditionReported_def withReady_status Let_def
    by (intro exI [of _ "lib_Now L h"])
      (auto simp: setReady_def UpdateMappingStatus_def emitted_bind Let_def)
qed

lemma setReady_stores:
  assumes "fst (result (setReady L r m cs reason msg None) h) = None"
  shows "conditionStored L m cs reason msg (emitted (setReady L r m cs reason msg None) h)"
  unfolding conditionStored_def using setReady_reports assms
  by (auto simp: setReady_def UpdateMappingStatus_def result_bind emitted_bind Let_def
      split: sum.splits)

lemma emits_returnAPIError:
  "emits (writesRemoteState m (remoteState (m_Status m))) (returnAPIError L r m msg err)"
  unfolding returnAPIError_def
  by (intro emits_intro) (use emits_setReady [where mutate = None] in \<open>simp_all add: mutated_def\<close>)

lemmas grows_returnAPIError [simp] = emits_grows [OF emits_returnAPIError]

lemma emits_sessionForAgent: "emits isSecretRead (sessionForAgent L r a)"
  by (simp add: sessionForAgent_def Let_def emits_SessionFromSecret)

lemmas grows_sessionForAgent [simp] = emits_grows [OF emits_sessionForAgent]

section \<open>Selection\<close>

lemma projectMappingWithID_Some:
  "projectMappingWithID ms i = Some m \<Longrightarrow> m \<in> set ms \<and> TrimSpace (pm_Identifier m) = i \<and> i \<noteq> ''''"
  by (auto simp: projectMappingWithID_def find_Some_iff split: if_splits)

lemma projectMappingWithID_None:
  "projectMappingWithID ms i = None \<longleftrightarrow> i = '''' \<or> (\<forall>m\<in>set ms. TrimSpace (pm_Identifier m) \<noteq> i)"
  by (auto simp: projectMappingWithID_def find_None_iff)

text \<open>The loop in closed form.\<close>

definition sameAppProject :: "ProjectMappingRequest \<Rightarrow> ProjectMapping \<Rightarrow> bool" where
  "sameAppProject q m \<longleftrightarrow> TrimSpace (pm_ArgoProjectName m) = TrimSpace (q_ArgoProjectName q)"

lemma matches_sameAppProject: "projectMappingMatches m q \<Longrightarrow> sameAppProject q m"
  by (simp add: projectMappingMatches_def sameAppProject_def)

lemma scan_fold:
  "fold (scanStep q owned rid aid) ms sc =
     \<lparr>scan_exact = scan_exact sc @ filter (\<lambda>m. projectMappingMatches m q) ms,
      scan_ownedMismatch = (scan_ownedMismatch sc \<or>
        list_ex (\<lambda>m. owned \<and> TrimSpace (pm_Identifier m) = rid \<and> \<not> projectMappingMatches m q) ms),
      scan_conflict = (scan_conflict sc \<or>
        list_ex (\<lambda>m. sameAppProject q m \<and> \<not> projectMappingMatches m q) ms),
      scan_adoptConflict = (scan_adoptConflict sc \<or>
        list_ex (\<lambda>m. sameAppProject q m \<and> \<not> projectMappingMatches m q \<and>
          aid \<noteq> '''' \<and> TrimSpace (pm_Identifier m) = aid) ms)\<rparr>"
proof (induction ms arbitrary: sc)
  case Nil
  then show ?case by simp
next
  case (Cons m ms)
  have "scanStep q owned rid aid m sc =
     \<lparr>scan_exact = scan_exact sc @ filter (\<lambda>m. projectMappingMatches m q) [m],
      scan_ownedMismatch = (scan_ownedMismatch sc \<or>
        (owned \<and> TrimSpace (pm_Identifier m) = rid \<and> \<not> projectMappingMatches m q)),
      scan_conflict = (scan_conflict sc \<or> (sameAppProject q m \<and> \<not> projectMappingMatches m q)),
      scan_adoptConflict = (scan_adoptConflict sc \<or>
        (sameAppProject q m \<and> \<not> projectMappingMatches m q \<and>
          aid \<noteq> '''' \<and> TrimSpace (pm_Identifier m) = aid))\<rparr>"
    using matches_sameAppProject [of m q]
    by (cases sc) (auto simp: scanStep_def Let_def sameAppProject_def)
  then show ?case by (simp add: Cons.IH disj_assoc)
qed

lemmas scanMappings_eq = scanMappings_def scan_fold

text \<open>Rows with the remembered owned ID whose tuple drifted.\<close>

definition ownedDrift ::
  "ProjectMapping list \<Rightarrow> ProjectMappingRequest \<Rightarrow> HarnessGitopsProjectMapping \<Rightarrow> bool" where
  "ownedDrift rows q m \<longleftrightarrow>
     rememberedIDOf m \<noteq> '''' \<and> isDeletionOwnership (rememberedOwnershipOf m) \<and>
     list_ex (\<lambda>row. TrimSpace (pm_Identifier row) = rememberedIDOf m \<and>
       \<not> projectMappingMatches row q) rows"

lemma select_drift:
  "ownedDrift rows q m \<Longrightarrow>
     selectProjectMapping rows q m = emptySelection\<lparr>sel_conflict := True\<rparr>"
  by (auto simp: selectProjectMapping_def scanMappings_eq ownedDrift_def Let_def list_ex_iff)

lemma ownedDrift_scan:
  "list_ex (\<lambda>row. (rememberedIDOf m \<noteq> '''' \<and> isDeletionOwnership (rememberedOwnershipOf m)) \<and>
       TrimSpace (pm_Identifier row) = rememberedIDOf m \<and> \<not> projectMappingMatches row q) rows \<longleftrightarrow>
     ownedDrift rows q m"
  by (auto simp: ownedDrift_def list_ex_iff)

text \<open>What a selected row is.\<close>

lemma select_Some:
  assumes "sel_mapping (selectProjectMapping rows q m) = Some row"
  shows "row \<in> set rows" and "projectMappingMatches row q" and "\<not> ownedDrift rows q m"
    and "TrimSpace (pm_Identifier row) = rememberedIDOf m \<or>
      TrimSpace (pm_Identifier row) = TrimSpace (ms_AdoptMappingID (m_Spec m)) \<or>
      filter (\<lambda>row. projectMappingMatches row q) rows = [row]"
proof -
  let ?exact = "filter (\<lambda>row. projectMappingMatches row q) rows"
  let ?rid = "rememberedIDOf m" and ?aid = "TrimSpace (ms_AdoptMappingID (m_Spec m))"
  show "\<not> ownedDrift rows q m"
    using assms select_drift [of rows q m] by (auto simp: emptySelection_def)
  from assms have "projectMappingWithID ?exact ?rid = Some row \<or>
      projectMappingWithID ?exact ?aid = Some row \<or> ?exact = [row]"
    unfolding selectProjectMapping_def scanMappings_eq Let_def
    by (auto simp: emptySelection_def length_Suc_conv split: if_splits option.splits)
  then have "row \<in> set ?exact \<and> (TrimSpace (pm_Identifier row) = ?rid \<or>
      TrimSpace (pm_Identifier row) = ?aid \<or> ?exact = [row])"
    by (metis list.set_intros(1) projectMappingWithID_Some)
  then show "row \<in> set rows" "projectMappingMatches row q"
    "TrimSpace (pm_Identifier row) = ?rid \<or> TrimSpace (pm_Identifier row) = ?aid \<or> ?exact = [row]"
    by auto
qed

lemma select_None:
  assumes "sel_mapping (selectProjectMapping rows q m) = None"
    and "\<not> sel_duplicate (selectProjectMapping rows q m)"
    and "\<not> sel_conflict (selectProjectMapping rows q m)"
  shows "list_all (\<lambda>row. \<not> sameAppProject q row) rows"
proof -
  have "\<not> ownedDrift rows q m"
    using assms(3) select_drift [of rows q m] by auto
  with assms show ?thesis
    unfolding selectProjectMapping_def scanMappings_eq Let_def
    by (auto simp: emptySelection_def ownedDrift_scan list_ex_iff list_all_iff filter_empty_conv
        split: if_splits option.splits)
qed

section \<open>Properties\<close>

text \<open>
  C17: the selected row is never a guess. A row is selected only when it was listed, matches the
  complete desired tuple, and is the remembered row, the row the user asked to adopt, or the
  only exact row; and where nothing is selected and neither a conflict nor a duplicate is
  reported, no listed row is for the requested AppProject at all, so that creating one
  cannot duplicate it.
\<close>

theorem selection_sound:
  "let sel = selectProjectMapping rows q m; exact = filter (\<lambda>row. projectMappingMatches row q) rows in
   case sel_mapping sel of
     Some row \<Rightarrow> row \<in> set exact \<and>
       (TrimSpace (pm_Identifier row) = rememberedIDOf m \<or>
        TrimSpace (pm_Identifier row) = TrimSpace (ms_AdoptMappingID (m_Spec m)) \<or> exact = [row])
   | None \<Rightarrow> sel_duplicate sel \<or> sel_conflict sel \<or>
       list_all (\<lambda>row. TrimSpace (pm_ArgoProjectName row) \<noteq> TrimSpace (q_ArgoProjectName q)) rows"
proof (cases "sel_mapping (selectProjectMapping rows q m)")
  case None
  then show ?thesis
    using select_None [OF None] by (auto simp: sameAppProject_def Let_def)
next
  case (Some row)
  then show ?thesis using select_Some [OF Some] by (simp add: Let_def)
qed

text \<open>
  C18: selection never loses an owned row. When the status records an owned mapping ID and Harness
  lists a row with that ID, then either every such row still matches the desired tuple and a
  row with that ID is selected, whatever other exact rows and adoption input say, or the
  selection is a conflict with nothing selected, so that a replacement row cannot hide the
  drifted one.
\<close>

theorem selection_keeps_owned:
  assumes "rememberedIDOf m \<noteq> ''''" and "isDeletionOwnership (rememberedOwnershipOf m)"
    and "row \<in> set rows" and "TrimSpace (pm_Identifier row) = rememberedIDOf m"
  shows "let sel = selectProjectMapping rows q m in
    (\<exists>chosen. sel_mapping sel = Some chosen \<and> TrimSpace (pm_Identifier chosen) = rememberedIDOf m) \<or>
    (sel_mapping sel = None \<and> sel_conflict sel \<and> ownedDrift rows q m)"
proof (cases "ownedDrift rows q m")
  case True
  then show ?thesis by (simp add: select_drift emptySelection_def)
next
  case False
  let ?exact = "filter (\<lambda>row. projectMappingMatches row q) rows"
  have mem: "row \<in> set ?exact"
    using False assms by (auto simp: ownedDrift_def list_ex_iff)
  then have "projectMappingWithID ?exact (rememberedIDOf m) \<noteq> None"
    using assms(1,4) by (auto simp: projectMappingWithID_None)
  then obtain chosen where c: "projectMappingWithID ?exact (rememberedIDOf m) = Some chosen"
    by auto
  have "?exact \<noteq> []" using mem by (metis empty_iff empty_set)
  then have "sel_mapping (selectProjectMapping rows q m) = Some chosen"
    using False assms(1,2) c
    unfolding selectProjectMapping_def scanMappings_eq Let_def
    by (simp add: emptySelection_def ownedDrift_def list_ex_iff)
  with projectMappingWithID_Some [OF c] show ?thesis by (simp add: Let_def)
qed

definition ownedMapping :: HarnessGitopsProjectMapping where
  "ownedMapping = sampleMapping\<lparr>m_Status := (m_Status sampleMapping)\<lparr>mst_Remote :=
     Some ((remoteStatusForRequest sampleRequest)\<lparr>r_MappingID := ''row1'', r_Ownership := OwnershipManaged\<rparr>)\<rparr>\<rparr>"

theorem selection_keeps_owned_witness:
  "let rows = [projectMappingFromSDK sampleRow]; sel = selectProjectMapping rows sampleRequest ownedMapping in
    (\<exists>chosen. sel_mapping sel = Some chosen \<and> TrimSpace (pm_Identifier chosen) = ''row1'') \<or>
    (sel_mapping sel = None \<and> sel_conflict sel \<and> ownedDrift rows sampleRequest ownedMapping)"
proof -
  have "rememberedIDOf ownedMapping = ''row1''"
    by (simp add: rememberedIDOf_def ownedMapping_def)
  moreover have "isDeletionOwnership (rememberedOwnershipOf ownedMapping)"
    by (simp add: rememberedOwnershipOf_def ownedMapping_def isDeletionOwnership_def)
  moreover have "TrimSpace (pm_Identifier (projectMappingFromSDK sampleRow)) = ''row1''"
    by (simp add: projectMappingFromSDK_def sampleRow_def)
  ultimately show ?thesis
    using selection_keeps_owned [of ownedMapping "projectMappingFromSDK sampleRow"
        "[projectMappingFromSDK sampleRow]" sampleRequest]
    by (simp add: Let_def)
qed

end
