(* ===== verification/Mapping_Claims.thy ===== *)
theory Mapping_Claims
  imports Mapping_State
begin

text \<open>
  \<open>internal/resource/projectmapping/claims.go\<close>: arbitration between the custom resources that
  refer to one remote mapping. The decision is made from one uncached cluster-wide list, by
  priority of the claim and then by a fixed order of the resources.
\<close>

section \<open>Definitions\<close>

datatype projectMappingClaimPriority =
    projectMappingClaimOwned
  | projectMappingClaimCreateCandidate
  | projectMappingClaimExternal
  | projectMappingClaimAdoption

text \<open>The values of the Go constants, in the order of \<open>iota\<close>.\<close>

fun priorityRank :: "projectMappingClaimPriority \<Rightarrow> int" where
  "priorityRank projectMappingClaimOwned = 0"
| "priorityRank projectMappingClaimCreateCandidate = 1"
| "priorityRank projectMappingClaimExternal = 2"
| "priorityRank projectMappingClaimAdoption = 3"

instantiation projectMappingClaimPriority :: linorder
begin

definition less_eq_projectMappingClaimPriority ::
  "projectMappingClaimPriority \<Rightarrow> projectMappingClaimPriority \<Rightarrow> bool" where
  "less_eq_projectMappingClaimPriority p q \<longleftrightarrow> priorityRank p \<le> priorityRank q"

definition less_projectMappingClaimPriority ::
  "projectMappingClaimPriority \<Rightarrow> projectMappingClaimPriority \<Rightarrow> bool" where
  "less_projectMappingClaimPriority p q \<longleftrightarrow> priorityRank p < priorityRank q"

instance
proof
  fix p q r :: projectMappingClaimPriority
  show "p < q \<longleftrightarrow> p \<le> q \<and> \<not> q \<le> p"
    by (auto simp: less_eq_projectMappingClaimPriority_def less_projectMappingClaimPriority_def)
  show "p \<le> p" by (simp add: less_eq_projectMappingClaimPriority_def)
  show "p \<le> q \<Longrightarrow> q \<le> r \<Longrightarrow> p \<le> r" by (simp add: less_eq_projectMappingClaimPriority_def)
  show "p \<le> q \<Longrightarrow> q \<le> p \<Longrightarrow> p = q"
    by (cases p; cases q) (simp_all add: less_eq_projectMappingClaimPriority_def)
  show "p \<le> q \<or> q \<le> p" by (auto simp: less_eq_projectMappingClaimPriority_def)
qed

end

lemmas priority_order =
  less_eq_projectMappingClaimPriority_def less_projectMappingClaimPriority_def

fun claimPriorityText :: "projectMappingClaimPriority \<Rightarrow> string" where
  "claimPriorityText projectMappingClaimOwned = ''established owner''"
| "claimPriorityText projectMappingClaimCreateCandidate = ''unresolved create candidate''"
| "claimPriorityText projectMappingClaimExternal = ''existing external binding''"
| "claimPriorityText projectMappingClaimAdoption = ''adoption request''"

record projectMappingClaim =
  cm_resource :: HarnessGitopsProjectMapping
  cm_priority :: projectMappingClaimPriority

record projectMappingClaimDecision =
  currentWins :: bool
  winner :: projectMappingClaim

text \<open>The pointers compared are never nil at the call sites.\<close>

definition sameProjectMappingResource ::
  "HarnessGitopsProjectMapping \<Rightarrow> HarnessGitopsProjectMapping \<Rightarrow> bool" where
  "sameProjectMappingResource left right =
     (if Namespace (m_Meta left) \<noteq> Namespace (m_Meta right) \<or>
         Name (m_Meta left) \<noteq> Name (m_Meta right) then False
      else if UID (m_Meta left) \<noteq> '''' \<and> UID (m_Meta right) \<noteq> '''' then
        UID (m_Meta left) = UID (m_Meta right)
      else True)"

definition projectMappingRequestsEquivalent ::
  "ProjectMappingRequest \<Rightarrow> ProjectMappingRequest \<Rightarrow> bool" where
  "projectMappingRequestsEquivalent left right =
     (let leftScope = ToUpper (TrimSpace (q_AgentScope left));
          rightScope = ToUpper (TrimSpace (q_AgentScope right))
      in leftScope = rightScope \<and>
         TrimSpace (q_AccountIdentifier left) = TrimSpace (q_AccountIdentifier right) \<and>
         IdentifiersEquivalent leftScope (q_AgentIdentifier left) (q_AgentIdentifier right) \<and>
         TrimSpace (sc_OrgIdentifier (q_Agent left)) = TrimSpace (sc_OrgIdentifier (q_Agent right)) \<and>
         TrimSpace (sc_ProjectIdentifier (q_Agent left)) =
           TrimSpace (sc_ProjectIdentifier (q_Agent right)) \<and>
         TrimSpace (sc_OrgIdentifier (q_Mapping left)) = TrimSpace (sc_OrgIdentifier (q_Mapping right)) \<and>
         TrimSpace (sc_ProjectIdentifier (q_Mapping left)) =
           TrimSpace (sc_ProjectIdentifier (q_Mapping right)) \<and>
         TrimSpace (q_ArgoProjectName left) = TrimSpace (q_ArgoProjectName right) \<and>
         q_AutoCreateServiceEnv left = q_AutoCreateServiceEnv right)"

definition projectMappingClaimLess :: "projectMappingClaim \<Rightarrow> projectMappingClaim \<Rightarrow> bool" where
  "projectMappingClaimLess left right =
     (if cm_priority left \<noteq> cm_priority right then cm_priority left < cm_priority right
      else
        (let leftMeta = m_Meta (cm_resource left); rightMeta = m_Meta (cm_resource right) in
         if CreationTimestamp leftMeta \<noteq> CreationTimestamp rightMeta then
           CreationTimestamp leftMeta < CreationTimestamp rightMeta
         else if Namespace leftMeta \<noteq> Namespace rightMeta then
           Namespace leftMeta < Namespace rightMeta
         else if Name leftMeta \<noteq> Name rightMeta then Name leftMeta < Name rightMeta
         else UID leftMeta < UID rightMeta))"

text \<open>\<open>None\<close> where the Go function reports \<open>resolved = false\<close>.\<close>

definition resolveProjectMappingClaimRequest ::
  "Library \<Rightarrow> HarnessGitopsProjectMapping \<Rightarrow> Reader \<Rightarrow> (go_error + ProjectMappingRequest option) M" where
  "resolveProjectMappingClaimRequest L candidate reader =
     (let agentName = TrimSpace (ref_Name (ms_AgentRef (m_Spec candidate))) in
      if agentName = '''' then ret (Inr None)
      else do {
        got \<leftarrow> GetAgent reader (Namespace (m_Meta candidate), agentName);
        ret (case got of
               Inl err \<Rightarrow>
                 if lib_IsNotFound L err then Inr None
                 else Inl (ErrFmt (''read Agent for project mapping claim '' @
                        Namespace (m_Meta candidate) @ ''/'' @ Name (m_Meta candidate) @ '': '' @
                        Error err) [err])
             | Inr agent \<Rightarrow>
                 (case resolveProjectMappingRequest (Some agent) (Some candidate) of
                    Inl err \<Rightarrow> Inr None
                  | Inr candidateRequest \<Rightarrow> Inr (Some candidateRequest)))
      })"

text \<open>The claim a resource's status makes on a mapping ID, the first part of
  \<open>projectMappingClaimPriority\<close>.\<close>

definition recordedClaim ::
  "HarnessGitopsProjectMapping \<Rightarrow> string \<Rightarrow> projectMappingClaimPriority option" where
  "recordedClaim candidate mappingID =
     (case mst_Remote (m_Status candidate) of
        None \<Rightarrow> None
      | Some remote \<Rightarrow>
          if TrimSpace (r_MappingID remote) = mappingID then
            (if isDeletionOwnership (r_Ownership remote) then Some projectMappingClaimOwned
             else if isUncertainCreationState (mst_CreationState (m_Status candidate))
             then Some projectMappingClaimCreateCandidate
             else if r_Ownership remote = OwnershipExternal then Some projectMappingClaimExternal
             else None)
          else None)"

text \<open>\<open>None\<close> where the Go function reports \<open>eligible = false\<close>.\<close>

definition claimPriority ::
  "Library \<Rightarrow> HarnessGitopsProjectMapping \<Rightarrow> HarnessGitopsProjectMapping \<Rightarrow> ProjectMappingRequest \<Rightarrow>
     string \<Rightarrow> Reader \<Rightarrow> (go_error + projectMappingClaimPriority option) M" where
  "claimPriority L current candidate request mappingID reader =
     (case recordedClaim candidate mappingID of
        Some priority \<Rightarrow> ret (Inr (Some priority))
      | None \<Rightarrow>
          if TrimSpace (ms_AdoptMappingID (m_Spec candidate)) \<noteq> mappingID then ret (Inr None)
          else if sameProjectMappingResource candidate current
          then ret (Inr (Some projectMappingClaimAdoption))
          else do {
            resolved \<leftarrow> resolveProjectMappingClaimRequest L candidate reader;
            ret (case resolved of
                   Inl err \<Rightarrow> Inl err
                 | Inr None \<Rightarrow> Inr None
                 | Inr (Some candidateRequest) \<Rightarrow>
                     if \<not> projectMappingRequestsEquivalent candidateRequest request then Inr None
                     else Inr (Some projectMappingClaimAdoption))
          })"

definition isProvisionalExternalProjectMappingClaim ::
  "Library \<Rightarrow> HarnessGitopsProjectMapping \<Rightarrow> ProjectMappingRequest \<Rightarrow> Reader \<Rightarrow> (go_error + bool) M" where
  "isProvisionalExternalProjectMappingClaim L candidate request reader =
     (if mst_Remote (m_Status candidate) \<noteq> None \<or>
         mst_CreationState (m_Status candidate) \<noteq> MappingCreationUnset \<or>
         TrimSpace (ms_AdoptMappingID (m_Spec candidate)) \<noteq> ''''
      then ret (Inr False)
      else do {
        resolved \<leftarrow> resolveProjectMappingClaimRequest L candidate reader;
        ret (case resolved of
               Inl err \<Rightarrow> Inl err
             | Inr None \<Rightarrow> Inr False
             | Inr (Some candidateRequest) \<Rightarrow>
                 if \<not> projectMappingRequestsEquivalent candidateRequest request then Inr False
                 else Inr True)
      })"

text \<open>One round of the loop: the claim of a candidate, provisional claims included.\<close>

definition candidateClaim ::
  "Library \<Rightarrow> Reader \<Rightarrow> HarnessGitopsProjectMapping \<Rightarrow> ProjectMappingRequest \<Rightarrow> string \<Rightarrow>
     projectMappingClaimPriority option \<Rightarrow> HarnessGitopsProjectMapping \<Rightarrow>
     (go_error + projectMappingClaimPriority option) M" where
  "candidateClaim L reader current request mappingID provisionalPriority candidate = do {
     got \<leftarrow> claimPriority L current candidate request mappingID reader;
     (case got of
        Inl err \<Rightarrow> ret (Inl err)
      | Inr (Some priority) \<Rightarrow> ret (Inr (Some priority))
      | Inr None \<Rightarrow>
          (case provisionalPriority of
             None \<Rightarrow> ret (Inr None)
           | Some provisional \<Rightarrow>
               if sameProjectMappingResource candidate current then ret (Inr (Some provisional))
               else if provisional = projectMappingClaimExternal then do {
                 eligible \<leftarrow> isProvisionalExternalProjectMappingClaim L candidate request reader;
                 ret (case eligible of
                        Inl err \<Rightarrow> Inl err
                      | Inr e \<Rightarrow> Inr (if e then Some provisional else None))
               }
               else ret (Inr None)))
   }"

fun claimsLoop ::
  "Library \<Rightarrow> Reader \<Rightarrow> HarnessGitopsProjectMapping \<Rightarrow> ProjectMappingRequest \<Rightarrow> string \<Rightarrow>
     projectMappingClaimPriority option \<Rightarrow> HarnessGitopsProjectMapping list \<Rightarrow>
     projectMappingClaim list \<Rightarrow> bool \<Rightarrow> (go_error + projectMappingClaim list \<times> bool) M" where
  "claimsLoop L reader current request mappingID provisional [] claims currentSeen =
     ret (Inr (claims, currentSeen))"
| "claimsLoop L reader current request mappingID provisional (candidate # rest) claims currentSeen = do {
     let isCurrent = sameProjectMappingResource candidate current;
     let currentSeen = (currentSeen \<or> isCurrent);
     got \<leftarrow> candidateClaim L reader current request mappingID provisional candidate;
     (case got of
        Inl err \<Rightarrow> ret (Inl err)
      | Inr eligible \<Rightarrow>
          claimsLoop L reader current request mappingID provisional rest
            (case eligible of
               None \<Rightarrow> claims
             | Some priority \<Rightarrow>
                 claims @ [\<lparr>cm_resource = candidate, cm_priority = priority\<rparr>])
            currentSeen)
   }"

text \<open>The decision once the claims are collected.\<close>

definition decideClaims ::
  "HarnessGitopsProjectMapping \<Rightarrow> string \<Rightarrow> projectMappingClaim list \<Rightarrow>
     go_error + projectMappingClaimDecision" where
  "decideClaims current mappingID claims =
     (if length claims = 0 then
        Inl (ErrFmt (''no eligible Kubernetes claim exists for Harness mapping '' @ fmt_q mappingID) [])
      else
        (let best = sortSlice projectMappingClaimLess claims ! 0 in
         Inr \<lparr>currentWins = sameProjectMappingResource (cm_resource best) current, winner = best\<rparr>))"

definition resolveProjectMappingClaimWithProvisional ::
  "Library \<Rightarrow> Reconciler \<Rightarrow> HarnessGitopsProjectMapping \<Rightarrow> ProjectMappingRequest \<Rightarrow> string \<Rightarrow>
     projectMappingClaimPriority option \<Rightarrow> (go_error + projectMappingClaimDecision) M" where
  "resolveProjectMappingClaimWithProvisional L r current request mappingID provisionalPriority =
     (let mappingID = TrimSpace mappingID in
      if mappingID = '''' then
        ret (Inl (ErrFmt ''resolve project mapping claim: mapping ID is empty'' []))
      else
        (case rc_APIReader r of
           None \<Rightarrow> ret (Inl (ErrFmt ''resolve project mapping claim: APIReader is not configured'' []))
         | Some reader \<Rightarrow> do {
             listed \<leftarrow> ListMappings reader None;
             (case listed of
                Inl err \<Rightarrow>
                  ret (Inl (ErrFmt (''list HarnessGitopsProjectMapping claims: '' @ Error err) [err]))
              | Inr items \<Rightarrow> do {
                  collected \<leftarrow>
                    claimsLoop L reader current request mappingID provisionalPriority items [] False;
                  ret (case collected of
                         Inl err \<Rightarrow> Inl err
                       | Inr (claims, currentSeen) \<Rightarrow>
                           decideClaims current mappingID
                             (case provisionalPriority of
                                None \<Rightarrow> claims
                              | Some provisional \<Rightarrow>
                                  if \<not> currentSeen
                                  then claims @ [\<lparr>cm_resource = current, cm_priority = provisional\<rparr>]
                                  else claims))
                })
           }))"

definition resolveProjectMappingClaim ::
  "Library \<Rightarrow> Reconciler \<Rightarrow> HarnessGitopsProjectMapping \<Rightarrow> ProjectMappingRequest \<Rightarrow> string \<Rightarrow>
     (go_error + projectMappingClaimDecision) M" where
  "resolveProjectMappingClaim L r current request mappingID =
     resolveProjectMappingClaimWithProvisional L r current request mappingID None"

text \<open>
  The status of \<open>current\<close> is written only on the branches that report a lost claim, after which
  every caller returns at once; the updated object is therefore not part of the result.
\<close>

definition requireProjectMappingClaimWithProvisional ::
  "Library \<Rightarrow> Reconciler \<Rightarrow> HarnessGitopsProjectMapping \<Rightarrow> ProjectMappingRequest \<Rightarrow> string \<Rightarrow>
     projectMappingClaimPriority option \<Rightarrow> mutation \<Rightarrow> (bool \<times> Result \<times> go_error option) M" where
  "requireProjectMappingClaimWithProvisional L r current request mappingID provisionalPriority onConflict = do {
     resolved \<leftarrow> resolveProjectMappingClaimWithProvisional L r current request mappingID provisionalPriority;
     (case resolved of
        Inl err \<Rightarrow> do {
          (statusErr, current) \<leftarrow>
            setReady L r current ConditionFalse ''OwnershipConflict''
              (''Unable to verify exclusive ownership of Harness mapping '' @ fmt_q (TrimSpace mappingID))
              None;
          ret (False, emptyResult, errorsJoin (Some err) statusErr)
        }
      | Inr decision \<Rightarrow>
          if currentWins decision then ret (True, emptyResult, None)
          else do {
            let best = cm_resource (winner decision);
            (statusErr, current) \<leftarrow>
              setReady L r current ConditionFalse ''OwnershipConflict''
                (''Harness mapping '' @ fmt_q (TrimSpace mappingID) @
                 '' is claimed by HarnessGitopsProjectMapping '' @ Namespace (m_Meta best) @ ''/'' @
                 Name (m_Meta best) @ '' ('' @ claimPriorityText (cm_priority (winner decision)) @ '')'')
                onConflict;
            ret (False, requeueAfter (resyncInterval r), statusErr)
          })
   }"

definition requireProjectMappingClaim ::
  "Library \<Rightarrow> Reconciler \<Rightarrow> HarnessGitopsProjectMapping \<Rightarrow> ProjectMappingRequest \<Rightarrow> string \<Rightarrow>
     (bool \<times> Result \<times> go_error option) M" where
  "requireProjectMappingClaim L r current request mappingID =
     requireProjectMappingClaimWithProvisional L r current request mappingID None None"

text \<open>The \<open>onConflict\<close> closure of the External claim: a lost binding is not recorded.\<close>

definition dropExternalBinding ::
  "string \<Rightarrow> HarnessGitopsProjectMappingStatus \<Rightarrow> HarnessGitopsProjectMappingStatus" where
  "dropExternalBinding mappingID status =
     (case mst_Remote status of
        None \<Rightarrow> status
      | Some remote \<Rightarrow>
          if TrimSpace (r_MappingID remote) = TrimSpace mappingID \<and>
             r_Ownership remote = OwnershipExternal
          then status\<lparr>mst_Remote := Some (remote\<lparr>r_Ownership := OwnershipUnset\<rparr>)\<rparr>
          else status)"

definition requireNewExternalProjectMappingClaim ::
  "Library \<Rightarrow> Reconciler \<Rightarrow> HarnessGitopsProjectMapping \<Rightarrow> ProjectMappingRequest \<Rightarrow> string \<Rightarrow>
     (bool \<times> Result \<times> go_error option) M" where
  "requireNewExternalProjectMappingClaim L r current request mappingID =
     requireProjectMappingClaimWithProvisional L r current request mappingID
       (Some projectMappingClaimExternal) (Some (dropExternalBinding mappingID))"

section \<open>Order of claims\<close>

type_synonym claim_key =
  "projectMappingClaimPriority \<times> Time \<times> string \<times> string \<times> string"

definition claimKey :: "projectMappingClaim \<Rightarrow> claim_key" where
  "claimKey c =
     (let meta = m_Meta (cm_resource c) in
      (cm_priority c, CreationTimestamp meta, Namespace meta, Name meta, UID meta))"

interpretation claim_order: keyed_order projectMappingClaimLess claimKey
  by unfold_locales
    (auto simp: projectMappingClaimLess_def claimKey_def less_prod_def Let_def)

section \<open>The calls arbitration makes\<close>

text \<open>Arbitration only reads: lists of Mappings and single Agents.\<close>

fun isClaimRead :: "event \<Rightarrow> bool" where
  "isClaimRead (EvListMappings k ns x) = True"
| "isClaimRead (EvGetAgent k key x) = True"
| "isClaimRead _ = False"

lemma emits_resolveClaimRequest: "emits isClaimRead (resolveProjectMappingClaimRequest L c rd)"
  unfolding resolveProjectMappingClaimRequest_def recorded_calls
  by (intro emits_intro) simp_all

lemma emits_claimPriority: "emits isClaimRead (claimPriority L cur c q mid rd)"
  unfolding claimPriority_def by (intro emits_intro emits_resolveClaimRequest)

lemma emits_isProvisional: "emits isClaimRead (isProvisionalExternalProjectMappingClaim L c q rd)"
  unfolding isProvisionalExternalProjectMappingClaim_def
  by (intro emits_intro emits_resolveClaimRequest)

lemma emits_candidateClaim: "emits isClaimRead (candidateClaim L rd cur q mid prov c)"
  unfolding candidateClaim_def by (intro emits_intro emits_claimPriority emits_isProvisional)

lemma emits_claimsLoop: "emits isClaimRead (claimsLoop L rd cur q mid prov items claims seen)"
  by (induction items arbitrary: claims seen)
    (auto intro!: emits_intro emits_candidateClaim split: option.splits)

lemma emits_resolveClaimP:
  "emits isClaimRead (resolveProjectMappingClaimWithProvisional L r cur q mid prov)"
  unfolding resolveProjectMappingClaimWithProvisional_def recorded_calls
  by (intro emits_intro emits_claimsLoop) simp

lemma emits_resolveClaim: "emits isClaimRead (resolveProjectMappingClaim L r cur q mid)"
  unfolding resolveProjectMappingClaim_def by (rule emits_resolveClaimP)

lemmas grows_claims [simp] =
  emits_grows [OF emits_resolveClaimRequest] emits_grows [OF emits_claimPriority]
  emits_grows [OF emits_isProvisional] emits_grows [OF emits_candidateClaim]
  emits_grows [OF emits_claimsLoop] emits_grows [OF emits_resolveClaimP]
  emits_grows [OF emits_resolveClaim]

section \<open>Collected claims\<close>

text \<open>What one round decides: a recorded claim always counts, at its own priority; otherwise the
  candidate counts as an adoption request or at the provisional priority.\<close>

lemma candidateClaim_recorded:
  "recordedClaim c mid = Some p \<Longrightarrow> candidateClaim L rd cur q mid prov c = ret (Inr (Some p))"
  by (simp add: candidateClaim_def claimPriority_def)

lemma claimPriority_unrecorded:
  assumes "recordedClaim c mid = None"
    and "result (claimPriority L cur c q mid rd) h = Inr (Some p)"
  shows "p = projectMappingClaimAdoption \<and> TrimSpace (ms_AdoptMappingID (m_Spec c)) = mid"
  using assms
  by (auto simp: claimPriority_def result_bind split: if_splits sum.splits option.splits)

lemma candidateClaim_unrecorded:
  assumes "recordedClaim c mid = None"
    and "result (candidateClaim L rd cur q mid prov c) h = Inr (Some p)"
  shows "p = projectMappingClaimAdoption \<and> TrimSpace (ms_AdoptMappingID (m_Spec c)) = mid \<or> prov = Some p"
  using assms claimPriority_unrecorded [OF assms(1), of L cur q rd h]
  by (auto simp: candidateClaim_def result_bind split: if_splits sum.splits option.splits)

text \<open>The claim of an item in a collection: recorded, or made by an unrecorded candidate.\<close>

definition claimOf ::
  "string \<Rightarrow> projectMappingClaimPriority option \<Rightarrow> HarnessGitopsProjectMapping list \<Rightarrow>
     projectMappingClaim \<Rightarrow> bool" where
  "claimOf mid prov items c \<longleftrightarrow>
     cm_resource c \<in> set items \<and>
     (recordedClaim (cm_resource c) mid = Some (cm_priority c) \<or>
      recordedClaim (cm_resource c) mid = None \<and>
        (cm_priority c = projectMappingClaimAdoption \<and>
           TrimSpace (ms_AdoptMappingID (m_Spec (cm_resource c))) = mid \<or>
         prov = Some (cm_priority c)))"

lemma claimOf_mono: "claimOf mid prov items c \<Longrightarrow> set items \<subseteq> set items' \<Longrightarrow> claimOf mid prov items' c"
  by (auto simp: claimOf_def)

lemma claimsLoop_spec:
  assumes "result (claimsLoop L rd cur q mid prov items claims seen) h = Inr (cs, seen')"
  shows "(\<forall>c\<in>set cs. c \<in> set claims \<or> claimOf mid prov items c) \<and> set claims \<subseteq> set cs \<and>
    (\<forall>m\<in>set items. \<forall>p. recordedClaim m mid = Some p \<longrightarrow>
       \<lparr>cm_resource = m, cm_priority = p\<rparr> \<in> set cs)"
  using assms
proof (induction items arbitrary: claims seen h)
  case Nil
  then show ?case by simp
next
  case (Cons m items)
  let ?round = "candidateClaim L rd cur q mid prov m"
  obtain eligible where e: "result ?round h = Inr eligible"
    using Cons.prems by (auto simp: result_bind split: sum.splits)
  let ?claims = "case eligible of None \<Rightarrow> claims
    | Some p \<Rightarrow> claims @ [\<lparr>cm_resource = m, cm_priority = p\<rparr>]"
  from Cons.prems e have
    "result (claimsLoop L rd cur q mid prov items ?claims
        (seen \<or> sameProjectMappingResource m cur)) (h @ emitted ?round h) = Inr (cs, seen')"
    by (simp add: result_bind Let_def)
  note IH = Cons.IH [OF this]
  have new: "claimOf mid prov (m # items) \<lparr>cm_resource = m, cm_priority = p\<rparr>"
    if "eligible = Some p" for p
    using that e candidateClaim_recorded [of m mid] candidateClaim_unrecorded [of m mid L rd cur q prov h p]
    by (cases "recordedClaim m mid") (auto simp: claimOf_def)
  have rec: "\<lparr>cm_resource = m, cm_priority = p\<rparr> \<in> set ?claims" if "recordedClaim m mid = Some p" for p
    using that e candidateClaim_recorded [OF that, of L rd cur q prov] by (auto split: option.splits)
  have mono: "claimOf mid prov items c \<Longrightarrow> claimOf mid prov (m # items) c" for c
    by (rule claimOf_mono) auto
  show ?case
    using IH new rec mono by (cases eligible) fastforce+
qed

text \<open>What a decision rests on: the listing, and the claims it contains.\<close>

lemma decide_winner:
  assumes "decideClaims cur mid cs = Inr d"
  shows "winner d \<in> set cs" and "c \<in> set cs \<Longrightarrow> claimKey (winner d) \<le> claimKey c"
    and "currentWins d \<longleftrightarrow> sameProjectMappingResource (cm_resource (winner d)) cur"
proof -
  from assms have ne: "cs \<noteq> []"
    and w: "winner d = hd (sortSlice projectMappingClaimLess cs)"
    and "currentWins d \<longleftrightarrow> sameProjectMappingResource (cm_resource (winner d)) cur"
    by (auto simp: decideClaims_def Let_def hd_conv_nth split: if_splits)
  then show "currentWins d \<longleftrightarrow> sameProjectMappingResource (cm_resource (winner d)) cur" by simp
  show "winner d \<in> set cs" using claim_order.head_in [OF ne] w by simp
  show "c \<in> set cs \<Longrightarrow> claimKey (winner d) \<le> claimKey c"
    using claim_order.head_key_min w by simp
qed

lemma resolveClaimP_spec:
  assumes "result (resolveProjectMappingClaimWithProvisional L r cur q mid prov) h = Inr d"
  shows "\<exists>reader items. rc_APIReader r = Some reader \<and>
    rd_ListMappings reader h None = Inr items \<and>
    EvListMappings (rd_Kind reader) None (Inr items) \<in>
      set (emitted (resolveProjectMappingClaimWithProvisional L r cur q mid prov) h) \<and>
    (claimOf (TrimSpace mid) prov items (winner d) \<or>
      prov = Some (cm_priority (winner d)) \<and> cm_resource (winner d) = cur) \<and>
    (\<forall>m\<in>set items. \<forall>p. recordedClaim m (TrimSpace mid) = Some p \<longrightarrow>
      claimKey (winner d) \<le> claimKey \<lparr>cm_resource = m, cm_priority = p\<rparr>) \<and>
    (currentWins d \<longleftrightarrow> sameProjectMappingResource (cm_resource (winner d)) cur)"
proof -
  from assms obtain reader where r: "rc_APIReader r = Some reader" and ne: "TrimSpace mid \<noteq> ''''"
    by (auto simp: resolveProjectMappingClaimWithProvisional_def Let_def split: option.splits if_splits)
  let ?rest = "\<lambda>items. claimsLoop L reader cur q (TrimSpace mid) prov items [] False"
  obtain items where i: "rd_ListMappings reader h None = Inr items"
    using assms r ne
    by (auto simp: resolveProjectMappingClaimWithProvisional_def ListMappings_def result_bind
        Let_def split: sum.splits)
  let ?h = "h @ [EvListMappings (rd_Kind reader) None (Inr items)]"
  have ev: "EvListMappings (rd_Kind reader) None (Inr items) \<in>
      set (emitted (resolveProjectMappingClaimWithProvisional L r cur q mid prov) h)"
    using r ne i
    by (simp add: resolveProjectMappingClaimWithProvisional_def ListMappings_def emitted_bind Let_def)
  obtain cs seen where cs: "result (?rest items) ?h = Inr (cs, seen)"
    using assms r ne i
    by (auto simp: resolveProjectMappingClaimWithProvisional_def ListMappings_def result_bind
        Let_def split: sum.splits)
  let ?all = "case prov of None \<Rightarrow> cs | Some p \<Rightarrow>
      if \<not> seen then cs @ [\<lparr>cm_resource = cur, cm_priority = p\<rparr>] else cs"
  have dec: "decideClaims cur (TrimSpace mid) ?all = Inr d"
    using assms r ne i cs
    by (simp add: resolveProjectMappingClaimWithProvisional_def ListMappings_def result_bind Let_def)
  note spec = claimsLoop_spec [OF cs]
  have "winner d \<in> set ?all" by (rule decide_winner(1) [OF dec])
  then have w: "claimOf (TrimSpace mid) prov items (winner d) \<or>
      prov = Some (cm_priority (winner d)) \<and> cm_resource (winner d) = cur"
    using spec by (auto split: option.splits if_splits)
  have "claimKey (winner d) \<le> claimKey \<lparr>cm_resource = m, cm_priority = p\<rparr>"
    if "m \<in> set items" "recordedClaim m (TrimSpace mid) = Some p" for m p
    using that spec decide_winner(2) [OF dec, of "\<lparr>cm_resource = m, cm_priority = p\<rparr>"]
    by (auto split: option.splits)
  with r i ev w decide_winner(3) [OF dec] show ?thesis by blast
qed

lemma recordedClaim_not_adoption: "recordedClaim m mid = Some p \<Longrightarrow> p < projectMappingClaimAdoption"
  by (auto simp: recordedClaim_def priority_order split: option.splits if_splits)

lemma claimKey_priority: "claimKey c \<le> claimKey d \<Longrightarrow> cm_priority c \<le> cm_priority d"
  by (auto simp: claimKey_def Let_def less_eq_prod_def)

lemma claimKey_eta [simp]:
  "claimKey \<lparr>cm_resource = cm_resource c, cm_priority = cm_priority c\<rparr> = claimKey c"
  by (simp add: claimKey_def)

lemma claimKey_object:
  "claimKey c = claimKey d \<Longrightarrow> objectKeyOf (cm_resource c) = objectKeyOf (cm_resource d)"
  by (simp add: claimKey_def objectKeyOf_def Let_def)

lemma same_object: "sameProjectMappingResource m n \<Longrightarrow> objectKeyOf m = objectKeyOf n"
  by (auto simp: sameProjectMappingResource_def objectKeyOf_def split: if_splits)

lemma same_refl: "sameProjectMappingResource m m"
  by (simp add: sameProjectMappingResource_def)

text \<open>Where a recorded claim is listed, the winner's claim is recorded too.\<close>

lemma winner_recorded:
  assumes "claimOf mid None items w" and "m \<in> set items" and "recordedClaim m mid = Some p"
    and "claimKey w \<le> claimKey \<lparr>cm_resource = m, cm_priority = p\<rparr>"
  shows "recordedClaim (cm_resource w) mid = Some (cm_priority w)"
proof -
  have "cm_priority w \<le> p" using claimKey_priority [OF assms(4)] by simp
  with recordedClaim_not_adoption [OF assms(3)] have "cm_priority w < projectMappingClaimAdoption"
    by (rule le_less_trans [rotated])
  with assms(1) show ?thesis by (auto simp: claimOf_def)
qed

section \<open>Required claims\<close>

text \<open>A required claim is reported won exactly when arbitration says so, and then nothing was
  written.\<close>

definition claimWon ::
  "Library \<Rightarrow> Reconciler \<Rightarrow> HarnessGitopsProjectMapping \<Rightarrow> ProjectMappingRequest \<Rightarrow> string \<Rightarrow>
     projectMappingClaimPriority option \<Rightarrow> history \<Rightarrow> bool" where
  "claimWon L r cur q mid prov h \<longleftrightarrow>
     (\<exists>d. result (resolveProjectMappingClaimWithProvisional L r cur q mid prov) h = Inr d \<and>
       currentWins d)"

lemma require_won:
  assumes "result (requireProjectMappingClaimWithProvisional L r cur q mid prov f) h = (True, res, err)"
  shows "claimWon L r cur q mid prov h"
    and "emitted (requireProjectMappingClaimWithProvisional L r cur q mid prov f) h =
      emitted (resolveProjectMappingClaimWithProvisional L r cur q mid prov) h"
proof -
  let ?res = "result (resolveProjectMappingClaimWithProvisional L r cur q mid prov) h"
  have "\<exists>d. ?res = Inr d \<and> currentWins d"
  proof (cases ?res)
    case (Inl e)
    with assms show ?thesis
      by (auto simp: requireProjectMappingClaimWithProvisional_def result_bind split: prod.splits)
  next
    case (Inr d)
    with assms show ?thesis
      by (auto simp: requireProjectMappingClaimWithProvisional_def result_bind Let_def
          split: prod.splits if_splits)
  qed
  then obtain d where d: "?res = Inr d" "currentWins d" by blast
  then show "claimWon L r cur q mid prov h" by (simp add: claimWon_def)
  from d show "emitted (requireProjectMappingClaimWithProvisional L r cur q mid prov f) h =
      emitted (resolveProjectMappingClaimWithProvisional L r cur q mid prov) h"
    by (simp add: requireProjectMappingClaimWithProvisional_def emitted_bind)
qed

text \<open>Besides the reads of arbitration, only the status of the current resource is written, with
  its remote state as it was or as \<open>onConflict\<close> leaves it.\<close>

lemma emits_requireClaim:
  "emits (\<lambda>e. isClaimRead e \<or> writesRemoteState cur (remoteState (m_Status cur)) e \<or>
      writesRemoteState cur (remoteState (mutated f (m_Status cur))) e)
     (requireProjectMappingClaimWithProvisional L r cur q mid prov f)"
proof -
  have ready: "emits (\<lambda>e. isClaimRead e \<or> writesRemoteState cur (remoteState (m_Status cur)) e \<or>
      writesRemoteState cur (remoteState (mutated f (m_Status cur))) e)
      (setReady L r cur cs reason msg mut)" if "mut = None \<or> mut = f" for cs reason msg mut
    by (rule emits_mono [OF emits_setReady]) (use that in \<open>auto simp: mutated_def\<close>)
  show ?thesis
    unfolding requireProjectMappingClaimWithProvisional_def
    by (intro emits_intro ready emits_mono [OF emits_resolveClaimP]) simp_all
qed

lemmas grows_requireClaim [simp] = emits_grows [OF emits_requireClaim]

section \<open>Properties\<close>

text \<open>
  C16: a won claim is won against everybody. When arbitration answers that the current resource
  wins, the answer rests on one list of all Mappings from the uncached reader: the winning
  claim belongs to a listed resource that is the current one (or is the current one's
  provisional claim), and no listed resource whose status records the mapping ID, as owner,
  create candidate or External binding, comes before it in the order by priority, creation
  time, namespace, name and UID.
\<close>

theorem claim_won_against_all:
  assumes "result (resolveProjectMappingClaimWithProvisional L r cur q mid prov) h = Inr d"
    and "currentWins d"
  shows "\<exists>reader items. rc_APIReader r = Some reader \<and>
    rd_ListMappings reader h None = Inr items \<and>
    sameProjectMappingResource (cm_resource (winner d)) cur \<and>
    (claimOf (TrimSpace mid) prov items (winner d) \<or>
      prov = Some (cm_priority (winner d)) \<and> cm_resource (winner d) = cur) \<and>
    list_all (\<lambda>m. case recordedClaim m (TrimSpace mid) of
        None \<Rightarrow> True
      | Some p \<Rightarrow> claimKey (winner d) \<le> claimKey \<lparr>cm_resource = m, cm_priority = p\<rparr>) items"
proof -
  obtain reader items where *: "rc_APIReader r = Some reader"
    "rd_ListMappings reader h None = Inr items"
    "claimOf (TrimSpace mid) prov items (winner d) \<or>
      prov = Some (cm_priority (winner d)) \<and> cm_resource (winner d) = cur"
    "\<forall>m\<in>set items. \<forall>p. recordedClaim m (TrimSpace mid) = Some p \<longrightarrow>
      claimKey (winner d) \<le> claimKey \<lparr>cm_resource = m, cm_priority = p\<rparr>"
    "sameProjectMappingResource (cm_resource (winner d)) cur"
    using resolveClaimP_spec [OF assms(1)] assms(2) by blast
  have "list_all (\<lambda>m. case recordedClaim m (TrimSpace mid) of
        None \<Rightarrow> True
      | Some p \<Rightarrow> claimKey (winner d) \<le> claimKey \<lparr>cm_resource = m, cm_priority = p\<rparr>) items"
    using *(4) by (auto simp: list_all_iff split: option.splits)
  with * show ?thesis by blast
qed

definition sampleReconciler :: "HarnessGitopsProjectMapping list \<Rightarrow> Reconciler" where
  "sampleReconciler mappings =
     \<lparr>rc_Client = sampleClient (sampleReader CachedClient [sampleAgent] mappings),
      rc_APIReader = Some (sampleReader UncachedReader [sampleAgent] mappings),
      rc_APIKeySecretNamespace = '''', rc_AppProjectPendingRetryInterval = 0,
      rc_HarnessMappingResyncInterval = 0, rc_mappingAPI = None, rc_appProjectClient = None\<rparr>"

text \<open>A cluster with one Mapping, which records a claim.\<close>

lemma sample_single_claim:
  assumes "recordedClaim m mid = Some p" and "TrimSpace mid = mid" and "mid \<noteq> ''''"
    and "sameProjectMappingResource m cur"
  shows "result (resolveProjectMappingClaimWithProvisional L (sampleReconciler [m]) cur q mid None) h =
   Inr \<lparr>currentWins = True, winner = \<lparr>cm_resource = m, cm_priority = p\<rparr>\<rparr>"
  using candidateClaim_recorded [OF assms(1)] assms(2-4)
  by (simp add: resolveProjectMappingClaimWithProvisional_def sampleReconciler_def
      sampleReader_def ListMappings_def result_bind Let_def decideClaims_def sortSlice_def)

lemma owned_recorded: "recordedClaim ownedMapping ''row1'' = Some projectMappingClaimOwned"
  by (simp add: recordedClaim_def ownedMapping_def isDeletionOwnership_def)

lemmas sample_owned_claim = sample_single_claim [OF owned_recorded, simplified]

theorem claim_won_against_all_witness:
  "\<exists>reader items. rc_APIReader (sampleReconciler [ownedMapping]) = Some reader \<and>
     rd_ListMappings reader [] None = Inr items \<and>
     claimOf ''row1'' None items \<lparr>cm_resource = ownedMapping, cm_priority = projectMappingClaimOwned\<rparr>"
  using claim_won_against_all [OF sample_owned_claim [OF same_refl, where h = "[]"]] by auto

text \<open>
  C15: two resources never both win a remote mapping that is claimed already. If two arbitrations
  without a provisional claimant for the same mapping ID, by any two reconcilers with any
  requests, see the same uncached listing, some resource of that listing records a claim on the
  ID in its status, and both answer that their current resource wins, then the two current
  resources are the same object. Arbitrations over adoption requests or provisional claims
  alone, which no status records yet, are outside the statement.
\<close>

theorem claims_mutually_exclusive:
  assumes "result (resolveProjectMappingClaim L1 r1 m1 q1 mid) h1 = Inr d1" and "currentWins d1"
    and "result (resolveProjectMappingClaim L2 r2 m2 q2 mid) h2 = Inr d2" and "currentWins d2"
    and "rc_APIReader r1 = Some reader1" and "rd_ListMappings reader1 h1 None = Inr items"
    and "rc_APIReader r2 = Some reader2" and "rd_ListMappings reader2 h2 None = Inr items"
    and "m \<in> set items" and "recordedClaim m (TrimSpace mid) = Some p"
  shows "objectKeyOf m1 = objectKeyOf m2"
proof -
  have 1: "result (resolveProjectMappingClaimWithProvisional L1 r1 m1 q1 mid None) h1 = Inr d1"
    and 2: "result (resolveProjectMappingClaimWithProvisional L2 r2 m2 q2 mid None) h2 = Inr d2"
    using assms(1,3) by (simp_all add: resolveProjectMappingClaim_def)
  have "claimOf (TrimSpace mid) None items (winner d1) \<and>
      (\<forall>m\<in>set items. \<forall>p. recordedClaim m (TrimSpace mid) = Some p \<longrightarrow>
        claimKey (winner d1) \<le> claimKey \<lparr>cm_resource = m, cm_priority = p\<rparr>) \<and>
      sameProjectMappingResource (cm_resource (winner d1)) m1"
    using resolveClaimP_spec [OF 1] assms(2,5,6) by auto
  then have w1: "claimOf (TrimSpace mid) None items (winner d1)"
      "\<And>m p. m \<in> set items \<Longrightarrow> recordedClaim m (TrimSpace mid) = Some p \<Longrightarrow>
        claimKey (winner d1) \<le> claimKey \<lparr>cm_resource = m, cm_priority = p\<rparr>"
      "sameProjectMappingResource (cm_resource (winner d1)) m1"
    by blast+
  have "claimOf (TrimSpace mid) None items (winner d2) \<and>
      (\<forall>m\<in>set items. \<forall>p. recordedClaim m (TrimSpace mid) = Some p \<longrightarrow>
        claimKey (winner d2) \<le> claimKey \<lparr>cm_resource = m, cm_priority = p\<rparr>) \<and>
      sameProjectMappingResource (cm_resource (winner d2)) m2"
    using resolveClaimP_spec [OF 2] assms(4,7,8) by auto
  then have w2: "claimOf (TrimSpace mid) None items (winner d2)"
      "\<And>m p. m \<in> set items \<Longrightarrow> recordedClaim m (TrimSpace mid) = Some p \<Longrightarrow>
        claimKey (winner d2) \<le> claimKey \<lparr>cm_resource = m, cm_priority = p\<rparr>"
      "sameProjectMappingResource (cm_resource (winner d2)) m2"
    by blast+
  note rec1 = winner_recorded [OF w1(1) assms(9,10) w1(2) [OF assms(9,10)]]
  note rec2 = winner_recorded [OF w2(1) assms(9,10) w2(2) [OF assms(9,10)]]
  have "claimKey (winner d1) \<le> claimKey (winner d2)"
    using w1(2) [OF _ rec2] w2(1) by (simp add: claimOf_def)
  moreover have "claimKey (winner d2) \<le> claimKey (winner d1)"
    using w2(2) [OF _ rec1] w1(1) by (simp add: claimOf_def)
  ultimately show ?thesis
    using claimKey_object same_object w1(3) w2(3) by (metis order_antisym)
qed

definition laterVersion :: HarnessGitopsProjectMapping where
  "laterVersion = ownedMapping\<lparr>m_Meta := (m_Meta ownedMapping)\<lparr>ResourceVersion := ''2''\<rparr>\<rparr>"

theorem claims_mutually_exclusive_witness:
  "let L = sampleLibrary absentAPI; r = sampleReconciler [ownedMapping] in
   (\<exists>d1 d2.
      result (resolveProjectMappingClaim L r ownedMapping sampleRequest ''row1'') [] = Inr d1 \<and>
      result (resolveProjectMappingClaim L r laterVersion sampleRequest ''row1'') [] = Inr d2 \<and>
      currentWins d1 \<and> currentWins d2) \<and>
   recordedClaim ownedMapping ''row1'' = Some projectMappingClaimOwned \<and>
   laterVersion \<noteq> ownedMapping \<and> objectKeyOf ownedMapping = objectKeyOf laterVersion"
proof -
  let ?L = "sampleLibrary absentAPI" and ?r = "sampleReconciler [ownedMapping]"
  let ?rd = "sampleReader UncachedReader [sampleAgent] [ownedMapping]"
  let ?d = "\<lparr>currentWins = True,
        winner = \<lparr>cm_resource = ownedMapping, cm_priority = projectMappingClaimOwned\<rparr>\<rparr>"
  have rec: "recordedClaim ownedMapping (TrimSpace ''row1'') = Some projectMappingClaimOwned"
    using owned_recorded by simp
  have "sameProjectMappingResource ownedMapping laterVersion"
    by (simp add: sameProjectMappingResource_def laterVersion_def)
  then have res: "result (resolveProjectMappingClaim ?L ?r ownedMapping sampleRequest ''row1'') [] = Inr ?d"
    "result (resolveProjectMappingClaim ?L ?r laterVersion sampleRequest ''row1'') [] = Inr ?d"
    using sample_owned_claim same_refl by (simp_all add: resolveProjectMappingClaim_def)
  have "rc_APIReader ?r = Some ?rd" "rd_ListMappings ?rd [] None = Inr [ownedMapping]"
    by (simp_all add: sampleReconciler_def sampleReader_def)
  from claims_mutually_exclusive [OF res(1) _ res(2) _ this this _ rec]
  have "objectKeyOf ownedMapping = objectKeyOf laterVersion" by simp
  moreover have "laterVersion \<noteq> ownedMapping"
  proof
    assume "laterVersion = ownedMapping"
    then have "ResourceVersion (m_Meta laterVersion) = ResourceVersion (m_Meta ownedMapping)" by simp
    then show False by (simp add: laterVersion_def ownedMapping_def sampleMapping_def sampleMeta_def)
  qed
  ultimately show ?thesis unfolding Let_def using res owned_recorded by fastforce
qed

end
