(* ===== verification/Mapping_Finalizer.thy ===== *)
theory Mapping_Finalizer
  imports Mapping_Claims
begin

text \<open>
  \<open>internal/resource/projectmapping/finalizer.go\<close>: cleanup of a deleted Mapping. The finalizer is
  removed at once when the resource owns nothing; an owned remote row is deleted only when it
  is listed, matches the stored tuple and the claim on it is won; everything else blocks.
\<close>

section \<open>Cleanup identity\<close>

definition projectMappingCreateVisibilityGracePeriod :: Duration where
  "projectMappingCreateVisibilityGracePeriod = 30 * Second"

record mappingCleanupIdentity =
  ci_remote :: "HarnessGitopsProjectMappingRemoteStatus option"
  ci_mappingID :: string
  ci_recoveryOwnership :: ResourceOwnership
  ci_pendingReturnedID :: bool
  ci_removeFinalizer :: bool
  ci_ownershipBlockReason :: string

definition emptyIdentity :: mappingCleanupIdentity where
  "emptyIdentity =
     \<lparr>ci_remote = None, ci_mappingID = '''', ci_recoveryOwnership = OwnershipUnset,
      ci_pendingReturnedID = False, ci_removeFinalizer = False, ci_ownershipBlockReason = ''''\<rparr>"

definition resolveMappingCleanupIdentity ::
  "HarnessGitopsProjectMapping \<Rightarrow> mappingCleanupIdentity" where
  "resolveMappingCleanupIdentity mapping =
     (let creationState = mst_CreationState (m_Status mapping) in
      case mst_Remote (m_Status mapping) of
        None \<Rightarrow>
          if isUncertainCreationState creationState then
            emptyIdentity\<lparr>ci_ownershipBlockReason :=
              ''Cannot recover mapping ownership because the stored remote tuple is empty''\<rparr>
          else emptyIdentity\<lparr>ci_removeFinalizer := True\<rparr>
      | Some remote \<Rightarrow>
          (let identity = emptyIdentity\<lparr>ci_remote := Some remote\<rparr> in
           if \<not> isUncertainCreationState creationState then
             (if \<not> isDeletionOwnership (r_Ownership remote)
              then identity\<lparr>ci_removeFinalizer := True\<rparr>
              else identity\<lparr>ci_mappingID := TrimSpace (r_MappingID remote)\<rparr>)
           else
             (let adoptID = TrimSpace (ms_AdoptMappingID (m_Spec mapping));
                  rememberedID = TrimSpace (r_MappingID remote);
                  identity = identity\<lparr>ci_pendingReturnedID :=
                    (creationState = MappingCreationPending \<and> rememberedID \<noteq> '''')\<rparr>
              in
              if adoptID \<noteq> '''' \<and> rememberedID \<noteq> '''' \<and> adoptID \<noteq> rememberedID then
                identity\<lparr>ci_ownershipBlockReason :=
                  ''Cannot adopt Harness mapping '' @ fmt_q adoptID @
                  '' because create candidate '' @ fmt_q rememberedID @ '' was already returned''\<rparr>
              else if adoptID \<noteq> '''' then
                identity\<lparr>ci_mappingID := adoptID, ci_recoveryOwnership := OwnershipAdopted\<rparr>
              else if creationState = MappingCreationPending \<and> rememberedID \<noteq> '''' then
                identity\<lparr>ci_mappingID := rememberedID, ci_recoveryOwnership := OwnershipManaged\<rparr>
              else
                identity\<lparr>ci_ownershipBlockReason :=
                  ''Cannot safely clean up a mapping while its create state is '' @
                  mappingCreationText creationState @
                  ''; set spec.adoptMappingId to an exact Harness mapping ID''\<rparr>)))"

text \<open>\<open>time.Since\<close> saturates and the subtraction from the grace period wraps around.\<close>

definition projectMappingCreateVisibilityGraceRemaining ::
  "Time \<Rightarrow> HarnessGitopsProjectMapping \<Rightarrow> Duration" where
  "projectMappingCreateVisibilityGraceRemaining now mapping =
     (if timeIsZero (DeletionTimestamp (m_Meta mapping))
      then projectMappingCreateVisibilityGracePeriod
      else
        (let remaining =
           wrapDuration (projectMappingCreateVisibilityGracePeriod -
             timeSub now (the (DeletionTimestamp (m_Meta mapping))))
         in if remaining < 0 then 0 else remaining))"

definition projectMappingCleanupRequest ::
  "HarnessGitopsProjectMappingRemoteStatus option \<Rightarrow> go_error + ProjectMappingRequest \<times> string" where
  "projectMappingCleanupRequest remotePtr =
     (case remotePtr of
        None \<Rightarrow> Inl (ErrFmt ''remote status is empty'' [])
      | Some remote \<Rightarrow>
          (let mappingID = TrimSpace (r_MappingID remote);
               accountID = TrimSpace (ra_AccountID (r_Agent remote));
               agentID = TrimSpace (ra_Identifier (r_Agent remote));
               scope = ToUpper (TrimSpace (ra_Scope (r_Agent remote)));
               agentOrgID = TrimSpace (ra_OrgID (r_Agent remote));
               agentProjectID = TrimSpace (ra_ProjectID (r_Agent remote));
               targetOrgID = TrimSpace (rt_OrgID (r_Target remote));
               targetProjectID = TrimSpace (rt_ProjectID (r_Target remote));
               appProject = TrimSpace (rt_AppProject (r_Target remote));
               request =
                 \<lparr>q_AccountIdentifier = accountID, q_AgentIdentifier = agentID, q_AgentScope = scope,
                  q_Agent = \<lparr>sc_OrgIdentifier = agentOrgID, sc_ProjectIdentifier = agentProjectID\<rparr>,
                  q_Mapping = \<lparr>sc_OrgIdentifier = targetOrgID, sc_ProjectIdentifier = targetProjectID\<rparr>,
                  q_ArgoProjectName = appProject,
                  q_AutoCreateServiceEnv = rt_AutoCreateServiceEnv (r_Target remote)\<rparr>
           in
           if mappingID = '''' then Inl (ErrFmt ''mapping ID is empty'' [])
           else if accountID = '''' then Inl (ErrFmt ''account ID is empty'' [])
           else if agentID = '''' then Inl (ErrFmt ''agent ID is empty'' [])
           else if targetOrgID = '''' then Inl (ErrFmt ''target organization ID is empty'' [])
           else if targetProjectID = '''' then Inl (ErrFmt ''target project ID is empty'' [])
           else if appProject = '''' then Inl (ErrFmt ''appProject is empty'' [])
           else if scope = agentScopeAccount then
             (if agentOrgID \<noteq> '''' \<or> agentProjectID \<noteq> '''' then
                Inl (ErrFmt ''ACCOUNT-scoped agent identity must not contain an organization or project'' [])
              else Inr (request, mappingID))
           else if scope = agentScopeOrg then
             (if agentOrgID = '''' then
                Inl (ErrFmt ''ORG-scoped agent identity has an empty organization ID'' [])
              else if agentProjectID \<noteq> '''' then
                Inl (ErrFmt ''ORG-scoped agent identity must not contain a project'' [])
              else if targetOrgID \<noteq> agentOrgID then
                Inl (ErrFmt ''ORG-scoped agent and target organization IDs differ'' [])
              else Inr (request, mappingID))
           else if scope = agentScopeProject then
             (if agentOrgID = '''' \<or> agentProjectID = '''' then
                Inl (ErrFmt ''PROJECT-scoped agent identity requires organization and project IDs'' [])
              else if targetOrgID \<noteq> agentOrgID \<or> targetProjectID \<noteq> agentProjectID then
                Inl (ErrFmt ''PROJECT-scoped agent and target scopes differ'' [])
              else Inr (request, mappingID))
           else
             Inl (ErrFmt (''unsupported agent scope '' @ fmt_q (ra_Scope (r_Agent remote))) [])))"

section \<open>Outcomes\<close>

definition removeProjectMappingFinalizer ::
  "Library \<Rightarrow> Reconciler \<Rightarrow> HarnessGitopsProjectMapping \<Rightarrow> (Result \<times> go_error option) M" where
  "removeProjectMappingFinalizer L r mapping = do {
     err \<leftarrow> RemoveFinalizer L (mappingWriter (rc_Client r)) mapping harnessProjectMappingFinalizer;
     ret (emptyResult, err)
   }"

definition blockMappingCleanup ::
  "Library \<Rightarrow> Reconciler \<Rightarrow> HarnessGitopsProjectMapping \<Rightarrow> string \<Rightarrow> go_error option \<Rightarrow>
     (Result \<times> go_error option) M" where
  "blockMappingCleanup L r mapping message cause = do {
     (statusErr, mapping) \<leftarrow> setReady L r mapping ConditionFalse ''CleanupBlocked'' message None;
     ret (case cause of
            Some c \<Rightarrow> (emptyResult, errorsJoin (Some c) statusErr)
          | None \<Rightarrow> (requeueAfter (resyncInterval r), statusErr))
   }"

definition failMappingCleanup ::
  "Library \<Rightarrow> Reconciler \<Rightarrow> HarnessGitopsProjectMapping \<Rightarrow> string \<Rightarrow> go_error \<Rightarrow>
     (Result \<times> go_error option) M" where
  "failMappingCleanup L r mapping message cause = do {
     (statusErr, mapping) \<leftarrow> setReady L r mapping ConditionFalse ''CleanupFailed'' message None;
     ret (emptyResult, errorsJoin (Some cause) statusErr)
   }"

text \<open>As with a required claim, the mapping is written only where the caller returns at once.\<close>

definition authorizeProjectMappingCleanup ::
  "Library \<Rightarrow> Reconciler \<Rightarrow> HarnessGitopsProjectMapping \<Rightarrow> ProjectMappingRequest \<Rightarrow> string \<Rightarrow>
     (bool \<times> Result \<times> go_error option) M" where
  "authorizeProjectMappingCleanup L r mapping request mappingID = do {
     resolved \<leftarrow> resolveProjectMappingClaim L r mapping request mappingID;
     (case resolved of
        Inl err \<Rightarrow> do {
          (res, cleanupErr) \<leftarrow> failMappingCleanup L r mapping
            ''Unable to verify exclusive Kubernetes ownership before deleting the Harness mapping'' err;
          ret (False, res, cleanupErr)
        }
      | Inr decision \<Rightarrow>
          if currentWins decision then ret (True, emptyResult, None)
          else do {
            (res, err) \<leftarrow> removeProjectMappingFinalizer L r mapping;
            ret (False, res, err)
          })
   }"

section \<open>Finalization\<close>

text \<open>The part after the final claim: recovering ownership in the status, or the delete.\<close>

definition cleanupAuthorized ::
  "Library \<Rightarrow> Reconciler \<Rightarrow> HarnessGitopsProjectMapping \<Rightarrow> mappingCleanupIdentity \<Rightarrow> Session \<Rightarrow>
     ProjectMappingRequest \<Rightarrow> string \<Rightarrow> (Result \<times> go_error option) M" where
  "cleanupAuthorized L r mapping identity session request mappingID =
     (if ci_recoveryOwnership identity \<noteq> OwnershipUnset then do {
        let adopted = (ci_recoveryOwnership identity = OwnershipAdopted);
        let reason = (if adopted then ''MappingAdopted'' else ''MappingVerified'');
        let message =
          (if adopted
           then ''Recovered ownership of the explicitly adopted Harness mapping before cleanup''
           else ''Recovered ownership of the controller-created Harness mapping before cleanup'');
        (err, mapping) \<leftarrow> setReady L r mapping ConditionTrue reason message
          (Some (\<lambda>status. status\<lparr>mst_CreationState := MappingCreationUnset,
            mst_Remote := Some ((the (ci_remote identity))\<lparr>r_MappingID := mappingID,
              r_Ownership := ci_recoveryOwnership identity\<rparr>)\<rparr>));
        (case err of
           Some e \<Rightarrow> ret (emptyResult, Some e)
         | None \<Rightarrow> ret (requeueAfter immediateRequeueInterval, None))
      }
      else do {
        err \<leftarrow> api_Delete (projectMappingAPI r) session request mappingID;
        (case err of
           Some e \<Rightarrow> failMappingCleanup L r mapping ''Unable to delete the verified Harness mapping'' e
         | None \<Rightarrow> removeProjectMappingFinalizer L r mapping)
      })"

text \<open>The part after the remote list.\<close>

definition cleanupListed ::
  "Library \<Rightarrow> Reconciler \<Rightarrow> HarnessGitopsProjectMapping \<Rightarrow> mappingCleanupIdentity \<Rightarrow> Session \<Rightarrow>
     ProjectMappingRequest \<Rightarrow> string \<Rightarrow> ProjectMapping list \<Rightarrow> (Result \<times> go_error option) M" where
  "cleanupListed L r mapping identity session request mappingID mappings =
     (case projectMappingWithID mappings mappingID of
        None \<Rightarrow>
          if ci_recoveryOwnership identity \<noteq> OwnershipUnset then
            (if ci_pendingReturnedID identity then do {
               now \<leftarrow> peek (lib_Now L);
               let remaining = projectMappingCreateVisibilityGraceRemaining now mapping;
               (if remaining > 0 then do {
                  (statusErr, mapping) \<leftarrow> setReady L r mapping ConditionFalse ''CleanupBlocked''
                    (''Harness mapping '' @ fmt_q mappingID @
                     '' is not visible yet; waiting for create propagation before completing cleanup'')
                    None;
                  ret (requeueAfter (min (pendingRetryInterval r) remaining), statusErr)
                }
                else removeProjectMappingFinalizer L r mapping)
             }
             else blockMappingCleanup L r mapping
               (''Cannot recover ownership because Harness mapping '' @ fmt_q mappingID @
                '' was not found'') None)
          else removeProjectMappingFinalizer L r mapping
      | Some observed \<Rightarrow>
          if \<not> projectMappingMatches observed request then
            (if ci_recoveryOwnership identity \<noteq> OwnershipUnset then
               blockMappingCleanup L r mapping
                 (''Cannot recover ownership because Harness mapping '' @ fmt_q mappingID @
                  '' does not match the complete stored tuple'') None
             else removeProjectMappingFinalizer L r mapping)
          else do {
            (claimWon, claimResult, claimErr) \<leftarrow>
              authorizeProjectMappingCleanup L r mapping request mappingID;
            (if \<not> claimWon then ret (claimResult, claimErr)
             else cleanupAuthorized L r mapping identity session request mappingID)
          })"

definition finalizeProjectMapping ::
  "Library \<Rightarrow> Reconciler \<Rightarrow> HarnessGitopsProjectMapping \<Rightarrow> (Result \<times> go_error option) M" where
  "finalizeProjectMapping L r mapping =
     (if \<not> lib_ContainsFinalizer L (Finalizers (m_Meta mapping)) harnessProjectMappingFinalizer
      then ret (emptyResult, None)
      else
        (let identity = resolveMappingCleanupIdentity mapping in
         if ci_removeFinalizer identity then removeProjectMappingFinalizer L r mapping
         else if ci_ownershipBlockReason identity \<noteq> '''' then
           blockMappingCleanup L r mapping (ci_ownershipBlockReason identity) None
         else
           (let recoveryRemote = (the (ci_remote identity))\<lparr>r_MappingID := ci_mappingID identity\<rparr> in
            case projectMappingCleanupRequest (Some recoveryRemote) of
              Inl err \<Rightarrow>
                blockMappingCleanup L r mapping
                  (''Stored mapping cleanup identity is invalid: '' @ Error err) None
            | Inr (request, mappingID) \<Rightarrow> do {
                (claimWon, claimResult, claimErr) \<leftarrow>
                  authorizeProjectMappingCleanup L r mapping request mappingID;
                (if \<not> claimWon then ret (claimResult, claimErr)
                 else do {
                   let agentKey = (Namespace (m_Meta mapping),
                     TrimSpace (ref_Name (ms_AgentRef (m_Spec mapping))));
                   got \<leftarrow> GetAgent (apiReader r) agentKey;
                   (case got of
                      Inl err \<Rightarrow>
                        if lib_IsNotFound L err then
                          blockMappingCleanup L r mapping
                            (''Cannot read API-key configuration because HarnessGitopsAgent '' @
                             fst agentKey @ ''/'' @ snd agentKey @ '' does not exist'') None
                        else
                          blockMappingCleanup L r mapping
                            ''Unable to read the referenced Agent during mapping cleanup'' (Some err)
                    | Inr agent \<Rightarrow> do {
                        opened \<leftarrow> sessionForAgent L r agent;
                        (case opened of
                           Inl err \<Rightarrow>
                             blockMappingCleanup L r mapping
                               ''Unable to initialize the Harness session during mapping cleanup''
                               (Some err)
                         | Inr session \<Rightarrow> do {
                             listed \<leftarrow> api_List (projectMappingAPI r) session request;
                             (case listed of
                                Inl err \<Rightarrow>
                                  failMappingCleanup L r mapping
                                    ''Unable to verify the Harness mapping before deletion'' err
                              | Inr mappings \<Rightarrow>
                                  cleanupListed L r mapping identity session request mappingID mappings)
                           })
                      })
                 })
              })))"

section \<open>The calls each step makes\<close>

text \<open>The object without this controller's finalizer, and the update that sends it.\<close>

definition released :: "Library \<Rightarrow> HarnessGitopsProjectMapping \<Rightarrow> HarnessGitopsProjectMapping" where
  "released L m = m\<lparr>m_Meta := (m_Meta m)\<lparr>Finalizers :=
     lib_RemoveFinalizer L (Finalizers (m_Meta m)) harnessProjectMappingFinalizer\<rparr>\<rparr>"

fun isFinalizerWrite :: "Library \<Rightarrow> HarnessGitopsProjectMapping \<Rightarrow> event \<Rightarrow> bool" where
  "isFinalizerWrite L m (EvUpdateMapping m' x) \<longleftrightarrow> m' = released L m"
| "isFinalizerWrite L m _ \<longleftrightarrow> False"

lemma emits_removeFinalizer: "emits (isFinalizerWrite L m) (removeProjectMappingFinalizer L r m)"
  unfolding removeProjectMappingFinalizer_def
  by (intro emits_intro mapping_finalizer.remove_emits)
    (simp add: mappingWriter_def released_def)

lemma emits_blockMappingCleanup:
  "emits (writesRemoteState m (remoteState (m_Status m))) (blockMappingCleanup L r m msg cause)"
  unfolding blockMappingCleanup_def
  by (intro emits_intro) (use emits_setReady [where mutate = None] in \<open>simp_all add: mutated_def\<close>)

lemma emits_failMappingCleanup:
  "emits (writesRemoteState m (remoteState (m_Status m))) (failMappingCleanup L r m msg cause)"
  unfolding failMappingCleanup_def
  by (intro emits_intro) (use emits_setReady [where mutate = None] in \<open>simp_all add: mutated_def\<close>)

lemmas grows_cleanup_outcomes [simp] =
  emits_grows [OF emits_removeFinalizer] emits_grows [OF emits_blockMappingCleanup]
  emits_grows [OF emits_failMappingCleanup]

text \<open>Authorization reads, and ends the pass with a status write or by removing the finalizer.\<close>

lemma emits_authorize:
  "emits (\<lambda>e. isClaimRead e \<or> writesRemoteState m (remoteState (m_Status m)) e \<or> isFinalizerWrite L m e)
     (authorizeProjectMappingCleanup L r m q mid)"
  unfolding authorizeProjectMappingCleanup_def
  by (intro emits_intro emits_mono [OF emits_resolveClaim]
      emits_mono [OF emits_failMappingCleanup] emits_mono [OF emits_removeFinalizer]) simp_all

lemmas grows_authorize [simp] = emits_grows [OF emits_authorize]

lemma authorize_won:
  assumes "result (authorizeProjectMappingCleanup L r m q mid) h = (True, res, err)"
  shows "claimWon L r m q mid None h"
    and "emitted (authorizeProjectMappingCleanup L r m q mid) h =
      emitted (resolveProjectMappingClaim L r m q mid) h"
proof -
  let ?res = "result (resolveProjectMappingClaim L r m q mid) h"
  have "\<exists>d. ?res = Inr d \<and> currentWins d"
  proof (cases ?res)
    case (Inl e)
    with assms show ?thesis
      by (auto simp: authorizeProjectMappingCleanup_def result_bind split: prod.splits)
  next
    case (Inr d)
    with assms show ?thesis
      by (auto simp: authorizeProjectMappingCleanup_def result_bind split: prod.splits if_splits)
  qed
  then obtain d where d: "?res = Inr d" "currentWins d" by blast
  then show "claimWon L r m q mid None h"
    by (auto simp: claimWon_def resolveProjectMappingClaim_def)
  from d show "emitted (authorizeProjectMappingCleanup L r m q mid) h =
      emitted (resolveProjectMappingClaim L r m q mid) h"
    by (simp add: authorizeProjectMappingCleanup_def emitted_bind)
qed

section \<open>Cleanup identity\<close>

lemma cleanup_request_wf:
  assumes "projectMappingCleanupRequest (Some remote) = Inr (q, mid)"
  shows "requestWF q" and "mid = TrimSpace (r_MappingID remote)" and "mid \<noteq> ''''"
  using assms
  by (auto simp: projectMappingCleanupRequest_def Let_def requestWF_def scopesAgree_def
      scopeTrimmed_def emptyScope_def split: if_splits)

text \<open>
  The identity is usable for a delete without recovery exactly when ownership is recorded and
  the creation state is settled.
\<close>

lemma identity_owned_iff:
  "\<not> ci_removeFinalizer (resolveMappingCleanupIdentity m) \<and>
   ci_ownershipBlockReason (resolveMappingCleanupIdentity m) = '''' \<and>
   ci_recoveryOwnership (resolveMappingCleanupIdentity m) = OwnershipUnset \<longleftrightarrow>
   (\<exists>remote. mst_Remote (m_Status m) = Some remote \<and> isDeletionOwnership (r_Ownership remote) \<and>
      \<not> isUncertainCreationState (mst_CreationState (m_Status m)))"
  by (auto simp: resolveMappingCleanupIdentity_def emptyIdentity_def Let_def
      split: option.splits if_splits)

lemma identity_remote:
  "\<not> ci_removeFinalizer (resolveMappingCleanupIdentity m) \<Longrightarrow>
   ci_ownershipBlockReason (resolveMappingCleanupIdentity m) = '''' \<Longrightarrow>
   \<exists>remote. mst_Remote (m_Status m) = Some remote \<and>
     ci_remote (resolveMappingCleanupIdentity m) = Some remote"
  by (auto simp: resolveMappingCleanupIdentity_def emptyIdentity_def Let_def
      split: option.splits if_splits)

lemma identity_mappingID:
  "mst_Remote (m_Status m) = Some remote \<Longrightarrow>
   \<not> isUncertainCreationState (mst_CreationState (m_Status m)) \<Longrightarrow>
   isDeletionOwnership (r_Ownership remote) \<Longrightarrow>
   ci_mappingID (resolveMappingCleanupIdentity m) = TrimSpace (r_MappingID remote)"
  by (simp add: resolveMappingCleanupIdentity_def emptyIdentity_def Let_def)

section \<open>Guards of the remote delete\<close>

text \<open>Events that change nothing at Harness.\<close>

definition quiet :: "event \<Rightarrow> bool" where
  "quiet e \<longleftrightarrow> \<not> isDeleteCall e \<and> \<not> isCreateCall e"

lemma quiet_events [simp]:
  "isClaimRead e \<Longrightarrow> quiet e" "writesRemoteState m st e \<Longrightarrow> quiet e" "isFinalizerWrite L m e \<Longrightarrow> quiet e"
  "isSecretRead e \<Longrightarrow> quiet e" "isListCall e \<Longrightarrow> quiet e" "isAppProjectRead e \<Longrightarrow> quiet e"
  "isStatusWrite e \<Longrightarrow> quiet e"
  by (cases e; simp add: quiet_def)+

lemma isDeleteCallFor_delete: "isDeleteCallFor mid q e \<Longrightarrow> isDeleteCall e"
  by (cases e) auto

lemma quiet_authorize: "emits quiet (authorizeProjectMappingCleanup L r m q mid)"
  by (rule emits_mono [OF emits_authorize]) auto

lemma quiet_GetAgent: "emits quiet (GetAgent rd key)"
  by (simp add: GetAgent_def quiet_def emits_def)

lemma quiet_setReady: "emits quiet (setReady L r m cs reason msg mutate)"
  by (rule emits_mono [OF emits_setReady]) auto

lemma quiet_outcomes:
  "emits quiet (removeProjectMappingFinalizer L r m)"
  "emits quiet (blockMappingCleanup L r m msg cause)"
  "emits quiet (failMappingCleanup L r m msg err)"
  "emits quiet (sessionForAgent L r agent)"
  "emits quiet (returnAPIError L r m msg err)"
  "emits quiet (appProjectExists L rd dc ns n)"
  by ((rule emits_removeFinalizer [THEN emits_mono] emits_blockMappingCleanup [THEN emits_mono]
        emits_failMappingCleanup [THEN emits_mono] emits_sessionForAgent [THEN emits_mono]
        emits_returnAPIError [THEN emits_mono] emits_appProjectExists [THEN emits_mono], simp)+)

lemmas quiet_actions = quiet_authorize quiet_GetAgent quiet_setReady quiet_outcomes

text \<open>
  A delete of the given Mapping, made in the run that started from \<open>h\<close>, is justified: the status
  records settled ownership of the row's ID and its full tuple, the row was listed in this
  run and matches the tuple, and after that list the claim on the ID was arbitrated and won,
  with nothing in between but earlier attempts of this delete.
\<close>

definition deleteJustified ::
  "Library \<Rightarrow> Reconciler \<Rightarrow> HarnessGitopsProjectMapping \<Rightarrow> history \<Rightarrow> history \<Rightarrow> event \<Rightarrow> bool" where
  "deleteJustified L r m h pre e \<longleftrightarrow>
     (\<exists>remote q mid key cand rows http row es ds.
        mst_Remote (m_Status m) = Some remote \<and> isDeletionOwnership (r_Ownership remote) \<and>
        \<not> isUncertainCreationState (mst_CreationState (m_Status m)) \<and>
        projectMappingCleanupRequest (Some remote) = Inr (q, mid) \<and>
        isDeleteCallFor mid q e \<and>
        EvSdkListMappings key cand (listOpts q) (rows, http, None) \<in> set es \<and>
        row \<in> set rows \<and> TrimSpace (v_Identifier row) = mid \<and>
        projectMappingMatches (projectMappingFromSDK row) q \<and>
        claimWon L r m q mid None (h @ es) \<and>
        pre = h @ es @ emitted (resolveProjectMappingClaim L r m q mid) (h @ es) @ ds \<and>
        list_all isDeleteCall ds)"

abbreviation deleteGuard ::
  "Library \<Rightarrow> Reconciler \<Rightarrow> HarnessGitopsProjectMapping \<Rightarrow> history \<Rightarrow> history \<Rightarrow> event \<Rightarrow> bool" where
  "deleteGuard L r m h pre e \<equiv> isDeleteCall e \<longrightarrow> deleteJustified L r m h pre e"

lemma guarded_quiet: "emits quiet m \<Longrightarrow> guarded (\<lambda>pre e. isDeleteCall e \<longrightarrow> J pre e) m h"
  by (rule guarded_emits [where P = quiet]) (auto simp: quiet_def)

lemmas guarded_quiet_actions = quiet_actions [THEN guarded_quiet]

lemma cleanup_request_trim:
  "projectMappingCleanupRequest (Some (remote\<lparr>r_MappingID := TrimSpace (r_MappingID remote)\<rparr>)) =
   projectMappingCleanupRequest (Some remote)"
  by (simp add: projectMappingCleanupRequest_def Let_def)

context mapping_api
begin

lemma cleanupAuthorized_guarded:
  assumes api: "projectMappingAPI r = api"
    and usable: "\<not> ci_removeFinalizer (resolveMappingCleanupIdentity m)"
      "ci_ownershipBlockReason (resolveMappingCleanupIdentity m) = ''''"
    and req: "projectMappingCleanupRequest
      (Some ((the (ci_remote (resolveMappingCleanupIdentity m)))
        \<lparr>r_MappingID := ci_mappingID (resolveMappingCleanupIdentity m)\<rparr>)) = Inr (q, mid)"
    and listed: "EvSdkListMappings key cand (listOpts q) (rows, http, None) \<in> set es"
      "row \<in> set rows" "TrimSpace (v_Identifier row) = mid"
      "projectMappingMatches (projectMappingFromSDK row) q"
    and won: "claimWon L r m q mid None (h @ es)"
  shows "guarded (deleteGuard L r m h)
    (cleanupAuthorized L r m (resolveMappingCleanupIdentity m) s q mid)
    (h @ es @ emitted (resolveProjectMappingClaim L r m q mid) (h @ es))"
proof (cases "ci_recoveryOwnership (resolveMappingCleanupIdentity m) = OwnershipUnset")
  case False
  then show ?thesis
    unfolding cleanupAuthorized_def
    by (auto intro!: guarded_quiet emits_intro quiet_actions)
next
  case True
  let ?h = "h @ es @ emitted (resolveProjectMappingClaim L r m q mid) (h @ es)"
  from True usable identity_owned_iff [of m] obtain remote where
    remote: "mst_Remote (m_Status m) = Some remote" "isDeletionOwnership (r_Ownership remote)"
    "\<not> isUncertainCreationState (mst_CreationState (m_Status m))"
    by auto
  have "ci_remote (resolveMappingCleanupIdentity m) = Some remote"
    using identity_remote [OF usable] remote(1) by simp
  then have req': "projectMappingCleanupRequest (Some remote) = Inr (q, mid)"
    using req identity_mappingID [OF remote(1,3,2)] by (simp add: cleanup_request_trim)
  have "guarded (deleteGuard L r m h) (api_Delete api s q mid) ?h"
    unfolding guarded_def
  proof (intro conjI allI impI)
    show "\<exists>fs. snd (run_state (api_Delete api s q mid) ?h) = ?h @ fs"
      using grows_delete unfolding grows_def by blast
  next
    fix ds e post
    assume ev: "emitted (api_Delete api s q mid) ?h = ds @ e # post"
    have "isDeleteCallFor mid q e' \<and> isDeleteCall e'" if "e' \<in> set (ds @ e # post)" for e'
      using emits_mem [OF delete_calls] ev that isDeleteCallFor_delete by metis
    then have "isDeleteCallFor mid q e" "list_all isDeleteCall ds"
      by (auto simp: list_all_iff)
    with remote req' listed won show "deleteJustified L r m h (?h @ ds) e"
      unfolding deleteJustified_def append_assoc by blast
  qed
  with True show ?thesis
    unfolding cleanupAuthorized_def api
    by (auto intro!: guarded_bind guarded_quiet_actions split: option.split)
qed

lemma cleanupListed_guarded:
  assumes api: "projectMappingAPI r = api"
    and usable: "\<not> ci_removeFinalizer (resolveMappingCleanupIdentity m)"
      "ci_ownershipBlockReason (resolveMappingCleanupIdentity m) = ''''"
    and req: "projectMappingCleanupRequest
      (Some ((the (ci_remote (resolveMappingCleanupIdentity m)))
        \<lparr>r_MappingID := ci_mappingID (resolveMappingCleanupIdentity m)\<rparr>)) = Inr (q, mid)"
    and listed: "EvSdkListMappings key cand (listOpts q) (rows, http, None) \<in> set es"
  shows "guarded (deleteGuard L r m h)
    (cleanupListed L r m (resolveMappingCleanupIdentity m) s q mid (map projectMappingFromSDK rows))
    (h @ es)"
proof (cases "projectMappingWithID (map projectMappingFromSDK rows) mid")
  case None
  then show ?thesis
    unfolding cleanupListed_def
    by (auto intro!: guarded_quiet emits_intro quiet_actions)
next
  case (Some observed)
  from projectMappingWithID_Some [OF Some] obtain row where
    row: "row \<in> set rows" "observed = projectMappingFromSDK row" "TrimSpace (v_Identifier row) = mid"
    by (auto simp: projectMappingFromSDK_def)
  let ?auth = "authorizeProjectMappingCleanup L r m q mid"
  have after: "guarded (deleteGuard L r m h)
      (cleanupAuthorized L r m (resolveMappingCleanupIdentity m) s q mid)
      (h @ es @ emitted ?auth (h @ es))"
    if "result ?auth (h @ es) = (True, res, err)" and "projectMappingMatches observed q" for res err
    using authorize_won [OF that(1)] that(2) row
      cleanupAuthorized_guarded [OF api usable req listed row(1,3)] by simp
  show ?thesis
  proof (cases "projectMappingMatches observed q")
    case False
    with Some show ?thesis
      unfolding cleanupListed_def
      by (auto intro!: guarded_quiet emits_intro quiet_actions)
  next
    case True
    with Some show ?thesis
      unfolding cleanupListed_def
      by (auto intro!: guarded_bind guarded_quiet [OF quiet_authorize] guarded_ret after split: prod.split)
  qed
qed

lemma finalize_guarded:
  assumes api: "projectMappingAPI r = api"
  shows "guarded (deleteGuard L r m h) (finalizeProjectMapping L r m) h"
proof -
  let ?id = "resolveMappingCleanupIdentity m"
  let ?G = "deleteGuard L r m h"
  have listed: "guarded ?G (case result (api_List api s q) (h @ es) of
        Inl err \<Rightarrow> failMappingCleanup L r m
          ''Unable to verify the Harness mapping before deletion'' err
      | Inr mappings \<Rightarrow> cleanupListed L r m ?id s q mid mappings)
      ((h @ es) @ emitted (api_List api s q) (h @ es))"
    if "\<not> ci_removeFinalizer ?id" "ci_ownershipBlockReason ?id = ''''"
      "projectMappingCleanupRequest
        (Some ((the (ci_remote ?id))\<lparr>r_MappingID := ci_mappingID ?id\<rparr>)) = Inr (q, mid)"
    for s q mid es
  proof (cases "result (api_List api s q) (h @ es)")
    case (Inl err)
    then show ?thesis by (auto intro: guarded_quiet_actions)
  next
    case (Inr ms)
    from list_rows [OF Inr] obtain cand rows http where
      "EvSdkListMappings (s_apiKey s) cand (listOpts q) (rows, http, None)
        \<in> set (es @ emitted (api_List api s q) (h @ es))"
      "ms = map projectMappingFromSDK rows"
      by auto
    from cleanupListed_guarded [OF api that this(1), where L = L and h = h and s = s] this(2) Inr
    show ?thesis by simp
  qed
  have list: "guarded ?G (api_List api s q) (h @ es)" for s q es
    by (rule guarded_quiet, rule emits_mono [OF list_calls]) simp
  show ?thesis
    unfolding finalizeProjectMapping_def api
    by (auto intro!: guarded_bind guarded_quiet_actions guarded_ret list listed
        simp: Let_def split: sum.split prod.split)
qed

end

section \<open>Guards of the finalizer\<close>

fun isFinalizerUpdate :: "event \<Rightarrow> bool" where
  "isFinalizerUpdate (EvUpdateMapping m x) = True"
| "isFinalizerUpdate _ = False"

text \<open>
  What the stored status and the spec say about the remote side. A Mapping owns nothing when
  its create is settled and no ownership is recorded; it is the settled owner of the ID it
  records as Managed or Adopted; and while its create is uncertain, the ID it names is the
  one to adopt, or the one a pending create returned.
\<close>

definition uncertainCreate :: "HarnessGitopsProjectMapping \<Rightarrow> bool" where
  "uncertainCreate m \<longleftrightarrow>
     mst_CreationState (m_Status m) \<in> {MappingCreationPending, MappingCreationOutcomeUnknown}"

definition nothingOwned :: "HarnessGitopsProjectMapping \<Rightarrow> bool" where
  "nothingOwned m \<longleftrightarrow> \<not> uncertainCreate m \<and>
     (case mst_Remote (m_Status m) of
        None \<Rightarrow> True
      | Some remote \<Rightarrow> r_Ownership remote \<notin> {OwnershipManaged, OwnershipAdopted})"

definition settledOwner :: "HarnessGitopsProjectMapping \<Rightarrow> string \<Rightarrow> bool" where
  "settledOwner m mid \<longleftrightarrow> \<not> uncertainCreate m \<and>
     (\<exists>remote. mst_Remote (m_Status m) = Some remote \<and>
        r_Ownership remote \<in> {OwnershipManaged, OwnershipAdopted} \<and>
        TrimSpace (r_MappingID remote) = mid)"

definition createCandidate :: "HarnessGitopsProjectMapping \<Rightarrow> string \<Rightarrow> bool" where
  "createCandidate m mid \<longleftrightarrow> uncertainCreate m \<and> mid \<noteq> '''' \<and>
     (let adoptID = TrimSpace (ms_AdoptMappingID (m_Spec m)) in
      adoptID = mid \<and> rememberedIDOf m \<in> {'''', mid} \<or>
      adoptID = '''' \<and> rememberedIDOf m = mid \<and>
        mst_CreationState (m_Status m) = MappingCreationPending)"

text \<open>The remote mapping finalization works on: the ID and the stored tuple.\<close>

definition cleanupTarget ::
  "HarnessGitopsProjectMapping \<Rightarrow> ProjectMappingRequest \<Rightarrow> string \<Rightarrow> bool" where
  "cleanupTarget m q mid \<longleftrightarrow>
     (settledOwner m mid \<or> createCandidate m mid) \<and>
     (\<exists>remote. mst_Remote (m_Status m) = Some remote \<and>
        projectMappingCleanupRequest (Some (remote\<lparr>r_MappingID := mid\<rparr>)) = Inr (q, mid))"

text \<open>
  The listed rows show that there is nothing left to delete. For an owner: no row has the ID, or
  the row that has it is not the stored mapping any more. For the ID a pending create
  returned: no row has it, and the grace period for it to become visible is over.
\<close>

definition nothingLeft ::
  "HarnessGitopsProjectMapping \<Rightarrow> ProjectMappingRequest \<Rightarrow> string \<Rightarrow> ProjectMapping list \<Rightarrow> Time \<Rightarrow> bool" where
  "nothingLeft m q mid rows now \<longleftrightarrow>
     (case find (\<lambda>row. TrimSpace (pm_Identifier row) = mid) rows of
        None \<Rightarrow> settledOwner m mid \<or>
          createCandidate m mid \<and> mst_CreationState (m_Status m) = MappingCreationPending \<and>
            rememberedIDOf m = mid \<and> projectMappingCreateVisibilityGraceRemaining now m = 0
      | Some row \<Rightarrow> settledOwner m mid \<and> \<not> projectMappingMatches row q)"

text \<open>
  The finalizer of a Mapping may be removed after the events \<open>pre\<close> of a run that started from
  \<open>h\<close>: the Mapping owns nothing and no create is uncertain; or, for the remote mapping its
  status names, the last thing that happened in this run is that the claim on it was
  arbitrated and lost, that a list came back which leaves nothing to delete, or, for an
  owner, that the row was deleted: the calls confirm that it is gone.
\<close>

definition releaseJustified ::
  "Library \<Rightarrow> Reconciler \<Rightarrow> HarnessGitopsProjectMapping \<Rightarrow> history \<Rightarrow> history \<Rightarrow> bool" where
  "releaseJustified L r m h pre \<longleftrightarrow>
     nothingOwned m \<or>
     (\<exists>q mid es. cleanupTarget m q mid \<and>
       ((\<exists>d. result (resolveProjectMappingClaim L r m q mid) (h @ es) = Inr d \<and> \<not> currentWins d \<and>
            pre = h @ es @ emitted (resolveProjectMappingClaim L r m q mid) (h @ es)) \<or>
        (\<exists>ls key cand rows http. list_all isListCall ls \<and> pre = h @ es @ ls \<and>
            EvSdkListMappings key cand (listOpts q) (rows, http, None) \<in> set ls \<and>
            nothingLeft m q mid (map projectMappingFromSDK rows) (lib_Now L pre)) \<or>
        (\<exists>ds. settledOwner m mid \<and> pre = h @ es @ ds \<and>
            rowDeleted mid q (ScopedIdentifierCandidates (q_AgentScope q) (q_AgentIdentifier q)) ds)))"

abbreviation releaseGuard ::
  "Library \<Rightarrow> Reconciler \<Rightarrow> HarnessGitopsProjectMapping \<Rightarrow> history \<Rightarrow> history \<Rightarrow> event \<Rightarrow> bool" where
  "releaseGuard L r m h pre e \<equiv>
     isFinalizerUpdate e \<longrightarrow> isFinalizerWrite L m e \<and> releaseJustified L r m h pre"

text \<open>The identity the code computes says the same.\<close>

lemma uncertain_iff: "isUncertainCreationState (mst_CreationState (m_Status m)) \<longleftrightarrow> uncertainCreate m"
  by (auto simp: isUncertainCreationState_def uncertainCreate_def)

lemma identity_nothing: "ci_removeFinalizer (resolveMappingCleanupIdentity m) \<longleftrightarrow> nothingOwned m"
  by (auto simp: resolveMappingCleanupIdentity_def emptyIdentity_def nothingOwned_def uncertain_iff
      isDeletionOwnership_def Let_def split: option.split)

lemma identity_target:
  assumes "\<not> ci_removeFinalizer (resolveMappingCleanupIdentity m)"
    and "ci_ownershipBlockReason (resolveMappingCleanupIdentity m) = ''''"
    and "projectMappingCleanupRequest (Some ((the (ci_remote (resolveMappingCleanupIdentity m)))
      \<lparr>r_MappingID := ci_mappingID (resolveMappingCleanupIdentity m)\<rparr>)) = Inr (q, mid)"
  shows "cleanupTarget m q mid"
    and "ci_recoveryOwnership (resolveMappingCleanupIdentity m) = OwnershipUnset \<longleftrightarrow> settledOwner m mid"
    and "ci_pendingReturnedID (resolveMappingCleanupIdentity m) \<Longrightarrow>
      createCandidate m mid \<and> mst_CreationState (m_Status m) = MappingCreationPending \<and>
        rememberedIDOf m = mid"
proof -
  let ?id = "resolveMappingCleanupIdentity m"
  obtain remote where remote: "mst_Remote (m_Status m) = Some remote" "ci_remote ?id = Some remote"
    using identity_remote assms(1,2) by blast
  have mid: "mid = TrimSpace (ci_mappingID ?id)" "mid \<noteq> ''''"
    using cleanup_request_wf [OF assms(3)] by simp_all
  have trim: "TrimSpace (ci_mappingID ?id) = ci_mappingID ?id"
    by (simp add: resolveMappingCleanupIdentity_def emptyIdentity_def Let_def split: option.split)
  have "(settledOwner m mid \<or> createCandidate m mid) \<and>
      (ci_recoveryOwnership ?id = OwnershipUnset \<longleftrightarrow> settledOwner m mid) \<and>
      (ci_pendingReturnedID ?id \<longrightarrow> createCandidate m mid \<and>
        mst_CreationState (m_Status m) = MappingCreationPending \<and> rememberedIDOf m = mid)"
    using assms(1,2) mid remote(1)
    by (auto simp: resolveMappingCleanupIdentity_def emptyIdentity_def settledOwner_def
        createCandidate_def uncertain_iff isDeletionOwnership_def rememberedIDOf_def Let_def
        split: if_splits)
  then show "cleanupTarget m q mid"
    and "ci_recoveryOwnership ?id = OwnershipUnset \<longleftrightarrow> settledOwner m mid"
    and "ci_pendingReturnedID ?id \<Longrightarrow> createCandidate m mid \<and>
      mst_CreationState (m_Status m) = MappingCreationPending \<and> rememberedIDOf m = mid"
    using assms(3) remote mid(1) trim unfolding cleanupTarget_def by auto
qed

text \<open>Everything but the update of the finalizer keeps it.\<close>

definition keeps :: "event \<Rightarrow> bool" where
  "keeps e \<longleftrightarrow> \<not> isFinalizerUpdate e"

lemma keeps_events [simp]:
  "isClaimRead e \<Longrightarrow> keeps e" "writesRemoteState m st e \<Longrightarrow> keeps e" "isSecretRead e \<Longrightarrow> keeps e"
  "isListCall e \<Longrightarrow> keeps e" "isDeleteCallFor mid q e \<Longrightarrow> keeps e"
  by (cases e; simp add: keeps_def)+

lemma keeps_GetAgent: "emits keeps (GetAgent rd key)"
  by (simp add: GetAgent_def keeps_def emits_def)

lemma keeps_outcomes:
  "emits keeps (setReady L r m cs reason msg mutate)"
  "emits keeps (blockMappingCleanup L r m msg cause)"
  "emits keeps (failMappingCleanup L r m msg err)"
  "emits keeps (sessionForAgent L r agent)"
  "emits keeps (resolveProjectMappingClaim L r m q mid)"
  by ((rule emits_setReady [THEN emits_mono] emits_blockMappingCleanup [THEN emits_mono]
        emits_failMappingCleanup [THEN emits_mono] emits_sessionForAgent [THEN emits_mono]
        emits_resolveClaim [THEN emits_mono], simp)+)

lemmas keeps_actions = keeps_GetAgent keeps_outcomes

lemma guarded_keeps: "emits keeps m \<Longrightarrow> guarded (releaseGuard L r m' h0) m h"
  by (rule guarded_emits [where P = keeps]) (auto simp: keeps_def)

lemmas guarded_keeps_actions = keeps_actions [THEN guarded_keeps]

lemma removeFinalizer_guarded:
  assumes "releaseJustified L r m h0 h"
  shows "guarded (releaseGuard L r m h0) (removeProjectMappingFinalizer L r m) h"
  unfolding removeProjectMappingFinalizer_def RemoveFinalizer_def mappingWriter_def UpdateMapping_def
  using assms by (auto intro!: guarded_intro simp: released_def)

lemma authorize_release_guarded:
  assumes "cleanupTarget m q mid"
  shows "guarded (releaseGuard L r m h) (authorizeProjectMappingCleanup L r m q mid) (h @ es)"
proof -
  let ?res = "resolveProjectMappingClaim L r m q mid"
  have "guarded (releaseGuard L r m h) (removeProjectMappingFinalizer L r m)
      (h @ es @ emitted ?res (h @ es))"
    if "result ?res (h @ es) = Inr d" "\<not> currentWins d" for d
    using assms that by (intro removeFinalizer_guarded) (unfold releaseJustified_def, blast)
  then show ?thesis
    unfolding authorizeProjectMappingCleanup_def
    by (auto intro!: guarded_bind guarded_keeps_actions guarded_ret split: sum.split prod.split)
qed

context mapping_api
begin

lemma cleanupAuthorized_release_guarded:
  assumes "projectMappingAPI r = api" and target: "cleanupTarget m q mid"
    and owner: "ci_recoveryOwnership identity = OwnershipUnset \<longleftrightarrow> settledOwner m mid"
  shows "guarded (releaseGuard L r m h) (cleanupAuthorized L r m identity s q mid) (h @ es)"
proof -
  have "guarded (releaseGuard L r m h) (removeProjectMappingFinalizer L r m)
      (h @ es @ emitted (api_Delete api s q mid) (h @ es))"
    if "result (api_Delete api s q mid) (h @ es) = None" "settledOwner m mid"
    using target that(2) delete_gone [OF that(1)]
    by (intro removeFinalizer_guarded) (auto simp: releaseJustified_def)
  moreover have "guarded (releaseGuard L r m h) (api_Delete api s q mid) (h @ es)"
    by (rule guarded_keeps, rule emits_mono [OF delete_calls]) simp
  ultimately show ?thesis
    unfolding cleanupAuthorized_def assms(1)
    by (auto intro!: guarded_bind guarded_keeps_actions guarded_ret
        simp: Let_def owner split: option.split prod.split)
qed

lemma list_release_guarded:
  assumes "cleanupTarget m q mid" and "result (api_List api s q) (h @ es) = Inr rows"
    and "nothingLeft m q mid rows (lib_Now L (h @ es @ emitted (api_List api s q) (h @ es)))"
  shows "guarded (releaseGuard L r m h) (removeProjectMappingFinalizer L r m)
    (h @ es @ emitted (api_List api s q) (h @ es))"
proof (rule removeFinalizer_guarded)
  let ?ls = "emitted (api_List api s q) (h @ es)"
  have "list_all isListCall ?ls"
    using emits_mem [OF list_calls] by (auto simp: list_all_iff)
  then show "releaseJustified L r m h (h @ es @ ?ls)"
    using list_rows [OF assms(2)] assms(1,3) unfolding releaseJustified_def by blast
qed

lemma cleanupListed_release_guarded:
  assumes api: "projectMappingAPI r = api"
    and usable: "\<not> ci_removeFinalizer (resolveMappingCleanupIdentity m)"
      "ci_ownershipBlockReason (resolveMappingCleanupIdentity m) = ''''"
      "projectMappingCleanupRequest (Some ((the (ci_remote (resolveMappingCleanupIdentity m)))
        \<lparr>r_MappingID := ci_mappingID (resolveMappingCleanupIdentity m)\<rparr>)) = Inr (q, mid)"
    and rows: "result (api_List api s q) (h @ es) = Inr rows"
  shows "guarded (releaseGuard L r m h)
    (cleanupListed L r m (resolveMappingCleanupIdentity m) s q mid rows)
    (h @ es @ emitted (api_List api s q) (h @ es))"
proof -
  note target = identity_target [OF usable]
  have pending: "createCandidate m mid" "mst_CreationState (m_Status m) = MappingCreationPending"
    "rememberedIDOf m = mid" if "ci_pendingReturnedID (resolveMappingCleanupIdentity m)"
    using target(3) [OF that] by blast+
  have mid: "mid \<noteq> ''''" using cleanup_request_wf(3) [OF usable(3)] .
  have grace: "projectMappingCreateVisibilityGraceRemaining now m = 0"
    if "\<not> 0 < projectMappingCreateVisibilityGraceRemaining now m" for now
    using that by (auto simp: projectMappingCreateVisibilityGraceRemaining_def Let_def
        projectMappingCreateVisibilityGracePeriod_def Second_def split: if_splits)
  note remove = list_release_guarded [OF target(1) rows]
  show ?thesis
    unfolding cleanupListed_def
    by (cases "projectMappingWithID rows mid")
      (auto intro!: guarded_bind guarded_keeps_actions guarded_ret guarded_peek remove
        authorize_release_guarded [OF target(1)]
        cleanupAuthorized_release_guarded [OF api target(1,2)]
        simp: nothingLeft_def projectMappingWithID_def mid Let_def target(2) grace pending
        split: prod.split)
qed

lemma finalize_release_guarded:
  assumes api: "projectMappingAPI r = api"
  shows "guarded (releaseGuard L r m h) (finalizeProjectMapping L r m) h"
proof -
  let ?id = "resolveMappingCleanupIdentity m" and ?G = "releaseGuard L r m h"
  have list: "guarded ?G (api_List api s q) h'" for s q h'
    by (rule guarded_keeps, rule emits_mono [OF list_calls]) simp
  have listed: "guarded ?G (case result (api_List api s q) (h @ es) of
        Inl err \<Rightarrow> failMappingCleanup L r m
          ''Unable to verify the Harness mapping before deletion'' err
      | Inr mappings \<Rightarrow> cleanupListed L r m ?id s q mid mappings)
      ((h @ es) @ emitted (api_List api s q) (h @ es))"
    if "\<not> ci_removeFinalizer ?id" "ci_ownershipBlockReason ?id = ''''"
      "projectMappingCleanupRequest
        (Some ((the (ci_remote ?id))\<lparr>r_MappingID := ci_mappingID ?id\<rparr>)) = Inr (q, mid)" for s q mid es
    using cleanupListed_release_guarded [OF api that]
    by (auto intro: guarded_keeps_actions split: sum.split)
  have none: "guarded ?G (removeProjectMappingFinalizer L r m) h" if "ci_removeFinalizer ?id"
    using that by (intro removeFinalizer_guarded) (simp add: releaseJustified_def identity_nothing)
  have authorize: "guarded ?G (authorizeProjectMappingCleanup L r m q mid) h"
    if "\<not> ci_removeFinalizer ?id" "ci_ownershipBlockReason ?id = ''''"
      "projectMappingCleanupRequest
        (Some ((the (ci_remote ?id))\<lparr>r_MappingID := ci_mappingID ?id\<rparr>)) = Inr (q, mid)" for q mid
    using authorize_release_guarded [OF identity_target(1) [OF that], of L r h "[]"] by simp
  show ?thesis
    unfolding finalizeProjectMapping_def api
    by (auto intro!: guarded_bind guarded_keeps_actions guarded_ret list listed none authorize
        simp: Let_def split: sum.split prod.split)
qed

end

section \<open>Properties\<close>

lemma cleanup_of_request:
  assumes wf: "requestWF q" and "TrimSpace mid = mid" "mid \<noteq> ''''"
    and "TrimSpace ident = ident" "ident \<noteq> ''''"
  shows "projectMappingCleanupRequest (Some ((remoteStatusForRequest q)\<lparr>r_MappingID := mid,
      r_Ownership := ownership,
      r_Agent := (r_Agent (remoteStatusForRequest q))\<lparr>ra_Identifier := ident\<rparr>\<rparr>)) =
    Inr (q\<lparr>q_AgentIdentifier := ident\<rparr>, mid)"
proof -
  have fields: "q_AccountIdentifier q \<noteq> ''''" "q_ArgoProjectName q \<noteq> ''''"
    "TrimSpace (q_AccountIdentifier q) = q_AccountIdentifier q"
    "TrimSpace (q_ArgoProjectName q) = q_ArgoProjectName q"
    "TrimSpace (sc_OrgIdentifier (q_Agent q)) = sc_OrgIdentifier (q_Agent q)"
    "TrimSpace (sc_ProjectIdentifier (q_Agent q)) = sc_ProjectIdentifier (q_Agent q)"
    "TrimSpace (sc_OrgIdentifier (q_Mapping q)) = sc_OrgIdentifier (q_Mapping q)"
    "TrimSpace (sc_ProjectIdentifier (q_Mapping q)) = sc_ProjectIdentifier (q_Mapping q)"
    and agree: "scopesAgree (q_AgentScope q) (q_Agent q) (q_Mapping q)"
    using wf by (simp_all add: requestWF_def scopeTrimmed_def)
  have scope: "ToUpper (TrimSpace (q_AgentScope q)) = q_AgentScope q"
    "TrimSpace (q_AgentScope q) = q_AgentScope q"
    using requestWF_scope [OF wf] by blast+
  then have upper: "ToUpper (q_AgentScope q) = q_AgentScope q" by simp
  have eta: "q\<lparr>q_AgentIdentifier := ident\<rparr> =
      \<lparr>q_AccountIdentifier = q_AccountIdentifier q, q_AgentIdentifier = ident,
       q_AgentScope = q_AgentScope q,
       q_Agent = \<lparr>sc_OrgIdentifier = sc_OrgIdentifier (q_Agent q),
         sc_ProjectIdentifier = sc_ProjectIdentifier (q_Agent q)\<rparr>,
       q_Mapping = \<lparr>sc_OrgIdentifier = sc_OrgIdentifier (q_Mapping q),
         sc_ProjectIdentifier = sc_ProjectIdentifier (q_Mapping q)\<rparr>,
       q_ArgoProjectName = q_ArgoProjectName q,
       q_AutoCreateServiceEnv = q_AutoCreateServiceEnv q\<rparr>"
    by (cases q) simp
  from agree have target: "sc_OrgIdentifier (q_Mapping q) \<noteq> ''''" "sc_ProjectIdentifier (q_Mapping q) \<noteq> ''''"
    by (simp_all add: scopesAgree_def)
  note facts = fields scope upper assms(2-5) target projectMappingCleanupRequest_def
    remoteStatusForRequest_def Let_def
  from agree consider "q_AgentScope q = agentScopeAccount" "q_Agent q = emptyScope"
    | "q_AgentScope q = agentScopeOrg" "sc_OrgIdentifier (q_Agent q) = sc_OrgIdentifier (q_Mapping q)"
      "sc_ProjectIdentifier (q_Agent q) = ''''"
    | "q_AgentScope q = agentScopeProject" "q_Agent q = q_Mapping q"
    by (auto simp: scopesAgree_def)
  then show ?thesis unfolding eta
    by cases (simp_all add: facts emptyScope_def)
qed

lemma sampleRequest_wf: "requestWF sampleRequest"
  by (simp add: requestWF_def sampleRequest_def scopesAgree_def scopeTrimmed_def agentScope_defs)

definition finalizing :: "HarnessGitopsProjectMapping \<Rightarrow> HarnessGitopsProjectMapping" where
  "finalizing m = m\<lparr>m_Meta := (m_Meta m)\<lparr>DeletionTimestamp := Some (990 * Second),
     Finalizers := [harnessProjectMappingFinalizer]\<rparr>\<rparr>"

lemma sample_contains [simp]:
  "lib_ContainsFinalizer (sampleLibrary api) (Finalizers (m_Meta (finalizing m))) harnessProjectMappingFinalizer"
  by (simp add: sampleLibrary_def finalizing_def)

text \<open>
  C25: a resource that owns nothing is finalized locally. When no create is uncertain and no
  Managed or Adopted ownership is recorded, finalization makes no Harness call, reads no
  Secret and asks for no claim: a Mapping that carries the finalizer is updated once, without
  it and otherwise unchanged, one that does not is left alone; and the pass ends without a
  requeue, with the error of the update if the server refused it.
\<close>

theorem external_cleanup_is_local:
  assumes "nothingOwned m"
  shows "let present = lib_ContainsFinalizer L (Finalizers (m_Meta m)) harnessProjectMappingFinalizer;
             answer = cl_UpdateMapping (rc_Client r) h (released L m);
             run = finalizeProjectMapping L r m
    in emitted run h = (if present then [EvUpdateMapping (released L m) answer] else []) \<and>
       fst (result run h) = emptyResult \<and>
       (snd (result run h) = None \<longleftrightarrow> \<not> present \<or> (\<exists>stored. answer = Inr stored)) \<and>
       (finalizerLaws L \<longrightarrow>
          set (Finalizers (m_Meta (released L m))) =
            set (Finalizers (m_Meta m)) - {harnessProjectMappingFinalizer})"
proof -
  have "finalizeProjectMapping L r m =
      (if \<not> lib_ContainsFinalizer L (Finalizers (m_Meta m)) harnessProjectMappingFinalizer
       then ret (emptyResult, None) else removeProjectMappingFinalizer L r m)"
    using assms by (simp add: finalizeProjectMapping_def identity_nothing Let_def)
  then show ?thesis
    by (auto simp: removeProjectMappingFinalizer_def RemoveFinalizer_def mappingWriter_def
        UpdateMapping_def released_def finalizerLaws_def emitted_bind result_bind Let_def
        split: sum.splits)
qed

theorem external_cleanup_is_local_witness:
  "let m = finalizing sampleMapping; L = sampleLibrary absentAPI; r = sampleReconciler [] in
   nothingOwned m \<and> finalizerLaws L \<and>
   emitted (finalizeProjectMapping L r m) [] =
     [EvUpdateMapping (released L m) (cl_UpdateMapping (rc_Client r) [] (released L m))] \<and>
   harnessProjectMappingFinalizer \<in> set (Finalizers (m_Meta m)) \<and>
   harnessProjectMappingFinalizer \<notin> set (Finalizers (m_Meta (released L m)))"
proof -
  have own: "nothingOwned (finalizing sampleMapping)"
    by (simp add: finalizing_def sampleMapping_def nothingOwned_def uncertainCreate_def)
  moreover have laws: "finalizerLaws (sampleLibrary absentAPI)"
    by (auto simp: finalizerLaws_def sampleLibrary_def)
  moreover have "harnessProjectMappingFinalizer \<in> set (Finalizers (m_Meta (finalizing sampleMapping)))"
    by (simp add: finalizing_def)
  ultimately show ?thesis
    using external_cleanup_is_local [OF own, of "sampleLibrary absentAPI" "sampleReconciler []" "[]"]
    by (simp add: Let_def)
qed

text \<open>
  C24: an unresolved create is never forgotten. While the create is OutcomeUnknown, or Pending
  without a returned ID, and no \<open>adoptMappingId\<close> is set, the finalization of a Mapping that
  carries the finalizer only reports \<open>CleanupBlocked\<close>: at most one status write that keeps the
  creation state and the remote tuple, no update of the finalizer and no Harness call, and
  the Mapping is looked at again after the resync interval. (With an \<open>adoptMappingId\<close>, or for
  a Pending create that returned an ID, cleanup goes on.)
\<close>

theorem unresolved_create_blocks_cleanup:
  assumes "lib_ContainsFinalizer L (Finalizers (m_Meta m)) harnessProjectMappingFinalizer"
    and "uncertainCreate m" and "TrimSpace (ms_AdoptMappingID (m_Spec m)) = ''''"
    and "mst_CreationState (m_Status m) = MappingCreationOutcomeUnknown \<or> rememberedIDOf m = ''''"
  shows "\<exists>message. let es = emitted (finalizeProjectMapping L r m) h;
             out = result (finalizeProjectMapping L r m) h
    in conditionReported L m ConditionFalse ''CleanupBlocked'' message es \<and>
       list_all (writesRemoteState m (remoteState (m_Status m))) es \<and>
       fst out = requeueAfter (resyncInterval r) \<and>
       (snd out = None \<longrightarrow> conditionStored L m ConditionFalse ''CleanupBlocked'' message es)"
proof -
  let ?id = "resolveMappingCleanupIdentity m"
  have id: "\<not> ci_removeFinalizer ?id" "ci_ownershipBlockReason ?id \<noteq> ''''"
    using assms
    by (auto simp: resolveMappingCleanupIdentity_def rememberedIDOf_def emptyIdentity_def Let_def
        uncertain_iff split: option.splits)
  let ?msg = "ci_ownershipBlockReason ?id"
  let ?report = "setReady L r m ConditionFalse ''CleanupBlocked'' ?msg None"
  have run: "finalizeProjectMapping L r m = blockMappingCleanup L r m ?msg None"
    using assms(1) id by (simp add: finalizeProjectMapping_def Let_def)
  have es: "emitted (finalizeProjectMapping L r m) h = emitted ?report h"
    and res: "result (finalizeProjectMapping L r m) h =
      (requeueAfter (resyncInterval r), fst (result ?report h))"
    by (simp_all add: run blockMappingCleanup_def emitted_bind result_bind split: prod.split)
  have "list_all (writesRemoteState m (remoteState (m_Status m))) (emitted (finalizeProjectMapping L r m) h)"
    using emits_mem [OF emits_blockMappingCleanup] by (auto simp: run list_all_iff)
  then show ?thesis
    using setReady_reports setReady_stores [of L r m ConditionFalse "''CleanupBlocked''" ?msg h]
    by (intro exI [of _ ?msg]) (simp add: es res)
qed

definition unknownMapping :: HarnessGitopsProjectMapping where
  "unknownMapping = sampleMapping\<lparr>m_Status := (m_Status sampleMapping)
     \<lparr>mst_CreationState := MappingCreationOutcomeUnknown,
      mst_Remote := Some (remoteStatusForRequest sampleRequest)\<rparr>\<rparr>"

theorem unresolved_create_blocks_cleanup_witness:
  "let m = finalizing unknownMapping; L = sampleLibrary absentAPI;
       es = emitted (finalizeProjectMapping L (sampleReconciler []) m) [] in
   uncertainCreate m \<and> es \<noteq> [] \<and>
   (\<exists>message. conditionReported L m ConditionFalse ''CleanupBlocked'' message es) \<and>
   list_all (writesRemoteState m (remoteState (m_Status m))) es"
proof -
  let ?m = "finalizing unknownMapping" and ?L = "sampleLibrary absentAPI"
  have m: "uncertainCreate ?m" "TrimSpace (ms_AdoptMappingID (m_Spec ?m)) = ''''"
    "mst_CreationState (m_Status ?m) = MappingCreationOutcomeUnknown"
    by (simp_all add: unknownMapping_def sampleMapping_def finalizing_def uncertainCreate_def)
  have "emitted (finalizeProjectMapping ?L (sampleReconciler []) ?m) [] \<noteq> []"
    by (simp add: finalizeProjectMapping_def resolveMappingCleanupIdentity_def emptyIdentity_def
        unknownMapping_def finalizing_def sample_defs Let_def isUncertainCreationState_def
        blockMappingCleanup_def setReady_def readyStatus_def UpdateMappingStatus_def emitted_def
        sampleReconciler_def)
  with unresolved_create_blocks_cleanup [OF sample_contains m(1,2), of absentAPI "sampleReconciler []" "[]"] m
  show ?thesis unfolding Let_def by blast
qed

text \<open>
  C26: the create-visibility grace period. For every deletion time and every clock reading the
  remaining grace is not negative. When the clock is not before the deletion time it is at
  most 30 seconds, and it is used up exactly when 30 seconds have passed, also where the
  elapsed time saturates the 64-bit duration. When the clock is behind the deletion time, the
  API server stamps the latter, the wait is longer than 30 seconds by that difference, unless
  the difference leaves the range of a duration.
\<close>

theorem grace_period_bounds:
  assumes "DeletionTimestamp (m_Meta m) = Some t" and "t \<noteq> 0"
  shows "let remaining = projectMappingCreateVisibilityGraceRemaining now m in
    0 \<le> remaining \<and>
    (t \<le> now \<longrightarrow> remaining \<le> 30 * Second \<and> (remaining = 0 \<longleftrightarrow> 30 * Second \<le> now - t)) \<and>
    (now < t \<and> 30 * Second + (t - now) \<le> maxDuration \<longrightarrow> remaining = 30 * Second + (t - now))"
proof -
  let ?r = "30 * Second - timeSub now t"
  have def: "projectMappingCreateVisibilityGraceRemaining now m = max 0 (wrapDuration ?r)"
    using assms by (simp add: projectMappingCreateVisibilityGraceRemaining_def timeIsZero_def Let_def
        projectMappingCreateVisibilityGracePeriod_def)
  have sub: "minDuration \<le> timeSub now t" "timeSub now t \<le> maxDuration"
    "t \<le> now \<Longrightarrow> timeSub now t = min maxDuration (now - t)"
    "now < t \<Longrightarrow> 30 * Second + (t - now) \<le> maxDuration \<Longrightarrow> timeSub now t = now - t"
    by (auto simp: timeSub_def minDuration_def maxDuration_def Second_def)
  have wrap: "?r \<le> maxDuration \<Longrightarrow> wrapDuration ?r = ?r"
    using sub(2) by (intro wrapDuration_id) (auto simp: minDuration_def maxDuration_def Second_def)
  have "max 0 (wrapDuration ?r) \<le> 30 * Second \<and> (max 0 (wrapDuration ?r) = 0 \<longleftrightarrow> 30 * Second \<le> now - t)"
    if "t \<le> now"
    using sub(3) [OF that] that wrap by (auto simp: Second_def maxDuration_def min_def max_def)
  moreover have "max 0 (wrapDuration ?r) = 30 * Second + (t - now)"
    if "now < t" "30 * Second + (t - now) \<le> maxDuration"
    using sub(4) [OF that] that wrap by (auto simp: Second_def)
  ultimately show ?thesis unfolding def Let_def by simp
qed

theorem grace_period_bounds_witness:
  "let m = finalizing sampleMapping in
   DeletionTimestamp (m_Meta m) = Some (990 * Second) \<and>
   0 < projectMappingCreateVisibilityGraceRemaining (1000 * Second) m \<and>
   projectMappingCreateVisibilityGraceRemaining (1000 * Second) m \<le> 30 * Second \<and>
   projectMappingCreateVisibilityGraceRemaining (1020 * Second) m = 0 \<and>
   projectMappingCreateVisibilityGraceRemaining (980 * Second) m = 40 * Second"
proof -
  have d: "DeletionTimestamp (m_Meta (finalizing sampleMapping)) = Some (990 * Second)"
    by (simp add: finalizing_def)
  note g = grace_period_bounds [OF d, unfolded Let_def]
  from d g [of "1000 * Second"] g [of "1020 * Second"] g [of "980 * Second"] show ?thesis
    by (simp add: Let_def Second_def maxDuration_def)
qed

end
