(* ===== verification/Mapping_Reconciler.thy ===== *)
theory Mapping_Reconciler
  imports Mapping_Finalizer
begin

text \<open>
  \<open>internal/resource/projectmapping/reconciler.go\<close>: the handler of one Mapping. It resolves the
  request from the two custom resources, checks that the AppProject exists and the Agent is
  healthy, lists the remote rows, and then verifies, adopts, observes or creates a row.
\<close>

section \<open>A selected row\<close>

text \<open>The closure \<open>record\<close> of \<open>reconcileSelectedMapping\<close>.\<close>

definition recordReady ::
  "Library \<Rightarrow> Reconciler \<Rightarrow> HarnessGitopsProjectMapping \<Rightarrow> ConditionStatus \<Rightarrow> string \<Rightarrow> string \<Rightarrow>
     mutation \<Rightarrow> (Result \<times> go_error option) M" where
  "recordReady L r mapping status reason message mutate = do {
     (statusErr, mapping) \<leftarrow> setReady L r mapping status reason message mutate;
     ret (requeueAfter (resyncInterval r), statusErr)
   }"

text \<open>The status mutations, as the closures of the source.\<close>

definition settle :: "HarnessGitopsProjectMappingStatus \<Rightarrow> HarnessGitopsProjectMappingStatus" where
  "settle status = status\<lparr>mst_CreationState := MappingCreationUnset\<rparr>"

definition markUnknown ::
  "ProjectMappingRequest \<Rightarrow> HarnessGitopsProjectMappingStatus \<Rightarrow> HarnessGitopsProjectMappingStatus" where
  "markUnknown request status =
     status\<lparr>mst_CreationState := MappingCreationOutcomeUnknown,
       mst_Remote := Some (unresolvedRemoteStatus (mst_Remote status) request)\<rparr>"

definition ownCandidate ::
  "ResourceOwnership \<Rightarrow> HarnessGitopsProjectMappingStatus \<Rightarrow> HarnessGitopsProjectMappingStatus" where
  "ownCandidate ownership status =
     status\<lparr>mst_CreationState := MappingCreationUnset,
       mst_Remote := map_option (\<lambda>remote. remote\<lparr>r_Ownership := ownership\<rparr>) (mst_Remote status)\<rparr>"

definition recordObserved ::
  "MappingCreationState \<Rightarrow> ResourceOwnership \<Rightarrow> ProjectMappingRequest \<Rightarrow> ProjectMapping \<Rightarrow>
     HarnessGitopsProjectMappingStatus \<Rightarrow> HarnessGitopsProjectMappingStatus" where
  "recordObserved state ownership request observed status =
     status\<lparr>mst_CreationState := state,
       mst_Remote := Some ((remoteStatusForObserved request observed)\<lparr>r_Ownership := ownership\<rparr>)\<rparr>"

text \<open>From line 591: neither owned nor a remembered create candidate.\<close>

definition reconcileUnclaimed ::
  "Library \<Rightarrow> Reconciler \<Rightarrow> HarnessGitopsProjectMapping \<Rightarrow> ProjectMappingRequest \<Rightarrow> ProjectMapping \<Rightarrow>
     (Result \<times> go_error option) M" where
  "reconcileUnclaimed L r mapping request observed =
     (let observedID = TrimSpace (pm_Identifier observed);
          adoptID = TrimSpace (ms_AdoptMappingID (m_Spec mapping))
      in
      if adoptID = observedID then do {
        (won, res, err) \<leftarrow> requireProjectMappingClaim L r mapping request observedID;
        (if \<not> won then ret (res, err)
         else recordReady L r mapping ConditionTrue ''MappingAdopted''
           ''The exact Harness mapping was explicitly adopted''
           (Some (recordObserved MappingCreationUnset OwnershipAdopted request observed)))
      }
      else if isUncertainCreationState (mst_CreationState (m_Status mapping)) then
        recordReady L r mapping ConditionFalse
          (if adoptID \<noteq> '''' then ''AdoptionFailed'' else ''CreateOutcomeUnknown'')
          (if adoptID \<noteq> ''''
           then ''Harness mapping '' @ fmt_q adoptID @ '' does not match the observed create candidate '' @
             fmt_q observedID
           else ''An exact mapping exists, but create ownership is unresolved; set spec.adoptMappingId to claim it'')
          (Some (recordObserved MappingCreationOutcomeUnknown OwnershipUnset request observed))
      else if adoptID \<noteq> '''' then
        recordReady L r mapping ConditionFalse ''AdoptionFailed''
          (''Harness mapping '' @ fmt_q adoptID @ '' does not match the observed exact mapping '' @
           fmt_q observedID)
          (Some (recordObserved MappingCreationUnset OwnershipUnset request observed))
      else do {
        (won, res, err) \<leftarrow> requireNewExternalProjectMappingClaim L r mapping request observedID;
        (if \<not> won then ret (res, err)
         else recordReady L r mapping ConditionTrue ''MappingExternal''
           ''The exact Harness mapping exists and is treated as external''
           (Some (recordObserved MappingCreationUnset OwnershipExternal request observed)))
      })"

text \<open>Lines 507 to 589: a remembered ID whose create is unresolved.\<close>

definition reconcileCandidate ::
  "Library \<Rightarrow> Reconciler \<Rightarrow> HarnessGitopsProjectMapping \<Rightarrow> ProjectMappingRequest \<Rightarrow> ProjectMapping \<Rightarrow>
     (Result \<times> go_error option) M" where
  "reconcileCandidate L r mapping request observed =
     (let observedID = TrimSpace (pm_Identifier observed);
          adoptID = TrimSpace (ms_AdoptMappingID (m_Spec mapping));
          rememberedID = rememberedIDOf mapping
      in
      if adoptID \<noteq> '''' \<and> adoptID \<noteq> rememberedID then
        recordReady L r mapping ConditionFalse ''AdoptionFailed''
          (''Create candidate '' @ fmt_q rememberedID @ '' cannot be replaced by adoption of '' @
           fmt_q adoptID)
          (Some (markUnknown request))
      else if observedID = rememberedID \<and> adoptID = rememberedID then do {
        (won, res, err) \<leftarrow> requireProjectMappingClaim L r mapping request rememberedID;
        (if \<not> won then ret (res, err)
         else recordReady L r mapping ConditionTrue ''MappingAdopted''
           ''The exact create candidate was explicitly adopted''
           (Some (ownCandidate OwnershipAdopted)))
      }
      else if observedID = rememberedID \<and>
          mst_CreationState (m_Status mapping) = MappingCreationPending then do {
        (won, res, err) \<leftarrow> requireProjectMappingClaim L r mapping request rememberedID;
        (if \<not> won then ret (res, err)
         else recordReady L r mapping ConditionTrue ''MappingVerified''
           ''The controller-created Harness mapping was verified by its returned ID''
           (Some (ownCandidate OwnershipManaged)))
      }
      else
        recordReady L r mapping ConditionFalse
          (if adoptID \<noteq> '''' then ''AdoptionFailed'' else ''CreateOutcomeUnknown'')
          (if adoptID \<noteq> ''''
           then ''Harness mapping '' @ fmt_q adoptID @ '' is not the remembered create candidate '' @
             fmt_q rememberedID
           else ''Create ownership remains unresolved; adopt the remembered candidate ID or replace the resource'')
          (Some (markUnknown request)))"

definition reconcileSelectedMapping ::
  "Library \<Rightarrow> Reconciler \<Rightarrow> HarnessGitopsProjectMapping \<Rightarrow> ProjectMappingRequest \<Rightarrow> ProjectMapping \<Rightarrow>
     (Result \<times> go_error option) M" where
  "reconcileSelectedMapping L r mapping request observed =
     (let observedID = TrimSpace (pm_Identifier observed);
          adoptID = TrimSpace (ms_AdoptMappingID (m_Spec mapping));
          rememberedID = rememberedIDOf mapping;
          rememberedOwnership = rememberedOwnershipOf mapping;
          ownershipProven = (isDeletionOwnership rememberedOwnership \<and> rememberedID \<noteq> '''');
          unresolvedCandidate =
            (isUncertainCreationState (mst_CreationState (m_Status mapping)) \<and> rememberedID \<noteq> '''')
      in
      if ownershipProven \<and> adoptID \<noteq> '''' \<and> adoptID \<noteq> rememberedID then
        recordReady L r mapping ConditionFalse ''AdoptionFailed''
          (''Cannot transfer '' @ ownershipText rememberedOwnership @
           '' ownership from Harness mapping '' @ fmt_q rememberedID @ '' to '' @ fmt_q adoptID)
          None
      else if ownershipProven \<and> observedID = rememberedID then do {
        (won, res, err) \<leftarrow> requireProjectMappingClaim L r mapping request rememberedID;
        (if \<not> won then ret (res, err)
         else recordReady L r mapping ConditionTrue ''MappingVerified''
           ''The owned Harness mapping still matches the complete desired tuple''
           (Some settle))
      }
      else if ownershipProven \<and> adoptID \<noteq> '''' then
        recordReady L r mapping ConditionFalse ''AdoptionFailed''
          (''Owned Harness mapping '' @ fmt_q rememberedID @
           '' is absent; adoption cannot transfer ownership'')
          None
      else if unresolvedCandidate then reconcileCandidate L r mapping request observed
      else reconcileUnclaimed L r mapping request observed)"

section \<open>Creating a row\<close>

definition intendCreate ::
  "ProjectMappingRequest \<Rightarrow> HarnessGitopsProjectMappingStatus \<Rightarrow> HarnessGitopsProjectMappingStatus" where
  "intendCreate request status =
     status\<lparr>mst_CreationState := MappingCreationPending,
       mst_Remote := Some (remoteStatusForRequest request)\<rparr>"

definition rejectCreate ::
  "ProjectMappingRequest \<Rightarrow> HarnessGitopsProjectMappingStatus \<Rightarrow> HarnessGitopsProjectMappingStatus" where
  "rejectCreate request status =
     status\<lparr>mst_CreationState := MappingCreationUnset,
       mst_Remote := Some (remoteStatusForRequest request)\<rparr>"

definition acceptCreate ::
  "ProjectMappingRequest \<Rightarrow> string \<Rightarrow> string \<Rightarrow> HarnessGitopsProjectMappingStatus \<Rightarrow>
     HarnessGitopsProjectMappingStatus" where
  "acceptCreate request createdID returnedAgentID status =
     (let remote = (remoteStatusForRequest request)\<lparr>r_MappingID := createdID\<rparr> in
      status\<lparr>mst_CreationState := MappingCreationPending,
        mst_Remote := Some (remote\<lparr>r_Agent := (r_Agent remote)\<lparr>ra_Identifier := returnedAgentID\<rparr>\<rparr>)\<rparr>)"

text \<open>Lines 347 to 428: the intent is persisted, then the POST, then its outcome.\<close>

definition createHarnessMapping ::
  "Library \<Rightarrow> Reconciler \<Rightarrow> HarnessGitopsProjectMapping \<Rightarrow> Session \<Rightarrow> ProjectMappingRequest \<Rightarrow>
     (Result \<times> go_error option) M" where
  "createHarnessMapping L r mapping session request = do {
     (err, mapping) \<leftarrow> setReady L r mapping ConditionFalse ''CreatePending''
       ''Persisted Harness mapping create intent'' (Some (intendCreate request));
     (case err of
        Some e \<Rightarrow> ret (emptyResult, Some e)
      | None \<Rightarrow> do {
          outcome \<leftarrow> api_Create (projectMappingAPI r) session request;
          (case outcome of
             Inl err \<Rightarrow>
               if errorsIs err ErrProjectMappingCreateOutcomeUnknown \<or>
                  errorsIs err ErrProjectMappingAlreadyExists then do {
                 (statusErr, mapping) \<leftarrow> setReady L r mapping ConditionFalse ''CreateOutcomeUnknown''
                   ''Harness mapping create may have committed; explicit adoption is required''
                   (Some (markUnknown request));
                 ret (requeueAfter (resyncInterval r), statusErr)
               }
               else do {
                 (statusErr, mapping) \<leftarrow> setReady L r mapping ConditionFalse ''VerificationFailed''
                   ''Harness rejected the mapping create request'' (Some (rejectCreate request));
                 ret (emptyResult, errorsJoin (Some err) statusErr)
               }
           | Inr created \<Rightarrow>
               (let createdID = TrimSpace (pm_Identifier created) in
                if createdID = '''' then do {
                  (statusErr, mapping) \<leftarrow> setReady L r mapping ConditionFalse ''CreateOutcomeUnknown''
                    ''Harness accepted the create without returning an ID; explicit adoption is required''
                    (Some (markUnknown request));
                  ret (requeueAfter (resyncInterval r), statusErr)
                }
                else do {
                  let returnedAgentID = TrimSpace (pm_AgentIdentifier created);
                  let returnedAgentID =
                    (if returnedAgentID = '''' then q_AgentIdentifier request else returnedAgentID);
                  (statusErr, mapping) \<leftarrow> setReady L r mapping ConditionFalse ''MappingCreated''
                    ''Harness accepted the mapping create; waiting for exact-ID verification''
                    (Some (acceptCreate request createdID returnedAgentID));
                  ret (requeueAfter immediateRequeueInterval, statusErr)
                }))
        })
   }"

text \<open>Lines 306 to 345: no row, and a create attempt is on record.\<close>

definition reconcileAbsentRow ::
  "Library \<Rightarrow> Reconciler \<Rightarrow> HarnessGitopsProjectMapping \<Rightarrow> Session \<Rightarrow> ProjectMappingRequest \<Rightarrow>
     (Result \<times> go_error option) M" where
  "reconcileAbsentRow L r mapping session request =
     (case mst_CreationState (m_Status mapping) of
        MappingCreationPending \<Rightarrow>
          if rememberedIDOf mapping \<noteq> '''' then do {
            (statusErr, mapping) \<leftarrow> setReady L r mapping ConditionFalse ''MappingCreated''
              ''Harness accepted the mapping create; waiting to verify its returned ID'' None;
            ret (requeueAfter (pendingRetryInterval r), statusErr)
          }
          else do {
            (statusErr, mapping) \<leftarrow> setReady L r mapping ConditionFalse ''CreateOutcomeUnknown''
              ''A persisted create attempt has no returned ID; set spec.adoptMappingId to claim an exact observed mapping''
              (Some (markUnknown request));
            ret (requeueAfter (resyncInterval r), statusErr)
          }
      | MappingCreationOutcomeUnknown \<Rightarrow> do {
          (statusErr, mapping) \<leftarrow> setReady L r mapping ConditionFalse ''CreateOutcomeUnknown''
            ''Mapping create outcome is unknown; set spec.adoptMappingId after verifying the Harness mapping''
            (Some (\<lambda>status. status\<lparr>mst_Remote :=
              Some (unresolvedRemoteStatus (mst_Remote status) request)\<rparr>));
          ret (requeueAfter (resyncInterval r), statusErr)
        }
      | _ \<Rightarrow> createHarnessMapping L r mapping session request)"

definition reconcileHarnessMapping ::
  "Library \<Rightarrow> Reconciler \<Rightarrow> HarnessGitopsProjectMapping \<Rightarrow> Session \<Rightarrow> ProjectMappingRequest \<Rightarrow>
     (Result \<times> go_error option) M" where
  "reconcileHarnessMapping L r mapping session request = do {
     let startedCreationState = mst_CreationState (m_Status mapping);
     listed \<leftarrow> api_List (projectMappingAPI r) session request;
     (case listed of
        Inl err \<Rightarrow> returnAPIError L r mapping ''Unable to list Harness AppProject mappings'' err
      | Inr mappings \<Rightarrow>
          (let selection = selectProjectMapping mappings request mapping;
               adoptID = TrimSpace (ms_AdoptMappingID (m_Spec mapping));
               preserve = (\<lambda>status. preserveMappingFailureState status request startedCreationState)
           in
           case sel_mapping selection of
             Some selected \<Rightarrow> reconcileSelectedMapping L r mapping request selected
           | None \<Rightarrow>
               if sel_duplicate selection then do {
                 (statusErr, mapping) \<leftarrow> setReady L r mapping ConditionFalse ''DuplicateMapping''
                   ''Multiple exact Harness mappings exist and no recorded or adopted ID selects one''
                   (Some preserve);
                 ret (requeueAfter (resyncInterval r), statusErr)
               }
               else if sel_conflict selection then do {
                 (statusErr, mapping) \<leftarrow> setReady L r mapping ConditionFalse
                   (if sel_adoptConflict selection then ''AdoptionFailed'' else ''MappingMismatch'')
                   (if isUncertainCreationState startedCreationState
                    then ''Create ownership is unresolved and the observed AppProject mapping has a different tuple''
                    else if sel_adoptConflict selection
                    then ''Harness mapping '' @ fmt_q adoptID @
                      '' exists but does not match the complete desired tuple''
                    else ''A Harness mapping for this AppProject exists with a different tuple'')
                   (Some preserve);
                 ret (requeueAfter (resyncInterval r), statusErr)
               }
               else if adoptID \<noteq> '''' then do {
                 (statusErr, mapping) \<leftarrow> setReady L r mapping ConditionFalse ''AdoptionFailed''
                   (''Harness mapping '' @ fmt_q adoptID @
                    '' does not exist with the complete desired tuple'')
                   (Some preserve);
                 ret (requeueAfter (resyncInterval r), statusErr)
               }
               else reconcileAbsentRow L r mapping session request))
   }"

section \<open>The handler\<close>

text \<open>Lines 190 to 225: the Agent's health, as a reason and a message when it is not usable.\<close>

definition agentNotReady ::
  "Library \<Rightarrow> HarnessGitopsAgent \<Rightarrow> (string \<times> string) option" where
  "agentNotReady L agent =
     (case lib_FindStatusCondition L (ast_Conditions (a_Status agent)) ''Healthy'' of
        None \<Rightarrow> Some (''AgentNotHealthy'', ''Harness GitOps agent health has not been reported yet'')
      | Some healthy \<Rightarrow>
          if c_ObservedGeneration healthy \<noteq> Generation (a_Meta agent) then
            Some (''AgentNotHealthy'',
              ''Harness GitOps agent health has not been reported for its current generation'')
          else if c_Status healthy \<noteq> ConditionTrue then
            (let reason =
                   (if c_Status healthy = ConditionFalse \<and> c_Reason healthy = ''AgentAbsent''
                    then ''AgentNotFound'' else ''AgentNotHealthy'');
                 message = TrimSpace (c_Message healthy)
             in Some (reason,
                  if message = '''' then ''Harness GitOps agent health could not be verified''
                  else message))
          else None)"

definition Reconcile :: "Library \<Rightarrow> Reconciler \<Rightarrow> ObjectKey \<Rightarrow> (Result \<times> go_error option) M" where
  "Reconcile L r key = do {
     got \<leftarrow> GetMapping (cl_Reader (rc_Client r)) key;
     (case got of
        Inl err \<Rightarrow> ret (emptyResult, IgnoreNotFound L err)
      | Inr mapping \<Rightarrow>
          if \<not> timeIsZero (DeletionTimestamp (m_Meta mapping)) then finalizeProjectMapping L r mapping
          else do {
            (result, done, err) \<leftarrow>
              EnsureFinalizer L (mappingWriter (rc_Client r)) mapping harnessProjectMappingFinalizer;
            (if done then ret (result, err)
             else do {
               let agentKey = (Namespace (m_Meta mapping),
                 TrimSpace (ref_Name (ms_AgentRef (m_Spec mapping))));
               gotAgent \<leftarrow> GetAgent (cl_Reader (rc_Client r)) agentKey;
               (case gotAgent of
                  Inl err \<Rightarrow>
                    if lib_IsNotFound L err then do {
                      (statusErr, mapping) \<leftarrow> setReady L r mapping ConditionFalse ''AgentRefNotFound''
                        (''HarnessGitopsAgent '' @ fst agentKey @ ''/'' @ snd agentKey @
                         '' does not exist'') None;
                      ret (requeueAfter (pendingRetryInterval r), statusErr)
                    }
                    else returnAPIError L r mapping ''Unable to read the referenced Agent'' err
                | Inr agent \<Rightarrow>
                    if \<not> timeIsZero (DeletionTimestamp (a_Meta agent)) then do {
                      (err, mapping) \<leftarrow> setReady L r mapping ConditionFalse ''AgentDeleting''
                        (''HarnessGitopsAgent '' @ Namespace (a_Meta agent) @ ''/'' @
                         Name (a_Meta agent) @ '' is being deleted'') None;
                      ret (requeueAfter (pendingRetryInterval r), err)
                    }
                    else
                      (case resolveProjectMappingRequest (Some agent) (Some mapping) of
                         Inl err \<Rightarrow> do {
                           (statusErr, mapping) \<leftarrow> setReady L r mapping ConditionFalse
                             ''ResolutionInvalid'' (Error err) None;
                           ret (emptyResult, statusErr)
                         }
                       | Inr request \<Rightarrow> do {
                           exists \<leftarrow> appProjectExists L (cl_Reader (rc_Client r)) (rc_appProjectClient r)
                             (Namespace (m_Meta mapping)) (q_ArgoProjectName request);
                           (case exists of
                              Inl err \<Rightarrow> returnAPIError L r mapping ''Unable to read the AppProject'' err
                            | Inr False \<Rightarrow> do {
                                (statusErr, mapping) \<leftarrow> setReady L r mapping ConditionFalse
                                  ''AppProjectNotFound''
                                  (''AppProject '' @ Namespace (m_Meta mapping) @ ''/'' @
                                   q_ArgoProjectName request @ '' does not exist'') None;
                                ret (requeueAfter (pendingRetryInterval r), statusErr)
                              }
                            | Inr True \<Rightarrow>
                                (case agentNotReady L agent of
                                   Some (reason, message) \<Rightarrow> do {
                                     (statusErr, mapping) \<leftarrow>
                                       setReady L r mapping ConditionFalse reason message None;
                                     ret (requeueAfter (pendingRetryInterval r), statusErr)
                                   }
                                 | None \<Rightarrow> do {
                                     opened \<leftarrow> sessionForAgent L r agent;
                                     (case opened of
                                        Inl err \<Rightarrow>
                                          returnAPIError L r mapping
                                            ''Unable to initialize the Harness session'' err
                                      | Inr session \<Rightarrow>
                                          reconcileHarnessMapping L r mapping session request)
                                   }))
                         }))
             })
          })
   }"

section \<open>Quiet steps\<close>

lemma emits_case_creation [emits_intro]:
  "emits P a \<Longrightarrow> emits P b \<Longrightarrow> emits P c \<Longrightarrow> (\<And>x. emits P (d x)) \<Longrightarrow>
     emits P (case s of MappingCreationUnset \<Rightarrow> a | MappingCreationPending \<Rightarrow> b
       | MappingCreationOutcomeUnknown \<Rightarrow> c | MappingCreationOther x \<Rightarrow> d x)"
  by (simp split: MappingCreationState.split)

lemma quiet_recordReady: "emits quiet (recordReady L r m cs reason msg mut)"
  unfolding recordReady_def by (intro emits_intro quiet_setReady)

lemma quiet_requireClaimP: "emits quiet (requireProjectMappingClaimWithProvisional L r m q mid prov f)"
  by (rule emits_mono [OF emits_requireClaim]) auto

lemma quiet_requireClaim:
  "emits quiet (requireProjectMappingClaim L r m q mid)"
  "emits quiet (requireNewExternalProjectMappingClaim L r m q mid)"
  by (simp_all add: requireProjectMappingClaim_def requireNewExternalProjectMappingClaim_def
      quiet_requireClaimP)

lemma quiet_selected: "emits quiet (reconcileSelectedMapping L r m q observed)"
  unfolding reconcileSelectedMapping_def reconcileCandidate_def reconcileUnclaimed_def
  by (intro emits_intro quiet_recordReady quiet_requireClaim)

lemma quiet_ensure: "emits quiet (EnsureFinalizer L (mappingWriter cl) m f)"
  by (rule mapping_finalizer.ensure_emits) (simp add: quiet_def)

lemma quiet_GetMapping: "emits quiet (GetMapping rd key)"
  by (simp add: GetMapping_def quiet_def emits_def)

lemmas quiet_steps = quiet_actions quiet_recordReady quiet_requireClaim quiet_selected quiet_ensure
  quiet_GetMapping

section \<open>Guards of the remote create\<close>

text \<open>
  A create of the given request for the given Mapping, in the run that started from \<open>h\<close>: no
  create is on record and no adoption requested, the rows listed in this run have none for
  the AppProject, and the intent was stored by the server, after the list and directly before
  the POST (earlier attempts of the same create apart).
\<close>

definition createJustified ::
  "HarnessGitopsProjectMapping \<Rightarrow> ProjectMappingRequest \<Rightarrow> history \<Rightarrow> history \<Rightarrow> event \<Rightarrow> bool" where
  "createJustified m q h pre e \<longleftrightarrow>
     \<not> isUncertainCreationState (mst_CreationState (m_Status m)) \<and>
     TrimSpace (ms_AdoptMappingID (m_Spec m)) = '''' \<and>
     isCreateCallFor q e \<and>
     (\<exists>key cand rows http es sent stored ds.
        pre = h @ es @ [EvUpdateMappingStatus sent (Inr stored)] @ ds \<and>
        EvSdkListMappings key cand (listOpts q) (rows, http, None) \<in> set es \<and>
        list_all (\<lambda>row. TrimSpace (v_ArgoProjectName row) \<noteq> TrimSpace (q_ArgoProjectName q)) rows \<and>
        m_Meta sent = m_Meta m \<and> m_Spec sent = m_Spec m \<and>
        remoteState (m_Status sent) = (MappingCreationPending, Some (remoteStatusForRequest q)) \<and>
        list_all isCreateCall ds)"

abbreviation createGuard ::
  "HarnessGitopsProjectMapping \<Rightarrow> ProjectMappingRequest \<Rightarrow> history \<Rightarrow> history \<Rightarrow> event \<Rightarrow> bool" where
  "createGuard m q h pre e \<equiv> isCreateCall e \<longrightarrow> createJustified m q h pre e"

lemma guarded_uncreating: "emits quiet m \<Longrightarrow> guarded (\<lambda>pre e. isCreateCall e \<longrightarrow> J pre e) m h"
  by (rule guarded_emits [where P = quiet]) (auto simp: quiet_def)

lemmas guarded_uncreating_steps = quiet_steps [THEN guarded_uncreating]

lemma isCreateCallFor_create: "isCreateCallFor q e \<Longrightarrow> isCreateCall e"
  by (cases e) auto

context mapping_api
begin

lemma createHarnessMapping_guarded:
  assumes api: "projectMappingAPI r = api"
    and fresh: "\<not> isUncertainCreationState (mst_CreationState (m_Status m))"
      "TrimSpace (ms_AdoptMappingID (m_Spec m)) = ''''"
    and listed: "EvSdkListMappings key cand (listOpts q) (rows, http, None) \<in> set es"
      "list_all (\<lambda>row. TrimSpace (v_ArgoProjectName row) \<noteq> TrimSpace (q_ArgoProjectName q)) rows"
  shows "guarded (createGuard m q h) (createHarnessMapping L r m s q) (h @ es)"
proof -
  let ?intend = "setReady L r m ConditionFalse ''CreatePending''
    ''Persisted Harness mapping create intent'' (Some (intendCreate q))"
  have changed: "remoteState (mutated (Some (intendCreate q)) (m_Status m)) \<noteq> remoteState (m_Status m)"
    using fresh(1)
    by (auto simp: mutated_def intendCreate_def remoteState_def isUncertainCreationState_def)
  have post: "guarded (createGuard m q h) (api_Create api s q) (h @ es @ emitted ?intend (h @ es))"
    if "fst (result ?intend (h @ es)) = None"
  proof -
    from that obtain m' where res: "result ?intend (h @ es) = (None, m')" by (metis prod.collapse)
    from setReady_persisted [OF res changed] obtain sent where
      sent: "emitted ?intend (h @ es) = [EvUpdateMappingStatus sent (Inr m')]"
      "m_Meta sent = m_Meta m" "m_Spec sent = m_Spec m"
      "remoteState (m_Status sent) = (MappingCreationPending, Some (remoteStatusForRequest q))"
      by (auto simp: mutated_def intendCreate_def remoteState_def)
    let ?h = "h @ es @ emitted ?intend (h @ es)"
    show ?thesis
      unfolding guarded_def
    proof (intro conjI allI impI)
      show "\<exists>fs. snd (run_state (api_Create api s q) ?h) = ?h @ fs"
        using grows_create unfolding grows_def by blast
    next
      fix ds e rest
      assume ev: "emitted (api_Create api s q) ?h = ds @ e # rest"
      have "isCreateCallFor q e' \<and> isCreateCall e'" if "e' \<in> set (ds @ e # rest)" for e'
        using emits_mem [OF create_calls] ev that isCreateCallFor_create by metis
      then have "isCreateCallFor q e" "list_all isCreateCall ds" by (auto simp: list_all_iff)
      with fresh listed sent show "createJustified m q h (?h @ ds) e"
        unfolding createJustified_def append_assoc by blast
    qed
  qed
  show ?thesis
    unfolding createHarnessMapping_def api
    by (auto intro!: guarded_bind guarded_uncreating_steps guarded_ret post
        simp: Let_def split: option.split sum.split prod.split)
qed

lemma reconcileHarnessMapping_guarded:
  assumes api: "projectMappingAPI r = api"
  shows "guarded (createGuard m q h) (reconcileHarnessMapping L r m s q) h"
proof -
  let ?list = "api_List api s q"
  have list: "guarded (createGuard m q h) ?list h"
    by (rule guarded_uncreating, rule emits_mono [OF list_calls]) simp
  have create: "guarded (createGuard m q h) (createHarnessMapping L r m s q) (h @ emitted ?list h)"
    if res: "result ?list h = Inr ms"
      and none: "sel_mapping (selectProjectMapping ms q m) = None"
        "\<not> sel_duplicate (selectProjectMapping ms q m)" "\<not> sel_conflict (selectProjectMapping ms q m)"
      and fresh: "\<not> isUncertainCreationState (mst_CreationState (m_Status m))"
        "TrimSpace (ms_AdoptMappingID (m_Spec m)) = ''''" for ms
  proof -
    from list_rows [OF res] obtain cand rows http where
      rows: "EvSdkListMappings (s_apiKey s) cand (listOpts q) (rows, http, None) \<in> set (emitted ?list h)"
      "ms = map projectMappingFromSDK rows"
      by auto
    have "list_all (\<lambda>row. TrimSpace (v_ArgoProjectName row) \<noteq> TrimSpace (q_ArgoProjectName q)) rows"
      using select_None [OF none] rows(2)
      by (auto simp: list_all_iff sameAppProject_def projectMappingFromSDK_def)
    from createHarnessMapping_guarded [OF api fresh rows(1) this] show ?thesis .
  qed
  show ?thesis
    unfolding reconcileHarnessMapping_def reconcileAbsentRow_def api
    by (auto intro!: guarded_bind guarded_uncreating_steps guarded_ret list create
        simp: Let_def isUncertainCreationState_def
        split: option.split sum.split prod.split MappingCreationState.split)
qed

end

section \<open>The handler's remote calls\<close>

text \<open>
  What the handler has established before it works on the remote side of a live Mapping: it
  read the Mapping with its finalizer and without a deletion timestamp, read the Agent it
  references, not deleting, healthy at its current generation and denoting the request, and
  saw the AppProject.
\<close>

definition readyToMap ::
  "Library \<Rightarrow> Reconciler \<Rightarrow> ObjectKey \<Rightarrow> HarnessGitopsProjectMapping \<Rightarrow> ProjectMappingRequest \<Rightarrow>
     history \<Rightarrow> bool" where
  "readyToMap L r key m q es \<longleftrightarrow>
     (\<exists>agent.
        EvGetMapping (rd_Kind (cl_Reader (rc_Client r))) key (Inr m) \<in> set es \<and>
        timeIsZero (DeletionTimestamp (m_Meta m)) \<and>
        lib_ContainsFinalizer L (Finalizers (m_Meta m)) harnessProjectMappingFinalizer \<and>
        EvGetAgent (rd_Kind (cl_Reader (rc_Client r)))
          (Namespace (m_Meta m), TrimSpace (ref_Name (ms_AgentRef (m_Spec m)))) (Inr agent) \<in> set es \<and>
        timeIsZero (DeletionTimestamp (a_Meta agent)) \<and>
        denotesRequest agent m q \<and> agentNotReady L agent = None \<and>
        EvGetAppProject (Namespace (m_Meta m), q_ArgoProjectName q) None \<in> set es)"

definition remoteCallJustified ::
  "Library \<Rightarrow> Reconciler \<Rightarrow> ObjectKey \<Rightarrow> history \<Rightarrow> history \<Rightarrow> event \<Rightarrow> bool" where
  "remoteCallJustified L r key h pre e \<longleftrightarrow>
     (\<exists>m q es. readyToMap L r key m q es \<and> createJustified m q (h @ es) pre e)"

definition deletingCallJustified ::
  "Library \<Rightarrow> Reconciler \<Rightarrow> ObjectKey \<Rightarrow> history \<Rightarrow> history \<Rightarrow> event \<Rightarrow> bool" where
  "deletingCallJustified L r key h pre e \<longleftrightarrow>
     (\<exists>m. let start = h @ [EvGetMapping (rd_Kind (cl_Reader (rc_Client r))) key (Inr m)] in
        \<not> timeIsZero (DeletionTimestamp (m_Meta m)) \<and>
        lib_ContainsFinalizer L (Finalizers (m_Meta m)) harnessProjectMappingFinalizer \<and>
        deleteJustified L r m start pre e)"

lemma appProjectExists_True:
  assumes "result (appProjectExists L rd dc ns n) h = Inr True"
  shows "emitted (appProjectExists L rd dc ns n) h = [EvGetAppProject (ns, n) None]"
  using assms
  by (cases dc)
    (auto simp: appProjectExists_def recorded_calls result_bind emitted_bind split: option.splits if_splits)

lemma GetAgent_event:
  "emitted (GetAgent rd key) h = [EvGetAgent (rd_Kind rd) key (result (GetAgent rd key) h)]"
  "emitted (GetMapping rd key) h = [EvGetMapping (rd_Kind rd) key (result (GetMapping rd key) h)]"
  by (simp_all add: GetAgent_def GetMapping_def)

lemma ensure_continue:
  assumes "result (EnsureFinalizer L (mappingWriter cl) m f) h = (res, False, err)"
  shows "lib_ContainsFinalizer L (Finalizers (m_Meta m)) f"
  using mapping_finalizer.ensure_done [of L cl m f h] assms by (simp add: mappingWriter_def)

context mapping_api
begin

lemma finalize_uncreating:
  assumes api: "projectMappingAPI r = api"
  shows "emits (\<lambda>e. \<not> isCreateCall e) (finalizeProjectMapping L r m)"
proof -
  have q: "emits (\<lambda>e. \<not> isCreateCall e) act" if "emits quiet act" for act :: "'b M"
    by (rule emits_mono [OF that]) (simp add: quiet_def)
  have list: "emits (\<lambda>e. \<not> isCreateCall e) (api_List api s q)" for s q
    by (rule q, rule emits_mono [OF list_calls]) simp
  have delete: "emits (\<lambda>e. \<not> isCreateCall e) (api_Delete api s q mid)" for s q mid
    by (rule emits_mono [OF delete_calls]) (auto elim: isDeleteCallFor.elims)
  show ?thesis
    unfolding finalizeProjectMapping_def cleanupListed_def cleanupAuthorized_def api
    by (intro emits_intro list delete quiet_steps [THEN q])
qed

lemma reconcileHarness_undeleting:
  assumes api: "projectMappingAPI r = api"
  shows "emits (\<lambda>e. \<not> isDeleteCall e) (reconcileHarnessMapping L r m s q)"
proof -
  have q: "emits (\<lambda>e. \<not> isDeleteCall e) act" if "emits quiet act" for act :: "'b M"
    by (rule emits_mono [OF that]) (simp add: quiet_def)
  have list: "emits (\<lambda>e. \<not> isDeleteCall e) (api_List api s q)" for s q
    by (rule q, rule emits_mono [OF list_calls]) simp
  have create: "emits (\<lambda>e. \<not> isDeleteCall e) (api_Create api s q)" for s q
    by (rule emits_mono [OF create_calls]) (auto elim: isCreateCallFor.elims)
  show ?thesis
    unfolding reconcileHarnessMapping_def reconcileAbsentRow_def createHarnessMapping_def api
    by (intro emits_intro list create quiet_steps [THEN q])
qed

lemma Reconcile_create_leaf:
  assumes "projectMappingAPI r = api" and "readyToMap L r key m q es"
  shows "guarded (\<lambda>pre e. isCreateCall e \<longrightarrow> remoteCallJustified L r key h pre e)
    (reconcileHarnessMapping L r m s q) (h @ es)"
  by (rule guarded_mono [OF reconcileHarnessMapping_guarded [OF assms(1)]])
    (use assms(2) in \<open>auto simp: remoteCallJustified_def\<close>)

lemma Reconcile_creates:
  assumes api: "projectMappingAPI r = api"
  shows "guarded (\<lambda>pre e. isCreateCall e \<longrightarrow> remoteCallJustified L r key h pre e)
    (Reconcile L r key) h"
proof -
  let ?G = "\<lambda>pre e. isCreateCall e \<longrightarrow> remoteCallJustified L r key h pre e"
  have fin: "guarded ?G (finalizeProjectMapping L r m) h'" for m h'
    by (rule guarded_emits [OF finalize_uncreating [OF api]]) simp
  show ?thesis
    unfolding Reconcile_def
    by (auto intro!: guarded_bind guarded_uncreating_steps guarded_ret fin Reconcile_create_leaf [OF api]
        simp: Let_def GetAgent_event appProjectExists_True readyToMap_def
        split: sum.split option.split prod.split bool.split)
      (erule ensure_continue, blast intro: resolve_sound)
qed

lemma Reconcile_deletes:
  assumes api: "projectMappingAPI r = api"
  shows "guarded (\<lambda>pre e. isDeleteCall e \<longrightarrow> deletingCallJustified L r key h pre e)
    (Reconcile L r key) h"
proof -
  let ?G = "\<lambda>pre e. isDeleteCall e \<longrightarrow> deletingCallJustified L r key h pre e"
  let ?got = "\<lambda>m. EvGetMapping (rd_Kind (cl_Reader (rc_Client r))) key (Inr m)"
  have live: "guarded ?G (reconcileHarnessMapping L r m s q) h'" for m s q h'
    by (rule guarded_emits [OF reconcileHarness_undeleting [OF api]]) simp
  have fin: "guarded ?G (finalizeProjectMapping L r m) (h @ [?got m])"
    if "\<not> timeIsZero (DeletionTimestamp (m_Meta m))" for m
  proof (cases "lib_ContainsFinalizer L (Finalizers (m_Meta m)) harnessProjectMappingFinalizer")
    case False
    then show ?thesis by (simp add: finalizeProjectMapping_def guarded_ret)
  next
    case True
    show ?thesis
      by (rule guarded_mono [OF finalize_guarded [OF api]])
        (use that True in \<open>auto simp: deletingCallJustified_def Let_def\<close>)
  qed
  show ?thesis
    unfolding Reconcile_def
    by (auto intro!: guarded_bind quiet_steps [THEN guarded_quiet] guarded_ret fin live
        simp: Let_def GetAgent_event
        split: sum.split option.split prod.split bool.split)
qed

end

section \<open>Sample runs\<close>

text \<open>A Harness with the sample row, which accepts creates and deletes.\<close>

definition liveAPI :: APIClient where
  "liveAPI = absentAPI\<lparr>
     sdk_ListMappings := (\<lambda>h key cand opts. ([sampleRow], Some 200, None)),
     sdk_CreateMapping := (\<lambda>h key body cand. (sampleRow, Some 200, None)),
     sdk_DeleteMapping := (\<lambda>h key cand mid opts. ((), Some 200, None))\<rparr>"

text \<open>A Harness without rows, which accepts creates.\<close>

definition emptyAPI :: APIClient where
  "emptyAPI = liveAPI\<lparr>sdk_ListMappings := (\<lambda>h key cand opts. ([], Some 200, None))\<rparr>"

definition deletedOwned :: HarnessGitopsProjectMapping where
  "deletedOwned = finalizing ownedMapping"

definition liveMapping :: HarnessGitopsProjectMapping where
  "liveMapping = sampleMapping\<lparr>m_Meta := (m_Meta sampleMapping)
     \<lparr>Finalizers := [harnessProjectMappingFinalizer]\<rparr>\<rparr>"

lemma sample_session:
  "result (sessionForAgent (sampleLibrary api) (sampleReconciler ms) sampleAgent) h =
   Inr (sampleSession api)"
  by (simp add: sessionForAgent_def SessionFromSecret_def GetSecret_def NewSession_def
      NewSessionWithClient_def apiReader_def sampleReconciler_def sample_defs sampleSession_def
      Let_def result_bind)

lemma sample_list:
  "result (SDK_List (sampleSession liveAPI) sampleRequest) h = Inr [projectMappingFromSDK sampleRow]"
  "result (SDK_List (sampleSession emptyAPI) sampleRequest) h = Inr []"
  by (simp_all add: SDK_List_def sampleRequest_def sampleSession_def listLoop.simps SdkListMappings_def
      liveAPI_def emptyAPI_def absentAPI_def result_bind)

lemma sample_delete_call:
  "\<exists>e\<in>set (emitted (SDK_Delete (sampleSession liveAPI) sampleRequest ''row1'') h). isDeleteCall e"
  by (simp add: SDK_Delete_def sampleRequest_def sampleSession_def deleteLoop.simps SdkDeleteMapping_def
      liveAPI_def absentAPI_def emitted_bind)

lemma sample_create_call:
  "\<exists>e\<in>set (emitted (SDK_Create (sampleSession emptyAPI) sampleRequest) h). isCreateCall e"
  by (simp add: SDK_Create_def sampleRequest_def sampleSession_def createLoop.simps SdkCreateMapping_def
      liveAPI_def emptyAPI_def absentAPI_def emitted_bind)

lemma sample_api [simp]:
  "projectMappingAPI (sampleReconciler ms) = SDKProjectMappingAPI"
  "api_List SDKProjectMappingAPI = SDK_List" "api_Delete SDKProjectMappingAPI = SDK_Delete"
  "api_Create SDKProjectMappingAPI = SDK_Create"
  by (simp_all add: projectMappingAPI_def sampleReconciler_def SDKProjectMappingAPI_def)

lemma sample_getMapping:
  "metaKey (m_Meta m) = key \<Longrightarrow>
   result (GetMapping (cl_Reader (rc_Client (sampleReconciler [m]))) key) h = Inr m"
  by (simp add: GetMapping_def sampleReconciler_def sampleClient_def sampleReader_def)

lemma sample_getAgent:
  "result (GetAgent (cl_Reader (rc_Client (sampleReconciler ms))) (''ns'', ''agent'')) h = Inr sampleAgent"
  "result (GetAgent (apiReader (sampleReconciler ms)) (''ns'', ''agent'')) h = Inr sampleAgent"
  by (simp_all add: GetAgent_def sampleReconciler_def apiReader_def sample_defs)

lemma sample_row_matches: "projectMappingMatches (projectMappingFromSDK sampleRow) sampleRequest"
  by (simp add: projectMappingMatches_def projectMappingFromSDK_def sampleRow_def sampleRequest_def
      IdentifiersEquivalent_def)

text \<open>Deleting a Mapping that owns the sample row.\<close>

lemma deletedOwned_fields [simp]:
  "Namespace (m_Meta deletedOwned) = ''ns''" "metaKey (m_Meta deletedOwned) = (''ns'', ''map'')"
  "ref_Name (ms_AgentRef (m_Spec deletedOwned)) = ''agent''"
  "timeIsZero (DeletionTimestamp (m_Meta deletedOwned)) = False"
  "Finalizers (m_Meta deletedOwned) = [harnessProjectMappingFinalizer]"
  by (simp_all add: deletedOwned_def finalizing_def ownedMapping_def sampleMapping_def sampleMeta_def
      metaKey_def timeIsZero_def Second_def)

lemma deletedOwned_remote:
  "mst_Remote (m_Status deletedOwned) = Some ((remoteStatusForRequest sampleRequest)
     \<lparr>r_MappingID := ''row1'', r_Ownership := OwnershipManaged\<rparr>)"
  "mst_CreationState (m_Status deletedOwned) = MappingCreationUnset"
  by (simp_all add: deletedOwned_def finalizing_def ownedMapping_def sampleMapping_def)

lemma deletedOwned_identity:
  "resolveMappingCleanupIdentity deletedOwned =
   emptyIdentity\<lparr>ci_remote := Some ((remoteStatusForRequest sampleRequest)
     \<lparr>r_MappingID := ''row1'', r_Ownership := OwnershipManaged\<rparr>), ci_mappingID := ''row1''\<rparr>"
  by (simp add: resolveMappingCleanupIdentity_def deletedOwned_remote isUncertainCreationState_def
      isDeletionOwnership_def)

lemma deletedOwned_request:
  "projectMappingCleanupRequest (Some ((remoteStatusForRequest sampleRequest)
     \<lparr>r_Ownership := OwnershipManaged, r_MappingID := ''row1''\<rparr>)) = Inr (sampleRequest, ''row1'')"
  using cleanup_of_request [OF sampleRequest_wf, of "''row1''" "''agent1''" OwnershipManaged]
  by (simp add: sampleRequest_def remoteStatusForRequest_def)

lemma deletedOwned_authorized:
  "result (authorizeProjectMappingCleanup L (sampleReconciler [deletedOwned]) deletedOwned
     sampleRequest ''row1'') h = (True, emptyResult, None)"
proof -
  have "recordedClaim deletedOwned ''row1'' = Some projectMappingClaimOwned"
    by (simp add: recordedClaim_def deletedOwned_remote isDeletionOwnership_def)
  from sample_single_claim [OF this _ _ same_refl] show ?thesis
    by (simp add: authorizeProjectMappingCleanup_def resolveProjectMappingClaim_def result_bind)
qed

lemma sample_delete_run:
  "\<exists>e\<in>set (emitted (Reconcile (sampleLibrary liveAPI) (sampleReconciler [deletedOwned])
     (''ns'', ''map'')) []). isDeleteCall e"
proof -
  let ?L = "sampleLibrary liveAPI" and ?r = "sampleReconciler [deletedOwned]"
  let ?id = "resolveMappingCleanupIdentity deletedOwned" and ?s = "sampleSession liveAPI"
  have row: "projectMappingWithID [projectMappingFromSDK sampleRow] ''row1'' =
      Some (projectMappingFromSDK sampleRow)"
    by (simp add: projectMappingWithID_def projectMappingFromSDK_def sampleRow_def)
  have fin: "lib_ContainsFinalizer ?L fs f \<longleftrightarrow> f \<in> set fs" for fs f
    by (simp add: sampleLibrary_def)
  have "\<exists>e\<in>set (emitted (cleanupAuthorized ?L ?r deletedOwned ?id ?s sampleRequest ''row1'') h).
      isDeleteCall e" for h
    using sample_delete_call [of h]
    by (auto simp: cleanupAuthorized_def deletedOwned_identity emptyIdentity_def emitted_bind
        split: option.split)
  then have "\<exists>e\<in>set (emitted (cleanupListed ?L ?r deletedOwned ?id ?s sampleRequest ''row1''
      [projectMappingFromSDK sampleRow]) h). isDeleteCall e" for h
    by (auto simp: cleanupListed_def row sample_row_matches deletedOwned_authorized
        intro!: emitted_tail)
  then have "\<exists>e\<in>set (emitted (finalizeProjectMapping ?L ?r deletedOwned) h). isDeleteCall e" for h
    unfolding finalizeProjectMapping_def
    by (auto simp: fin deletedOwned_identity emptyIdentity_def deletedOwned_request Let_def
        deletedOwned_authorized sample_getAgent sample_session sample_list intro!: emitted_tail)
  then show ?thesis
    unfolding Reconcile_def by (auto simp: sample_getMapping intro!: emitted_tail)
qed

lemma sample_delete_gone: "result (SDK_Delete (sampleSession liveAPI) sampleRequest ''row1'') h = None"
  by (simp add: SDK_Delete_def sampleRequest_def sampleSession_def deleteLoop.simps SdkDeleteMapping_def
      liveAPI_def absentAPI_def absentError_def result_bind)

lemma sample_release_update:
  "\<exists>e\<in>set (emitted (removeProjectMappingFinalizer L r m) h). isFinalizerUpdate e"
  by (simp add: removeProjectMappingFinalizer_def RemoveFinalizer_def mappingWriter_def
      UpdateMapping_def emitted_bind)

lemma sample_release_run:
  "\<exists>e\<in>set (emitted (finalizeProjectMapping (sampleLibrary liveAPI) (sampleReconciler [deletedOwned])
     deletedOwned) h). isFinalizerUpdate e"
proof -
  let ?L = "sampleLibrary liveAPI" and ?r = "sampleReconciler [deletedOwned]"
  let ?id = "resolveMappingCleanupIdentity deletedOwned" and ?s = "sampleSession liveAPI"
  have row: "projectMappingWithID [projectMappingFromSDK sampleRow] ''row1'' =
      Some (projectMappingFromSDK sampleRow)"
    by (simp add: projectMappingWithID_def projectMappingFromSDK_def sampleRow_def)
  have fin: "lib_ContainsFinalizer ?L fs f \<longleftrightarrow> f \<in> set fs" for fs f
    by (simp add: sampleLibrary_def)
  have "\<exists>e\<in>set (emitted (cleanupAuthorized ?L ?r deletedOwned ?id ?s sampleRequest ''row1'') h).
      isFinalizerUpdate e" for h
    by (auto simp: cleanupAuthorized_def deletedOwned_identity emptyIdentity_def sample_delete_gone
        intro!: emitted_tail sample_release_update)
  then have "\<exists>e\<in>set (emitted (cleanupListed ?L ?r deletedOwned ?id ?s sampleRequest ''row1''
      [projectMappingFromSDK sampleRow]) h). isFinalizerUpdate e" for h
    by (auto simp: cleanupListed_def row sample_row_matches deletedOwned_authorized
        intro!: emitted_tail)
  then show ?thesis
    unfolding finalizeProjectMapping_def
    by (auto simp: fin deletedOwned_identity emptyIdentity_def deletedOwned_request Let_def
        deletedOwned_authorized sample_getAgent sample_session sample_list intro!: emitted_tail)
qed

text \<open>Creating the row of a live Mapping.\<close>

lemma liveMapping_fields [simp]:
  "Namespace (m_Meta liveMapping) = ''ns''" "metaKey (m_Meta liveMapping) = (''ns'', ''map'')"
  "ref_Name (ms_AgentRef (m_Spec liveMapping)) = ''agent''"
  "timeIsZero (DeletionTimestamp (m_Meta liveMapping)) = True"
  "Finalizers (m_Meta liveMapping) = [harnessProjectMappingFinalizer]"
  "mst_CreationState (m_Status liveMapping) = MappingCreationUnset"
  "ms_AdoptMappingID (m_Spec liveMapping) = ''''"
  by (simp_all add: liveMapping_def sampleMapping_def sampleMeta_def metaKey_def timeIsZero_def)

lemma liveMapping_request:
  "resolveProjectMappingRequest (Some sampleAgent) (Some liveMapping) = Inr sampleRequest"
  by (simp add: resolveProjectMappingRequest_def resolveScopes_def sampleAgent_def liveMapping_def
      sampleMapping_def sampleMeta_def sampleRequest_def agentScope_defs Let_def ToUpper_def
      upperASCII_def)

lemma sampleAgent_ready:
  "agentNotReady (sampleLibrary api) sampleAgent = None"
  "timeIsZero (DeletionTimestamp (a_Meta sampleAgent)) = True"
  by (simp_all add: agentNotReady_def sampleLibrary_def sampleAgent_def sampleMeta_def timeIsZero_def)

lemma sample_appProject:
  "result (appProjectExists L (cl_Reader (rc_Client (sampleReconciler ms)))
     (rc_appProjectClient (sampleReconciler ms)) ns n) h = Inr True"
  by (simp add: appProjectExists_def sampleReconciler_def sampleClient_def sampleReader_def
      GetAppProject_def result_bind)

lemma sample_intent:
  "result (setReady L (sampleReconciler ms) m cs reason msg mut) h \<noteq> (Some e, m')"
  by (simp add: setReady_def UpdateMappingStatus_def sampleReconciler_def sampleClient_def
      result_bind Let_def)

lemma sample_create_run:
  "\<exists>e\<in>set (emitted (Reconcile (sampleLibrary emptyAPI) (sampleReconciler [liveMapping])
     (''ns'', ''map'')) []). isCreateCall e"
proof -
  let ?L = "sampleLibrary emptyAPI" and ?r = "sampleReconciler [liveMapping]"
  let ?s = "sampleSession emptyAPI"
  have fin: "lib_ContainsFinalizer ?L fs f \<longleftrightarrow> f \<in> set fs" for fs f
    by (simp add: sampleLibrary_def)
  have ens: "EnsureFinalizer ?L (mappingWriter cl) liveMapping harnessProjectMappingFinalizer =
      ret (emptyResult, False, None)" for cl
    by (simp add: EnsureFinalizer_def mappingWriter_def fin)
  have sel: "selectProjectMapping [] sampleRequest liveMapping = emptySelection"
    by (simp add: selectProjectMapping_def scanMappings_def Let_def emptySelection_def)
  have post: "\<exists>e\<in>set (emitted (State_Monad.bind (SDK_Create ?s sampleRequest) f) h). isCreateCall e"
    if "\<And>a. grows (f a)" for f h
    using sample_create_call [of h] that by (auto simp: emitted_bind)
  have "\<exists>e\<in>set (emitted (createHarnessMapping ?L ?r liveMapping ?s sampleRequest) h).
      isCreateCall e" for h
    unfolding createHarnessMapping_def
    by (auto intro!: emitted_tail post simp: Let_def sample_intent split: prod.split option.split sum.split)
  then have "\<exists>e\<in>set (emitted (reconcileHarnessMapping ?L ?r liveMapping ?s sampleRequest) h).
      isCreateCall e" for h
    unfolding reconcileHarnessMapping_def reconcileAbsentRow_def
    by (auto simp: sample_list sel emptySelection_def intro!: emitted_tail)
  then show ?thesis
    unfolding Reconcile_def
    by (auto simp: sample_getMapping ens Let_def sample_getAgent sampleAgent_ready liveMapping_request
        sample_appProject sample_session intro!: emitted_tail)
qed

section \<open>Properties\<close>

text \<open>
  C1: a remote mapping is deleted only by its proven owner. Every DELETE the handler sends is for
  a Mapping it read with a deletion timestamp and its finalizer, whose status records settled
  Managed or Adopted ownership of exactly that mapping ID; in this pass the row was listed
  and matched the complete stored tuple, and after the list the claim on the ID was
  arbitrated cluster-wide and won.
\<close>

theorem delete_only_owned_verified_and_won:
  assumes "rc_mappingAPI r = None" and "emitted (Reconcile L r key) h = pre @ e # post"
    and "isDeleteCall e"
  shows "deletingCallJustified L r key h (h @ pre) e"
proof -
  have "projectMappingAPI r = SDKProjectMappingAPI" using assms(1) by (simp add: projectMappingAPI_def)
  from guarded_event [OF sdk.Reconcile_deletes [OF this] assms(2)] assms(3) show ?thesis by simp
qed

theorem delete_only_owned_verified_and_won_witness:
  "\<exists>pre e. isDeleteCall e \<and>
     deletingCallJustified (sampleLibrary liveAPI) (sampleReconciler [deletedOwned]) (''ns'', ''map'') [] pre e"
proof -
  obtain e where e: "isDeleteCall e"
    "e \<in> set (emitted (Reconcile (sampleLibrary liveAPI) (sampleReconciler [deletedOwned])
       (''ns'', ''map'')) [])"
    using sample_delete_run by auto
  then obtain pre post where "emitted (Reconcile (sampleLibrary liveAPI) (sampleReconciler [deletedOwned])
       (''ns'', ''map'')) [] = pre @ e # post"
    by (meson split_list)
  from delete_only_owned_verified_and_won [OF _ this e(1)] e(1) show ?thesis
    by (auto simp: sampleReconciler_def)
qed

text \<open>
  C2: a mapping is created only on durable intent. Every POST the handler sends is for a
  live Mapping with its finalizer, of a healthy Agent that denotes the request, with an
  existing AppProject, no recorded create attempt and no adoption request; the rows listed in
  this pass contain none for the AppProject; and directly before the POST the server stored
  the state Pending with the complete request in the Mapping's status.
\<close>

theorem create_only_after_durable_intent:
  assumes "rc_mappingAPI r = None" and "emitted (Reconcile L r key) h = pre @ e # post"
    and "isCreateCall e"
  shows "remoteCallJustified L r key h (h @ pre) e"
proof -
  have "projectMappingAPI r = SDKProjectMappingAPI" using assms(1) by (simp add: projectMappingAPI_def)
  from guarded_event [OF sdk.Reconcile_creates [OF this] assms(2)] assms(3) show ?thesis by simp
qed

theorem create_only_after_durable_intent_witness:
  "\<exists>pre e. isCreateCall e \<and>
     remoteCallJustified (sampleLibrary emptyAPI) (sampleReconciler [liveMapping]) (''ns'', ''map'') [] pre e"
proof -
  obtain e where e: "isCreateCall e"
    "e \<in> set (emitted (Reconcile (sampleLibrary emptyAPI) (sampleReconciler [liveMapping])
       (''ns'', ''map'')) [])"
    using sample_create_run by auto
  then obtain pre post where "emitted (Reconcile (sampleLibrary emptyAPI) (sampleReconciler [liveMapping])
       (''ns'', ''map'')) [] = pre @ e # post"
    by (meson split_list)
  from create_only_after_durable_intent [OF _ this e(1)] e(1) show ?thesis
    by (auto simp: sampleReconciler_def)
qed

text \<open>A row matches a request also under its own Agent identifier.\<close>

lemma matches_own_identifier:
  assumes "projectMappingMatches row q"
  shows "projectMappingMatches row (q\<lparr>q_AgentIdentifier := TrimSpace (pm_AgentIdentifier row)\<rparr>)"
proof -
  have "TrimSpace (pm_AgentIdentifier row) \<noteq> ''''"
    using assms IdentifiersEquivalent_nonblank by (auto simp: projectMappingMatches_def)
  with assms show ?thesis
    by (simp add: projectMappingMatches_def IdentifiersEquivalent_refl)
qed

text \<open>
  C7: the finalizer is removed only when nothing is left to delete. In every run of finalization
  an update of the Mapping sends it without the finalizer and otherwise unchanged, and it comes
  directly after the reason for it: no create is uncertain and no ownership is recorded; or,
  for the remote mapping the status names, the claim was lost to another resource; or the
  list shows, to a settled owner, no row with the ID or one that is no longer the stored
  mapping, and for the ID a pending create returned, no such row after the grace period; or
  the settled owner's delete is confirmed by a success or by 404 for every candidate.
\<close>

theorem finalizer_released_only_when_clean:
  assumes "rc_mappingAPI r = None"
    and "emitted (finalizeProjectMapping L r m) h = pre @ e # post" and "isFinalizerUpdate e"
  shows "isFinalizerWrite L m e \<and> releaseJustified L r m h (h @ pre)"
proof -
  have "projectMappingAPI r = SDKProjectMappingAPI" using assms(1) by (simp add: projectMappingAPI_def)
  from guarded_event [OF sdk.finalize_release_guarded [OF this] assms(2)] assms(3)
  show ?thesis by simp
qed

theorem finalizer_released_only_when_clean_witness:
  "settledOwner deletedOwned ''row1'' \<and> \<not> nothingOwned deletedOwned \<and>
   (\<exists>pre e post. isFinalizerWrite (sampleLibrary liveAPI) deletedOwned e \<and>
     emitted (finalizeProjectMapping (sampleLibrary liveAPI) (sampleReconciler [deletedOwned])
       deletedOwned) [] = pre @ e # post \<and>
     releaseJustified (sampleLibrary liveAPI) (sampleReconciler [deletedOwned]) deletedOwned [] pre)"
proof -
  let ?run = "finalizeProjectMapping (sampleLibrary liveAPI) (sampleReconciler [deletedOwned]) deletedOwned"
  obtain e where e: "isFinalizerUpdate e" "e \<in> set (emitted ?run [])"
    using sample_release_run by auto
  then obtain pre post where split: "emitted ?run [] = pre @ e # post" by (meson split_list)
  have "rc_mappingAPI (sampleReconciler [deletedOwned]) = None" by (simp add: sampleReconciler_def)
  from finalizer_released_only_when_clean [OF this split e(1)] split
  have "\<exists>pre e post. isFinalizerWrite (sampleLibrary liveAPI) deletedOwned e \<and>
     emitted ?run [] = pre @ e # post \<and>
     releaseJustified (sampleLibrary liveAPI) (sampleReconciler [deletedOwned]) deletedOwned [] pre"
    by auto
  then show ?thesis
    by (simp add: settledOwner_def nothingOwned_def uncertainCreate_def deletedOwned_remote)
qed

text \<open>
  C23: the snapshot stored with a row is enough to delete the row later. From the status that
  records a created row, with the ID and the Agent identifier Harness returned (the requested
  identifier where it returned none), cleanup rebuilds that ID and the request that created
  it, except that it names the Agent by the stored identifier; the created row matches
  the rebuilt request if it matched the original one. From the status that records an adopted
  or observed row, cleanup rebuilds the row's ID and a request that the row still matches.
\<close>

theorem cleanup_identity_roundtrip:
  assumes "requestWF q"
  shows "(\<forall>created status. TrimSpace (pm_Identifier created) \<noteq> '''' \<longrightarrow>
      (let mid = TrimSpace (pm_Identifier created);
           returned = TrimSpace (pm_AgentIdentifier created);
           ident = (if returned = '''' then q_AgentIdentifier q else returned);
           rebuilt = q\<lparr>q_AgentIdentifier := ident\<rparr>
       in projectMappingCleanupRequest (mst_Remote (acceptCreate q mid ident status)) = Inr (rebuilt, mid) \<and>
          (projectMappingMatches created q \<longrightarrow> projectMappingMatches created rebuilt))) \<and>
    (\<forall>row ownership. projectMappingMatches row q \<longrightarrow>
      (\<exists>q'. projectMappingCleanupRequest
          (Some ((remoteStatusForObserved q row)\<lparr>r_Ownership := ownership\<rparr>)) =
            Inr (q', TrimSpace (pm_Identifier row)) \<and> projectMappingMatches row q'))"
proof (intro conjI allI impI)
  fix created :: ProjectMapping and status
  let ?mid = "TrimSpace (pm_Identifier created)" and ?returned = "TrimSpace (pm_AgentIdentifier created)"
  let ?ident = "if ?returned = '''' then q_AgentIdentifier q else ?returned"
  assume mid: "?mid \<noteq> ''''"
  have ident: "TrimSpace ?ident = ?ident" "?ident \<noteq> ''''"
    using assms by (auto simp: requestWF_def)
  have "projectMappingCleanupRequest (mst_Remote (acceptCreate q ?mid ?ident status)) =
      Inr (q\<lparr>q_AgentIdentifier := ?ident\<rparr>, ?mid)"
    using cleanup_of_request [OF assms _ mid ident, of OwnershipUnset]
    by (simp add: acceptCreate_def remoteStatusForRequest_def)
  moreover have "projectMappingMatches created (q\<lparr>q_AgentIdentifier := ?ident\<rparr>)"
    if "projectMappingMatches created q"
    using matches_own_identifier [OF that] IdentifiersEquivalent_nonblank that
    by (auto simp: projectMappingMatches_def)
  ultimately show "let mid = ?mid; returned = ?returned;
      ident = (if returned = '''' then q_AgentIdentifier q else returned);
      rebuilt = q\<lparr>q_AgentIdentifier := ident\<rparr>
    in projectMappingCleanupRequest (mst_Remote (acceptCreate q mid ident status)) = Inr (rebuilt, mid) \<and>
       (projectMappingMatches created q \<longrightarrow> projectMappingMatches created rebuilt)"
    unfolding Let_def by blast
next
  fix row ownership
  assume match: "projectMappingMatches row q"
  let ?ident = "TrimSpace (pm_AgentIdentifier row)" and ?mid = "TrimSpace (pm_Identifier row)"
  have ident: "?ident \<noteq> ''''" and mid: "?mid \<noteq> ''''"
    using match IdentifiersEquivalent_nonblank by (auto simp: projectMappingMatches_def)
  have "projectMappingCleanupRequest
      (Some ((remoteStatusForObserved q row)\<lparr>r_Ownership := ownership\<rparr>)) =
        Inr (q\<lparr>q_AgentIdentifier := ?ident\<rparr>, ?mid)"
    using cleanup_of_request [OF assms, of ?mid ?ident ownership] ident mid
    by (simp add: remoteStatusForObserved_def remoteStatusForRequest_def Let_def)
  with matches_own_identifier [OF match] show "\<exists>q'. projectMappingCleanupRequest
      (Some ((remoteStatusForObserved q row)\<lparr>r_Ownership := ownership\<rparr>)) = Inr (q', ?mid) \<and>
      projectMappingMatches row q'"
    by blast
qed

theorem cleanup_identity_roundtrip_witness:
  "let created = projectMappingFromSDK sampleRow;
       stored = acceptCreate sampleRequest ''row1'' ''agent1'' (m_Status sampleMapping)
   in requestWF sampleRequest \<and> projectMappingMatches created sampleRequest \<and>
      projectMappingCleanupRequest (mst_Remote stored) = Inr (sampleRequest, ''row1'')"
proof -
  have row: "TrimSpace (pm_Identifier (projectMappingFromSDK sampleRow)) = ''row1''"
    "TrimSpace (pm_AgentIdentifier (projectMappingFromSDK sampleRow)) = ''agent1''"
    by (simp_all add: projectMappingFromSDK_def sampleRow_def)
  have same: "sampleRequest\<lparr>q_AgentIdentifier := ''agent1''\<rparr> = sampleRequest"
    by (simp add: sampleRequest_def)
  have "projectMappingCleanupRequest
      (mst_Remote (acceptCreate sampleRequest ''row1'' ''agent1'' (m_Status sampleMapping))) =
      Inr (sampleRequest, ''row1'')"
    using cleanup_identity_roundtrip [OF sampleRequest_wf, THEN conjunct1, rule_format,
        of "projectMappingFromSDK sampleRow" "m_Status sampleMapping"] row same
    by (simp add: Let_def)
  with sampleRequest_wf sample_row_matches show ?thesis by (simp add: Let_def)
qed

end
