(* ===== verification/Mapping_Ownership.thy ===== *)
theory Mapping_Ownership
  imports Mapping_Reconciler
begin

text \<open>
  How a Mapping comes to own a remote row. A status write that records Managed or Adopted
  ownership the resource did not have before is justified by this pass: the row was listed
  and matches, the claim on its ID was arbitrated after the list and won, and the ID is
  either the one the user asked to adopt or the one the recorded create returned.
\<close>

section \<open>New ownership\<close>

definition newOwner :: "HarnessGitopsProjectMapping \<Rightarrow> HarnessGitopsProjectMappingRemoteStatus option \<Rightarrow> bool" where
  "newOwner m remote \<longleftrightarrow>
     (case remote of None \<Rightarrow> False | Some rs \<Rightarrow> isDeletionOwnership (r_Ownership rs)) \<and>
     remote \<noteq> mst_Remote (m_Status m)"

fun recordsOwner :: "HarnessGitopsProjectMapping \<Rightarrow> event \<Rightarrow> bool" where
  "recordsOwner m (EvUpdateMappingStatus sent x) = newOwner m (mst_Remote (m_Status sent))"
| "recordsOwner m _ = False"

definition provenance ::
  "HarnessGitopsProjectMapping \<Rightarrow> string \<Rightarrow> ResourceOwnership \<Rightarrow> bool" where
  "provenance m mid ownership \<longleftrightarrow>
     ownership = OwnershipAdopted \<and> TrimSpace (ms_AdoptMappingID (m_Spec m)) = mid \<or>
     ownership = OwnershipManaged \<and> rememberedIDOf m = mid \<and>
       mst_CreationState (m_Status m) = MappingCreationPending"

text \<open>The evidence in a history that a row with the given ID was listed and matches.\<close>

definition listedRow :: "ProjectMappingRequest \<Rightarrow> string \<Rightarrow> history \<Rightarrow> bool" where
  "listedRow q mid es \<longleftrightarrow>
     (\<exists>key cand rows http row.
        EvSdkListMappings key cand (listOpts q) (rows, http, None) \<in> set es \<and>
        row \<in> set rows \<and> TrimSpace (v_Identifier row) = mid \<and>
        projectMappingMatches (projectMappingFromSDK row) q)"

fun ownershipJustified ::
  "Library \<Rightarrow> Reconciler \<Rightarrow> HarnessGitopsProjectMapping \<Rightarrow> history \<Rightarrow> history \<Rightarrow> event \<Rightarrow> bool" where
  "ownershipJustified L r m h pre (EvUpdateMappingStatus sent x) \<longleftrightarrow>
     (\<exists>q mid remote es.
        mst_Remote (m_Status sent) = Some remote \<and> TrimSpace (r_MappingID remote) = mid \<and>
        provenance m mid (r_Ownership remote) \<and> listedRow q mid es \<and>
        claimWon L r m q mid None (h @ es) \<and>
        pre = h @ es @ emitted (resolveProjectMappingClaim L r m q mid) (h @ es))"
| "ownershipJustified L r m h pre _ \<longleftrightarrow> False"

abbreviation ownerGuard ::
  "Library \<Rightarrow> Reconciler \<Rightarrow> HarnessGitopsProjectMapping \<Rightarrow> history \<Rightarrow> history \<Rightarrow> event \<Rightarrow> bool" where
  "ownerGuard L r m h pre e \<equiv> recordsOwner m e \<longrightarrow> ownershipJustified L r m h pre e"

section \<open>Writes without new ownership\<close>

definition modest :: "HarnessGitopsProjectMapping \<Rightarrow> event \<Rightarrow> bool" where
  "modest m e \<longleftrightarrow> \<not> recordsOwner m e"

lemma modest_events [simp]:
  "isClaimRead e \<Longrightarrow> modest m e" "isFinalizerWrite L m' e \<Longrightarrow> modest m e" "isSecretRead e \<Longrightarrow> modest m e"
  "isListCall e \<Longrightarrow> modest m e" "isAppProjectRead e \<Longrightarrow> modest m e"
  "isDeleteCallFor mid q e \<Longrightarrow> modest m e" "isCreateCallFor q e \<Longrightarrow> modest m e"
  by (cases e; simp add: modest_def)+

lemma modest_write:
  "writesRemoteState m' st e \<Longrightarrow> \<not> newOwner m (snd st) \<Longrightarrow> modest m e"
  by (cases e) (auto simp: modest_def remoteState_def)

lemma modest_setReady:
  assumes "\<not> newOwner m (mst_Remote (mutated mut (m_Status m')))"
  shows "emits (modest m) (setReady L r m' cs reason msg mut)"
  by (rule emits_mono [OF emits_setReady]) (use assms in \<open>auto simp: remoteState_def intro: modest_write\<close>)

text \<open>The mutations: ownership is dropped, kept as it was, or not a deletion ownership.\<close>

lemma not_newOwner_same [simp]: "\<not> newOwner m (mst_Remote (m_Status m))"
  by (simp add: newOwner_def)

lemma not_newOwner_request [simp]: "\<not> newOwner m (Some (remoteStatusForRequest q))"
  by (simp add: newOwner_def remoteStatusForRequest_def isDeletionOwnership_def)

lemma not_newOwner_unresolved [simp]: "\<not> newOwner m (Some (unresolvedRemoteStatus cur q))"
  by (simp add: newOwner_def unresolvedRemoteStatus_def remoteStatusForRequest_def
      isDeletionOwnership_def split: option.split)

lemma not_newOwner_mutations [simp]:
  "\<not> newOwner m (mst_Remote (mutated None (m_Status m)))"
  "\<not> newOwner m (mst_Remote (mutated (Some settle) (m_Status m)))"
  "\<not> newOwner m (mst_Remote (mutated (Some (markUnknown q)) st))"
  "\<not> newOwner m (mst_Remote (mutated (Some (intendCreate q)) st))"
  "\<not> newOwner m (mst_Remote (mutated (Some (rejectCreate q)) st))"
  "\<not> newOwner m (mst_Remote (mutated (Some (acceptCreate q i a)) st))"
  "\<not> newOwner m (mst_Remote (mutated (Some (\<lambda>s. preserveMappingFailureState s q cs)) (m_Status m)))"
  "\<not> newOwner m (mst_Remote (mutated (Some (\<lambda>status. status\<lparr>mst_Remote :=
     Some (unresolvedRemoteStatus (mst_Remote status) q)\<rparr>)) st))"
  "\<not> newOwner m (mst_Remote (mutated (Some (dropExternalBinding mid)) (m_Status m)))"
  by (simp_all add: mutated_def settle_def markUnknown_def intendCreate_def rejectCreate_def
      acceptCreate_def preserveMappingFailureState_def dropExternalBinding_def Let_def)
    (auto simp: newOwner_def remoteStatusForRequest_def isDeletionOwnership_def split: option.split)

lemma not_newOwner_observed [simp]:
  "\<not> isDeletionOwnership own \<Longrightarrow>
     \<not> newOwner m (mst_Remote (mutated (Some (recordObserved cs own q row)) st))"
  by (simp add: newOwner_def mutated_def recordObserved_def)

lemma not_deletionOwnership [simp]:
  "\<not> isDeletionOwnership OwnershipUnset" "\<not> isDeletionOwnership OwnershipExternal"
  by (simp_all add: isDeletionOwnership_def)

lemma modest_outcomes:
  "emits (modest m) (blockMappingCleanup L r m msg cause)"
  "emits (modest m) (failMappingCleanup L r m msg err)"
  "emits (modest m) (returnAPIError L r m msg err)"
  unfolding blockMappingCleanup_def failMappingCleanup_def returnAPIError_def
  by (intro emits_intro modest_setReady; simp)+

lemma modest_reads:
  "emits (modest m) (removeProjectMappingFinalizer L r m')"
  "emits (modest m) (sessionForAgent L r agent)"
  "emits (modest m) (appProjectExists L rd dc ns n)"
  by ((rule emits_removeFinalizer [THEN emits_mono] emits_sessionForAgent [THEN emits_mono]
        emits_appProjectExists [THEN emits_mono], simp)+)

lemma modest_gets:
  "emits (modest m) (GetAgent rd key)" "emits (modest m) (GetMapping rd key)"
  by (simp_all add: GetAgent_def GetMapping_def emits_def modest_def)

lemma modest_ensure: "emits (modest m) (EnsureFinalizer L (mappingWriter cl) m' f)"
  by (rule mapping_finalizer.ensure_emits) (simp add: modest_def)

lemma modest_authorize: "emits (modest m) (authorizeProjectMappingCleanup L r m q mid)"
  unfolding authorizeProjectMappingCleanup_def
  by (intro emits_intro modest_outcomes modest_reads emits_mono [OF emits_resolveClaim]) simp

lemma modest_require:
  "emits (modest m) (requireProjectMappingClaim L r m q mid)"
  "emits (modest m) (requireNewExternalProjectMappingClaim L r m q mid)"
  unfolding requireProjectMappingClaim_def requireNewExternalProjectMappingClaim_def
    requireProjectMappingClaimWithProvisional_def
  by (intro emits_intro modest_setReady emits_mono [OF emits_resolveClaimP]; simp)+

lemma modest_recordReady:
  "\<not> newOwner m (mst_Remote (mutated mut (m_Status m))) \<Longrightarrow>
     emits (modest m) (recordReady L r m cs reason msg mut)"
  unfolding recordReady_def by (intro emits_intro modest_setReady)

lemmas modest_actions = modest_outcomes modest_reads modest_gets modest_ensure modest_authorize
  modest_require

lemma guarded_modest: "emits (modest m) act \<Longrightarrow> guarded (ownerGuard L r m h) act h'"
  by (rule guarded_emits [where P = "modest m"]) (auto simp: modest_def)

lemmas guarded_modest_actions = modest_actions [THEN guarded_modest]

section \<open>The write after a won claim\<close>

lemma mst_Remote_readyStatus [simp]:
  "mst_Remote (readyStatus L now m cs reason msg mut) = mst_Remote (mutated mut (m_Status m))"
  using remoteState_readyStatus [of L now m cs reason msg mut]
  by (simp add: remoteState_def del: remoteState_readyStatus)

lemma owner_write:
  assumes "claimWon L r m q mid None (h @ es)" and "listedRow q mid es"
    and "mst_Remote (mutated mut (m_Status m)) = Some remote"
    and "TrimSpace (r_MappingID remote) = mid" and "provenance m mid (r_Ownership remote)"
  shows "guarded (ownerGuard L r m h) (setReady L r m cs reason msg mut)
    (h @ es @ emitted (resolveProjectMappingClaim L r m q mid) (h @ es))"
proof -
  let ?h = "h @ es @ emitted (resolveProjectMappingClaim L r m q mid) (h @ es)"
  have "ownershipJustified L r m h ?h
      (EvUpdateMappingStatus (m\<lparr>m_Status := readyStatus L now m cs reason msg mut\<rparr>) x)" for now x
    unfolding ownershipJustified.simps
    by (rule exI [of _ q], rule exI [of _ mid], rule exI [of _ remote], rule exI [of _ es])
      (use assms in simp)
  then show ?thesis
    unfolding setReady_def recorded_calls
    by (auto intro!: guarded_intro simp: Let_def simp del: ownershipJustified.simps)
qed

lemma owner_record:
  assumes "claimWon L r m q mid None (h @ es)" and "listedRow q mid es"
    and "mst_Remote (mutated mut (m_Status m)) = Some remote"
    and "TrimSpace (r_MappingID remote) = mid" and "provenance m mid (r_Ownership remote)"
  shows "guarded (ownerGuard L r m h) (recordReady L r m cs reason msg mut)
    (h @ es @ emitted (resolveProjectMappingClaim L r m q mid) (h @ es))"
  unfolding recordReady_def
  by (auto intro!: guarded_bind owner_write [OF assms] guarded_ret split: prod.split)

text \<open>Requiring the claim and recording the ownership.\<close>

lemma claim_then_record:
  assumes "listedRow q mid es" and "mst_Remote (mutated mut (m_Status m)) = Some remote"
    and "TrimSpace (r_MappingID remote) = mid" and "provenance m mid (r_Ownership remote)"
  shows "guarded (ownerGuard L r m h)
    (State_Monad.bind (requireProjectMappingClaim L r m q mid)
      (\<lambda>(won, res, err). if \<not> won then ret (res, err) else recordReady L r m cs reason msg mut))
    (h @ es)"
proof -
  have "guarded (ownerGuard L r m h) (recordReady L r m cs reason msg mut)
      (h @ es @ emitted (requireProjectMappingClaim L r m q mid) (h @ es))"
    if won: "result (requireProjectMappingClaim L r m q mid) (h @ es) = (True, res, err)" for res err
    using require_won [OF won [unfolded requireProjectMappingClaim_def]] owner_record [OF _ assms]
    by (simp add: requireProjectMappingClaim_def resolveProjectMappingClaim_def)
  then show ?thesis
    by (auto intro!: guarded_bind guarded_modest_actions guarded_ret split: prod.split)
qed

section \<open>Reconciliation\<close>

lemma selected_owner_guarded:
  assumes listed: "listedRow q (TrimSpace (pm_Identifier observed)) es"
    and nonblank: "TrimSpace (pm_Identifier observed) \<noteq> ''''"
  shows "guarded (ownerGuard L r m h) (reconcileSelectedMapping L r m q observed) (h @ es)"
proof -
  let ?id = "TrimSpace (pm_Identifier observed)"
  have remembered: "\<exists>remote. mst_Remote (m_Status m) = Some remote \<and> TrimSpace (r_MappingID remote) = ?id"
    if "rememberedIDOf m = ?id"
    using that nonblank by (auto simp: rememberedIDOf_def split: option.splits)
  have settled: "guarded (ownerGuard L r m h)
      (State_Monad.bind (requireProjectMappingClaim L r m q mid)
        (\<lambda>(won, res, err). if \<not> won then ret (res, err)
          else recordReady L r m cs reason msg (Some settle))) h'" for mid cs reason msg h'
    by (intro guarded_modest emits_intro modest_require modest_recordReady) simp
  have external: "guarded (ownerGuard L r m h)
      (State_Monad.bind (requireNewExternalProjectMappingClaim L r m q mid)
        (\<lambda>(won, res, err). if \<not> won then ret (res, err) else recordReady L r m cs reason msg mut)) h'"
    if "\<not> newOwner m (mst_Remote (mutated mut (m_Status m)))" for mid cs reason msg mut h'
    by (intro guarded_modest emits_intro modest_require modest_recordReady that)
  have own: "guarded (ownerGuard L r m h)
      (State_Monad.bind (requireProjectMappingClaim L r m q mid)
        (\<lambda>(won, res, err). if \<not> won then ret (res, err)
          else recordReady L r m cs reason msg (Some (ownCandidate ownership)))) (h @ es)"
    if "?id = mid" "rememberedIDOf m = mid" "provenance m mid ownership" for ownership cs reason msg mid
    using remembered that listed
    by (auto intro!: claim_then_record simp: mutated_def ownCandidate_def)
  have adopt: "guarded (ownerGuard L r m h)
      (State_Monad.bind (requireProjectMappingClaim L r m q mid)
        (\<lambda>(won, res, err). if \<not> won then ret (res, err)
          else recordReady L r m cs reason msg
            (Some (recordObserved MappingCreationUnset OwnershipAdopted q observed)))) (h @ es)"
    if "?id = mid" "TrimSpace (ms_AdoptMappingID (m_Spec m)) = mid" for cs reason msg mid
    using that listed
    by (auto intro!: claim_then_record
        simp: mutated_def recordObserved_def remoteStatusForObserved_def remoteStatusForRequest_def
          provenance_def Let_def)
  show ?thesis
    unfolding reconcileSelectedMapping_def reconcileCandidate_def reconcileUnclaimed_def Let_def
    by (auto intro!: settled external adopt own guarded_modest [OF modest_recordReady]
        simp: provenance_def)
qed

lemma listedRow_I:
  assumes "EvSdkListMappings key cand (listOpts q) (rows, http, None) \<in> set es"
    and "row \<in> set (map projectMappingFromSDK rows)" and "projectMappingMatches row q"
  shows "listedRow q (TrimSpace (pm_Identifier row)) es"
proof -
  from assms(2) obtain v where v: "v \<in> set rows" "row = projectMappingFromSDK v" by auto
  then have "TrimSpace (v_Identifier v) = TrimSpace (pm_Identifier row)"
    by (simp add: projectMappingFromSDK_def)
  with assms(1,3) v show ?thesis unfolding listedRow_def by blast
qed

context mapping_api
begin

lemma modest_create:
  assumes "projectMappingAPI r = api"
  shows "emits (modest m) (createHarnessMapping L r m s q)"
proof -
  have "emits (modest m) (api_Create api s q)"
    by (rule emits_mono [OF create_calls]) simp
  then show ?thesis
    unfolding createHarnessMapping_def assms by (intro emits_intro modest_setReady; simp)
qed

lemma reconcile_owner_guarded:
  assumes api: "projectMappingAPI r = api"
  shows "guarded (ownerGuard L r m h) (reconcileHarnessMapping L r m s q) (h @ es)"
proof -
  let ?list = "api_List api s q"
  let ?h = "(h @ es) @ emitted ?list (h @ es)"
  have list: "guarded (ownerGuard L r m h) ?list (h @ es)"
    by (rule guarded_modest, rule emits_mono [OF list_calls]) simp
  have selected: "guarded (ownerGuard L r m h) (reconcileSelectedMapping L r m q row) ?h"
    if res: "result ?list (h @ es) = Inr ms"
      and sel: "sel_mapping (selectProjectMapping ms q m) = Some row" for ms row
  proof -
    from list_rows [OF res] obtain cand rows http where
      rows: "EvSdkListMappings (s_apiKey s) cand (listOpts q) (rows, http, None)
        \<in> set (es @ emitted ?list (h @ es))" "ms = map projectMappingFromSDK rows"
      by auto
    have match: "projectMappingMatches row q" using select_Some(2) [OF sel] .
    have "row \<in> set (map projectMappingFromSDK rows)"
      using select_Some(1) [OF sel] rows(2) by metis
    then have "listedRow q (TrimSpace (pm_Identifier row)) (es @ emitted ?list (h @ es))"
      using listedRow_I [OF rows(1)] match by blast
    moreover have "TrimSpace (pm_Identifier row) \<noteq> ''''"
      using match by (simp add: projectMappingMatches_def)
    ultimately show ?thesis
      using selected_owner_guarded [of q row "es @ emitted ?list (h @ es)", where L = L and r = r
          and m = m and h = h]
      by simp
  qed
  have rest: "emits (modest m) (reconcileAbsentRow L r m s q)"
    unfolding reconcileAbsentRow_def
    by (intro emits_intro modest_setReady modest_create [OF api]; simp)
  have preserve: "emits (modest m) (setReady L r m cs reason msg
      (Some (\<lambda>s. preserveMappingFailureState s q (mst_CreationState (m_Status m)))))"
    for cs reason msg
    by (intro modest_setReady) simp
  show ?thesis
    unfolding reconcileHarnessMapping_def api Let_def
    by (intro guarded_bind list)
      (auto intro!: selected guarded_bind guarded_ret rest [THEN guarded_modest]
        preserve [THEN guarded_modest] guarded_modest_actions
        split: sum.split option.split prod.split simp del: append_assoc)
qed

text \<open>Recovery of ownership before cleanup.\<close>

lemma identity_recovery:
  assumes "ci_recoveryOwnership (resolveMappingCleanupIdentity m) \<noteq> OwnershipUnset"
    and "ci_ownershipBlockReason (resolveMappingCleanupIdentity m) = ''''"
  shows "provenance m (ci_mappingID (resolveMappingCleanupIdentity m))
      (ci_recoveryOwnership (resolveMappingCleanupIdentity m))"
    and "TrimSpace (ci_mappingID (resolveMappingCleanupIdentity m)) =
      ci_mappingID (resolveMappingCleanupIdentity m)"
  using assms
  by (auto simp: resolveMappingCleanupIdentity_def emptyIdentity_def provenance_def rememberedIDOf_def
      Let_def split: option.splits if_splits)

lemma cleanupAuthorized_owner_guarded:
  assumes api: "projectMappingAPI r = api"
    and usable: "\<not> ci_removeFinalizer (resolveMappingCleanupIdentity m)"
      "ci_ownershipBlockReason (resolveMappingCleanupIdentity m) = ''''"
    and mid: "mid = TrimSpace (ci_mappingID (resolveMappingCleanupIdentity m))"
    and won: "claimWon L r m q mid None (h @ es)" and listed: "listedRow q mid es"
  shows "guarded (ownerGuard L r m h)
    (cleanupAuthorized L r m (resolveMappingCleanupIdentity m) s q mid)
    (h @ es @ emitted (resolveProjectMappingClaim L r m q mid) (h @ es))"
proof (cases "ci_recoveryOwnership (resolveMappingCleanupIdentity m) = OwnershipUnset")
  case True
  have "emits (modest m) (api_Delete api s q mid)"
    by (rule emits_mono [OF delete_calls]) simp
  then show ?thesis
    using True unfolding cleanupAuthorized_def api
    by (auto intro!: guarded_modest emits_intro modest_outcomes modest_reads)
next
  case False
  let ?id = "resolveMappingCleanupIdentity m"
  note rec = identity_recovery [OF False usable(2)]
  have "guarded (ownerGuard L r m h) (setReady L r m cs reason msg
      (Some (\<lambda>status. status\<lparr>mst_CreationState := MappingCreationUnset,
        mst_Remote := Some ((the (ci_remote ?id))\<lparr>r_MappingID := mid,
          r_Ownership := ci_recoveryOwnership ?id\<rparr>)\<rparr>)))
      (h @ es @ emitted (resolveProjectMappingClaim L r m q mid) (h @ es))" for cs reason msg
    using rec mid
    by (intro owner_write [OF won listed, where remote = "(the (ci_remote ?id))\<lparr>r_MappingID := mid,
        r_Ownership := ci_recoveryOwnership ?id\<rparr>"]) (simp_all add: mutated_def)
  with False show ?thesis
    unfolding cleanupAuthorized_def
    by (auto intro!: guarded_bind guarded_ret simp: Let_def split: prod.split option.split)
qed

lemma cleanupListed_owner_guarded:
  assumes api: "projectMappingAPI r = api"
    and usable: "\<not> ci_removeFinalizer (resolveMappingCleanupIdentity m)"
      "ci_ownershipBlockReason (resolveMappingCleanupIdentity m) = ''''"
    and mid: "mid = TrimSpace (ci_mappingID (resolveMappingCleanupIdentity m))"
    and rows: "EvSdkListMappings key cand (listOpts q) (rows, http, None) \<in> set es"
  shows "guarded (ownerGuard L r m h)
    (cleanupListed L r m (resolveMappingCleanupIdentity m) s q mid (map projectMappingFromSDK rows))
    (h @ es)"
proof (cases "\<exists>row. projectMappingWithID (map projectMappingFromSDK rows) mid = Some row \<and>
    projectMappingMatches row q")
  case False
  then show ?thesis
    unfolding cleanupListed_def
    by (auto intro!: guarded_modest emits_intro modest_outcomes modest_reads modest_setReady
        split: option.split)
next
  case True
  then obtain row where row: "projectMappingWithID (map projectMappingFromSDK rows) mid = Some row"
    "projectMappingMatches row q" by blast
  have listed: "listedRow q mid es"
    using listedRow_I [OF rows] projectMappingWithID_Some [OF row(1)] row(2) by metis
  let ?auth = "authorizeProjectMappingCleanup L r m q mid"
  have "guarded (ownerGuard L r m h)
      (cleanupAuthorized L r m (resolveMappingCleanupIdentity m) s q mid)
      (h @ es @ emitted ?auth (h @ es))"
    if "result ?auth (h @ es) = (True, res, err)" for res err
    using authorize_won [OF that] cleanupAuthorized_owner_guarded [OF api usable mid _ listed] by simp
  with row show ?thesis
    unfolding cleanupListed_def
    by (auto intro!: guarded_bind guarded_modest [OF modest_authorize] guarded_ret split: prod.split)
qed

lemma finalize_owner_guarded:
  assumes api: "projectMappingAPI r = api"
  shows "guarded (ownerGuard L r m h) (finalizeProjectMapping L r m) (h @ es)"
proof -
  let ?id = "resolveMappingCleanupIdentity m"
  have list: "guarded (ownerGuard L r m h) (api_List api s q) h'" for s q h'
    by (rule guarded_modest, rule emits_mono [OF list_calls]) simp
  have listed: "guarded (ownerGuard L r m h) (case result (api_List api s q) (h @ fs) of
        Inl err \<Rightarrow> failMappingCleanup L r m
          ''Unable to verify the Harness mapping before deletion'' err
      | Inr mappings \<Rightarrow> cleanupListed L r m ?id s q mid mappings)
      ((h @ fs) @ emitted (api_List api s q) (h @ fs))"
    if "\<not> ci_removeFinalizer ?id" "ci_ownershipBlockReason ?id = ''''"
      "projectMappingCleanupRequest
        (Some ((the (ci_remote ?id))\<lparr>r_MappingID := ci_mappingID ?id\<rparr>)) = Inr (q, mid)"
    for s q mid fs
  proof (cases "result (api_List api s q) (h @ fs)")
    case (Inl err)
    then show ?thesis by (auto intro: guarded_modest_actions)
  next
    case (Inr ms)
    from list_rows [OF Inr] obtain cand rows http where
      "EvSdkListMappings (s_apiKey s) cand (listOpts q) (rows, http, None)
        \<in> set (fs @ emitted (api_List api s q) (h @ fs))" "ms = map projectMappingFromSDK rows"
      by auto
    moreover have "mid = TrimSpace (ci_mappingID ?id)"
      using cleanup_request_wf(2) [OF that(3)] by simp
    ultimately show ?thesis
      using cleanupListed_owner_guarded [OF api that(1,2), where L = L and h = h and s = s] Inr
      by simp
  qed
  show ?thesis
    unfolding finalizeProjectMapping_def api
    by (auto intro!: guarded_bind guarded_modest_actions guarded_ret list listed
        simp: Let_def split: sum.split prod.split)
qed

lemma Reconcile_owner_guarded:
  assumes api: "projectMappingAPI r = api"
    and got: "rd_GetMapping (cl_Reader (rc_Client r)) h key = Inr m"
  shows "guarded (ownerGuard L r m h) (Reconcile L r key) h"
proof -
  have "result (GetMapping (cl_Reader (rc_Client r)) key) h = Inr m"
    using got by (simp add: GetMapping_def)
  then show ?thesis
    unfolding Reconcile_def
    by (auto intro!: guarded_bind guarded_modest_actions guarded_ret guarded_modest [OF modest_setReady]
        finalize_owner_guarded [OF api] reconcile_owner_guarded [OF api]
        simp: Let_def split: sum.split option.split prod.split bool.split)
qed

end

section \<open>Properties\<close>

text \<open>
  C3: ownership of a remote mapping is never assumed. Whenever the handler writes a status that
  records Managed or Adopted ownership which the Mapping it read did not have, then in this
  pass a row with that ID was listed and matches the complete tuple, the claim on the ID was
  arbitrated cluster-wide after the list and won, directly before the write, and the ID is
  the one \<open>spec.adoptMappingId\<close> names (Adopted) or the one the recorded Pending create
  returned (Managed). This holds for live and for deleted Mappings.
\<close>

theorem ownership_gained_only_by_won_claim:
  assumes "rc_mappingAPI r = None" and "rd_GetMapping (cl_Reader (rc_Client r)) h key = Inr m"
    and "emitted (Reconcile L r key) h = pre @ e # post" and "recordsOwner m e"
  shows "ownershipJustified L r m h (h @ pre) e"
proof -
  have "projectMappingAPI r = SDKProjectMappingAPI" using assms(1) by (simp add: projectMappingAPI_def)
  from guarded_event [OF sdk.Reconcile_owner_guarded [OF this assms(2)] assms(3)] assms(4)
  show ?thesis by simp
qed

text \<open>A Mapping whose recorded create returned the sample row's ID.\<close>

definition pendingMapping :: HarnessGitopsProjectMapping where
  "pendingMapping = liveMapping\<lparr>m_Status := (m_Status liveMapping)
     \<lparr>mst_CreationState := MappingCreationPending,
      mst_Remote := Some ((remoteStatusForRequest sampleRequest)\<lparr>r_MappingID := ''row1''\<rparr>)\<rparr>\<rparr>"

lemma pendingMapping_fields [simp]:
  "m_Meta pendingMapping = m_Meta liveMapping" "m_Spec pendingMapping = m_Spec liveMapping"
  "mst_CreationState (m_Status pendingMapping) = MappingCreationPending"
  "rememberedIDOf pendingMapping = ''row1''" "rememberedOwnershipOf pendingMapping = OwnershipUnset"
  "mst_Remote (m_Status pendingMapping) =
     Some ((remoteStatusForRequest sampleRequest)\<lparr>r_MappingID := ''row1''\<rparr>)"
  by (simp_all add: pendingMapping_def rememberedIDOf_def rememberedOwnershipOf_def
      remoteStatusForRequest_def)

text \<open>Resolution reads the metadata and the spec only.\<close>

lemma resolve_cong:
  assumes "m_Meta m = m_Meta m'" and "m_Spec m = m_Spec m'"
  shows "resolveProjectMappingRequest (Some a) (Some m) = resolveProjectMappingRequest (Some a) (Some m')"
  unfolding resolveProjectMappingRequest_def option.case assms ..

lemma pendingMapping_request:
  "resolveProjectMappingRequest (Some sampleAgent) (Some pendingMapping) = Inr sampleRequest"
  using liveMapping_request resolve_cong [of pendingMapping liveMapping sampleAgent] by simp

lemma pendingMapping_claim:
  "result (requireProjectMappingClaim L (sampleReconciler [pendingMapping]) pendingMapping
     sampleRequest ''row1'') h = (True, emptyResult, None)"
proof -
  have "recordedClaim pendingMapping ''row1'' = Some projectMappingClaimCreateCandidate"
    by (simp add: recordedClaim_def remoteStatusForRequest_def isUncertainCreationState_def)
  from sample_single_claim [OF this _ _ same_refl] show ?thesis
    by (simp add: requireProjectMappingClaim_def requireProjectMappingClaimWithProvisional_def
        result_bind)
qed

lemma sample_owner_run:
  "\<exists>e\<in>set (emitted (Reconcile (sampleLibrary liveAPI) (sampleReconciler [pendingMapping])
     (''ns'', ''map'')) []). recordsOwner pendingMapping e"
proof -
  let ?L = "sampleLibrary liveAPI" and ?r = "sampleReconciler [pendingMapping]"
  let ?s = "sampleSession liveAPI" and ?row = "projectMappingFromSDK sampleRow"
  have ens: "EnsureFinalizer ?L (mappingWriter cl) pendingMapping harnessProjectMappingFinalizer =
      ret (emptyResult, False, None)" for cl
    by (simp add: EnsureFinalizer_def mappingWriter_def sampleLibrary_def)
  have row: "TrimSpace (pm_Identifier ?row) = ''row1''"
    by (simp add: projectMappingFromSDK_def sampleRow_def)
  have sel: "sel_mapping (selectProjectMapping [?row] sampleRequest pendingMapping) = Some ?row"
    using sample_row_matches row
    unfolding selectProjectMapping_def scanMappings_eq Let_def
    by (simp add: emptySelection_def projectMappingWithID_def)
  have changed: "m_Status pendingMapping \<noteq>
      readyStatus ?L now pendingMapping cs reason msg (Some (ownCandidate OwnershipManaged))"
    for now cs reason msg
  proof
    assume "m_Status pendingMapping =
      readyStatus ?L now pendingMapping cs reason msg (Some (ownCandidate OwnershipManaged))"
    from arg_cong [OF this, of mst_CreationState] show False
      by (simp add: readyStatus_def ownCandidate_def Let_def)
  qed
  have owner: "newOwner pendingMapping
      (mst_Remote (mutated (Some (ownCandidate OwnershipManaged)) (m_Status pendingMapping)))"
    by (simp add: newOwner_def mutated_def ownCandidate_def isDeletionOwnership_def
        remoteStatusForRequest_def)
  have "\<exists>e\<in>set (emitted (recordReady ?L ?r pendingMapping cs reason msg
      (Some (ownCandidate OwnershipManaged))) h). recordsOwner pendingMapping e" for cs reason msg h
    using owner
    by (simp add: recordReady_def setReady_def UpdateMappingStatus_def emitted_bind result_bind
        Let_def changed sampleReconciler_def sampleClient_def split_beta)
  then have "\<exists>e\<in>set (emitted (reconcileSelectedMapping ?L ?r pendingMapping sampleRequest ?row) h).
      recordsOwner pendingMapping e" for h
    by (auto simp: reconcileSelectedMapping_def reconcileCandidate_def row Let_def
        isUncertainCreationState_def pendingMapping_claim
        intro!: emitted_tail emits_grows [OF quiet_requireClaim(1)])
  then have "\<exists>e\<in>set (emitted (reconcileHarnessMapping ?L ?r pendingMapping ?s sampleRequest) h).
      recordsOwner pendingMapping e" for h
    unfolding reconcileHarnessMapping_def
    by (auto simp: sample_list sel Let_def intro!: emitted_tail)
  then show ?thesis
    unfolding Reconcile_def
    by (auto simp: sample_getMapping ens Let_def sample_getAgent sampleAgent_ready pendingMapping_request
        sample_appProject sample_session intro!: emitted_tail)
qed

theorem ownership_gained_only_by_won_claim_witness:
  "\<exists>pre e. recordsOwner pendingMapping e \<and>
     ownershipJustified (sampleLibrary liveAPI) (sampleReconciler [pendingMapping]) pendingMapping [] pre e"
proof -
  let ?r = "sampleReconciler [pendingMapping]"
  obtain e where e: "recordsOwner pendingMapping e"
    "e \<in> set (emitted (Reconcile (sampleLibrary liveAPI) ?r (''ns'', ''map'')) [])"
    using sample_owner_run by auto
  then obtain pre post where
    run: "emitted (Reconcile (sampleLibrary liveAPI) ?r (''ns'', ''map'')) [] = pre @ e # post"
    by (meson split_list)
  have got: "rd_GetMapping (cl_Reader (rc_Client ?r)) [] (''ns'', ''map'') = Inr pendingMapping"
    by (simp add: sampleReconciler_def sampleClient_def sampleReader_def)
  have "rc_mappingAPI ?r = None" by (simp add: sampleReconciler_def)
  from ownership_gained_only_by_won_claim [OF this got run e(1)] e(1) show ?thesis by auto
qed

end
