(* ===== verification/Mapping_Validity.thy ===== *)
theory Mapping_Validity
  imports Mapping_Ownership
begin

text \<open>
  The validation rules of the Mapping's status as an invariant of the handler: it never writes a
  status the custom resource definition rejects, so no write of an intent or of ownership is
  lost to validation.
\<close>

section \<open>Valid statuses\<close>

fun validWrite :: "event \<Rightarrow> bool" where
  "validWrite (EvUpdateMappingStatus sent x) = mappingStatusValid (m_Status sent)"
| "validWrite _ = True"

text \<open>The rules speak of the creation state and the remote tuple only.\<close>

lemma valid_cong: "remoteState s = remoteState t \<Longrightarrow> mappingStatusValid s = mappingStatusValid t"
  by (simp add: mappingStatusValid_def remoteState_def)

text \<open>What the API server documents of a validated resource: what it stores is valid.\<close>

definition validates :: "Client \<Rightarrow> bool" where
  "validates cl \<longleftrightarrow>
     (\<forall>h sent stored. cl_UpdateMappingStatus cl h sent = Inr stored \<longrightarrow> mappingStatusValid (m_Status stored))"

lemma valid_setReady:
  assumes "mappingStatusValid (mutated mut (m_Status m))"
  shows "emits validWrite (setReady L r m cs reason msg mut)"
proof (rule emits_mono [OF emits_setReady])
  fix e
  assume "writesRemoteState m (remoteState (mutated mut (m_Status m))) e"
  then obtain sent x where "e = EvUpdateMappingStatus sent x"
    "remoteState (m_Status sent) = remoteState (mutated mut (m_Status m))"
    by (cases e) auto
  with assms show "validWrite e" using valid_cong [of "m_Status sent" "mutated mut (m_Status m)"] by simp
qed

lemma setReady_valid:
  assumes "validates (rc_Client r)" and "mappingStatusValid (mutated mut (m_Status m))"
    and "result (setReady L r m cs reason msg mut) h = (None, m')"
  shows "mappingStatusValid (m_Status m')"
proof -
  have "mappingStatusValid (readyStatus L now m cs reason msg mut)" for now
    using assms(2) valid_cong [OF remoteState_readyStatus] by simp
  then show ?thesis
    using assms(1,3)
    by (auto simp: setReady_def UpdateMappingStatus_def result_bind Let_def validates_def
        split: if_splits sum.splits)
qed

section \<open>The mutations keep the rules\<close>

lemma valid_request:
  assumes "requestWF q"
  shows "remoteStatusValid (remoteStatusForRequest q)"
proof -
  have "q_AgentScope q \<in> {''ACCOUNT'', ''ORG'', ''PROJECT''}"
    using assms by (auto simp: requestWF_def scopesAgree_def agentScope_defs)
  with assms requestWF_scope [OF assms] show ?thesis
    by (auto simp: requestWF_def remoteStatusValid_def remoteStatusForRequest_def scopesAgree_def scopeTrimmed_def)
qed

lemma valid_unresolved:
  "mappingStatusValid s \<Longrightarrow> requestWF q \<Longrightarrow> remoteStatusValid (unresolvedRemoteStatus (mst_Remote s) q)"
  by (auto simp: unresolvedRemoteStatus_def mappingStatusValid_def remoteStatusValid_def [of "_\<lparr>r_Ownership := _\<rparr>"]
      valid_request split: option.splits) (auto simp: remoteStatusValid_def)

lemma valid_observed:
  "requestWF q \<Longrightarrow> own \<in> {OwnershipUnset, OwnershipManaged, OwnershipAdopted, OwnershipExternal} \<Longrightarrow>
     own = OwnershipUnset \<or> TrimSpace (pm_Identifier row) \<noteq> '''' \<Longrightarrow>
     remoteStatusValid ((remoteStatusForObserved q row)\<lparr>r_Ownership := own\<rparr>)"
  using valid_request [of q]
  by (auto simp: remoteStatusForObserved_def remoteStatusValid_def remoteStatusForRequest_def Let_def)

lemma valid_kept:
  assumes "mappingStatusValid s"
  shows "mappingStatusValid (mutated None s)" "mappingStatusValid (mutated (Some settle) s)"
    "mappingStatusValid (mutated (Some (dropExternalBinding mid)) s)"
  using assms
  by (auto simp: mutated_def settle_def dropExternalBinding_def mappingStatusValid_def remoteStatusValid_def
      split: option.splits)

lemma valid_mutations:
  assumes "mappingStatusValid s" and "requestWF q"
  shows "mappingStatusValid (mutated (Some (markUnknown q)) s)"
    "mappingStatusValid (mutated (Some (\<lambda>s. preserveMappingFailureState s q cs)) s)"
    "mappingStatusValid (mutated (Some (\<lambda>s. s\<lparr>mst_Remote := Some (unresolvedRemoteStatus (mst_Remote s) q)\<rparr>)) s)"
  using assms valid_unresolved [OF assms] valid_request [OF assms(2)]
  by (auto simp: mutated_def markUnknown_def preserveMappingFailureState_def mappingStatusValid_def)

lemma valid_creates:
  assumes "requestWF q"
  shows "mappingStatusValid (mutated (Some (intendCreate q)) s)"
    "mappingStatusValid (mutated (Some (rejectCreate q)) s)"
    "i \<noteq> '''' \<Longrightarrow> mappingStatusValid (mutated (Some (acceptCreate q c i)) s)"
  using valid_request [OF assms]
  by (auto simp: mutated_def intendCreate_def rejectCreate_def acceptCreate_def mappingStatusValid_def
      remoteStatusValid_def Let_def remoteStatusForRequest_def)

lemma valid_records:
  assumes "requestWF q" and "TrimSpace (pm_Identifier row) \<noteq> ''''"
    and "cs \<in> {MappingCreationUnset, MappingCreationPending, MappingCreationOutcomeUnknown}"
    and "own \<in> {OwnershipUnset, OwnershipManaged, OwnershipAdopted, OwnershipExternal}"
  shows "mappingStatusValid (mutated (Some (recordObserved cs own q row)) s)"
  using valid_observed [OF assms(1,4)] assms(2,3)
  by (auto simp: mutated_def recordObserved_def mappingStatusValid_def)

lemma valid_owned:
  assumes "mappingStatusValid (m_Status m)" and "rememberedIDOf m \<noteq> ''''"
    and "own \<in> {OwnershipManaged, OwnershipAdopted}"
  shows "mappingStatusValid (mutated (Some (ownCandidate own)) (m_Status m))"
  using assms
  by (auto simp: mutated_def ownCandidate_def mappingStatusValid_def remoteStatusValid_def rememberedIDOf_def
      split: option.splits)

section \<open>The operations\<close>

lemma valid_events [simp]:
  "isClaimRead e \<Longrightarrow> validWrite e" "isFinalizerWrite L m' e \<Longrightarrow> validWrite e" "isSecretRead e \<Longrightarrow> validWrite e"
  "isListCall e \<Longrightarrow> validWrite e" "isAppProjectRead e \<Longrightarrow> validWrite e"
  "isDeleteCallFor mid q e \<Longrightarrow> validWrite e" "isCreateCallFor q e \<Longrightarrow> validWrite e"
  by (cases e; simp)+

lemma valid_reads:
  "emits validWrite (removeProjectMappingFinalizer L r m)"
  "emits validWrite (sessionForAgent L r agent)"
  "emits validWrite (appProjectExists L rd dc ns n)"
  by ((rule emits_removeFinalizer [THEN emits_mono] emits_sessionForAgent [THEN emits_mono]
        emits_appProjectExists [THEN emits_mono], simp)+)

lemma valid_gets:
  "emits validWrite (GetAgent rd key)" "emits validWrite (GetMapping rd key)"
  by (simp_all add: GetAgent_def GetMapping_def emits_def)

lemma valid_ensure: "emits validWrite (EnsureFinalizer L (mappingWriter cl) m f)"
  by (rule mapping_finalizer.ensure_emits) simp

lemma valid_outcomes:
  assumes "mappingStatusValid (m_Status m)"
  shows "emits validWrite (blockMappingCleanup L r m msg cause)"
    "emits validWrite (failMappingCleanup L r m msg err)"
    "emits validWrite (returnAPIError L r m msg err)"
  unfolding blockMappingCleanup_def failMappingCleanup_def returnAPIError_def
  by (intro emits_intro valid_setReady valid_kept assms)+

lemma valid_authorize:
  "mappingStatusValid (m_Status m) \<Longrightarrow> emits validWrite (authorizeProjectMappingCleanup L r m q mid)"
  unfolding authorizeProjectMappingCleanup_def
  by (intro emits_intro valid_outcomes valid_reads emits_mono [OF emits_resolveClaim]) simp_all

lemma valid_require:
  assumes "mappingStatusValid (m_Status m)"
  shows "emits validWrite (requireProjectMappingClaim L r m q mid)"
    "emits validWrite (requireNewExternalProjectMappingClaim L r m q mid)"
  unfolding requireProjectMappingClaim_def requireNewExternalProjectMappingClaim_def
    requireProjectMappingClaimWithProvisional_def
  by (intro emits_intro valid_setReady valid_kept assms emits_mono [OF emits_resolveClaimP]; simp)+

lemma valid_recordReady:
  "mappingStatusValid (mutated mut (m_Status m)) \<Longrightarrow>
     emits validWrite (recordReady L r m cs reason msg mut)"
  unfolding recordReady_def by (intro emits_intro valid_setReady)

lemma valid_selected:
  assumes "mappingStatusValid (m_Status m)" and "requestWF q" and "TrimSpace (pm_Identifier row) \<noteq> ''''"
  shows "emits validWrite (reconcileSelectedMapping L r m q row)"
  unfolding reconcileSelectedMapping_def reconcileCandidate_def reconcileUnclaimed_def Let_def
  using assms
  by (auto intro!: emits_intro valid_require valid_recordReady valid_kept valid_mutations valid_records valid_owned)

context mapping_api
begin

lemma valid_create:
  assumes api: "projectMappingAPI r = api" and server: "validates (rc_Client r)" and wf: "requestWF q"
  shows "guarded (\<lambda>_. validWrite) (createHarnessMapping L r m s q) h"
proof -
  let ?intent = "setReady L r m ConditionFalse ''CreatePending'' ''Persisted Harness mapping create intent''
    (Some (intendCreate q))"
  have post: "emits validWrite (api_Create api s q)"
    by (rule emits_mono [OF create_calls]) simp
  have agent: "q_AgentIdentifier q \<noteq> ''''" using wf by (simp add: requestWF_def)
  have intent: "guarded (\<lambda>_. validWrite) (State_Monad.bind ?intent f) h"
    if ok: "\<And>m'. mappingStatusValid (m_Status m') \<Longrightarrow> emits validWrite (f (None, m'))"
      and failed: "\<And>e m'. emits validWrite (f (Some e, m'))" for f :: "_ \<Rightarrow> (Result \<times> go_error option) M"
  proof (rule guarded_bind)
    show "guarded (\<lambda>_. validWrite) ?intent h"
      by (rule guarded_emits [OF valid_setReady]) (simp_all add: valid_creates [OF wf])
    obtain err m' where "result ?intent h = (err, m')" by fastforce
    then have "emits validWrite (f (result ?intent h))"
      using setReady_valid [OF server valid_creates(1) [OF wf]] ok failed by (cases err) auto
    then show "guarded (\<lambda>_. validWrite) (f (result ?intent h)) (h @ emitted ?intent h)"
      by (rule guarded_emits) simp
  qed
  show ?thesis
    unfolding createHarnessMapping_def api
    by (rule intent)
      (use agent in \<open>auto intro!: emits_intro post valid_setReady valid_mutations valid_creates wf
        split: if_splits\<close>)
qed

lemma valid_reconcileHarness:
  assumes api: "projectMappingAPI r = api" and server: "validates (rc_Client r)" and wf: "requestWF q"
    and valid: "mappingStatusValid (m_Status m)"
  shows "guarded (\<lambda>_. validWrite) (reconcileHarnessMapping L r m s q) h"
proof -
  have list: "guarded (\<lambda>_. validWrite) (api_List api s q) h"
    by (rule guarded_emits [OF list_calls]) simp
  have quiet: "guarded (\<lambda>_. validWrite) act h'" if "emits validWrite act" for act :: "(Result \<times> go_error option) M" and h'
    by (rule guarded_emits [OF that]) simp
  have selected: "guarded (\<lambda>_. validWrite) (reconcileSelectedMapping L r m q row) h'"
    if "sel_mapping (selectProjectMapping ms q m) = Some row" for ms row h'
    using select_Some(2) [OF that]
    by (intro quiet valid_selected valid wf) (simp add: projectMappingMatches_def)
  have absent: "guarded (\<lambda>_. validWrite) (reconcileAbsentRow L r m s q) h'" for h'
    unfolding reconcileAbsentRow_def
    by (cases "mst_CreationState (m_Status m)")
      (auto intro!: quiet emits_intro valid_setReady valid_kept valid_mutations valid_create [OF api server wf]
        valid wf)
  have stay: "emits validWrite (do { (statusErr, m') \<leftarrow> setReady L r m cs reason msg
      (Some (\<lambda>s. preserveMappingFailureState s q (mst_CreationState (m_Status m))));
      ret (requeueAfter d, statusErr) })" for cs reason msg d
    by (intro emits_intro valid_setReady valid_mutations valid wf)
  show ?thesis
    unfolding reconcileHarnessMapping_def api Let_def
    by (intro guarded_bind list)
      (auto intro!: selected absent quiet [OF stay] quiet [OF valid_outcomes(3)] valid split: sum.split option.split)
qed

lemma valid_finalize:
  assumes api: "projectMappingAPI r = api" and valid: "mappingStatusValid (m_Status m)"
  shows "emits validWrite (finalizeProjectMapping L r m)"
proof -
  let ?id = "resolveMappingCleanupIdentity m"
  have calls: "emits validWrite (api_List api s q)" "emits validWrite (api_Delete api s q mid)" for s q mid
    by (rule emits_mono [OF list_calls] emits_mono [OF delete_calls], simp)+
  have recovered: "mappingStatusValid (mutated (Some (\<lambda>status. status\<lparr>mst_CreationState := MappingCreationUnset,
      mst_Remote := Some ((the (ci_remote ?id))\<lparr>r_MappingID := mid,
        r_Ownership := ci_recoveryOwnership ?id\<rparr>)\<rparr>)) (m_Status m))"
    if "\<not> ci_removeFinalizer ?id" "ci_ownershipBlockReason ?id = ''''" "mid \<noteq> ''''"
      "ci_recoveryOwnership ?id \<noteq> OwnershipUnset" for mid
  proof -
    from identity_remote [OF that(1,2)] obtain remote where
      "mst_Remote (m_Status m) = Some remote" "ci_remote ?id = Some remote" by blast
    moreover have "ci_recoveryOwnership ?id \<in> {OwnershipManaged, OwnershipAdopted}"
      using identity_recovery(1) [OF that(4,2)] by (auto simp: provenance_def)
    ultimately show ?thesis
      using valid that(3) by (auto simp: mutated_def mappingStatusValid_def remoteStatusValid_def)
  qed
  have authorized: "emits validWrite (cleanupAuthorized L r m ?id s q mid)"
    if "\<not> ci_removeFinalizer ?id" "ci_ownershipBlockReason ?id = ''''" "mid \<noteq> ''''" for s q mid
    unfolding cleanupAuthorized_def api
    by (auto intro!: emits_intro valid_setReady recovered that calls valid_outcomes valid_reads valid)
  have listed: "emits validWrite (cleanupListed L r m ?id s q mid rows)"
    if "\<not> ci_removeFinalizer ?id" "ci_ownershipBlockReason ?id = ''''" "mid \<noteq> ''''" for s q mid rows
    unfolding cleanupListed_def
    by (auto intro!: emits_intro valid_setReady valid_kept authorized that valid_authorize valid_outcomes
        valid_reads valid)
  show ?thesis
    unfolding finalizeProjectMapping_def api
    by (auto intro!: emits_intro valid_authorize valid_outcomes valid_reads valid_gets calls listed valid
        dest: cleanup_request_wf(3))
qed

lemma valid_Reconcile:
  assumes api: "projectMappingAPI r = api" and server: "validates (rc_Client r)"
    and got: "rd_GetMapping (cl_Reader (rc_Client r)) h key = Inr m"
    and valid: "mappingStatusValid (m_Status m)"
  shows "guarded (\<lambda>_. validWrite) (Reconcile L r key) h"
proof -
  have "result (GetMapping (cl_Reader (rc_Client r)) key) h = Inr m"
    using got by (simp add: GetMapping_def)
  then show ?thesis
    unfolding Reconcile_def
    by (auto intro!: guarded_bind guarded_ret guarded_emits [OF valid_gets(1)] guarded_emits [OF valid_gets(2)]
        guarded_emits [OF valid_ensure] guarded_emits [OF valid_setReady] guarded_emits [OF valid_reads(2)]
        guarded_emits [OF valid_reads(3)] guarded_emits [OF valid_outcomes(3)]
        guarded_emits [OF valid_finalize [OF api valid]] valid_reconcileHarness [OF api server _ valid]
        resolve_requestWF valid_kept valid simp: Let_def split: sum.split option.split prod.split bool.split)
qed

end

section \<open>Properties\<close>

text \<open>
  C11: the validation rules are an invariant of the Mapping's status. When the status that was
  read satisfies them, and the server stores only statuses that do, every status the handler
  writes, in every branch of reconciliation and cleanup, satisfies them: ownership comes with a
  mapping ID, a creation state with the complete remote tuple, and every required field of the
  tuple is set.
\<close>

theorem mapping_status_rules_invariant:
  assumes "rc_mappingAPI r = None" and "validates (rc_Client r)"
    and "rd_GetMapping (cl_Reader (rc_Client r)) h key = Inr m" and "mappingStatusValid (m_Status m)"
    and "emitted (Reconcile L r key) h = pre @ EvUpdateMappingStatus sent x # post"
  shows "mappingStatusValid (m_Status sent)"
proof -
  have "projectMappingAPI r = SDKProjectMappingAPI" using assms(1) by (simp add: projectMappingAPI_def)
  from guarded_event [OF sdk.valid_Reconcile [OF this assms(2-4)] assms(5)] show ?thesis by simp
qed

text \<open>A validating server, and a live Mapping whose Agent does not exist.\<close>

definition strictReconciler :: Reconciler where
  "strictReconciler = (sampleReconciler [])
     \<lparr>rc_Client := (sampleClient (sampleReader CachedClient [] [liveMapping]))
       \<lparr>cl_UpdateMappingStatus := (\<lambda>h sent. if mappingStatusValid (m_Status sent) then Inr sent
          else Inl (ErrStatus ''Invalid'' ''status is invalid''))\<rparr>\<rparr>"

theorem mapping_status_rules_invariant_witness:
  "\<exists>sent x. EvUpdateMappingStatus sent x
     \<in> set (emitted (Reconcile (sampleLibrary absentAPI) strictReconciler (''ns'', ''map'')) []) \<and>
     mappingStatusValid (m_Status sent)"
proof -
  let ?r = strictReconciler and ?key = "(''ns'', ''map'')"
  have read: "rd_GetMapping (cl_Reader (rc_Client ?r)) [] ?key = Inr liveMapping"
    by (simp add: strictReconciler_def liveMapping_def sample_defs)
  have "\<exists>sent x. EvUpdateMappingStatus sent x
      \<in> set (emitted (Reconcile (sampleLibrary absentAPI) ?r ?key) [])"
    by (simp add: Reconcile_def GetMapping_def GetAgent_def EnsureFinalizer_def strictReconciler_def
        liveMapping_def sampleReconciler_def sample_defs mappingWriter_def timeIsZero_def setReady_def
        UpdateMappingStatus_def readyStatus_def Let_def emitted_def mappingStatusValid_def split_beta)
  then obtain sent x pre post where
    "emitted (Reconcile (sampleLibrary absentAPI) ?r ?key) [] = pre @ EvUpdateMappingStatus sent x # post"
    by (meson split_list)
  moreover have "rc_mappingAPI ?r = None" "validates (rc_Client ?r)" "mappingStatusValid (m_Status liveMapping)"
    by (simp_all add: strictReconciler_def sampleReconciler_def validates_def liveMapping_def sampleMapping_def
        mappingStatusValid_def)
  ultimately show ?thesis
    using mapping_status_rules_invariant [OF _ _ read] by (metis in_set_conv_decomp)
qed

end
