(* ===== verification/Outcome_Logic.thy ===== *)
theory Outcome_Logic
  imports Trace_Logic
begin

text \<open>
  How runs end. \<open>ends P m h\<close> says that the action, run from the history \<open>h\<close>, ends with a result
  and a history that satisfy \<open>P\<close>. It is the weakest precondition of the action, so it needs
  nothing of the actions it is composed of: a step whose result does not matter is skipped.
\<close>

named_theorems ends_intro \<open>introduction rules for ends\<close>

definition ends :: "('a \<Rightarrow> history \<Rightarrow> bool) \<Rightarrow> 'a M \<Rightarrow> history \<Rightarrow> bool" where
  "ends P m h \<longleftrightarrow> P (fst (run_state m h)) (snd (run_state m h))"

lemma ends_result: "grows m \<Longrightarrow> ends P m h \<longleftrightarrow> P (result m h) (h @ emitted m h)"
  by (simp add: ends_def run_eq)

lemma ends_bind_iff: "ends P (State_Monad.bind m f) h \<longleftrightarrow> ends (\<lambda>a. ends P (f a)) m h"
  by (simp add: ends_def split_beta)

lemma ends_ret [ends_intro]: "P x h \<Longrightarrow> ends P (ret x) h"
  by (simp add: ends_def)

lemma ends_call: "ends P (call f ev) h \<longleftrightarrow> P (f h) (h @ [ev (f h)])"
  by (simp add: ends_def)

lemma ends_any: "(\<And>a h'. P a h') \<Longrightarrow> ends P m h"
  by (simp add: ends_def)

lemma ends_ret_iff: "ends P (ret x) h \<longleftrightarrow> P x h"
  by (simp add: ends_def)

lemma ends_bind_ret: "ends P (State_Monad.bind (ret x) f) h \<longleftrightarrow> ends P (f x) h"
  by (simp add: ends_def)

lemma ends_bind_call:
  "ends P (State_Monad.bind (call g ev) f) h \<longleftrightarrow> ends P (f (g h)) (h @ [ev (g h)])"
  by (simp add: ends_def)

lemmas ends_run = ends_ret_iff ends_bind_ret ends_bind_call

text \<open>Sequencing after a step with a known outcome, and after any step.\<close>

lemma ends_then:
  assumes "ends Q m h" and "\<And>a h'. Q a h' \<Longrightarrow> ends P (f a) h'"
  shows "ends P (State_Monad.bind m f) h"
  using assms by (simp add: ends_bind_iff) (simp add: ends_def)

lemma ends_bind [ends_intro]:
  "(\<And>a h'. ends P (f a) h') \<Longrightarrow> ends P (State_Monad.bind m f) h"
  by (simp add: ends_bind_iff ends_any)

lemma ends_mono: "ends P m h \<Longrightarrow> (\<And>a h'. P a h' \<Longrightarrow> Q a h') \<Longrightarrow> ends Q m h"
  by (simp add: ends_def)

lemma ends_if [ends_intro]:
  "(c \<Longrightarrow> ends P m h) \<Longrightarrow> (\<not> c \<Longrightarrow> ends P n h) \<Longrightarrow> ends P (if c then m else n) h"
  by simp

lemma ends_Let [ends_intro]: "(\<And>x. x = t \<Longrightarrow> ends P (f x) h) \<Longrightarrow> ends P (Let t f) h"
  by (simp add: Let_def)

lemma ends_case_sum [ends_intro]:
  "(\<And>e. s = Inl e \<Longrightarrow> ends P (f e) h) \<Longrightarrow> (\<And>x. s = Inr x \<Longrightarrow> ends P (g x) h) \<Longrightarrow>
     ends P (case s of Inl e \<Rightarrow> f e | Inr x \<Rightarrow> g x) h"
  by (simp split: sum.split)

lemma ends_case_option [ends_intro]:
  "(s = None \<Longrightarrow> ends P f h) \<Longrightarrow> (\<And>x. s = Some x \<Longrightarrow> ends P (g x) h) \<Longrightarrow>
     ends P (case s of None \<Rightarrow> f | Some x \<Rightarrow> g x) h"
  by (simp split: option.split)

lemma ends_case_prod [ends_intro]:
  "(\<And>a b. p = (a, b) \<Longrightarrow> ends P (f a b) h) \<Longrightarrow> ends P (case p of (a, b) \<Rightarrow> f a b) h"
  by (simp split: prod.split)

lemma ends_case_bool [ends_intro]:
  "(b \<Longrightarrow> ends P m h) \<Longrightarrow> (\<not> b \<Longrightarrow> ends P n h) \<Longrightarrow>
     ends P (case b of True \<Rightarrow> m | False \<Rightarrow> n) h"
  by (cases b) simp_all

section \<open>Results of passes\<close>

lemma RequeueAfter_requeueAfter [simp]: "RequeueAfter (requeueAfter d) = d"
  by (simp add: requeueAfter_def)

lemma errorsJoin_Some [simp]: "\<exists>y. errorsJoin (Some e) x = Some y"
  by (cases x) simp_all

end
