(* ===== verification/Mapping_Progress.thy ===== *)
theory Mapping_Progress
  imports Mapping_Ownership Outcome_Logic
begin

text \<open>
  Progress of the Mapping handler: how a pass ends. A pass that reports no error either asks to
  be run again after one of the controller's intervals, has released the finalizer of a deleted
  resource, or has reported a request that cannot be resolved, which only a change of the
  resources can repair and whose change is an event of its own.
\<close>

section \<open>How a pass ends\<close>

text \<open>The delays a pass of a live resource may ask for: an interval of the controller, or an
  immediate requeue after a write. Cleanup may also wait for what is left of the grace period.\<close>

definition liveDelay :: "Reconciler \<Rightarrow> Duration \<Rightarrow> bool" where
  "liveDelay r d \<longleftrightarrow>
     d = pendingRetryInterval r \<or> d = resyncInterval r \<or> d = immediateRequeueInterval"

definition cleanupDelay :: "Reconciler \<Rightarrow> Duration \<Rightarrow> bool" where
  "cleanupDelay r d \<longleftrightarrow> 0 < d \<and> d \<le> max (pendingRetryInterval r) (resyncInterval r)"

text \<open>The last call is an accepted update of the resource without its finalizer.\<close>

definition mappingReleased :: "Library \<Rightarrow> HarnessGitopsProjectMapping \<Rightarrow> history \<Rightarrow> bool" where
  "mappingReleased L m h \<longleftrightarrow>
     (\<exists>stored. h \<noteq> [] \<and> last h = EvUpdateMapping (released L m) (Inr stored))"

definition retried :: "Reconciler \<Rightarrow> Result \<times> go_error option \<Rightarrow> history \<Rightarrow> bool" where
  "retried r out h \<longleftrightarrow> snd out \<noteq> None \<or> liveDelay r (RequeueAfter (fst out))"

definition cleaned ::
  "Library \<Rightarrow> HarnessGitopsProjectMapping \<Rightarrow> Reconciler \<Rightarrow> Result \<times> go_error option \<Rightarrow> history \<Rightarrow> bool" where
  "cleaned L m r out h \<longleftrightarrow>
     snd out \<noteq> None \<or> cleanupDelay r (RequeueAfter (fst out)) \<or> mappingReleased L m h"

text \<open>The ways an action ends as it should.\<close>

lemma liveDelay_intervals [simp]:
  "liveDelay r (pendingRetryInterval r)" "liveDelay r (resyncInterval r)"
  "liveDelay r immediateRequeueInterval" "liveDelay r Nanosecond"
  by (simp_all add: liveDelay_def immediateRequeueInterval_def)

lemma interval_positive [simp]:
  "0 < pendingRetryInterval r" "0 < resyncInterval r" "0 < immediateRequeueInterval"
  by (simp_all add: pendingRetryInterval_def resyncInterval_def interval_defs)

lemma liveDelay_cleanup: "liveDelay r d \<Longrightarrow> cleanupDelay r d"
  using interval_positive(1) [of r]
  by (auto simp: liveDelay_def cleanupDelay_def immediateRequeueInterval_def Nanosecond_def simp del: interval_positive(1))

lemma cleanupDelay_immediate [simp]: "cleanupDelay r immediateRequeueInterval"
  by (simp add: liveDelay_cleanup)

lemma retried_simps [simp]:
  "retried r (res, Some e) h" "retried r (res, errorsJoin (Some e) x) h"
  "liveDelay r d \<Longrightarrow> retried r (requeueAfter d, err) h"
  by (auto simp: retried_def)

lemma cleaned_simps [simp]:
  "cleaned L m r (res, Some e) h" "cleaned L m r (res, errorsJoin (Some e) x) h"
  "cleanupDelay r d \<Longrightarrow> cleaned L m r (requeueAfter d, err) h"
  by (auto simp: cleaned_def)

section \<open>A live resource\<close>

lemma ends_recordReady [ends_intro]: "ends (retried r) (recordReady L r m cs reason msg mutate) h"
  unfolding recordReady_def by (intro ends_intro) simp

lemma ends_returnAPIError [ends_intro]: "ends (retried r) (returnAPIError L r m msg err) h"
  unfolding returnAPIError_def by (intro ends_intro) simp

text \<open>A claim that is not won has been answered; the caller returns that answer.\<close>

abbreviation lostRetried :: "Reconciler \<Rightarrow> bool \<times> Result \<times> go_error option \<Rightarrow> history \<Rightarrow> bool" where
  "lostRetried r \<equiv> \<lambda>(won, res, err) h. \<not> won \<longrightarrow> retried r (res, err) h"

lemma ends_requireClaimP:
  "ends (lostRetried r) (requireProjectMappingClaimWithProvisional L r m q i p f) h"
  unfolding requireProjectMappingClaimWithProvisional_def by (intro ends_intro) simp_all

lemma ends_claim [ends_intro]:
  assumes "\<And>res err h'. retried r (res, err) h' \<Longrightarrow> P (res, err) h'" and "\<And>h'. ends P m h'"
  shows "ends P (do { (won, res, err) \<leftarrow> requireProjectMappingClaim L r c q i;
      (if \<not> won then ret (res, err) else m) }) h"
    and "ends P (do { (won, res, err) \<leftarrow> requireNewExternalProjectMappingClaim L r c q i;
      (if \<not> won then ret (res, err) else m) }) h"
  unfolding requireProjectMappingClaim_def requireNewExternalProjectMappingClaim_def
  by (rule ends_then [OF ends_requireClaimP], use assms in \<open>auto intro!: ends_ret split: prod.splits\<close>)+

lemma ends_selected [ends_intro]: "ends (retried r) (reconcileSelectedMapping L r m q obs) h"
  unfolding reconcileSelectedMapping_def reconcileCandidate_def reconcileUnclaimed_def Let_def
  by (auto intro!: ends_recordReady ends_claim)

lemma ends_create [ends_intro]: "ends (retried r) (createHarnessMapping L r m s q) h"
  unfolding createHarnessMapping_def by (intro ends_intro) simp_all

lemma ends_absentRow [ends_intro]: "ends (retried r) (reconcileAbsentRow L r m s q) h"
  unfolding reconcileAbsentRow_def
  by (cases "mst_CreationState (m_Status m)") (auto intro!: ends_intro)

lemma ends_reconcileHarnessMapping [ends_intro]: "ends (retried r) (reconcileHarnessMapping L r m s q) h"
  unfolding reconcileHarnessMapping_def Let_def by (intro ends_intro) simp_all

section \<open>A deleted resource\<close>

lemma ends_release [ends_intro]: "ends (cleaned L m r) (removeProjectMappingFinalizer L r m) h"
  unfolding removeProjectMappingFinalizer_def RemoveFinalizer_def mappingWriter_def
  by (auto simp: ends_bind_iff UpdateMapping_def ends_call cleaned_def mappingReleased_def
      released_def intro!: ends_intro split: sum.split)

lemma ends_retried: "ends (retried r) n h \<Longrightarrow> ends (cleaned L m r) n h"
  by (erule ends_mono) (auto simp: retried_def cleaned_def liveDelay_cleanup)

lemma ends_block [ends_intro]: "ends (retried r) (blockMappingCleanup L r m msg cause) h"
  unfolding blockMappingCleanup_def by (intro ends_intro) (auto split: option.split)

lemma ends_fail [ends_intro]: "ends (retried r) (failMappingCleanup L r m msg cause) h"
  unfolding failMappingCleanup_def by (intro ends_intro) simp

lemmas ends_cleanup = ends_retried [OF ends_block] ends_retried [OF ends_fail]

lemma ends_authorizeP:
  "ends (\<lambda>(won, res, err) h. \<not> won \<longrightarrow> cleaned L m r (res, err) h)
     (authorizeProjectMappingCleanup L r m q i) h"
proof -
  have "ends (\<lambda>(won, res, err) h. \<not> won \<longrightarrow> cleaned L m r (res, err) h)
      (State_Monad.bind n (\<lambda>(res, err). ret (False, res, err))) h'"
    if "ends (cleaned L m r) n h'" for n h'
    by (rule ends_then [OF that]) (auto intro!: ends_ret)
  note answered = this [OF ends_release] this [OF ends_cleanup(2)]
  show ?thesis
    unfolding authorizeProjectMappingCleanup_def
    by (rule ends_bind) (auto intro!: ends_case_sum ends_if ends_ret answered)
qed

lemma ends_authorize [ends_intro]:
  assumes "\<And>h'. ends (cleaned L m r) n h'"
  shows "ends (cleaned L m r) (do { (won, res, err) \<leftarrow> authorizeProjectMappingCleanup L r m q i;
      (if \<not> won then ret (res, err) else n) }) h"
  by (rule ends_then [OF ends_authorizeP]) (use assms in \<open>auto intro!: ends_ret split: prod.splits\<close>)

lemma grace_delay:
  assumes "0 < projectMappingCreateVisibilityGraceRemaining now m"
  shows "cleanupDelay r (min (pendingRetryInterval r) (projectMappingCreateVisibilityGraceRemaining now m))"
  using assms by (simp add: cleanupDelay_def)

lemma ends_cleanupAuthorized [ends_intro]:
  "ends (cleaned L m r) (cleanupAuthorized L r m i s q mid) h"
  unfolding cleanupAuthorized_def
  by (auto intro!: ends_intro ends_cleanup)

lemma ends_cleanupListed [ends_intro]:
  "ends (cleaned L m r) (cleanupListed L r m i s q mid rows) h"
  unfolding cleanupListed_def
  by (auto intro!: ends_intro ends_cleanup simp: grace_delay)

lemma ends_finalize:
  assumes "lib_ContainsFinalizer L (Finalizers (m_Meta m)) harnessProjectMappingFinalizer"
  shows "ends (cleaned L m r) (finalizeProjectMapping L r m) h"
  using assms unfolding finalizeProjectMapping_def Let_def
  by (auto intro!: ends_intro ends_cleanup split: prod.split)

section \<open>The whole pass\<close>

text \<open>The Agent the pass reads next, after the Mapping.\<close>

definition readAgentOf ::
  "Reconciler \<Rightarrow> ObjectKey \<Rightarrow> HarnessGitopsProjectMapping \<Rightarrow> history \<Rightarrow> go_error + HarnessGitopsAgent" where
  "readAgentOf r key m h =
     (let rd = cl_Reader (rc_Client r) in
      rd_GetAgent rd (h @ [EvGetMapping (rd_Kind rd) key (Inr m)])
        (Namespace (m_Meta m), TrimSpace (ref_Name (ms_AgentRef (m_Spec m)))))"

text \<open>
  The pass of a live resource has reported that its request cannot be resolved: after the reads
  of the Mapping and of its Agent, whose data do not resolve, the only further call is the
  status write of the condition \<open>ResolutionInvalid\<close> with the reason, accepted by the server,
  or none because the status says so already.
\<close>

definition resolutionReported ::
  "Library \<Rightarrow> Reconciler \<Rightarrow> ObjectKey \<Rightarrow> HarnessGitopsProjectMapping \<Rightarrow> history \<Rightarrow> history \<Rightarrow> bool" where
  "resolutionReported L r key m h es \<longleftrightarrow>
     (\<exists>agent err ws. readAgentOf r key m h = Inr agent \<and>
        resolveProjectMappingRequest (Some agent) (Some m) = Inl err \<and>
        conditionStored L m ConditionFalse ''ResolutionInvalid'' (Error err) ws \<and>
        es = [EvGetMapping (rd_Kind (cl_Reader (rc_Client r))) key (Inr m),
          EvGetAgent (rd_Kind (cl_Reader (rc_Client r)))
            (Namespace (m_Meta m), TrimSpace (ref_Name (ms_AgentRef (m_Spec m)))) (Inr agent)] @ ws)"

text \<open>A report that ends the pass: stored, or its error is returned.\<close>

lemma ends_report:
  assumes "\<And>ws. conditionStored L m cs reason msg ws \<Longrightarrow> P (res, None) (h @ ws)"
    and "\<And>e h'. P (res, Some e) h'"
  shows "ends P (do { (err, m') \<leftarrow> setReady L r m cs reason msg None; ret (res, err) }) h"
proof -
  let ?report = "setReady L r m cs reason msg None"
  have "P (res, fst (result ?report h)) (h @ emitted ?report h)"
    using setReady_stores assms by (cases "fst (result ?report h)") auto
  then show ?thesis by (cases "result ?report h") (simp add: ends_bind_iff ends_result ends_ret_iff)
qed

lemma ends_live:
  assumes "rd_GetMapping (cl_Reader (rc_Client r)) h key = Inr m"
    and "timeIsZero (DeletionTimestamp (m_Meta m))"
  shows "ends (\<lambda>out h'. retried r out h' \<or> (\<exists>es. h' = h @ es \<and> resolutionReported L r key m h es))
    (Reconcile L r key) h"
proof -
  let ?P = "\<lambda>out h'. retried r out h' \<or> (\<exists>es. h' = h @ es \<and> resolutionReported L r key m h es)"
  note leaf = ends_mono [where Q = ?P, OF ends_returnAPIError disjI1]
    ends_mono [where Q = ?P, OF ends_reconcileHarnessMapping disjI1]
  have later: "ends ?P (do { (err, m') \<leftarrow> setReady L r m cs reason msg None;
      ret (requeueAfter (pendingRetryInterval r), err) }) h'" for cs reason msg h'
    by (intro ends_intro) simp
  show ?thesis
  proof (cases "lib_ContainsFinalizer L (Finalizers (m_Meta m)) harnessProjectMappingFinalizer")
    case True
    then have "EnsureFinalizer L (mappingWriter (rc_Client r)) m harnessProjectMappingFinalizer =
        ret (emptyResult, False, None)"
      by (intro mapping_finalizer.ensure_result) (simp add: mappingWriter_def)
    with assms show ?thesis
      by (simp add: Reconcile_def GetMapping_def GetAgent_def ends_run Let_def)
        (auto intro!: leaf ends_returnAPIError ends_reconcileHarnessMapping later ends_report
          ends_bind [where m = "appProjectExists _ _ _ _ _"]
          ends_bind [where m = "sessionForAgent _ _ _"] ends_case_sum ends_case_bool ends_case_option
          ends_case_prod simp: resolutionReported_def readAgentOf_def Let_def split: sum.split)
  next
    case False
    with assms show ?thesis
      by (simp add: Reconcile_def GetMapping_def EnsureFinalizer_def UpdateMapping_def ends_run
          mappingWriter_def ends_bind_iff ends_call split: sum.split)
  qed
qed

lemma Reconcile_run:
  assumes "rc_mappingAPI r = None"
  shows "run_state (Reconcile L r key) h = (result (Reconcile L r key) h, h @ emitted (Reconcile L r key) h)"
proof -
  have "projectMappingAPI r = SDKProjectMappingAPI" using assms by (simp add: projectMappingAPI_def)
  then show ?thesis using guarded_run [OF sdk.Reconcile_deletes] by metis
qed

lemma live_pass:
  assumes "rc_mappingAPI r = None" and "rd_GetMapping (cl_Reader (rc_Client r)) h key = Inr m"
    and "timeIsZero (DeletionTimestamp (m_Meta m))" and "result (Reconcile L r key) h = (res, None)"
  shows "liveDelay r (RequeueAfter res) \<or> resolutionReported L r key m h (emitted (Reconcile L r key) h)"
  using ends_live [OF assms(2,3), of L] assms(4) by (auto simp: ends_def Reconcile_run [OF assms(1)] retried_def)

text \<open>
  C12: every pass of the Mapping handler makes progress. A pass that reports no error has, for a
  live resource, asked to be run again after one of the controller's three intervals, or stored
  the condition \<open>ResolutionInvalid\<close> because the Mapping and its Agent do not resolve to a
  request, and then waits for a change of them; for a deleted one that still has the
  finalizer, it has asked to be run again after a positive delay no longer than the longer
  interval, or its last call is the accepted update that removes the finalizer.
\<close>

theorem mapping_pass_makes_progress:
  assumes "rc_mappingAPI r = None" and "rd_GetMapping (cl_Reader (rc_Client r)) h key = Inr m"
    and "result (Reconcile L r key) h = (res, None)"
  shows "if timeIsZero (DeletionTimestamp (m_Meta m))
    then liveDelay r (RequeueAfter res) \<or> resolutionReported L r key m h (emitted (Reconcile L r key) h)
    else \<not> lib_ContainsFinalizer L (Finalizers (m_Meta m)) harnessProjectMappingFinalizer \<or>
      cleanupDelay r (RequeueAfter res) \<or> mappingReleased L m (h @ emitted (Reconcile L r key) h)"
proof -
  have "ends (cleaned L m r) (Reconcile L r key) h"
    if "\<not> timeIsZero (DeletionTimestamp (m_Meta m))"
      "lib_ContainsFinalizer L (Finalizers (m_Meta m)) harnessProjectMappingFinalizer"
    using that assms(2) by (simp add: Reconcile_def GetMapping_def ends_run ends_finalize)
  then show ?thesis
    using live_pass [OF assms(1,2) _ assms(3)] assms(3) Reconcile_run [OF assms(1)]
    by (auto simp: ends_def cleaned_def)
qed

text \<open>A live Mapping whose Agent does not exist.\<close>

definition orphanReconciler :: Reconciler where
  "orphanReconciler = (sampleReconciler [])
     \<lparr>rc_Client := sampleClient (sampleReader CachedClient [] [liveMapping])\<rparr>"

text \<open>A Mapping that owns nothing, being deleted.\<close>

lemma sample_release_pass:
  "result (Reconcile (sampleLibrary absentAPI) (sampleReconciler [finalizing sampleMapping])
     (''ns'', ''map'')) [] = (emptyResult, None)"
  by (simp add: Reconcile_def GetMapping_def finalizeProjectMapping_def finalizing_def sample_defs
      Let_def resolveMappingCleanupIdentity_def isUncertainCreationState_def emptyIdentity_def
      removeProjectMappingFinalizer_def RemoveFinalizer_def mappingWriter_def sampleReconciler_def
      UpdateMapping_def timeIsZero_def Second_def result_bind)

theorem mapping_pass_makes_progress_witness:
  "(let r = orphanReconciler; L = sampleLibrary absentAPI in
      liveDelay r (RequeueAfter (fst (result (Reconcile L r (''ns'', ''map'')) [])))) \<and>
   (let r = sampleReconciler [finalizing sampleMapping]; L = sampleLibrary absentAPI in
      RequeueAfter (fst (result (Reconcile L r (''ns'', ''map'')) [])) = 0 \<and>
      mappingReleased L (finalizing sampleMapping) (emitted (Reconcile L r (''ns'', ''map'')) []))"
proof (unfold Let_def, intro conjI)
  let ?r = orphanReconciler and ?key = "(''ns'', ''map'')"
  have read: "rd_GetMapping (cl_Reader (rc_Client ?r)) [] ?key = Inr liveMapping"
    by (simp add: orphanReconciler_def liveMapping_def sample_defs)
  have run: "result (Reconcile (sampleLibrary absentAPI) ?r ?key) [] =
      (requeueAfter (pendingRetryInterval ?r), None)"
    by (simp add: Reconcile_def GetMapping_def GetAgent_def EnsureFinalizer_def orphanReconciler_def
        liveMapping_def sampleReconciler_def sample_defs mappingWriter_def timeIsZero_def setReady_def
        UpdateMappingStatus_def readyStatus_def Let_def result_bind)
  have "\<not> resolutionReported L ?r ?key liveMapping [] es" for L es
    by (simp add: resolutionReported_def readAgentOf_def orphanReconciler_def sampleClient_def sampleReader_def)
  moreover have "rc_mappingAPI ?r = None" "timeIsZero (DeletionTimestamp (m_Meta liveMapping))"
    by (simp_all add: orphanReconciler_def sampleReconciler_def liveMapping_def sample_defs timeIsZero_def)
  ultimately show "liveDelay ?r (RequeueAfter (fst (result (Reconcile (sampleLibrary absentAPI) ?r ?key) [])))"
    using mapping_pass_makes_progress [OF _ read run] run by simp
next
  let ?m = "finalizing sampleMapping" and ?key = "(''ns'', ''map'')"
  let ?r = "sampleReconciler [finalizing sampleMapping]"
  show none: "RequeueAfter (fst (result (Reconcile (sampleLibrary absentAPI) ?r ?key) [])) = 0"
    by (simp add: sample_release_pass emptyResult_def)
  have read: "rd_GetMapping (cl_Reader (rc_Client ?r)) [] ?key = Inr ?m"
    by (simp add: sampleReconciler_def finalizing_def sample_defs)
  have "\<not> timeIsZero (DeletionTimestamp (m_Meta ?m))" "rc_mappingAPI ?r = None"
    by (simp_all add: finalizing_def timeIsZero_def Second_def sampleReconciler_def)
  moreover have "\<not> cleanupDelay ?r (RequeueAfter emptyResult)"
    by (simp add: cleanupDelay_def emptyResult_def)
  ultimately show "mappingReleased (sampleLibrary absentAPI) ?m
      (emitted (Reconcile (sampleLibrary absentAPI) ?r ?key) [])"
    using mapping_pass_makes_progress [OF _ read sample_release_pass] by simp
qed

end
