(* ===== verification/Agent_SDK.thy ===== *)
theory Agent_SDK
  imports Harness_Errors Harness_Identifiers Harness_Session
begin

text \<open>
  \<open>internal/resource/agent/sdk.go\<close>: the Agent values, the interface \<open>agentAPI\<close> the Agent
  reconciler relies on, and its implementation over the Harness SDK. Reads and deletes try the
  identifier candidates in order and move on after HTTP 404 only; the create is one request.
\<close>

section \<open>Types\<close>

record Agent =
  ag_Identifier :: string
  ag_Name :: string
  ag_AccountIdentifier :: string
  ag_OrgIdentifier :: string
  ag_ProjectIdentifier :: string
  ag_Scope :: string
  ag_Type :: string
  ag_Operator :: string
  ag_Tags :: "string \<rightharpoonup> string"

record CreateAgentRequest =
  cq_Agent :: Agent
  cq_Namespace :: string

record CreateAgentResult =
  cs_Identifier :: string
  cs_PrefixedIdentifier :: string
  cs_InitialToken :: string

record AgentLookupResult =
  lk_Exists :: bool
  lk_Agent :: Agent

record AgentReadiness =
  rn_Exists :: bool
  rn_Ready :: bool
  rn_Message :: string

text \<open>The interface \<open>agentAPI\<close> of \<open>reconciler.go\<close>.\<close>

record agentAPI =
  api_CreateAgent :: "Session \<Rightarrow> CreateAgentRequest \<Rightarrow> (go_error + CreateAgentResult) M"
  api_Lookup :: "Session \<Rightarrow> Agent \<Rightarrow> (go_error + AgentLookupResult) M"
  api_DeleteAgent :: "Session \<Rightarrow> Agent \<Rightarrow> go_error option M"
  api_ResolveToken :: "Session \<Rightarrow> Agent \<Rightarrow> string \<Rightarrow> (go_error + string) M"
  api_Readiness :: "Session \<Rightarrow> Agent \<Rightarrow> (go_error + AgentReadiness) M"

definition emptyAgent :: Agent where
  "emptyAgent =
     \<lparr>ag_Identifier = '''', ag_Name = '''', ag_AccountIdentifier = '''', ag_OrgIdentifier = '''',
      ag_ProjectIdentifier = '''', ag_Scope = '''', ag_Type = '''', ag_Operator = '''',
      ag_Tags = Map.empty\<rparr>"

definition emptyLookup :: AgentLookupResult where
  "emptyLookup = \<lparr>lk_Exists = False, lk_Agent = emptyAgent\<rparr>"

definition emptyReadiness :: AgentReadiness where
  "emptyReadiness = \<lparr>rn_Exists = False, rn_Ready = False, rn_Message = ''''\<rparr>"

section \<open>Helpers\<close>

text \<open>A copy of the map, nil when it is empty: a nil map reads as the empty map, and HOL maps
  are not shared, so the copy has the same entries.\<close>

definition cloneTags :: "(string \<rightharpoonup> string) \<Rightarrow> (string \<rightharpoonup> string)" where
  "cloneTags tags = (\<lambda>key. tags key)"

text \<open>A nil pointer leaves the zero string.\<close>

definition trimmedOr :: "string option \<Rightarrow> string" where
  "trimmedOr p = (case p of None \<Rightarrow> '''' | Some s \<Rightarrow> TrimSpace s)"

definition agentFromSDK :: "V1Agent \<Rightarrow> Agent" where
  "agentFromSDK agent =
     \<lparr>ag_Identifier = TrimSpace (va_Identifier agent),
      ag_Name = TrimSpace (va_Name agent),
      ag_AccountIdentifier = TrimSpace (va_AccountIdentifier agent),
      ag_OrgIdentifier = TrimSpace (va_OrgIdentifier agent),
      ag_ProjectIdentifier = TrimSpace (va_ProjectIdentifier agent),
      ag_Scope = trimmedOr (va_Scope agent),
      ag_Type = trimmedOr (va_Type agent),
      ag_Operator = trimmedOr (va_Operator agent),
      ag_Tags = cloneTags (va_Tags agent)\<rparr>"

definition isAgentAlreadyExists :: "int option \<Rightarrow> go_error \<Rightarrow> bool" where
  "isAgentAlreadyExists response err \<longleftrightarrow>
     ClassifyResponse response (Some err) = VerdictConflict \<or>
     Contains (ToLower (ErrorBody err)) ''agent already exists''"

definition isAgentNotFound :: "go_error option \<Rightarrow> bool" where
  "isAgentNotFound err \<longleftrightarrow>
     (case err of None \<Rightarrow> False | Some e \<Rightarrow> errorsIs e ErrAgentNotFound) \<or>
     VerdictOf err = Some VerdictAbsent"

definition agentAPIError :: "string \<Rightarrow> string \<Rightarrow> int option \<Rightarrow> go_error option \<Rightarrow> go_error option" where
  "agentAPIError operation identifier response err =
     APIError operation (''agentIdentifier='' @ fmt_q identifier) response err"

lemma agentAPIError_nil [simp]: "agentAPIError op i http err = None \<longleftrightarrow> err = None"
  by (simp add: agentAPIError_def)

text \<open>\<open>readinessFromAgent\<close> (\<open>conditions.go\<close>): ready means Connected and Healthy.\<close>

definition readinessFromAgent :: "Library \<Rightarrow> V1Agent \<Rightarrow> AgentReadiness" where
  "readinessFromAgent L agent =
     (let readiness = emptyReadiness\<lparr>rn_Exists := True\<rparr> in
      case va_Health agent of
        None \<Rightarrow> readiness\<lparr>rn_Message := ''Harness GitOps agent health has not been reported yet''\<rparr>
      | Some health \<Rightarrow>
          (let connectionStatus =
                 (case ah_ConnectionStatus health of None \<Rightarrow> CONNECTED_STATUS_UNSET | Some c \<Rightarrow> c);
               (healthStatus, healthMessage) =
                 (case ah_HarnessGitopsAgent health of
                    None \<Rightarrow> (HEALTH_STATUS_UNSET, '''')
                  | Some component \<Rightarrow>
                      (case ch_Status component of None \<Rightarrow> HEALTH_STATUS_UNSET | Some st \<Rightarrow> st,
                       TrimSpace (ch_Message component)));
               ready = (connectionStatus = CONNECTED \<and> healthStatus = HEALTHY)
           in
           if ready then
             readiness\<lparr>rn_Ready := True,
               rn_Message := ''Harness GitOps agent is Connected and Healthy''\<rparr>
           else
             readiness\<lparr>rn_Message :=
               ''Harness GitOps agent is not ready: connection='' @
               lib_ConnectedStatusText L connectionStatus @ '' health='' @
               lib_HealthStatusText L healthStatus @
               (if healthMessage \<noteq> '''' then '': '' @ healthMessage else '''')\<rparr>))"

section \<open>SDKAgentAPI\<close>

definition createAgentBody :: "CreateAgentRequest \<Rightarrow> V1Agent" where
  "createAgentBody request =
     (let a = cq_Agent request in
      \<lparr>va_Name = ag_Name a,
       va_Identifier = ag_Identifier a,
       va_PrefixedIdentifier = '''',
       va_AccountIdentifier = ag_AccountIdentifier a,
       va_OrgIdentifier = OrgIdentifierForScope (ag_Scope a) (ag_OrgIdentifier a),
       va_ProjectIdentifier = ProjectIdentifierForScope (ag_Scope a) (ag_ProjectIdentifier a),
       va_Operator = Some (ag_Operator a),
       va_Scope = Some (ag_Scope a),
       va_Type = Some (ag_Type a),
       va_Tags = cloneTags (ag_Tags a),
       va_Credentials = None,
       va_Health = None,
       va_Metadata = Some (cq_Namespace request, False)\<rparr>)"

definition createAgentAccepted :: "V1Agent \<Rightarrow> go_error + CreateAgentResult" where
  "createAgentAccepted response =
     (let result =
        \<lparr>cs_Identifier = TrimSpace (va_Identifier response),
         cs_PrefixedIdentifier = TrimSpace (va_PrefixedIdentifier response),
         cs_InitialToken = ''''\<rparr>
      in
      if cs_Identifier result = '''' then
        Inl (ErrFmt (sentinelText ErrAgentCreateOutcomeUnknown @
               '': Harness returned a successful response without an identifier'')
             [ErrNew ErrAgentCreateOutcomeUnknown])
      else
        (case va_Credentials response of
           None \<Rightarrow> Inr result
         | Some privateKey \<Rightarrow> Inr (result\<lparr>cs_InitialToken := privateKey\<rparr>)))"

definition SDK_CreateAgent ::
  "Session \<Rightarrow> CreateAgentRequest \<Rightarrow> (go_error + CreateAgentResult) M" where
  "SDK_CreateAgent session request = do {
     (response, httpResponse, err) \<leftarrow>
       SdkCreateAgent (s_client session) (s_apiKey session) (createAgentBody request);
     (case err of
        None \<Rightarrow> ret (createAgentAccepted response)
      | Some e \<Rightarrow>
          if isAgentAlreadyExists httpResponse e then
            ret (Inl (ErrFmt (sentinelText ErrAgentAlreadyExists @ '': '' @
                   fmt_q (TrimSpace (ag_Identifier (cq_Agent request))))
                 [ErrNew ErrAgentAlreadyExists]))
          else if ClassifyResponse httpResponse err = VerdictTransient then
            ret (Inl (ErrFmt (sentinelText ErrAgentCreateOutcomeUnknown @ '': '' @ Error e)
                 [ErrNew ErrAgentCreateOutcomeUnknown, e]))
          else
            ret (case agentAPIError ''create GitOps agent'' (ag_Identifier (cq_Agent request))
                   httpResponse err of
                 Some e \<Rightarrow> Inl e
               | None \<Rightarrow> Inr \<lparr>cs_Identifier = '''', cs_PrefixedIdentifier = '''', cs_InitialToken = ''''\<rparr>))
   }"

definition getAgentOpts :: "Agent \<Rightarrow> bool \<Rightarrow> AgentGetOpts" where
  "getAgentOpts agent withCredentials =
     \<lparr>go_OrgIdentifier = OptionalOrgIdentifier (ag_Scope agent) (ag_OrgIdentifier agent),
      go_ProjectIdentifier = OptionalProjectIdentifier (ag_Scope agent) (ag_ProjectIdentifier agent),
      go_Scope = OptionalString (ag_Scope agent),
      go_WithCredentials = Some withCredentials\<rparr>"

text \<open>
  The loop over the candidates that \<open>Lookup\<close>, \<open>ResolveToken\<close> and \<open>Readiness\<close> share: GET each one
  until it succeeds, go on after 404, return any other error; \<open>Inr None\<close> when all were absent.
\<close>

fun getAgentLoop ::
  "string \<Rightarrow> Session \<Rightarrow> string \<Rightarrow> AgentGetOpts \<Rightarrow> string list \<Rightarrow>
     (go_error + (string \<times> V1Agent) option) M" where
  "getAgentLoop operation session account opts [] = ret (Inr None)"
| "getAgentLoop operation session account opts (candidate # candidates) = do {
     (response, httpResponse, err) \<leftarrow>
       SdkGetAgent (s_client session) (s_apiKey session) candidate account opts;
     (case err of
        None \<Rightarrow> ret (Inr (Some (candidate, response)))
      | Some e \<Rightarrow>
          if ClassifyResponse httpResponse err = VerdictAbsent
          then getAgentLoop operation session account opts candidates
          else ret (case agentAPIError operation candidate httpResponse err of
                      Some e \<Rightarrow> Inl e | None \<Rightarrow> Inr None))
   }"

definition SDK_Lookup :: "Session \<Rightarrow> Agent \<Rightarrow> (go_error + AgentLookupResult) M" where
  "SDK_Lookup session agent =
     (let candidates = ScopedIdentifierCandidates (ag_Scope agent) (ag_Identifier agent) in
      if length candidates = 0
      then ret (Inl (ErrFmt ''get GitOps agent: empty agent identifier'' []))
      else do {
        got \<leftarrow> getAgentLoop ''get GitOps agent'' session (TrimSpace (ag_AccountIdentifier agent))
          (getAgentOpts agent False) candidates;
        ret (case got of
               Inl e \<Rightarrow> Inl e
             | Inr None \<Rightarrow> Inr emptyLookup
             | Inr (Some (candidate, response)) \<Rightarrow>
                 Inr \<lparr>lk_Exists = True, lk_Agent = agentFromSDK response\<rparr>)
      })"

definition deleteAgentOpts :: "Agent \<Rightarrow> AgentDeleteOpts" where
  "deleteAgentOpts agent =
     \<lparr>ad_AccountIdentifier = Some (ag_AccountIdentifier agent),
      ad_OrgIdentifier = OptionalOrgIdentifier (ag_Scope agent) (ag_OrgIdentifier agent),
      ad_ProjectIdentifier = OptionalProjectIdentifier (ag_Scope agent) (ag_ProjectIdentifier agent),
      ad_Name = OptionalString (ag_Name agent),
      ad_Type = OptionalString (ag_Type agent),
      ad_Scope = OptionalString (ag_Scope agent)\<rparr>"

fun deleteAgentLoop :: "Session \<Rightarrow> Agent \<Rightarrow> string list \<Rightarrow> go_error option M" where
  "deleteAgentLoop session agent [] =
     ret (Some (ErrFmt (sentinelText ErrAgentNotFound @ '': '' @ TrimSpace (ag_Identifier agent))
       [ErrNew ErrAgentNotFound]))"
| "deleteAgentLoop session agent (candidate # candidates) = do {
     (response, httpResponse, err) \<leftarrow>
       SdkDeleteAgent (s_client session) (s_apiKey session) candidate (deleteAgentOpts agent);
     (case err of
        None \<Rightarrow> ret None
      | Some e \<Rightarrow>
          if ClassifyResponse httpResponse err = VerdictAbsent
          then deleteAgentLoop session agent candidates
          else ret (agentAPIError ''delete GitOps agent'' candidate httpResponse err))
   }"

definition SDK_DeleteAgent :: "Session \<Rightarrow> Agent \<Rightarrow> go_error option M" where
  "SDK_DeleteAgent session agent =
     (let candidates = ScopedIdentifierCandidates (ag_Scope agent) (ag_Identifier agent) in
      if length candidates = 0
      then ret (Some (ErrFmt ''delete GitOps agent: empty agent identifier'' []))
      else deleteAgentLoop session agent candidates)"

text \<open>Lines 248 to 263.\<close>

definition regenerateToken :: "Session \<Rightarrow> Agent \<Rightarrow> string \<Rightarrow> (go_error + string) M" where
  "regenerateToken session agent successfulIdentifier = do {
     (regenerated, httpResponse, err) \<leftarrow>
       SdkRegenerate (s_client session) (s_apiKey session) successfulIdentifier;
     (case err of
        Some _ \<Rightarrow>
          ret (case agentAPIError ''regenerate credentials for GitOps agent'' successfulIdentifier
                 httpResponse err of
               Some e \<Rightarrow> Inl e | None \<Rightarrow> Inr '''')
      | None \<Rightarrow>
          (let missing = ErrFmt (''harness API did not return private key for agent '' @
                 fmt_q (ag_Identifier agent)) []
           in
           case va_Credentials regenerated of
             None \<Rightarrow> ret (Inl missing)
           | Some privateKey \<Rightarrow>
               if privateKey = '''' then ret (Inl missing) else ret (Inr privateKey)))
   }"

text \<open>Lines 244 to 246: the key of the Agent found, or else a regenerated one.\<close>

definition resolveFound ::
  "Session \<Rightarrow> Agent \<Rightarrow> string \<Rightarrow> V1Agent \<Rightarrow> (go_error + string) M" where
  "resolveFound session agent successfulIdentifier response =
     (case va_Credentials response of
        Some privateKey \<Rightarrow>
          if privateKey \<noteq> '''' then ret (Inr privateKey)
          else regenerateToken session agent successfulIdentifier
      | None \<Rightarrow> regenerateToken session agent successfulIdentifier)"

definition SDK_ResolveToken :: "Session \<Rightarrow> Agent \<Rightarrow> string \<Rightarrow> (go_error + string) M" where
  "SDK_ResolveToken session agent initialToken =
     (if initialToken \<noteq> '''' then ret (Inr initialToken)
      else
        (let candidates = ScopedIdentifierCandidates (ag_Scope agent) (ag_Identifier agent) in
         if length candidates = 0
         then ret (Inl (ErrFmt ''get GitOps agent credentials: empty agent identifier'' []))
         else do {
           got \<leftarrow> getAgentLoop ''get GitOps agent credentials'' session (ag_AccountIdentifier agent)
             (getAgentOpts agent True) candidates;
           (case got of
              Inl e \<Rightarrow> ret (Inl e)
            | Inr None \<Rightarrow>
                ret (Inl (ErrFmt (sentinelText ErrAgentNotFound @ '': '' @
                  TrimSpace (ag_Identifier agent)) [ErrNew ErrAgentNotFound]))
            | Inr (Some (successfulIdentifier, response)) \<Rightarrow>
                resolveFound session agent successfulIdentifier response)
         }))"

definition SDK_Readiness :: "Library \<Rightarrow> Session \<Rightarrow> Agent \<Rightarrow> (go_error + AgentReadiness) M" where
  "SDK_Readiness L session agent =
     (let candidates = ScopedIdentifierCandidates (ag_Scope agent) (ag_Identifier agent) in
      if length candidates = 0
      then ret (Inl (ErrFmt ''get GitOps agent: empty agent identifier'' []))
      else do {
        got \<leftarrow> getAgentLoop ''get GitOps agent'' session (ag_AccountIdentifier agent)
          (getAgentOpts agent False) candidates;
        ret (case got of
               Inl e \<Rightarrow> Inl e
             | Inr None \<Rightarrow> Inr emptyReadiness
             | Inr (Some (candidate, response)) \<Rightarrow> Inr (readinessFromAgent L response))
      })"

definition SDKAgentAPI :: "Library \<Rightarrow> agentAPI" where
  "SDKAgentAPI L =
     \<lparr>api_CreateAgent = SDK_CreateAgent, api_Lookup = SDK_Lookup, api_DeleteAgent = SDK_DeleteAgent,
      api_ResolveToken = SDK_ResolveToken, api_Readiness = SDK_Readiness L\<rparr>"

section \<open>The calls each operation makes\<close>

fun isAgentGet :: "event \<Rightarrow> bool" where
  "isAgentGet (EvSdkGetAgent key cand account opts x) = True"
| "isAgentGet _ = False"

fun isAgentCreate :: "event \<Rightarrow> bool" where
  "isAgentCreate (EvSdkCreateAgent key body x) = True"
| "isAgentCreate _ = False"

fun isAgentDelete :: "event \<Rightarrow> bool" where
  "isAgentDelete (EvSdkDeleteAgent key cand opts x) = True"
| "isAgentDelete _ = False"

fun isRegenerate :: "event \<Rightarrow> bool" where
  "isRegenerate (EvSdkRegenerate key cand x) = True"
| "isRegenerate _ = False"

fun isAgentDeleteFor :: "Agent \<Rightarrow> event \<Rightarrow> bool" where
  "isAgentDeleteFor a (EvSdkDeleteAgent key cand opts x) \<longleftrightarrow>
     opts = deleteAgentOpts a \<and> cand \<in> set (ScopedIdentifierCandidates (ag_Scope a) (ag_Identifier a))"
| "isAgentDeleteFor a _ \<longleftrightarrow> False"

text \<open>A GET or DELETE of one candidate answered 404, and a GET answered with an Agent.\<close>

fun absentGet :: "string \<Rightarrow> AgentGetOpts \<Rightarrow> string \<Rightarrow> event \<Rightarrow> bool" where
  "absentGet account opts c (EvSdkGetAgent key cand account' opts' (v, http, err)) \<longleftrightarrow>
     cand = c \<and> account' = account \<and> opts' = opts \<and> http = Some 404 \<and> err \<noteq> None"
| "absentGet account opts c _ \<longleftrightarrow> False"

fun absentDelete :: "Agent \<Rightarrow> string \<Rightarrow> event \<Rightarrow> bool" where
  "absentDelete a c (EvSdkDeleteAgent key cand opts (v, http, err)) \<longleftrightarrow>
     cand = c \<and> opts = deleteAgentOpts a \<and> http = Some 404 \<and> err \<noteq> None"
| "absentDelete a c _ \<longleftrightarrow> False"

fun foundGet :: "string \<Rightarrow> AgentGetOpts \<Rightarrow> string \<Rightarrow> V1Agent \<Rightarrow> event \<Rightarrow> bool" where
  "foundGet account opts c v (EvSdkGetAgent key cand account' opts' (v', http, err)) \<longleftrightarrow>
     cand = c \<and> account' = account \<and> opts' = opts \<and> v' = v \<and> err = None"
| "foundGet account opts c v _ \<longleftrightarrow> False"

lemma absentGet_get: "absentGet account opts c e \<Longrightarrow> isAgentGet e"
  by (cases e) auto

lemma emits_getAgentLoop: "emits isAgentGet (getAgentLoop op s account opts cs)"
  by (induction cs) (auto simp: SdkGetAgent_def intro!: emits_intro)

lemma emits_deleteAgentLoop:
  "set cs \<subseteq> set (ScopedIdentifierCandidates (ag_Scope a) (ag_Identifier a)) \<Longrightarrow>
     emits (isAgentDeleteFor a) (deleteAgentLoop s a cs)"
  by (induction cs) (auto simp: SdkDeleteAgent_def intro!: emits_intro)

lemma grows_deleteAgentLoop [simp]: "grows (deleteAgentLoop s a cs)"
  unfolding grows_emits by (induction cs) (auto simp: SdkDeleteAgent_def intro!: emits_intro)

lemma emits_SDK_CreateAgent:
  "emits (\<lambda>e. \<exists>x. e = EvSdkCreateAgent (s_apiKey s) (createAgentBody q) x) (SDK_CreateAgent s q)"
  unfolding SDK_CreateAgent_def SdkCreateAgent_def by (intro emits_intro) auto

lemmas grows_agent_loops [simp] = emits_grows [OF emits_getAgentLoop]

lemma emits_SDK_Lookup: "emits isAgentGet (SDK_Lookup s a)"
  unfolding SDK_Lookup_def by (intro emits_intro emits_getAgentLoop)

lemma emits_SDK_Readiness: "emits isAgentGet (SDK_Readiness L s a)"
  unfolding SDK_Readiness_def by (intro emits_intro emits_getAgentLoop)

lemma emits_SDK_DeleteAgent: "emits (isAgentDeleteFor a) (SDK_DeleteAgent s a)"
  unfolding SDK_DeleteAgent_def by (intro emits_intro emits_deleteAgentLoop) auto

lemma emits_regenerateToken: "emits isRegenerate (regenerateToken s a i)"
  unfolding regenerateToken_def SdkRegenerate_def by (intro emits_intro) auto

lemma emits_resolveFound: "emits isRegenerate (resolveFound s a i v)"
  unfolding resolveFound_def by (intro emits_intro emits_regenerateToken)

lemma emits_SDK_ResolveToken: "emits (\<lambda>e. isAgentGet e \<or> isRegenerate e) (SDK_ResolveToken s a t)"
  unfolding SDK_ResolveToken_def
  by (intro emits_intro emits_mono [OF emits_getAgentLoop] emits_mono [OF emits_resolveFound]) auto

lemmas grows_agent_sdk [simp] =
  emits_grows [OF emits_SDK_CreateAgent] emits_grows [OF emits_SDK_Lookup]
  emits_grows [OF emits_SDK_Readiness] emits_grows [OF emits_SDK_DeleteAgent]
  emits_grows [OF emits_SDK_ResolveToken] emits_grows [OF emits_regenerateToken]
  emits_grows [OF emits_resolveFound]

section \<open>Falling back to the next candidate\<close>

lemma getAgentLoop_round:
  assumes "sdk_GetAgent (s_client s) h (s_apiKey s) c account opts = (v, http, err)"
  shows "emitted (getAgentLoop op s account opts (c # cs)) h =
      EvSdkGetAgent (s_apiKey s) c account opts (v, http, err) #
        (if http = Some 404 \<and> err \<noteq> None
         then emitted (getAgentLoop op s account opts cs)
           (h @ [EvSdkGetAgent (s_apiKey s) c account opts (v, http, err)])
         else [])"
    and "result (getAgentLoop op s account opts (c # cs)) h =
      (if err = None then Inr (Some (c, v))
       else if http = Some 404
       then result (getAgentLoop op s account opts cs)
           (h @ [EvSdkGetAgent (s_apiKey s) c account opts (v, http, err)])
       else Inl (the (agentAPIError op c http err)))"
  using assms
  by (auto simp: SdkGetAgent_def result_bind emitted_bind agentAPIError_def split: option.splits)

lemma deleteAgentLoop_round:
  assumes "sdk_DeleteAgent (s_client s) h (s_apiKey s) c (deleteAgentOpts a) = (u, http, err)"
  shows "emitted (deleteAgentLoop s a (c # cs)) h =
      EvSdkDeleteAgent (s_apiKey s) c (deleteAgentOpts a) (u, http, err) #
        (if http = Some 404 \<and> err \<noteq> None
         then emitted (deleteAgentLoop s a cs)
           (h @ [EvSdkDeleteAgent (s_apiKey s) c (deleteAgentOpts a) (u, http, err)])
         else [])"
    and "result (deleteAgentLoop s a (c # cs)) h =
      (if err = None then None
       else if http = Some 404
       then result (deleteAgentLoop s a cs)
           (h @ [EvSdkDeleteAgent (s_apiKey s) c (deleteAgentOpts a) (u, http, err)])
       else agentAPIError ''delete GitOps agent'' c http err)"
  using assms
  by (auto simp: SdkDeleteAgent_def result_bind emitted_bind split: option.splits)

declare getAgentLoop.simps(2) [simp del] deleteAgentLoop.simps(2) [simp del]

text \<open>
  What a finished loop has seen: an Agent, at the first candidate that is not absent; or 404 from
  every candidate, in order.
\<close>

lemma getAgentLoop_found:
  assumes "result (getAgentLoop op s account opts cs) h = Inr (Some (c, v))"
  shows "\<exists>as bs pre e. cs = as @ c # bs \<and> emitted (getAgentLoop op s account opts cs) h = pre @ [e] \<and>
    list_all2 (absentGet account opts) as pre \<and> foundGet account opts c v e"
  using assms
proof (induction cs arbitrary: h)
  case (Cons d cs)
  obtain w http err where
    ans: "sdk_GetAgent (s_client s) h (s_apiKey s) d account opts = (w, http, err)"
    by (metis prod_cases3)
  let ?e = "EvSdkGetAgent (s_apiKey s) d account opts (w, http, err)"
  show ?case
  proof (cases "err = None")
    case True
    with Cons.prems getAgentLoop_round [OF ans, of op cs] have "c = d" "v = w" by auto
    with True getAgentLoop_round(1) [OF ans, of op cs] show ?thesis
      by (intro exI [of _ "[]"] exI [of _ cs] exI [of _ ?e]) simp
  next
    case False
    with Cons.prems getAgentLoop_round [OF ans, of op cs] have absent: "http = Some 404"
      and res: "result (getAgentLoop op s account opts cs) (h @ [?e]) = Inr (Some (c, v))"
      by (auto split: if_splits)
    from Cons.IH [OF res] obtain as bs pre e where "cs = as @ c # bs"
      "emitted (getAgentLoop op s account opts cs) (h @ [?e]) = pre @ [e]"
      "list_all2 (absentGet account opts) as pre" "foundGet account opts c v e"
      by auto
    with getAgentLoop_round(1) [OF ans, of op cs] absent False show ?thesis
      by (intro exI [of _ "d # as"] exI [of _ bs] exI [of _ "?e # pre"] exI [of _ e]) simp
  qed
qed simp

lemma getAgentLoop_absent:
  "result (getAgentLoop op s account opts cs) h = Inr None \<Longrightarrow>
     list_all2 (absentGet account opts) cs (emitted (getAgentLoop op s account opts cs) h)"
proof (induction cs arbitrary: h)
  case (Cons d cs)
  obtain w http err where
    ans: "sdk_GetAgent (s_client s) h (s_apiKey s) d account opts = (w, http, err)"
    by (metis prod_cases3)
  with Cons.prems getAgentLoop_round(2) [OF ans, of op cs] getAgentLoop_round(1) [OF ans, of op cs]
  show ?case by (auto split: if_splits intro: Cons.IH)
qed simp

lemma getAgentLoop_length: "length (emitted (getAgentLoop op s account opts cs) h) \<le> length cs"
proof (induction cs arbitrary: h)
  case (Cons d cs)
  obtain w http err where
    ans: "sdk_GetAgent (s_client s) h (s_apiKey s) d account opts = (w, http, err)"
    by (metis prod_cases3)
  from Cons.IH show ?case by (simp add: getAgentLoop_round(1) [OF ans])
qed simp

lemma deleteAgentLoop_length: "length (emitted (deleteAgentLoop s a cs) h) \<le> length cs"
proof (induction cs arbitrary: h)
  case (Cons d cs)
  obtain u http err where
    ans: "sdk_DeleteAgent (s_client s) h (s_apiKey s) d (deleteAgentOpts a) = (u, http, err)"
    by (metis prod_cases3)
  from Cons.IH show ?case by (simp add: deleteAgentLoop_round(1) [OF ans])
qed simp

text \<open>
  The SDK does not return the operator's own sentinel: an error of its endpoints never wraps
  \<open>ErrAgentNotFound\<close>, which is a variable of the package \<open>agent\<close>.
\<close>

definition foreignErrors :: "APIClient \<Rightarrow> bool" where
  "foreignErrors c \<longleftrightarrow>
     (\<forall>h key cand opts u http e. sdk_DeleteAgent c h key cand opts = (u, http, Some e) \<longrightarrow>
        \<not> errorsIs e ErrAgentNotFound)"

fun confirmedDelete :: "Agent \<Rightarrow> event \<Rightarrow> bool" where
  "confirmedDelete a (EvSdkDeleteAgent key cand opts (u, http, err)) \<longleftrightarrow>
     cand \<in> set (ScopedIdentifierCandidates (ag_Scope a) (ag_Identifier a)) \<and>
     opts = deleteAgentOpts a \<and> err = None"
| "confirmedDelete a _ \<longleftrightarrow> False"

text \<open>The Agent is gone: a candidate was deleted, or every one was absent.\<close>

definition deletionConfirmed :: "Agent \<Rightarrow> history \<Rightarrow> bool" where
  "deletionConfirmed a es \<longleftrightarrow>
     (es \<noteq> [] \<and> confirmedDelete a (last es)) \<or>
     (es \<noteq> [] \<and>
      list_all2 (absentDelete a) (ScopedIdentifierCandidates (ag_Scope a) (ag_Identifier a)) es)"

lemma agentAPIError_notFound:
  assumes "http \<noteq> Some 404" and "\<And>e. err = Some e \<Longrightarrow> \<not> errorsIs e ErrAgentNotFound"
  shows "\<not> isAgentNotFound (agentAPIError op c http err)"
  using assms
  by (auto simp: isAgentNotFound_def agentAPIError_def APIError_def VerdictOf_def Let_def
      split: option.splits)

lemma deleteAgentLoop_gone:
  assumes "foreignErrors (s_client s)"
    and "set cs \<subseteq> set (ScopedIdentifierCandidates (ag_Scope a) (ag_Identifier a))"
    and "result (deleteAgentLoop s a cs) h = None \<or> isAgentNotFound (result (deleteAgentLoop s a cs) h)"
  shows "(emitted (deleteAgentLoop s a cs) h \<noteq> [] \<and>
      confirmedDelete a (last (emitted (deleteAgentLoop s a cs) h))) \<or>
    list_all2 (absentDelete a) cs (emitted (deleteAgentLoop s a cs) h)"
  using assms(2,3)
proof (induction cs arbitrary: h)
  case (Cons d cs)
  obtain u http err where
    ans: "sdk_DeleteAgent (s_client s) h (s_apiKey s) d (deleteAgentOpts a) = (u, http, err)"
    by (metis prod_cases3)
  let ?e = "EvSdkDeleteAgent (s_apiKey s) d (deleteAgentOpts a) (u, http, err)"
  have foreign: "\<not> errorsIs e ErrAgentNotFound" if "err = Some e" for e
    using assms(1) ans that by (auto simp: foreignErrors_def)
  show ?case
  proof (cases "err = None")
    case True
    with Cons.prems(1) show ?thesis by (simp add: deleteAgentLoop_round(1) [OF ans])
  next
    case False
    with Cons.prems(2) agentAPIError_notFound [of http err "''delete GitOps agent''" d] foreign
    have absent: "http = Some 404" by (auto simp: deleteAgentLoop_round(2) [OF ans] split: if_splits)
    with False have "result (deleteAgentLoop s a (d # cs)) h = result (deleteAgentLoop s a cs) (h @ [?e])"
      by (auto simp: deleteAgentLoop_round(2) [OF ans])
    from Cons.IH [OF _ Cons.prems(2) [unfolded this]] Cons.prems(1) absent False show ?thesis
      by (auto simp: deleteAgentLoop_round(1) [OF ans])
  qed
qed simp

lemma SDK_DeleteAgent_gone:
  assumes "foreignErrors (s_client s)"
    and "result (SDK_DeleteAgent s a) h = None \<or> isAgentNotFound (result (SDK_DeleteAgent s a) h)"
  shows "deletionConfirmed a (emitted (SDK_DeleteAgent s a) h)"
proof (cases "ScopedIdentifierCandidates (ag_Scope a) (ag_Identifier a) = []")
  case True
  with assms(2) show ?thesis
    by (simp add: SDK_DeleteAgent_def isAgentNotFound_def VerdictOf_def errorsAs_def)
next
  case False
  then have run: "SDK_DeleteAgent s a =
      deleteAgentLoop s a (ScopedIdentifierCandidates (ag_Scope a) (ag_Identifier a))"
    by (simp add: SDK_DeleteAgent_def)
  from deleteAgentLoop_gone [OF assms(1) subset_refl assms(2) [unfolded run]] False show ?thesis
    unfolding deletionConfirmed_def run by (auto simp: list_all2_Nil2)
qed

text \<open>What an error of the loop means: some candidate answered an error other than 404.\<close>

fun unreadableGet :: "event \<Rightarrow> bool" where
  "unreadableGet (EvSdkGetAgent key cand account opts (v, http, err)) \<longleftrightarrow> http \<noteq> Some 404 \<and> err \<noteq> None"
| "unreadableGet _ \<longleftrightarrow> False"

lemma getAgentLoop_error:
  "result (getAgentLoop op s account opts cs) h = Inl e \<Longrightarrow>
     emitted (getAgentLoop op s account opts cs) h \<noteq> [] \<and>
     unreadableGet (last (emitted (getAgentLoop op s account opts cs) h))"
proof (induction cs arbitrary: h)
  case (Cons d cs)
  obtain w http err where
    ans: "sdk_GetAgent (s_client s) h (s_apiKey s) d account opts = (w, http, err)"
    by (metis prod_cases3)
  from Cons.prems show ?case
    using Cons.IH [of "h @ [EvSdkGetAgent (s_apiKey s) d account opts (w, http, err)]"]
    by (auto simp: getAgentLoop_round [OF ans] split: if_splits)
qed simp

section \<open>Contract\<close>

text \<open>
  What the reconciler relies on of the interface: which calls each operation makes, what a found
  or an absent Agent means, that an accepted create answers with the identifier, that a token is
  not empty, and when credentials are regenerated.
\<close>

abbreviation lookupAccount :: "Agent \<Rightarrow> string" where
  "lookupAccount a \<equiv> TrimSpace (ag_AccountIdentifier a)"

abbreviation agentCandidates :: "Agent \<Rightarrow> string list" where
  "agentCandidates a \<equiv> ScopedIdentifierCandidates (ag_Scope a) (ag_Identifier a)"

text \<open>A read of the Agent that found it: 404 from earlier candidates, then the Agent.\<close>

definition agentRead :: "string \<Rightarrow> AgentGetOpts \<Rightarrow> Agent \<Rightarrow> V1Agent \<Rightarrow> history \<Rightarrow> bool" where
  "agentRead account opts a v es \<longleftrightarrow>
     (\<exists>as c bs pre e. agentCandidates a = as @ c # bs \<and> es = pre @ [e] \<and>
        list_all2 (absentGet account opts) as pre \<and> foundGet account opts c v e)"

text \<open>A read that found every candidate absent.\<close>

definition agentAbsent :: "string \<Rightarrow> AgentGetOpts \<Rightarrow> Agent \<Rightarrow> history \<Rightarrow> bool" where
  "agentAbsent account opts a es \<longleftrightarrow>
     es \<noteq> [] \<and> list_all2 (absentGet account opts) (agentCandidates a) es"

locale agent_api =
  fixes L :: Library and api :: agentAPI
  assumes create_grows: "grows (api_CreateAgent api s q)"
    and create_one: "\<exists>x. emitted (api_CreateAgent api s q) h =
      [EvSdkCreateAgent (s_apiKey s) (createAgentBody q) x]"
    and create_accepted: "result (api_CreateAgent api s q) h = Inr r \<Longrightarrow>
      \<exists>v http. emitted (api_CreateAgent api s q) h =
          [EvSdkCreateAgent (s_apiKey s) (createAgentBody q) (v, http, None)] \<and>
        cs_Identifier r = TrimSpace (va_Identifier v) \<and> cs_Identifier r \<noteq> ''''"
    and lookup_calls: "emits isAgentGet (api_Lookup api s a)"
    and lookup_found: "result (api_Lookup api s a) h = Inr lk \<Longrightarrow> lk_Exists lk \<Longrightarrow>
      \<exists>v. agentRead (lookupAccount a) (getAgentOpts a False) a v (emitted (api_Lookup api s a) h) \<and>
        lk_Agent lk = agentFromSDK v"
    and lookup_absent: "result (api_Lookup api s a) h = Inr lk \<Longrightarrow> \<not> lk_Exists lk \<Longrightarrow>
      agentAbsent (lookupAccount a) (getAgentOpts a False) a (emitted (api_Lookup api s a) h)"
    and delete_calls: "emits (isAgentDeleteFor a) (api_DeleteAgent api s a)"
    and delete_gone: "foreignErrors (s_client s) \<Longrightarrow>
      result (api_DeleteAgent api s a) h = None \<or> isAgentNotFound (result (api_DeleteAgent api s a) h) \<Longrightarrow>
      deletionConfirmed a (emitted (api_DeleteAgent api s a) h)"
    and token_calls: "emits (\<lambda>e. isAgentGet e \<or> isRegenerate e) (api_ResolveToken api s a t)"
    and token_nonempty: "result (api_ResolveToken api s a t) h = Inr token \<Longrightarrow> token \<noteq> ''''"
    and readiness_calls: "emits isAgentGet (api_Readiness api s a)"
    and readiness_absent: "result (api_Readiness api s a) h = Inr rd \<Longrightarrow> \<not> rn_Exists rd \<Longrightarrow>
      agentAbsent (ag_AccountIdentifier a) (getAgentOpts a False) a (emitted (api_Readiness api s a) h)"
    and readiness_found: "result (api_Readiness api s a) h = Inr rd \<Longrightarrow> rn_Exists rd \<Longrightarrow>
      \<exists>v. agentRead (ag_AccountIdentifier a) (getAgentOpts a False) a v
          (emitted (api_Readiness api s a) h) \<and> rd = readinessFromAgent L v"
    and readiness_error: "result (api_Readiness api s a) h = Inl e \<Longrightarrow>
      emitted (api_Readiness api s a) h = [] \<or> unreadableGet (last (emitted (api_Readiness api s a) h))"
begin

lemmas grows_api [simp] =
  create_grows emits_grows [OF lookup_calls] emits_grows [OF delete_calls]
  emits_grows [OF token_calls] emits_grows [OF readiness_calls]

end

lemma getAgentLoop_agentRead:
  "result (getAgentLoop op s account opts (agentCandidates a)) h = Inr (Some (c, v)) \<Longrightarrow>
     agentRead account opts a v (emitted (getAgentLoop op s account opts (agentCandidates a)) h)"
  using getAgentLoop_found unfolding agentRead_def by blast

lemma getAgentLoop_agentAbsent:
  assumes "result (getAgentLoop op s account opts (agentCandidates a)) h = Inr None"
    and "agentCandidates a \<noteq> []"
  shows "agentAbsent account opts a (emitted (getAgentLoop op s account opts (agentCandidates a)) h)"
  using getAgentLoop_absent [OF assms(1)] assms(2) by (auto simp: agentAbsent_def)

lemma readiness_exists [simp]: "rn_Exists (readinessFromAgent L v)"
  by (auto simp: readinessFromAgent_def emptyReadiness_def Let_def split: option.splits prod.splits)

lemma SDK_CreateAgent_one:
  "\<exists>x. emitted (SDK_CreateAgent s q) h = [EvSdkCreateAgent (s_apiKey s) (createAgentBody q) x]"
  by (auto simp: SDK_CreateAgent_def SdkCreateAgent_def emitted_bind split: option.splits prod.splits)

lemma SDK_CreateAgent_accepted:
  assumes "result (SDK_CreateAgent s q) h = Inr r"
  shows "\<exists>v http. emitted (SDK_CreateAgent s q) h =
      [EvSdkCreateAgent (s_apiKey s) (createAgentBody q) (v, http, None)] \<and>
    cs_Identifier r = TrimSpace (va_Identifier v) \<and> cs_Identifier r \<noteq> ''''"
proof -
  obtain v http err where
    ans: "sdk_CreateAgent (s_client s) h (s_apiKey s) (createAgentBody q) = (v, http, err)"
    by (metis prod_cases3)
  with assms show ?thesis
    by (cases err)
      (auto simp: SDK_CreateAgent_def SdkCreateAgent_def result_bind emitted_bind
        createAgentAccepted_def Let_def split: option.splits if_splits)
qed

lemma token_found_nonempty:
  "result (resolveFound s a i v) h = Inr token \<Longrightarrow> token \<noteq> ''''"
  by (auto simp: resolveFound_def regenerateToken_def SdkRegenerate_def result_bind Let_def
      split: option.splits prod.splits if_splits)

interpretation agent_sdk: agent_api L "SDKAgentAPI L" for L
proof (unfold_locales, goal_cases)
  case (1 s q)
  then show ?case by (simp add: SDKAgentAPI_def)
next
  case (2 s q h)
  then show ?case using SDK_CreateAgent_one by (simp add: SDKAgentAPI_def)
next
  case (3 s q h r)
  then show ?case using SDK_CreateAgent_accepted by (simp add: SDKAgentAPI_def)
next
  case (4 s a)
  then show ?case using emits_SDK_Lookup by (simp add: SDKAgentAPI_def)
next
  case (5 s a h lk)
  then show ?case
    by (auto simp: SDKAgentAPI_def SDK_Lookup_def result_bind emitted_bind emptyLookup_def Let_def
        dest!: getAgentLoop_agentRead split: if_splits sum.splits option.splits)
next
  case (6 s a h lk)
  then show ?case
    by (auto simp: SDKAgentAPI_def SDK_Lookup_def result_bind emitted_bind Let_def
        dest!: getAgentLoop_agentAbsent split: if_splits sum.splits option.splits)
next
  case (7 a s)
  then show ?case using emits_SDK_DeleteAgent by (simp add: SDKAgentAPI_def)
next
  case (8 s a h)
  then show ?case using SDK_DeleteAgent_gone by (simp add: SDKAgentAPI_def)
next
  case (9 s a t)
  then show ?case using emits_SDK_ResolveToken by (simp add: SDKAgentAPI_def)
next
  case (10 s a t h token)
  then show ?case
    by (auto simp: SDKAgentAPI_def SDK_ResolveToken_def result_bind Let_def
        dest: token_found_nonempty split: if_splits sum.splits option.splits)
next
  case (11 s a)
  then show ?case using emits_SDK_Readiness by (simp add: SDKAgentAPI_def)
next
  case (12 s a h rd)
  then show ?case
    by (auto simp: SDKAgentAPI_def SDK_Readiness_def result_bind emitted_bind Let_def
        dest!: getAgentLoop_agentAbsent split: if_splits sum.splits option.splits)
next
  case (13 s a h rd)
  then show ?case
    by (auto simp: SDKAgentAPI_def SDK_Readiness_def result_bind emitted_bind emptyReadiness_def Let_def
        dest!: getAgentLoop_agentRead split: if_splits sum.splits option.splits)
next
  case (14 s a h e)
  then show ?case
    by (auto simp: SDKAgentAPI_def SDK_Readiness_def result_bind emitted_bind Let_def
        dest!: getAgentLoop_error split: if_splits sum.splits option.splits)
qed

lemma agentAbsent_readable: "agentAbsent account opts a es \<Longrightarrow> es \<noteq> [] \<and> \<not> unreadableGet (last es)"
  by (cases es rule: rev_exhaust)
    (auto simp: agentAbsent_def list_all2_append2 list_all2_Cons2 elim!: absentGet.elims)

lemma agentRead_readable: "agentRead account opts a v es \<Longrightarrow> es \<noteq> [] \<and> \<not> unreadableGet (last es)"
  by (auto simp: agentRead_def elim!: foundGet.elims)

section \<open>Properties\<close>

text \<open>
  C34: absence of an Agent is never inferred from a failure. A lookup reports an Agent only when
  a GET returned it, and then returns exactly its trimmed fields and tags; it reports absence
  only after HTTP 404 from every identifier candidate, in order; and it fails when the
  identifier is blank, without a call, or after an answer that is neither.
\<close>

theorem agent_lookup_outcome:
  "case result (SDK_Lookup s a) h of
     Inr lk \<Rightarrow>
       if lk_Exists lk
       then \<exists>v. agentRead (lookupAccount a) (getAgentOpts a False) a v (emitted (SDK_Lookup s a) h) \<and>
         lk_Agent lk = agentFromSDK v
       else agentAbsent (lookupAccount a) (getAgentOpts a False) a (emitted (SDK_Lookup s a) h)
   | Inl e \<Rightarrow>
       (TrimSpace (ag_Identifier a) = '''' \<and> emitted (SDK_Lookup s a) h = []) \<or>
       (emitted (SDK_Lookup s a) h \<noteq> [] \<and> unreadableGet (last (emitted (SDK_Lookup s a) h)))"
proof (cases "result (SDK_Lookup s a) h")
  case (Inl e)
  then show ?thesis
    using candidates_Nil_iff [of "ag_Scope a" "ag_Identifier a"]
    by (auto simp: SDK_Lookup_def result_bind emitted_bind Let_def
        dest: getAgentLoop_error split: if_splits sum.splits option.splits)
next
  case (Inr lk)
  then show ?thesis
    using agent_sdk.lookup_found [of L s a h lk] agent_sdk.lookup_absent [of L s a h lk]
    by (simp add: SDKAgentAPI_def)
qed

lemma snoc_split: "xs @ [y] = pre @ e # post \<Longrightarrow> e \<notin> set xs \<Longrightarrow> pre = xs \<and> e = y \<and> post = []"
  by (cases post rule: rev_exhaust) auto

lemma SDK_ResolveToken_events:
  "emitted (SDK_ResolveToken s a t) h =
     (let get = getAgentLoop ''get GitOps agent credentials'' s (ag_AccountIdentifier a)
        (getAgentOpts a True) (agentCandidates a)
      in
      if t \<noteq> '''' \<or> agentCandidates a = [] then []
      else emitted get h @
        (case result get h of
           Inr (Some (c, v)) \<Rightarrow> emitted (resolveFound s a c v) (h @ emitted get h)
         | _ \<Rightarrow> []))"
  by (simp add: SDK_ResolveToken_def Let_def emitted_bind grows_cases split: sum.split option.split)

lemma resolveFound_events:
  "emitted (resolveFound s a c v) h =
     (if va_Credentials v = None \<or> va_Credentials v = Some ''''
      then [EvSdkRegenerate (s_apiKey s) c (sdk_RegenerateCredentials (s_client s) h (s_apiKey s) c)]
      else [])"
  by (auto simp: resolveFound_def regenerateToken_def SdkRegenerate_def emitted_bind Let_def
      split: option.splits prod.splits)

text \<open>
  C35: a running Agent's credentials are regenerated only as the last resort. A token given by the
  create response is used without any call; otherwise the Agent is read with credentials, and a
  regeneration is requested only after that read found the Agent without a private key, as the
  last call; and whatever is returned as the token is not empty.
\<close>

theorem token_regenerated_only_without_key:
  assumes "emitted (SDK_ResolveToken s a t) h = pre @ e # post" and "isRegenerate e"
  shows "t = '''' \<and> post = [] \<and>
    (\<exists>v. agentRead (ag_AccountIdentifier a) (getAgentOpts a True) a v pre \<and>
       (va_Credentials v = None \<or> va_Credentials v = Some '''')) \<and>
    (\<forall>token. result (SDK_ResolveToken s a t) h = Inr token \<longrightarrow> token \<noteq> '''')"
proof -
  let ?get = "getAgentLoop ''get GitOps agent credentials'' s (ag_AccountIdentifier a)
    (getAgentOpts a True) (agentCandidates a)"
  have loop: "e \<notin> set (emitted ?get h)"
    using emits_mem [OF emits_getAgentLoop] assms(2) by (cases e) force+
  note run = assms(1) [unfolded SDK_ResolveToken_events Let_def]
  then have t: "t = ''''" by (simp split: if_splits)
  from run loop obtain c v where got: "result ?get h = Inr (Some (c, v))"
    by (cases "result ?get h") (auto split: if_splits option.splits)
  with run have ev: "emitted ?get h @ emitted (resolveFound s a c v) (h @ emitted ?get h) = pre @ e # post"
    by (simp split: if_splits)
  have key: "va_Credentials v = None \<or> va_Credentials v = Some ''''"
  proof (rule ccontr)
    assume "\<not> ?thesis"
    with ev have "emitted ?get h = pre @ e # post" by (simp add: resolveFound_events)
    with loop show False by simp
  qed
  then obtain y where "emitted ?get h @ [y] = pre @ e # post"
    using ev unfolding resolveFound_events by auto
  from snoc_split [OF this loop] have "pre = emitted ?get h \<and> post = []" by simp
  with t key getAgentLoop_agentRead [OF got] agent_sdk.token_nonempty [of L s a t h] show ?thesis
    by (auto simp: SDKAgentAPI_def)
qed

text \<open>A Harness whose Agents have no private key until it is regenerated.\<close>

definition keylessAPI :: APIClient where
  "keylessAPI = absentAPI\<lparr>
     sdk_GetAgent := (\<lambda>h key cand account opts. (emptyV1Agent, Some 200, None)),
     sdk_RegenerateCredentials :=
       (\<lambda>h key cand. (emptyV1Agent\<lparr>va_Credentials := Some ''pk''\<rparr>, Some 200, None))\<rparr>"

theorem token_regenerated_only_without_key_witness:
  "let s = \<lparr>s_client = keylessAPI, s_apiKey = ''k1''\<rparr>; a = emptyAgent\<lparr>ag_Identifier := ''agent1''\<rparr>
   in \<exists>pre v. agentRead '''' (getAgentOpts a True) a v pre \<and>
     emitted (SDK_ResolveToken s a '''') [] =
       pre @ [EvSdkRegenerate ''k1'' (hd (agentCandidates a))
         (emptyV1Agent\<lparr>va_Credentials := Some ''pk''\<rparr>, Some 200, None)]"
proof -
  let ?s = "\<lparr>s_client = keylessAPI, s_apiKey = ''k1''\<rparr>" and ?a = "emptyAgent\<lparr>ag_Identifier := ''agent1''\<rparr>"
  let ?v = "emptyV1Agent\<lparr>va_Credentials := Some ''pk''\<rparr>"
  obtain c cs where cs: "agentCandidates ?a = c # cs"
    using candidates_Nil_iff [of "ag_Scope ?a" "ag_Identifier ?a"] by (cases "agentCandidates ?a") auto
  have ans: "sdk_GetAgent (s_client ?s) [] (s_apiKey ?s) c (ag_AccountIdentifier ?a)
      (getAgentOpts ?a True) = (emptyV1Agent, Some 200, None)"
    by (simp add: keylessAPI_def)
  have ev: "emitted (SDK_ResolveToken ?s ?a '''') [] =
      [EvSdkGetAgent ''k1'' c '''' (getAgentOpts ?a True) (emptyV1Agent, Some 200, None)] @
      EvSdkRegenerate ''k1'' c (?v, Some 200, None) # []"
    unfolding SDK_ResolveToken_events cs Let_def getAgentLoop_round [OF ans]
    by (simp add: resolveFound_events keylessAPI_def emptyAgent_def emptyV1Agent_def)
  from token_regenerated_only_without_key [OF ev] ev show ?thesis
    unfolding Let_def cs by (auto simp: emptyAgent_def)
qed

text \<open>
  C36: every operation of the Agent API ends after a bounded number of requests, whatever Harness
  answers: the create after one, lookup, readiness and delete after two, and the resolution of a
  token after three.
\<close>

theorem agent_requests_bounded:
  "length (emitted (SDK_CreateAgent s q) h) = 1 \<and>
   length (emitted (SDK_Lookup s a) h) \<le> 2 \<and>
   length (emitted (SDK_Readiness L s a) h) \<le> 2 \<and>
   length (emitted (SDK_DeleteAgent s a) h) \<le> 2 \<and>
   length (emitted (SDK_ResolveToken s a t) h) \<le> 3"
proof -
  have gets: "length (emitted (getAgentLoop op s account opts (agentCandidates a)) h') \<le> 2"
    for op account opts h'
    by (rule order_trans [OF getAgentLoop_length candidates_length])
  have dels: "length (emitted (deleteAgentLoop s a (agentCandidates a)) h) \<le> 2"
    by (rule order_trans [OF deleteAgentLoop_length candidates_length])
  have found: "length (emitted (resolveFound s a i v) h') \<le> 1" for i v h'
    by (auto simp: resolveFound_def regenerateToken_def SdkRegenerate_def emitted_bind Let_def
        split: option.splits prod.splits)
  have create: "length (emitted (SDK_CreateAgent s q) h) = 1"
    by (auto simp: SDK_CreateAgent_def SdkCreateAgent_def emitted_bind split: option.splits prod.splits)
  have token: "length (emitted (SDK_ResolveToken s a t) h) \<le> 3"
    using gets [of "''get GitOps agent credentials''" "ag_AccountIdentifier a" "getAgentOpts a True" h]
    by (auto simp: SDK_ResolveToken_def Let_def emitted_bind intro: add_mono [OF _ found, THEN order_trans]
        split: sum.split option.split)
  show ?thesis
    using gets dels create token
    by (simp add: SDK_Lookup_def SDK_Readiness_def SDK_DeleteAgent_def Let_def emitted_bind)
qed

end
