(* ===== verification/Agent_Conditions.thy ===== *)
theory Agent_Conditions
  imports Agent_SDK Resource_Finalizer
begin

text \<open>
  \<open>internal/resource/agent/conditions.go\<close>, with the type of the Agent reconciler and its session:
  the health of the remote Agent is read through the API and published as the condition
  \<open>Healthy\<close>, which keeps an unreadable Agent (Unknown) apart from an absent one (False).
\<close>

section \<open>The reconciler\<close>

text \<open>\<open>Reconciler\<close> of \<open>reconciler.go\<close>; the reader and the API may be nil. Its scheme is used by
  \<open>lib_SetControllerReference\<close> only.\<close>

record AgentReconciler =
  ar_Client :: Client
  ar_APIReader :: "Reader option"
  ar_APIKeySecretNamespace :: string
  ar_AgentHealthResyncInterval :: Duration
  ar_agentAPI :: "agentAPI option"

definition harnessAgentAPI :: "Library \<Rightarrow> AgentReconciler \<Rightarrow> agentAPI" where
  "harnessAgentAPI L r = (case ar_agentAPI r of Some api \<Rightarrow> api | None \<Rightarrow> SDKAgentAPI L)"

definition agentApiReader :: "AgentReconciler \<Rightarrow> Reader" where
  "agentApiReader r = (case ar_APIReader r of Some rd \<Rightarrow> rd | None \<Rightarrow> cl_Reader (ar_Client r))"

definition SessionForAgent ::
  "Library \<Rightarrow> Reader \<Rightarrow> string \<Rightarrow> HarnessGitopsAgent \<Rightarrow> (go_error + Session) M" where
  "SessionForAgent L reader apiKeySecretNamespace agent =
     (let secretNamespace = TrimSpace apiKeySecretNamespace;
          secretNamespace =
            (if secretNamespace = '''' then Namespace (a_Meta agent) else secretNamespace)
      in SessionFromSecret L (Some reader) (secretNamespace, as_ApiKeySecretRef (a_Spec agent)))"

text \<open>\<open>harnessAgentFor\<close> (\<open>registration.go\<close>): the Agent a custom resource denotes.\<close>

definition harnessAgentFor :: "HarnessGitopsAgent \<Rightarrow> string \<Rightarrow> Agent" where
  "harnessAgentFor agentCR identifier =
     (let spec = a_Spec agentCR in
      \<lparr>ag_Identifier = TrimSpace identifier,
       ag_Name = TrimSpace (as_Name spec),
       ag_AccountIdentifier = TrimSpace (as_AccountId spec),
       ag_OrgIdentifier = OrgIdentifierForScope (as_Scope spec) (as_OrgId spec),
       ag_ProjectIdentifier = ProjectIdentifierForScope (as_Scope spec) (as_ProjectId spec),
       ag_Scope = TrimSpace (as_Scope spec),
       ag_Type = TrimSpace (as_Type spec),
       ag_Operator = TrimSpace (as_Operator spec),
       ag_Tags = Map.empty\<rparr>)"

section \<open>Conditions\<close>

definition agentHealthFastResync :: Duration where
  "agentHealthFastResync = 30 * Second"

definition DefaultAgentHealthResyncInterval :: Duration where
  "DefaultAgentHealthResyncInterval = 5 * Minute"

definition agentHealthResyncInterval :: "AgentReconciler \<Rightarrow> Duration" where
  "agentHealthResyncInterval r =
     (if ar_AgentHealthResyncInterval r > 0 then ar_AgentHealthResyncInterval r
      else DefaultAgentHealthResyncInterval)"

text \<open>
  As in the Mapping controller, a status write returns its error and the caller's object as it
  leaves it: mutated, and decoded from the server's answer when an update succeeded.
\<close>

definition updateAgentStatus ::
  "AgentReconciler \<Rightarrow> HarnessGitopsAgent \<Rightarrow> (go_error option \<times> HarnessGitopsAgent) M" where
  "updateAgentStatus r agent = do {
     updated \<leftarrow> UpdateAgentStatus (ar_Client r) agent;
     ret (case updated of Inl err \<Rightarrow> (Some err, agent) | Inr stored \<Rightarrow> (None, stored))
   }"

definition setAgentCondition ::
  "Library \<Rightarrow> AgentReconciler \<Rightarrow> HarnessGitopsAgent \<Rightarrow> string \<Rightarrow> ConditionStatus \<Rightarrow> string \<Rightarrow> string \<Rightarrow>
     (go_error option \<times> HarnessGitopsAgent) M" where
  "setAgentCondition L r agent conditionType status reason message = do {
     now \<leftarrow> peek (lib_Now L);
     let before = a_Status agent;
     let agent = agent\<lparr>a_Status := before\<lparr>ast_Conditions :=
           lib_SetStatusCondition L now (ast_Conditions before)
             \<lparr>c_Type = conditionType, c_Status = status,
              c_ObservedGeneration = Generation (a_Meta agent), c_LastTransitionTime = 0,
              c_Reason = reason, c_Message = message\<rparr>\<rparr>\<rparr>;
     (if before = a_Status agent then ret (None, agent) else updateAgentStatus r agent)
   }"

definition setAgentWaitingForMappings ::
  "Library \<Rightarrow> AgentReconciler \<Rightarrow> HarnessGitopsAgent \<Rightarrow> string list \<Rightarrow>
     (go_error option \<times> HarnessGitopsAgent) M" where
  "setAgentWaitingForMappings L r agent names =
     setAgentCondition L r agent ''Ready'' ConditionFalse ''WaitingForMappings''
       (''Waiting for HarnessGitopsProjectMapping resources to be deleted: '' @ Join names '', '')"

text \<open>The \<open>switch\<close> of \<open>publishAgentHealth\<close>: the status, reason and message of the condition.\<close>

definition healthCondition ::
  "go_error + AgentReadiness \<Rightarrow> string \<Rightarrow> ConditionStatus \<times> string \<times> string" where
  "healthCondition outcome agentIdentifier =
     (case outcome of
        Inl err \<Rightarrow>
          (ConditionUnknown, ''HealthUnreadable'',
           ''Harness GitOps agent health could not be read: '' @ Error err)
      | Inr readiness \<Rightarrow>
          if TrimSpace agentIdentifier = '''' then
            (ConditionUnknown, ''HealthUnreadable'',
             ''Harness GitOps agent has no identifier to read health for'')
          else if \<not> rn_Exists readiness then
            (ConditionFalse, ''AgentAbsent'', ''Harness GitOps agent does not exist'')
          else
            (let message = TrimSpace (rn_Message readiness) in
             if rn_Ready readiness then
               (ConditionTrue, ''AgentHealthy'',
                if message = '''' then ''Harness GitOps agent is Connected and Healthy'' else message)
             else
               (ConditionFalse, ''AgentUnhealthy'',
                if message = '''' then ''Harness GitOps agent is not Connected and Healthy''
                else message)))"

text \<open>Lines 117 to 125: the readiness, when there is a session and an identifier. The session
  is nil when there is a session error.\<close>

definition readHealth ::
  "Library \<Rightarrow> AgentReconciler \<Rightarrow> HarnessGitopsAgent \<Rightarrow> go_error + Session \<Rightarrow> string \<Rightarrow>
     (go_error + AgentReadiness) M" where
  "readHealth L r agentCR session agentIdentifier =
     (case session of
        Inl sessionErr \<Rightarrow> ret (Inl sessionErr)
      | Inr session \<Rightarrow>
          if TrimSpace agentIdentifier \<noteq> ''''
          then api_Readiness (harnessAgentAPI L r) session (harnessAgentFor agentCR agentIdentifier)
          else ret (Inr emptyReadiness))"

definition publishAgentHealth ::
  "Library \<Rightarrow> AgentReconciler \<Rightarrow> HarnessGitopsAgent \<Rightarrow> go_error + Session \<Rightarrow> string \<Rightarrow>
     (go_error + Duration) M" where
  "publishAgentHealth L r agentCR session agentIdentifier = do {
     outcome \<leftarrow> readHealth L r agentCR session agentIdentifier;
     let (status, reason, message) = healthCondition outcome agentIdentifier;
     (err, agentCR) \<leftarrow> setAgentCondition L r agentCR ''Healthy'' status reason message;
     ret (case err of
            Some e \<Rightarrow> Inl e
          | None \<Rightarrow>
              if status = ConditionTrue then Inr (agentHealthResyncInterval r)
              else Inr agentHealthFastResync)
   }"

definition agentHealthResult ::
  "Library \<Rightarrow> AgentReconciler \<Rightarrow> HarnessGitopsAgent \<Rightarrow> go_error + Session \<Rightarrow> string \<Rightarrow>
     (Result \<times> go_error option) M" where
  "agentHealthResult L r agentCR session agentIdentifier = do {
     published \<leftarrow> publishAgentHealth L r agentCR session agentIdentifier;
     ret (case published of
            Inl err \<Rightarrow> (emptyResult, Some err)
          | Inr after \<Rightarrow> (requeueAfter after, None))
   }"

definition refreshAgentHealth ::
  "Library \<Rightarrow> AgentReconciler \<Rightarrow> HarnessGitopsAgent \<Rightarrow> string \<Rightarrow> (Result \<times> go_error option) M" where
  "refreshAgentHealth L r agentCR agentIdentifier = do {
     session \<leftarrow> SessionForAgent L (agentApiReader r) (ar_APIKeySecretNamespace r) agentCR;
     agentHealthResult L r agentCR session agentIdentifier
   }"

section \<open>Events\<close>

text \<open>What a health or waiting condition must not change: the registration of the Agent.\<close>

definition registration ::
  "HarnessGitopsAgentStatus \<Rightarrow> AgentCreationState \<times> string \<times> ResourceOwnership" where
  "registration st = (ast_CreationState st, ast_AgentIdentifier st, ast_AgentOwnership st)"

fun conditionWrite :: "HarnessGitopsAgent \<Rightarrow> event \<Rightarrow> bool" where
  "conditionWrite a (EvUpdateAgentStatus sent x) \<longleftrightarrow>
     a_Meta sent = a_Meta a \<and> a_Spec sent = a_Spec a \<and>
     registration (a_Status sent) = registration (a_Status a)"
| "conditionWrite a _ \<longleftrightarrow> False"

text \<open>The object \<open>setAgentCondition\<close> computes at a history.\<close>

definition withCondition ::
  "Library \<Rightarrow> history \<Rightarrow> HarnessGitopsAgent \<Rightarrow> Condition \<Rightarrow> HarnessGitopsAgent" where
  "withCondition L h a cond =
     a\<lparr>a_Status := (a_Status a)\<lparr>ast_Conditions :=
       lib_SetStatusCondition L (lib_Now L h) (ast_Conditions (a_Status a)) cond\<rparr>\<rparr>"

abbreviation newCondition :: "HarnessGitopsAgent \<Rightarrow> string \<Rightarrow> ConditionStatus \<Rightarrow> string \<Rightarrow> string \<Rightarrow> Condition" where
  "newCondition a ty st reason msg \<equiv>
     \<lparr>c_Type = ty, c_Status = st, c_ObservedGeneration = Generation (a_Meta a),
      c_LastTransitionTime = 0, c_Reason = reason, c_Message = msg\<rparr>"

lemma withCondition_fields [simp]:
  "a_Meta (withCondition L h a c) = a_Meta a" "a_Spec (withCondition L h a c) = a_Spec a"
  "registration (a_Status (withCondition L h a c)) = registration (a_Status a)"
  "ast_Conditions (a_Status (withCondition L h a c)) =
     lib_SetStatusCondition L (lib_Now L h) (ast_Conditions (a_Status a)) c"
  by (simp_all add: withCondition_def registration_def)

lemma updateAgentStatus_run:
  "emitted (updateAgentStatus r a) h = [EvUpdateAgentStatus a (cl_UpdateAgentStatus (ar_Client r) h a)]"
  "result (updateAgentStatus r a) h =
     (case cl_UpdateAgentStatus (ar_Client r) h a of Inl err \<Rightarrow> (Some err, a) | Inr st \<Rightarrow> (None, st))"
  "grows (updateAgentStatus r a)"
  by (simp_all add: updateAgentStatus_def UpdateAgentStatus_def emitted_bind result_bind)

lemma setAgentCondition_run:
  "emitted (setAgentCondition L r a ty st reason msg) h =
     (let sent = withCondition L h a (newCondition a ty st reason msg)
      in if a_Status a = a_Status sent then [] else emitted (updateAgentStatus r sent) h)"
  "result (setAgentCondition L r a ty st reason msg) h =
     (let sent = withCondition L h a (newCondition a ty st reason msg)
      in if a_Status a = a_Status sent then (None, sent) else result (updateAgentStatus r sent) h)"
  "grows (setAgentCondition L r a ty st reason msg)"
  by (simp_all add: setAgentCondition_def emitted_bind result_bind withCondition_def Let_def
      updateAgentStatus_run grows_cases)

lemma emits_setAgentCondition: "emits (conditionWrite a) (setAgentCondition L r a ty st reason msg)"
  by (auto simp: emits_def setAgentCondition_run updateAgentStatus_run Let_def split: if_splits)

lemma emits_waiting: "emits (conditionWrite a) (setAgentWaitingForMappings L r a names)"
  by (simp add: setAgentWaitingForMappings_def emits_setAgentCondition)

lemma emits_SessionForAgent: "emits isSecretRead (SessionForAgent L rd ns a)"
  by (simp add: SessionForAgent_def Let_def emits_SessionFromSecret)

lemmas grows_conditions [simp] = updateAgentStatus_run(3) setAgentCondition_run(3)
  emits_grows [OF emits_waiting] emits_grows [OF emits_SessionForAgent]

text \<open>Reads and condition writes: what the health refresh does, seen from the outside.\<close>

definition healthEvent :: "HarnessGitopsAgent \<Rightarrow> event \<Rightarrow> bool" where
  "healthEvent a e \<longleftrightarrow> isSecretRead e \<or> isAgentGet e \<or> conditionWrite a e"

context agent_api
begin

lemma emits_publish:
  assumes "harnessAgentAPI L r = api"
  shows "emits (healthEvent a) (publishAgentHealth L r a s i)"
  unfolding publishAgentHealth_def readHealth_def assms
  by (intro emits_intro emits_mono [OF readiness_calls] emits_mono [OF emits_setAgentCondition])
    (auto simp: healthEvent_def)

lemma emits_healthResult:
  assumes "harnessAgentAPI L r = api"
  shows "emits (healthEvent a) (agentHealthResult L r a s i)"
  unfolding agentHealthResult_def by (intro emits_intro emits_publish assms)

lemma emits_refresh:
  assumes "harnessAgentAPI L r = api"
  shows "emits (healthEvent a) (refreshAgentHealth L r a i)"
  unfolding refreshAgentHealth_def
  by (intro emits_intro emits_mono [OF emits_SessionForAgent] emits_healthResult assms)
    (simp add: healthEvent_def)

end

section \<open>Health\<close>

definition connectedHealthy :: "V1Agent \<Rightarrow> bool" where
  "connectedHealthy v \<longleftrightarrow>
     (\<exists>health component. va_Health v = Some health \<and> ah_ConnectionStatus health = Some CONNECTED \<and>
        ah_HarnessGitopsAgent health = Some component \<and> ch_Status component = Some HEALTHY)"

lemma readiness_ready: "rn_Ready (readinessFromAgent L v) \<longleftrightarrow> connectedHealthy v"
  by (auto simp: readinessFromAgent_def emptyReadiness_def connectedHealthy_def Let_def
      split: option.splits prod.splits)

text \<open>
  What the events before the condition write must show: the Agent read Connected and Healthy,
  read otherwise, or absent at every candidate; Unknown in every other case.
\<close>

definition healthJustified ::
  "Agent \<Rightarrow> history \<Rightarrow> ConditionStatus \<Rightarrow> string \<Rightarrow> bool" where
  "healthJustified a es status reason \<longleftrightarrow>
     (let read = agentRead (ag_AccountIdentifier a) (getAgentOpts a False) a;
          absent = agentAbsent (ag_AccountIdentifier a) (getAgentOpts a False) a
      in
      case status of
        ConditionTrue \<Rightarrow> reason = ''AgentHealthy'' \<and> (\<exists>v. read v es \<and> connectedHealthy v)
      | ConditionFalse \<Rightarrow>
          (reason = ''AgentAbsent'' \<and> absent es) \<or>
          (reason = ''AgentUnhealthy'' \<and> (\<exists>v. read v es \<and> \<not> connectedHealthy v))
      | ConditionUnknown \<Rightarrow>
          reason = ''HealthUnreadable'' \<and> \<not> absent es \<and> \<not> (\<exists>v. read v es))"

context agent_api
begin

lemma readHealth_justified:
  assumes api: "harnessAgentAPI L r = api"
    and cond: "healthCondition (result (readHealth L r a s i) h) i = (status, reason, message)"
  shows "healthJustified (harnessAgentFor a i) (emitted (readHealth L r a s i) h) status reason"
proof (cases "\<exists>s'. s = Inr s' \<and> TrimSpace i \<noteq> ''''")
  case False
  then have "emitted (readHealth L r a s i) h = []" "status = ConditionUnknown" "reason = ''HealthUnreadable''"
    using cond by (auto simp: readHealth_def healthCondition_def split: sum.splits)
  then show ?thesis by (simp add: healthJustified_def agentAbsent_def agentRead_def)
next
  case True
  then obtain s' where run: "readHealth L r a s i = api_Readiness api s' (harnessAgentFor a i)"
    and i: "TrimSpace i \<noteq> ''''"
    by (auto simp: readHealth_def api)
  show ?thesis
  proof (cases "result (readHealth L r a s i) h")
    case (Inl e)
    with cond readiness_error [OF Inl [unfolded run]] show ?thesis
      by (auto simp: healthCondition_def healthJustified_def run
          dest: agentAbsent_readable agentRead_readable)
  next
    case (Inr rd)
    show ?thesis
    proof (cases "rn_Exists rd")
      case False
      with cond Inr i readiness_absent [OF Inr [unfolded run] False] show ?thesis
        by (auto simp: healthCondition_def healthJustified_def run)
    next
      case True
      from readiness_found [OF Inr [unfolded run] True] cond Inr i True show ?thesis
        by (auto simp: healthCondition_def healthJustified_def run readiness_ready Let_def
            split: if_splits)
    qed
  qed
qed

lemma publish_run:
  assumes api: "harnessAgentAPI L r = api"
    and cond: "healthCondition (result (readHealth L r a s i) h) i = (status, reason, message)"
  shows "emitted (publishAgentHealth L r a s i) h = emitted (readHealth L r a s i) h @
      emitted (setAgentCondition L r a ''Healthy'' status reason message)
        (h @ emitted (readHealth L r a s i) h)"
    and "result (publishAgentHealth L r a s i) h =
      (case fst (result (setAgentCondition L r a ''Healthy'' status reason message)
          (h @ emitted (readHealth L r a s i) h)) of
         Some e \<Rightarrow> Inl e
       | None \<Rightarrow> Inr (if status = ConditionTrue then agentHealthResyncInterval r else agentHealthFastResync))"
proof -
  have "grows (readHealth L r a s i)"
    by (simp add: readHealth_def api split: sum.split)
  then show "emitted (publishAgentHealth L r a s i) h = emitted (readHealth L r a s i) h @
      emitted (setAgentCondition L r a ''Healthy'' status reason message)
        (h @ emitted (readHealth L r a s i) h)"
    and "result (publishAgentHealth L r a s i) h =
      (case fst (result (setAgentCondition L r a ''Healthy'' status reason message)
          (h @ emitted (readHealth L r a s i) h)) of
         Some e \<Rightarrow> Inl e
       | None \<Rightarrow> Inr (if status = ConditionTrue then agentHealthResyncInterval r else agentHealthFastResync))"
    using cond unfolding publishAgentHealth_def
    by (simp_all add: emitted_bind result_bind grows_cases split: prod.splits option.split)
qed

end

section \<open>Properties\<close>

text \<open>
  C33: the published health is what was observed. Whenever the health refresh writes the condition
  \<open>Healthy\<close>, the calls before it justify it: True only after the Agent was read Connected and
  Healthy; False with the reason \<open>AgentAbsent\<close> only after HTTP 404 from every identifier
  candidate, and otherwise only after the Agent was read and is not healthy; Unknown exactly
  when neither happened. The registration recorded in the status is left as it was.
\<close>

theorem agent_health_published_as_observed:
  assumes "ar_agentAPI r = None"
    and "emitted (publishAgentHealth L r a s i) h = pre @ EvUpdateAgentStatus sent x # post"
  shows "\<exists>status reason message.
    sent = withCondition L (h @ pre) a (newCondition a ''Healthy'' status reason message) \<and>
    healthJustified (harnessAgentFor a i) pre status reason \<and>
    registration (a_Status sent) = registration (a_Status a)"
proof -
  have api: "harnessAgentAPI L r = SDKAgentAPI L" using assms(1) by (simp add: harnessAgentAPI_def)
  obtain status reason message where
    cond: "healthCondition (result (readHealth L r a s i) h) i = (status, reason, message)"
    by (metis prod_cases3)
  let ?read = "emitted (readHealth L r a s i) h"
  let ?sent = "withCondition L (h @ ?read) a (newCondition a ''Healthy'' status reason message)"
  have reads: "emits isAgentGet (readHealth L r a s i)"
    unfolding readHealth_def api by (intro emits_intro agent_sdk.readiness_calls)
  have "EvUpdateAgentStatus sent x \<notin> set ?read" using emits_mem [OF reads] by fastforce
  with assms(2) have "pre = ?read \<and> sent = ?sent"
    unfolding agent_sdk.publish_run(1) [OF api cond] setAgentCondition_run updateAgentStatus_run Let_def
    by (auto split: if_splits dest: snoc_split)
  with agent_sdk.readHealth_justified [OF api cond] show ?thesis by auto
qed

text \<open>The sample Agent as Harness has it, and a reconciler over a Harness that returns it.\<close>

definition sampleV1Agent :: V1Agent where
  "sampleV1Agent =
     \<lparr>va_Name = ''agent'', va_Identifier = ''agent1'', va_PrefixedIdentifier = '''',
      va_AccountIdentifier = ''acc'', va_OrgIdentifier = ''org1'', va_ProjectIdentifier = '''',
      va_Operator = Some ''ARGO'', va_Scope = Some ''ORG'', va_Type = Some ''MANAGED_ARGO_PROVIDER'',
      va_Tags = [''hga_cr_uid'' \<mapsto> ''u-agent''], va_Credentials = Some ''pk'',
      va_Health = Some \<lparr>ah_ConnectionStatus = Some CONNECTED,
        ah_HarnessGitopsAgent = Some \<lparr>ch_Status = Some HEALTHY, ch_Message = ''ok''\<rparr>\<rparr>,
      va_Metadata = None\<rparr>"

definition presentAPI :: APIClient where
  "presentAPI = absentAPI\<lparr>
     sdk_GetAgent := (\<lambda>h key cand account opts. (sampleV1Agent, Some 200, None)),
     sdk_DeleteAgent := (\<lambda>h key cand opts. ((), Some 200, None))\<rparr>"

definition sampleAgentReconciler ::
  "HarnessGitopsAgent list \<Rightarrow> HarnessGitopsProjectMapping list \<Rightarrow> AgentReconciler" where
  "sampleAgentReconciler agents ms =
     \<lparr>ar_Client = sampleClient (sampleReader CachedClient agents ms),
      ar_APIReader = Some (sampleReader UncachedReader agents ms),
      ar_APIKeySecretNamespace = '''', ar_AgentHealthResyncInterval = 0, ar_agentAPI = None\<rparr>"

definition sampleSessionOf :: "APIClient \<Rightarrow> Session" where
  "sampleSessionOf api = \<lparr>s_client = api, s_apiKey = ''k1''\<rparr>"

lemma sample_agent_api [simp]:
  "ar_agentAPI (sampleAgentReconciler as ms) = None"
  "harnessAgentAPI L (sampleAgentReconciler as ms) = SDKAgentAPI L"
  by (simp_all add: sampleAgentReconciler_def harnessAgentAPI_def)

text \<open>One GET of the first candidate finds the sample Agent.\<close>

lemma sample_get:
  assumes "TrimSpace (ag_Identifier a) \<noteq> ''''"
  obtains c where "c \<in> set (agentCandidates a)"
    "\<And>op h account opts. emitted (getAgentLoop op (sampleSessionOf presentAPI) account opts (agentCandidates a)) h =
       [EvSdkGetAgent ''k1'' c account opts (sampleV1Agent, Some 200, None)]"
    "\<And>op h account opts. result (getAgentLoop op (sampleSessionOf presentAPI) account opts (agentCandidates a)) h =
       Inr (Some (c, sampleV1Agent))"
proof -
  obtain c cs where cs: "agentCandidates a = c # cs"
    using candidates_Nil_iff [of "ag_Scope a" "ag_Identifier a"] assms by (cases "agentCandidates a") auto
  have ans: "sdk_GetAgent (s_client (sampleSessionOf presentAPI)) h (s_apiKey (sampleSessionOf presentAPI))
      c account opts = (sampleV1Agent, Some 200, None)" for h account opts
    by (simp add: presentAPI_def sampleSessionOf_def)
  show ?thesis
    by (rule that [of c]) (simp_all add: cs getAgentLoop_round [OF ans], simp add: sampleSessionOf_def)
qed

theorem agent_health_published_as_observed_witness:
  "let a = sampleAgent\<lparr>a_Status := (a_Status sampleAgent)\<lparr>ast_Conditions := []\<rparr>\<rparr>;
       run = publishAgentHealth (sampleLibrary presentAPI) (sampleAgentReconciler [] []) a
         (Inr (sampleSessionOf presentAPI)) ''agent1''
   in \<exists>pre sent x status reason. emitted run [] = pre @ [EvUpdateAgentStatus sent x] \<and>
     healthJustified (harnessAgentFor a ''agent1'') pre status reason"
proof -
  let ?L = "sampleLibrary presentAPI" and ?r = "sampleAgentReconciler [] []"
  let ?a = "sampleAgent\<lparr>a_Status := (a_Status sampleAgent)\<lparr>ast_Conditions := []\<rparr>\<rparr>"
  let ?s = "Inr (sampleSessionOf presentAPI) :: go_error + Session" and ?i = "''agent1''"
  obtain status reason message where
    cond: "healthCondition (result (readHealth ?L ?r ?a ?s ?i) []) ?i = (status, reason, message)"
    by (metis prod_cases3)
  let ?read = "emitted (readHealth ?L ?r ?a ?s ?i) []"
  let ?sent = "withCondition ?L ?read ?a (newCondition ?a ''Healthy'' status reason message)"
  have "ast_Conditions (a_Status ?sent) \<noteq> []" by (simp add: sampleLibrary_def)
  then have "a_Status ?a \<noteq> a_Status ?sent" by (metis HarnessGitopsAgent.select_convs(3)
      HarnessGitopsAgent.surjective HarnessGitopsAgent.update_convs(3) HarnessGitopsAgentStatus.select_convs(4)
      HarnessGitopsAgentStatus.surjective HarnessGitopsAgentStatus.update_convs(4))
  then have "emitted (publishAgentHealth ?L ?r ?a ?s ?i) [] = ?read @ EvUpdateAgentStatus ?sent
      (cl_UpdateAgentStatus (ar_Client ?r) ?read ?sent) # []"
    unfolding agent_sdk.publish_run(1) [OF sample_agent_api(2) cond] setAgentCondition_run
      updateAgentStatus_run Let_def
    by simp
  from agent_health_published_as_observed [OF sample_agent_api(1) this] this show ?thesis
    unfolding Let_def by blast
qed

end
