(* ===== verification/Agent_Registration.thy ===== *)
theory Agent_Registration
  imports Agent_Conditions
begin

text \<open>
  \<open>internal/resource/agent/registration.go\<close>: registering an Agent. The intent is stored in the
  status before any create, the Agent is looked up before every create, and an Agent counts as
  this resource's only when it carries the tag with the resource's UID and the whole tuple.
\<close>

section \<open>Ownership\<close>

definition harnessAgentCRUIDTag :: string where
  "harnessAgentCRUIDTag = ''hga_cr_uid''"

definition agentRegistrationRetryInterval :: Duration where
  "agentRegistrationRetryInterval = Second"

definition agentTupleEqual :: "Agent \<Rightarrow> Agent \<Rightarrow> bool" where
  "agentTupleEqual expected observed \<longleftrightarrow>
     IdentifiersEquivalent (ag_Scope expected) (ag_Identifier observed) (ag_Identifier expected) \<and>
     TrimSpace (ag_Name observed) = TrimSpace (ag_Name expected) \<and>
     TrimSpace (ag_AccountIdentifier observed) = TrimSpace (ag_AccountIdentifier expected) \<and>
     TrimSpace (ag_OrgIdentifier observed) = TrimSpace (ag_OrgIdentifier expected) \<and>
     TrimSpace (ag_ProjectIdentifier observed) = TrimSpace (ag_ProjectIdentifier expected) \<and>
     TrimSpace (ag_Scope observed) = TrimSpace (ag_Scope expected) \<and>
     TrimSpace (ag_Type observed) = TrimSpace (ag_Type expected) \<and>
     TrimSpace (ag_Operator observed) = TrimSpace (ag_Operator expected)"

text \<open>A missing tag reads as the empty string.\<close>

definition agentOwnedByCR :: "HarnessGitopsAgent \<Rightarrow> Agent \<Rightarrow> Agent \<Rightarrow> bool" where
  "agentOwnedByCR agentCR expected observed =
     (let uid = TrimSpace (UID (a_Meta agentCR));
          tag = (case ag_Tags observed harnessAgentCRUIDTag of None \<Rightarrow> '''' | Some t \<Rightarrow> t)
      in
      if uid = '''' \<or> TrimSpace tag \<noteq> uid then False
      else agentTupleEqual expected observed)"

definition agentCreationIsUncertain :: "AgentCreationState \<Rightarrow> bool" where
  "agentCreationIsUncertain state \<longleftrightarrow>
     state = AgentCreationPending \<or> state = AgentCreationOutcomeUnknown"

definition agentRegistrationConflict :: "HarnessGitopsAgent \<Rightarrow> go_error" where
  "agentRegistrationConflict agentCR =
     ErrFmt (sentinelText ErrHarnessAgentAlreadyExists @ '': Harness Agent '' @
       fmt_q (TrimSpace (as_Identifier (a_Spec agentCR))) @
       '' does not match this CR's immutable tuple and '' @ harnessAgentCRUIDTag @
       '' tag; create a replacement HarnessGitopsAgent CR with spec.existingAgentIdentifier set'')
     [ErrNew ErrHarnessAgentAlreadyExists]"

definition lookupAgentOwnedByCR ::
  "Library \<Rightarrow> AgentReconciler \<Rightarrow> Session \<Rightarrow> HarnessGitopsAgent \<Rightarrow> (go_error + bool) M" where
  "lookupAgentOwnedByCR L r session agentCR = do {
     let expected = harnessAgentFor agentCR (as_Identifier (a_Spec agentCR));
     looked \<leftarrow> api_Lookup (harnessAgentAPI L r) session expected;
     ret (case looked of
            Inl err \<Rightarrow> Inl err
          | Inr lookup \<Rightarrow>
              Inr (lk_Exists lookup \<and> agentOwnedByCR agentCR expected (lk_Agent lookup)))
   }"

section \<open>Registration\<close>

record agentRegistrationOutcome =
  ro_identifier :: string
  ro_initialToken :: string
  ro_result :: Result
  ro_done :: bool

definition doneOutcome :: agentRegistrationOutcome where
  "doneOutcome =
     \<lparr>ro_identifier = '''', ro_initialToken = '''', ro_result = emptyResult, ro_done = True\<rparr>"

definition setAgentCreationState ::
  "AgentReconciler \<Rightarrow> HarnessGitopsAgent \<Rightarrow> AgentCreationState \<Rightarrow>
     (go_error option \<times> HarnessGitopsAgent) M" where
  "setAgentCreationState r agentCR state =
     (if ast_CreationState (a_Status agentCR) = state then ret (None, agentCR)
      else updateAgentStatus r
        (agentCR\<lparr>a_Status := (a_Status agentCR)\<lparr>ast_CreationState := state\<rparr>\<rparr>))"

definition taggedAgent :: "HarnessGitopsAgent \<Rightarrow> Agent" where
  "taggedAgent agentCR =
     (harnessAgentFor agentCR (as_Identifier (a_Spec agentCR)))
       \<lparr>ag_Tags := [harnessAgentCRUIDTag \<mapsto> TrimSpace (UID (a_Meta agentCR))]\<rparr>"

definition createHarnessAgent ::
  "Library \<Rightarrow> AgentReconciler \<Rightarrow> Session \<Rightarrow> HarnessGitopsAgent \<Rightarrow> string \<Rightarrow>
     (go_error + string \<times> string) M" where
  "createHarnessAgent L r session agentCR namespace =
     (if TrimSpace (UID (a_Meta agentCR)) = '''' then
        ret (Inl (ErrFmt (''cannot create Harness Agent '' @
          fmt_q (TrimSpace (as_Identifier (a_Spec agentCR))) @ '': Kubernetes resource UID is empty'') []))
      else do {
        let agent = taggedAgent agentCR;
        created \<leftarrow> api_CreateAgent (harnessAgentAPI L r) session
          \<lparr>cq_Agent = agent, cq_Namespace = namespace\<rparr>;
        (case created of
           Inl err \<Rightarrow>
             if errorsIs err ErrAgentAlreadyExists then
               ret (Inl (ErrFmt (sentinelText ErrHarnessAgentAlreadyExists @ '': '' @
                 fmt_q (TrimSpace (as_Identifier (a_Spec agentCR))) @
                 ''; create a replacement HarnessGitopsAgent CR with '' @
                 ''spec.existingAgentIdentifier set to reference the existing Agent'')
                 [ErrNew ErrHarnessAgentAlreadyExists]))
             else ret (Inl err)
         | Inr response \<Rightarrow>
             (let identifier = TrimSpace (cs_Identifier response) in
              if identifier \<noteq> TrimSpace (ag_Identifier agent) then
                ret (Inl (ErrFmt (sentinelText ErrAgentCreateOutcomeUnknown @
                  '': Harness returned Agent identifier '' @ fmt_q identifier @
                  '' for requested identifier '' @ fmt_q (ag_Identifier agent))
                  [ErrNew ErrAgentCreateOutcomeUnknown]))
              else ret (Inr (identifier, cs_InitialToken response))))
      })"

text \<open>The status of an Agent whose ownership is proven (lines 87 to 89 and 124 to 126).\<close>

definition recordManaged :: "HarnessGitopsAgent \<Rightarrow> string \<Rightarrow> HarnessGitopsAgent" where
  "recordManaged agentCR identifier =
     agentCR\<lparr>a_Status := (a_Status agentCR)
       \<lparr>ast_AgentIdentifier := identifier, ast_AgentOwnership := OwnershipManaged,
        ast_CreationState := AgentCreationUnset\<rparr>\<rparr>"

text \<open>Lines 72 to 94: the lookup found an Agent.\<close>

definition registerFound ::
  "AgentReconciler \<Rightarrow> HarnessGitopsAgent \<Rightarrow> Agent \<Rightarrow> Agent \<Rightarrow>
     (agentRegistrationOutcome \<times> go_error option \<times> HarnessGitopsAgent) M" where
  "registerFound r agentCR expected observed =
     (if \<not> agentOwnedByCR agentCR expected observed then do {
        (statusErr, agentCR') \<leftarrow> setAgentCreationState r agentCR AgentCreationOutcomeUnknown;
        ret (case statusErr of
               Some e \<Rightarrow> (doneOutcome,
                 errorsJoin (Some (agentRegistrationConflict agentCR')) (Some e), agentCR')
             | None \<Rightarrow> (doneOutcome, Some (agentRegistrationConflict agentCR'), agentCR'))
      }
      else do {
        (err, agentCR) \<leftarrow> updateAgentStatus r
          (recordManaged agentCR (TrimSpace (ag_Identifier observed)));
        ret (case err of
               Some e \<Rightarrow> (doneOutcome, Some e, agentCR)
             | None \<Rightarrow>
                 (doneOutcome\<lparr>ro_done := False, ro_identifier := ast_AgentIdentifier (a_Status agentCR)\<rparr>,
                  None, agentCR))
      })"

text \<open>Lines 96 to 136: every candidate was absent, so the Agent is created.\<close>

definition registerAbsent ::
  "Library \<Rightarrow> AgentReconciler \<Rightarrow> Session \<Rightarrow> HarnessGitopsAgent \<Rightarrow> string \<Rightarrow>
     (agentRegistrationOutcome \<times> go_error option \<times> HarnessGitopsAgent) M" where
  "registerAbsent L r session agentCR namespace = do {
     created \<leftarrow> createHarnessAgent L r session agentCR namespace;
     (case created of
        Inl err \<Rightarrow>
          if errorsIs err ErrHarnessAgentAlreadyExists \<or> errorsIs err ErrAgentCreateOutcomeUnknown then do {
            (statusErr, agentCR) \<leftarrow> setAgentCreationState r agentCR AgentCreationOutcomeUnknown;
            ret (case statusErr of
                   Some e \<Rightarrow> (doneOutcome, errorsJoin (Some err) (Some e), agentCR)
                 | None \<Rightarrow>
                     (doneOutcome\<lparr>ro_result := requeueAfter agentRegistrationRetryInterval\<rparr>, None, agentCR))
          }
          else do {
            (statusErr, agentCR) \<leftarrow> setAgentCreationState r agentCR AgentCreationUnset;
            ret (case statusErr of
                   Some e \<Rightarrow> (doneOutcome, errorsJoin (Some err) (Some e), agentCR)
                 | None \<Rightarrow> (doneOutcome, Some err, agentCR))
          }
      | Inr (identifier, initialToken) \<Rightarrow> do {
          (err, agentCR) \<leftarrow> updateAgentStatus r (recordManaged agentCR identifier);
          ret (case err of
                 Some e \<Rightarrow> (doneOutcome, Some e, agentCR)
               | None \<Rightarrow>
                   (doneOutcome\<lparr>ro_done := False, ro_identifier := identifier,
                      ro_initialToken := initialToken\<rparr>, None, agentCR))
        })
   }"

text \<open>Lines 67 to 71.\<close>

definition registerIntended ::
  "Library \<Rightarrow> AgentReconciler \<Rightarrow> Session \<Rightarrow> HarnessGitopsAgent \<Rightarrow> string \<Rightarrow>
     (agentRegistrationOutcome \<times> go_error option \<times> HarnessGitopsAgent) M" where
  "registerIntended L r session agentCR namespace = do {
     let expected = harnessAgentFor agentCR (as_Identifier (a_Spec agentCR));
     looked \<leftarrow> api_Lookup (harnessAgentAPI L r) session expected;
     (case looked of
        Inl err \<Rightarrow> ret (doneOutcome, Some err, agentCR)
      | Inr lookup \<Rightarrow>
          if lk_Exists lookup then registerFound r agentCR expected (lk_Agent lookup)
          else registerAbsent L r session agentCR namespace)
   }"

definition reconcileAgentRegistration ::
  "Library \<Rightarrow> AgentReconciler \<Rightarrow> Session \<Rightarrow> HarnessGitopsAgent \<Rightarrow> string \<Rightarrow>
     (agentRegistrationOutcome \<times> go_error option \<times> HarnessGitopsAgent) M" where
  "reconcileAgentRegistration L r session agentCR namespace =
     (if TrimSpace (UID (a_Meta agentCR)) = '''' then
        ret (doneOutcome, Some (ErrFmt (''cannot register Harness Agent for '' @
          Namespace (a_Meta agentCR) @ ''/'' @ Name (a_Meta agentCR) @
          '': Kubernetes resource UID is empty'') []), agentCR)
      else
        (case ast_CreationState (a_Status agentCR) of
           AgentCreationUnset \<Rightarrow> do {
             (err, agentCR) \<leftarrow> setAgentCreationState r agentCR AgentCreationPending;
             (case err of
                Some e \<Rightarrow> ret (doneOutcome, Some e, agentCR)
              | None \<Rightarrow> registerIntended L r session agentCR namespace)
           }
         | AgentCreationPending \<Rightarrow> registerIntended L r session agentCR namespace
         | AgentCreationOutcomeUnknown \<Rightarrow> registerIntended L r session agentCR namespace
         | AgentCreationOther state \<Rightarrow>
             ret (doneOutcome, Some (ErrFmt (''unsupported Agent creation state '' @ fmt_q state) []),
               agentCR)))"

section \<open>Guards of the registration\<close>

text \<open>The objects a pass that started with \<open>a\<close> has worked with: \<open>a\<close> itself and what the server
  returned for its status writes.\<close>

definition seenFrom :: "HarnessGitopsAgent \<Rightarrow> history \<Rightarrow> HarnessGitopsAgent \<Rightarrow> bool" where
  "seenFrom a es a' \<longleftrightarrow> a' = a \<or> (\<exists>sent. EvUpdateAgentStatus sent (Inr a') \<in> set es)"

lemma seenFrom_self [simp]: "seenFrom a es a"
  by (simp add: seenFrom_def)

lemma seenFrom_append: "seenFrom a es a' \<Longrightarrow> seenFrom a (es @ fs) a'"
  by (auto simp: seenFrom_def)

abbreviation expectedAgent :: "HarnessGitopsAgent \<Rightarrow> Agent" where
  "expectedAgent a \<equiv> harnessAgentFor a (as_Identifier (a_Spec a))"

text \<open>
  A durable intent: the creation state was already uncertain, or the server stored Pending as
  the only event so far.
\<close>

definition durableIntent :: "HarnessGitopsAgent \<Rightarrow> HarnessGitopsAgent \<Rightarrow> history \<Rightarrow> bool" where
  "durableIntent a a' intent \<longleftrightarrow>
     (agentCreationIsUncertain (ast_CreationState (a_Status a)) \<and> a' = a \<and> intent = []) \<or>
     (ast_CreationState (a_Status a) = AgentCreationUnset \<and>
      intent = [EvUpdateAgentStatus
        (a\<lparr>a_Status := (a_Status a)\<lparr>ast_CreationState := AgentCreationPending\<rparr>\<rparr>) (Inr a')])"

definition agentCreateJustified ::
  "HarnessGitopsAgent \<Rightarrow> string \<Rightarrow> history \<Rightarrow> history \<Rightarrow> event \<Rightarrow> bool" where
  "agentCreateJustified a ns h pre e \<longleftrightarrow>
     (\<exists>a' intent looked key x.
        durableIntent a a' intent \<and> pre = h @ intent @ looked \<and>
        agentAbsent (lookupAccount (expectedAgent a')) (getAgentOpts (expectedAgent a') False)
          (expectedAgent a') looked \<and>
        TrimSpace (UID (a_Meta a')) \<noteq> '''' \<and>
        e = EvSdkCreateAgent key (createAgentBody \<lparr>cq_Agent = taggedAgent a', cq_Namespace = ns\<rparr>) x)"

text \<open>Ownership proven by a lookup of the tagged Agent, or by an accepted create of it.\<close>

definition lookupProof :: "HarnessGitopsAgent \<Rightarrow> history \<Rightarrow> HarnessGitopsAgent \<Rightarrow> bool" where
  "lookupProof a es sent \<longleftrightarrow>
     (\<exists>es0 looked v. es = es0 @ looked \<and>
        agentRead (lookupAccount (expectedAgent a)) (getAgentOpts (expectedAgent a) False)
          (expectedAgent a) v looked \<and>
        agentOwnedByCR a (expectedAgent a) (agentFromSDK v) \<and>
        sent = recordManaged a (TrimSpace (va_Identifier v)))"

definition createProof :: "HarnessGitopsAgent \<Rightarrow> history \<Rightarrow> HarnessGitopsAgent \<Rightarrow> bool" where
  "createProof a es sent \<longleftrightarrow>
     (\<exists>es0 key ns v http.
        es = es0 @ [EvSdkCreateAgent key
          (createAgentBody \<lparr>cq_Agent = taggedAgent a, cq_Namespace = ns\<rparr>) (v, http, None)] \<and>
        TrimSpace (va_Identifier v) = TrimSpace (as_Identifier (a_Spec a)) \<and>
        TrimSpace (va_Identifier v) \<noteq> '''' \<and>
        sent = recordManaged a (TrimSpace (va_Identifier v)))"

text \<open>A status write keeps the ownership of an object of this pass, or its ownership is proven.\<close>

definition ownershipSettled ::
  "HarnessGitopsAgent \<Rightarrow> history \<Rightarrow> history \<Rightarrow> HarnessGitopsAgent \<Rightarrow> bool" where
  "ownershipSettled a h pre sent \<longleftrightarrow>
     (\<exists>es a'. pre = h @ es \<and> seenFrom a es a' \<and>
        (ast_AgentOwnership (a_Status sent) = ast_AgentOwnership (a_Status a') \<or>
         lookupProof a' es sent \<or> createProof a' es sent))"

definition registrationGuard ::
  "HarnessGitopsAgent \<Rightarrow> string \<Rightarrow> history \<Rightarrow> history \<Rightarrow> event \<Rightarrow> bool" where
  "registrationGuard a ns h pre e \<longleftrightarrow>
     (isAgentCreate e \<longrightarrow> agentCreateJustified a ns h pre e) \<and>
     (\<forall>sent x. e = EvUpdateAgentStatus sent x \<longrightarrow> ownershipSettled a h pre sent) \<and>
     \<not> isAgentDelete e \<and> \<not> isRegenerate e \<and> \<not> (\<exists>sent x. e = EvUpdateAgent sent x)"

lemma registrationGuard_get: "isAgentGet e \<Longrightarrow> registrationGuard a ns h pre e"
  by (cases e) (simp_all add: registrationGuard_def)

lemma guarded_update:
  "(\<And>x. G h (EvUpdateAgentStatus sent x)) \<Longrightarrow> guarded G (updateAgentStatus r sent) h"
  by (simp add: updateAgentStatus_def UpdateAgentStatus_def guarded_bind guarded_call guarded_ret)

lemma registrationGuard_kept:
  assumes "seenFrom a es a'" and "ast_AgentOwnership (a_Status sent) = ast_AgentOwnership (a_Status a')"
  shows "guarded (registrationGuard a ns h) (updateAgentStatus r sent) (h @ es)"
  by (rule guarded_update) (use assms in \<open>auto simp: registrationGuard_def ownershipSettled_def\<close>)

lemma registrationGuard_state:
  "seenFrom a es a' \<Longrightarrow> guarded (registrationGuard a ns h) (setAgentCreationState r a' st) (h @ es)"
  by (auto simp: setAgentCreationState_def intro!: guarded_ret registrationGuard_kept)

lemma registrationGuard_proven:
  assumes "seenFrom a es a'" and "lookupProof a' es sent \<or> createProof a' es sent"
  shows "guarded (registrationGuard a ns h) (updateAgentStatus r sent) (h @ es)"
  by (rule guarded_update) (use assms in \<open>auto simp: registrationGuard_def ownershipSettled_def\<close>)

lemma updateAgentStatus_seen:
  "result (updateAgentStatus r x) h = (None, a') \<Longrightarrow>
     emitted (updateAgentStatus r x) h = [EvUpdateAgentStatus x (Inr a')]"
  by (auto simp: updateAgentStatus_run split: sum.splits)

lemma grows_setAgentCreationState [simp]: "grows (setAgentCreationState r a st)"
  by (simp add: setAgentCreationState_def)

context agent_api
begin

lemma create_result:
  assumes api: "harnessAgentAPI L r = api"
    and res: "result (createHarnessAgent L r s a ns) h = Inr (i, t)"
  shows "\<exists>key v http. emitted (createHarnessAgent L r s a ns) h =
      [EvSdkCreateAgent key (createAgentBody \<lparr>cq_Agent = taggedAgent a, cq_Namespace = ns\<rparr>) (v, http, None)] \<and>
    i = TrimSpace (va_Identifier v) \<and> i = TrimSpace (as_Identifier (a_Spec a)) \<and> i \<noteq> ''''"
proof -
  let ?q = "\<lparr>cq_Agent = taggedAgent a, cq_Namespace = ns\<rparr>"
  from res api obtain c where c: "result (api_CreateAgent api s ?q) h = Inr c"
    and i: "i = TrimSpace (cs_Identifier c)" "i = TrimSpace (ag_Identifier (taggedAgent a))"
    and uid: "TrimSpace (UID (a_Meta a)) \<noteq> ''''"
    by (auto simp: createHarnessAgent_def result_bind Let_def split: if_splits sum.splits)
  with create_accepted [OF c] api show ?thesis
    by (auto simp: createHarnessAgent_def emitted_bind Let_def taggedAgent_def harnessAgentFor_def
        split: sum.split)
qed

lemma grows_createHarnessAgent:
  "harnessAgentAPI L r = api \<Longrightarrow> grows (createHarnessAgent L r s a ns)"
  by (auto simp: createHarnessAgent_def grows_cases Let_def)

lemma create_guarded:
  assumes api: "harnessAgentAPI L r = api" and intent: "durableIntent a a' intent"
    and absent: "agentAbsent (lookupAccount (expectedAgent a')) (getAgentOpts (expectedAgent a') False)
      (expectedAgent a') looked"
  shows "guarded (registrationGuard a ns h) (createHarnessAgent L r s a' ns) (h @ intent @ looked)"
proof -
  let ?q = "\<lparr>cq_Agent = taggedAgent a', cq_Namespace = ns\<rparr>"
  have post: "guarded (registrationGuard a ns h) (api_CreateAgent api s ?q) (h @ intent @ looked)"
    if uid: "TrimSpace (UID (a_Meta a')) \<noteq> ''''"
  proof (rule guarded_one [OF create_grows])
    show "registrationGuard a ns h (h @ intent @ looked) e"
      if "emitted (api_CreateAgent api s ?q) (h @ intent @ looked) = [e]" for e
    proof -
      from create_one [of s ?q "h @ intent @ looked"] that
      obtain x where e: "e = EvSdkCreateAgent (s_apiKey s) (createAgentBody ?q) x" by auto
      with intent absent uid have "agentCreateJustified a ns h (h @ intent @ looked) e"
        unfolding agentCreateJustified_def by blast
      with e show ?thesis by (simp add: registrationGuard_def)
    qed
    show "\<exists>e. emitted (api_CreateAgent api s ?q) (h @ intent @ looked) = [e]"
      using create_one by blast
  qed
  show ?thesis
    unfolding createHarnessAgent_def api
    by (auto intro!: guarded_bind guarded_ret post simp: Let_def split: sum.split)
qed

lemma registerAbsent_guarded:
  assumes api: "harnessAgentAPI L r = api" and intent: "durableIntent a a' intent"
    and absent: "agentAbsent (lookupAccount (expectedAgent a')) (getAgentOpts (expectedAgent a') False)
      (expectedAgent a') looked"
  shows "guarded (registrationGuard a ns h) (registerAbsent L r s a' ns) (h @ intent @ looked)"
proof -
  let ?c = "createHarnessAgent L r s a' ns" and ?h = "h @ intent @ looked"
  let ?es = "intent @ looked @ emitted ?c ?h"
  have seen: "seenFrom a ?es a'"
    using intent by (auto simp: durableIntent_def seenFrom_def)
  have proven: "guarded (registrationGuard a ns h) (updateAgentStatus r (recordManaged a' i)) (h @ ?es)"
    if "result ?c ?h = Inr (i, t)" for i t
  proof (rule registrationGuard_proven [OF seen])
    from create_result [OF api that] show "lookupProof a' ?es (recordManaged a' i) \<or>
        createProof a' ?es (recordManaged a' i)"
      unfolding createProof_def by (metis append.assoc)
  qed
  show ?thesis
    unfolding registerAbsent_def
    by (auto intro!: guarded_bind guarded_ret create_guarded [OF api intent absent]
        registrationGuard_state [OF seen, simplified] proven [simplified]
        split: sum.split prod.split)
qed

lemma registerFound_guarded:
  assumes seen: "seenFrom a es a'"
    and read: "agentRead (lookupAccount (expectedAgent a')) (getAgentOpts (expectedAgent a') False)
      (expectedAgent a') v looked"
    and es: "es = es0 @ looked"
  shows "guarded (registrationGuard a ns h)
    (registerFound r a' (expectedAgent a') (agentFromSDK v)) (h @ es)"
proof -
  have "guarded (registrationGuard a ns h)
      (updateAgentStatus r (recordManaged a' (TrimSpace (ag_Identifier (agentFromSDK v))))) (h @ es)"
    if "agentOwnedByCR a' (expectedAgent a') (agentFromSDK v)"
    by (rule registrationGuard_proven [OF seen])
      (use that read es in \<open>auto simp: lookupProof_def agentFromSDK_def\<close>)
  then show ?thesis
    unfolding registerFound_def
    by (auto intro!: guarded_bind guarded_ret registrationGuard_state [OF seen] split: prod.split)
qed

lemma registerIntended_guarded:
  assumes api: "harnessAgentAPI L r = api" and intent: "durableIntent a a' intent"
  shows "guarded (registrationGuard a ns h) (registerIntended L r s a' ns) (h @ intent)"
proof -
  let ?l = "api_Lookup api s (expectedAgent a')" and ?h = "h @ intent"
  have seen: "seenFrom a (intent @ es) a'" for es
    using intent by (auto simp: durableIntent_def seenFrom_def)
  have look: "guarded (registrationGuard a ns h) ?l ?h"
    by (rule guarded_emits [OF lookup_calls]) (rule registrationGuard_get)
  have found: "guarded (registrationGuard a ns h) (registerFound r a' (expectedAgent a') (lk_Agent lk))
      (?h @ emitted ?l ?h)" if "result ?l ?h = Inr lk" "lk_Exists lk" for lk
  proof -
    from lookup_found [OF that] obtain v where "lk_Agent lk = agentFromSDK v"
      "agentRead (lookupAccount (expectedAgent a')) (getAgentOpts (expectedAgent a') False)
        (expectedAgent a') v (emitted ?l ?h)" by blast
    with registerFound_guarded [OF seen this(2) refl] show ?thesis by simp
  qed
  have absent: "guarded (registrationGuard a ns h) (registerAbsent L r s a' ns) (?h @ emitted ?l ?h)"
    if "result ?l ?h = Inr lk" "\<not> lk_Exists lk" for lk
    using registerAbsent_guarded [OF api intent lookup_absent [OF that]] by simp
  show ?thesis
    unfolding registerIntended_def api
    by (auto intro!: guarded_bind guarded_ret look found [simplified] absent [simplified]
        simp: Let_def split: sum.split)
qed

lemma registration_guarded:
  assumes api: "harnessAgentAPI L r = api"
  shows "guarded (registrationGuard a ns h) (reconcileAgentRegistration L r s a ns) h"
proof -
  let ?set = "setAgentCreationState r a AgentCreationPending"
  have state: "guarded (registrationGuard a ns h) ?set h"
    using registrationGuard_state [of a "[]" a ns h r] by simp
  have go: "guarded (registrationGuard a ns h) (registerIntended L r s a' ns) (h @ emitted ?set h)"
    if "ast_CreationState (a_Status a) = AgentCreationUnset" "result ?set h = (None, a')" for a'
    by (rule registerIntended_guarded [OF api])
      (use that in \<open>auto simp: setAgentCreationState_def durableIntent_def dest: updateAgentStatus_seen\<close>)
  have uncertain: "guarded (registrationGuard a ns h) (registerIntended L r s a ns) h"
    if "agentCreationIsUncertain (ast_CreationState (a_Status a))"
    using registerIntended_guarded [OF api, of a a "[]"] that by (simp add: durableIntent_def)
  show ?thesis
    unfolding reconcileAgentRegistration_def
    by (auto intro!: guarded_bind guarded_ret state go uncertain simp: agentCreationIsUncertain_def
        split: prod.split option.split AgentCreationState.split)
qed

lemma grows_registration:
  "harnessAgentAPI L r = api \<Longrightarrow> grows (reconcileAgentRegistration L r s a ns)"
  unfolding reconcileAgentRegistration_def registerIntended_def registerFound_def registerAbsent_def Let_def
  by (auto simp: grows_cases grows_createHarnessAgent split: AgentCreationState.split)

end

text \<open>A registration that goes on has stored Managed ownership, in the object it goes on with.\<close>

definition managedStored :: "history \<Rightarrow> HarnessGitopsAgent \<Rightarrow> bool" where
  "managedStored es a \<longleftrightarrow>
     (\<exists>sent. EvUpdateAgentStatus sent (Inr a) \<in> set es \<and>
        ast_AgentOwnership (a_Status sent) = OwnershipManaged)"

lemma recordManaged_ownership [simp]: "ast_AgentOwnership (a_Status (recordManaged a i)) = OwnershipManaged"
  by (simp add: recordManaged_def)

lemma managedStored_update:
  "result (updateAgentStatus r (recordManaged a i)) h = (None, a') \<Longrightarrow>
     managedStored (emitted (updateAgentStatus r (recordManaged a i)) h) a'"
  by (auto simp: managedStored_def dest!: updateAgentStatus_seen intro!: exI [of _ "recordManaged a i"])

lemma managedStored_append: "managedStored fs a \<Longrightarrow> managedStored (es @ fs) a"
  by (auto simp: managedStored_def)

lemma registerFound_result:
  "result (registerFound r a ex ob) h = (o', None, a') \<Longrightarrow>
     managedStored (emitted (registerFound r a ex ob) h) a'"
  by (auto simp: registerFound_def result_bind emitted_bind grows_cases dest!: managedStored_update
      split: if_splits prod.splits option.splits)

context agent_api
begin

lemma registerAbsent_result:
  assumes api: "harnessAgentAPI L r = api"
    and "result (registerAbsent L r s a ns) h = (o', None, a')" and "\<not> ro_done o'"
  shows "managedStored (emitted (registerAbsent L r s a ns) h) a'"
  using assms(2,3) grows_createHarnessAgent [OF api, of s a ns]
  by (auto simp: registerAbsent_def result_bind emitted_bind grows_cases doneOutcome_def
      intro!: managedStored_append managedStored_update
      split: if_splits prod.splits option.splits sum.splits)

lemma grows_registerParts:
  assumes "harnessAgentAPI L r = api"
  shows "grows (registerAbsent L r s a ns)" "grows (registerFound r a ex ob)"
    "grows (registerIntended L r s a ns)"
  using assms unfolding registerIntended_def registerFound_def registerAbsent_def Let_def
  by (auto simp: grows_cases grows_createHarnessAgent)

lemma registerIntended_result:
  assumes api: "harnessAgentAPI L r = api"
    and "result (registerIntended L r s a ns) h = (o', None, a')" and "\<not> ro_done o'"
  shows "managedStored (emitted (registerIntended L r s a ns) h) a'"
  using assms(2,3) api grows_registerParts [OF api]
  by (auto simp: registerIntended_def result_bind emitted_bind grows_cases Let_def
      intro!: managedStored_append registerFound_result registerAbsent_result
      split: if_splits sum.splits)

lemma registration_result:
  assumes api: "harnessAgentAPI L r = api"
    and "result (reconcileAgentRegistration L r s a ns) h = (o', None, a')" and "\<not> ro_done o'"
  shows "managedStored (emitted (reconcileAgentRegistration L r s a ns) h) a'"
  using assms(2,3) api grows_registerParts [OF api]
  by (auto simp: reconcileAgentRegistration_def result_bind emitted_bind grows_cases
      intro!: managedStored_append registerIntended_result
      split: if_splits option.splits prod.splits AgentCreationState.splits)

end

section \<open>Properties\<close>

text \<open>What ownership by tag and tuple means for the values Harness returned.\<close>

lemma agentOwnedByCR_iff:
  "agentOwnedByCR a (expectedAgent a) (agentFromSDK v) \<longleftrightarrow>
     TrimSpace (UID (a_Meta a)) \<noteq> '''' \<and>
     (\<exists>tag. va_Tags v harnessAgentCRUIDTag = Some tag \<and> TrimSpace tag = TrimSpace (UID (a_Meta a))) \<and>
     IdentifiersEquivalent (TrimSpace (as_Scope (a_Spec a))) (va_Identifier v) (as_Identifier (a_Spec a)) \<and>
     TrimSpace (va_Name v) = TrimSpace (as_Name (a_Spec a)) \<and>
     TrimSpace (va_AccountIdentifier v) = TrimSpace (as_AccountId (a_Spec a)) \<and>
     TrimSpace (va_OrgIdentifier v) = OrgIdentifierForScope (as_Scope (a_Spec a)) (as_OrgId (a_Spec a)) \<and>
     TrimSpace (va_ProjectIdentifier v) =
       ProjectIdentifierForScope (as_Scope (a_Spec a)) (as_ProjectId (a_Spec a)) \<and>
     trimmedOr (va_Scope v) = TrimSpace (as_Scope (a_Spec a)) \<and>
     trimmedOr (va_Type v) = TrimSpace (as_Type (a_Spec a)) \<and>
     trimmedOr (va_Operator v) = TrimSpace (as_Operator (a_Spec a))"
  by (auto simp: agentOwnedByCR_def agentTupleEqual_def agentFromSDK_def harnessAgentFor_def Let_def
      cloneTags_def trimmedOr_def OrgIdentifierForScope_def ProjectIdentifierForScope_def
      IdentifiersEquivalent_def split: option.splits)

text \<open>
  C31: a lost create is recovered by its tag. The Agent that a create sends for a resource, when
  Harness returns it unchanged, is recognised by the ownership check as this resource's, and by
  no resource with another UID, whatever its spec.
\<close>

theorem created_agent_recognised:
  assumes "TrimSpace (UID (a_Meta a)) \<noteq> ''''" and "TrimSpace (as_Identifier (a_Spec a)) \<noteq> ''''"
  shows "let stored = createAgentBody \<lparr>cq_Agent = taggedAgent a, cq_Namespace = ns\<rparr> in
    agentOwnedByCR a (expectedAgent a) (agentFromSDK stored) \<and>
    (\<forall>b. agentOwnedByCR b (expectedAgent b) (agentFromSDK stored) \<longrightarrow>
       TrimSpace (UID (a_Meta b)) = TrimSpace (UID (a_Meta a)))"
proof -
  have "IdentifiersEquivalent (TrimSpace (as_Scope (a_Spec a))) (TrimSpace (as_Identifier (a_Spec a)))
      (as_Identifier (a_Spec a))"
    using assms(2) by (simp add: IdentifiersEquivalent_def)
  with assms show ?thesis
    unfolding Let_def agentOwnedByCR_iff
    by (auto simp: createAgentBody_def taggedAgent_def harnessAgentFor_def trimmedOr_def cloneTags_def
        OrgIdentifierForScope_def ProjectIdentifierForScope_def Let_def)
qed

theorem created_agent_recognised_witness:
  "agentOwnedByCR sampleAgent (expectedAgent sampleAgent)
     (agentFromSDK (createAgentBody \<lparr>cq_Agent = taggedAgent sampleAgent, cq_Namespace = ''ns''\<rparr>))"
  using created_agent_recognised [of sampleAgent "''ns''"]
  by (simp add: Let_def sampleAgent_def sampleMeta_def)

end
