(* ===== verification/Agent_Finalizer.thy ===== *)
theory Agent_Finalizer
  imports Agent_Registration Go_Sort
begin

text \<open>
  \<open>internal/resource/agent/finalizer.go\<close>: deleting an Agent. The Mappings that reference it are
  deleted first and awaited through the uncached reader; the remote Agent is deleted only when
  it is verified to be this resource's; then the finalizer is removed.
\<close>

section \<open>Mapping dependencies\<close>

definition harnessAgentFinalizer :: string where
  "harnessAgentFinalizer = ''infrastructure.harness.io/finalizer''"

definition agentMappingDependencyRetryInterval :: Duration where
  "agentMappingDependencyRetryInterval = 10 * Second"

definition referencesAgent :: "HarnessGitopsAgent \<Rightarrow> HarnessGitopsProjectMapping \<Rightarrow> bool" where
  "referencesAgent agent mapping \<longleftrightarrow>
     TrimSpace (ref_Name (ms_AgentRef (m_Spec mapping))) = Name (a_Meta agent)"

definition mappingNameLess :: "HarnessGitopsProjectMapping \<Rightarrow> HarnessGitopsProjectMapping \<Rightarrow> bool" where
  "mappingNameLess x y \<longleftrightarrow> Name (m_Meta x) < Name (m_Meta y)"

interpretation mapping_name_order: keyed_order mappingNameLess "\<lambda>m. Name (m_Meta m)"
  by unfold_locales (simp add: mappingNameLess_def)

text \<open>The loop over the references (lines 170 to 181): delete those not yet deleting, and join the
  errors.\<close>

definition mappingDeleteError :: "HarnessGitopsProjectMapping \<Rightarrow> go_error \<Rightarrow> go_error" where
  "mappingDeleteError mapping err =
     ErrFmt (''delete Mapping '' @ Namespace (m_Meta mapping) @ ''/'' @ Name (m_Meta mapping) @
       '': '' @ Error err) [err]"

fun deleteReferences ::
  "Client \<Rightarrow> HarnessGitopsProjectMapping list \<Rightarrow> go_error option \<Rightarrow> go_error option M" where
  "deleteReferences cl [] deleteErr = ret deleteErr"
| "deleteReferences cl (mapping # mappings) deleteErr =
     (if \<not> timeIsZero (DeletionTimestamp (m_Meta mapping)) then deleteReferences cl mappings deleteErr
      else do {
        err \<leftarrow> DeleteMappingCR cl mapping;
        (case err of
           None \<Rightarrow> deleteReferences cl mappings deleteErr
         | Some e \<Rightarrow>
             deleteReferences cl mappings (errorsJoin deleteErr (Some (mappingDeleteError mapping e))))
      })"

definition reconcileMappingDependenciesForDeletion ::
  "Library \<Rightarrow> AgentReconciler \<Rightarrow> HarnessGitopsAgent \<Rightarrow> (Result \<times> bool \<times> go_error option) M" where
  "reconcileMappingDependenciesForDeletion L r agent =
     (case ar_APIReader r of
        None \<Rightarrow>
          ret (emptyResult, True, Some (ErrFmt (''cannot verify Mapping dependencies for Agent '' @
            Namespace (a_Meta agent) @ ''/'' @ Name (a_Meta agent) @
            '': APIReader is not configured'') []))
      | Some reader \<Rightarrow> do {
          listed \<leftarrow> ListMappings reader (Some (Namespace (a_Meta agent)));
          (case listed of
             Inl err \<Rightarrow>
               ret (emptyResult, True, Some (ErrFmt (''list Mapping dependencies for Agent '' @
                 Namespace (a_Meta agent) @ ''/'' @ Name (a_Meta agent) @ '': '' @ Error err) [err]))
           | Inr mappings \<Rightarrow>
               (let references = filter (referencesAgent agent) mappings in
                if length references = 0 then ret (emptyResult, False, None)
                else do {
                  let references = sortSlice mappingNameLess references;
                  let names = map (\<lambda>m. Name (m_Meta m)) references;
                  deleteErr \<leftarrow> deleteReferences (ar_Client r) references None;
                  (statusErr, agent) \<leftarrow> setAgentWaitingForMappings L r agent names;
                  ret (requeueAfter agentMappingDependencyRetryInterval, True,
                    errorsJoin deleteErr statusErr)
                }))
        })"

section \<open>Deletion\<close>

text \<open>Lines 49 to 70: the session and whether the remote Agent is this resource's to delete.\<close>

definition authorizeDeletion ::
  "Library \<Rightarrow> AgentReconciler \<Rightarrow> HarnessGitopsAgent \<Rightarrow> (go_error + Session option \<times> bool) M" where
  "authorizeDeletion L r agentCR =
     (let verifyOwnership =
        (ast_AgentOwnership (a_Status agentCR) = OwnershipManaged \<or>
         agentCreationIsUncertain (ast_CreationState (a_Status agentCR)))
      in
      if verifyOwnership then do {
        opened \<leftarrow> SessionForAgent L (agentApiReader r) (ar_APIKeySecretNamespace r) agentCR;
        (case opened of
           Inl err \<Rightarrow> ret (Inl err)
         | Inr session \<Rightarrow> do {
             owned \<leftarrow> lookupAgentOwnedByCR L r session agentCR;
             ret (case owned of Inl err \<Rightarrow> Inl err | Inr authorized \<Rightarrow> Inr (Some session, authorized))
           })
      }
      else ret (Inr (None, False)))"

text \<open>Lines 98 to 126: the delete, and the removal of the finalizer when the Agent is gone.\<close>

definition deleteRemoteAgent ::
  "Library \<Rightarrow> AgentReconciler \<Rightarrow> HarnessGitopsAgent \<Rightarrow> Session \<Rightarrow> (Result \<times> go_error option) M" where
  "deleteRemoteAgent L r agentCR session =
     (let agentIdentifier = TrimSpace (as_Identifier (a_Spec agentCR));
          agentIdentifier =
            (if agentIdentifier = '''' then TrimSpace (ast_AgentIdentifier (a_Status agentCR))
             else agentIdentifier)
      in
      if agentIdentifier = '''' then
        ret (emptyResult, Some (ErrFmt
          (''cannot delete Harness agent: no identifier in status or spec for '' @
           Namespace (a_Meta agentCR) @ ''/'' @ Name (a_Meta agentCR)) []))
      else do {
        err \<leftarrow> api_DeleteAgent (harnessAgentAPI L r) session (harnessAgentFor agentCR agentIdentifier);
        (if err \<noteq> None \<and> \<not> isAgentNotFound err then ret (emptyResult, err)
         else do {
           removed \<leftarrow> RemoveFinalizer L (agentWriter (ar_Client r)) agentCR harnessAgentFinalizer;
           ret (emptyResult, removed)
         })
      })"

definition reconcileDeletion ::
  "Library \<Rightarrow> AgentReconciler \<Rightarrow> HarnessGitopsAgent \<Rightarrow> string \<Rightarrow> bool \<Rightarrow>
     (Result \<times> go_error option) M" where
  "reconcileDeletion L r agentCR existingAgentIdentifier existingAgentMode =
     (if \<not> lib_ContainsFinalizer L (Finalizers (a_Meta agentCR)) harnessAgentFinalizer
      then ret (emptyResult, None)
      else do {
        (result, done, err) \<leftarrow> reconcileMappingDependenciesForDeletion L r agentCR;
        (if done then ret (result, err)
         else if existingAgentMode then do {
           removed \<leftarrow> RemoveFinalizer L (agentWriter (ar_Client r)) agentCR harnessAgentFinalizer;
           ret (emptyResult, removed)
         }
         else do {
           verified \<leftarrow> authorizeDeletion L r agentCR;
           (case verified of
              Inl err \<Rightarrow> ret (emptyResult, Some err)
            | Inr (harnessSession, deleteAuthorized) \<Rightarrow>
                if \<not> deleteAuthorized then do {
                  removed \<leftarrow> RemoveFinalizer L (agentWriter (ar_Client r)) agentCR harnessAgentFinalizer;
                  ret (emptyResult, removed)
                }
                else
                  (case harnessSession of
                     Some session \<Rightarrow> deleteRemoteAgent L r agentCR session
                   | None \<Rightarrow> do {
                       opened \<leftarrow>
                         SessionForAgent L (agentApiReader r) (ar_APIKeySecretNamespace r) agentCR;
                       (case opened of
                          Inl err \<Rightarrow> ret (emptyResult, Some err)
                        | Inr session \<Rightarrow> deleteRemoteAgent L r agentCR session)
                     }))
         })
      })"

section \<open>What the dependency check does\<close>

fun isMappingCRDelete :: "HarnessGitopsProjectMapping \<Rightarrow> event \<Rightarrow> bool" where
  "isMappingCRDelete m (EvDeleteMappingCR m' x) \<longleftrightarrow> m' = m"
| "isMappingCRDelete m _ \<longleftrightarrow> False"

fun dependencyEvent :: "event \<Rightarrow> bool" where
  "dependencyEvent (EvListMappings k ns x) = True"
| "dependencyEvent (EvDeleteMappingCR m x) = True"
| "dependencyEvent _ = False"

abbreviation liveMappings :: "HarnessGitopsProjectMapping list \<Rightarrow> HarnessGitopsProjectMapping list" where
  "liveMappings ms \<equiv> filter (\<lambda>m. timeIsZero (DeletionTimestamp (m_Meta m))) ms"

lemma emits_deleteReferences: "emits dependencyEvent (deleteReferences cl ms err)"
  by (induction ms arbitrary: err) (auto simp: DeleteMappingCR_def intro!: emits_intro)

lemmas grows_deleteReferences [simp] = emits_grows [OF emits_deleteReferences]

lemma deleteReferences_round:
  assumes "timeIsZero (DeletionTimestamp (m_Meta m))"
  shows "\<exists>err' h'. emitted (deleteReferences cl (m # ms) err) h =
      EvDeleteMappingCR m (cl_DeleteMapping cl h m) # emitted (deleteReferences cl ms err') h' \<and>
    result (deleteReferences cl (m # ms) err) h = result (deleteReferences cl ms err') h' \<and>
    (err' = None \<longleftrightarrow> err = None \<and> cl_DeleteMapping cl h m = None)"
proof (cases "cl_DeleteMapping cl h m")
  case None
  with assms show ?thesis
    by (intro exI [of _ err] exI [of _ "h @ [EvDeleteMappingCR m None]"])
      (simp add: DeleteMappingCR_def emitted_bind result_bind)
next
  case (Some e)
  with assms show ?thesis
    by (intro exI [of _ "errorsJoin err (Some (mappingDeleteError m e))"]
        exI [of _ "h @ [EvDeleteMappingCR m (Some e)]"])
      (simp add: DeleteMappingCR_def emitted_bind result_bind)
qed

lemma deleteReferences_skip:
  "\<not> timeIsZero (DeletionTimestamp (m_Meta m)) \<Longrightarrow>
     deleteReferences cl (m # ms) err = deleteReferences cl ms err"
  by simp

declare deleteReferences.simps(2) [simp del]

text \<open>Every reference that is not yet deleting is deleted once, in order; a nil error means that
  every delete was accepted.\<close>

fun acceptedDelete :: "event \<Rightarrow> bool" where
  "acceptedDelete (EvDeleteMappingCR m x) \<longleftrightarrow> x = None"
| "acceptedDelete _ \<longleftrightarrow> False"

lemma deleteReferences_events:
  "list_all2 isMappingCRDelete (liveMappings ms) (emitted (deleteReferences cl ms err) h) \<and>
   (result (deleteReferences cl ms err) h = None \<longleftrightarrow>
      err = None \<and> list_all acceptedDelete (emitted (deleteReferences cl ms err) h))"
proof (induction ms arbitrary: err h)
  case (Cons m ms)
  show ?case
  proof (cases "timeIsZero (DeletionTimestamp (m_Meta m))")
    case True
    from deleteReferences_round [OF True, of cl ms err h] obtain err' h' where
      "emitted (deleteReferences cl (m # ms) err) h =
        EvDeleteMappingCR m (cl_DeleteMapping cl h m) # emitted (deleteReferences cl ms err') h'"
      "result (deleteReferences cl (m # ms) err) h = result (deleteReferences cl ms err') h'"
      "err' = None \<longleftrightarrow> err = None \<and> cl_DeleteMapping cl h m = None"
      by blast
    with Cons.IH [of err' h'] True show ?thesis by auto
  next
    case False
    with Cons.IH [of err h] show ?thesis by (simp add: deleteReferences_skip)
  qed
qed simp

lemma emits_dependencies:
  "emits (\<lambda>e. dependencyEvent e \<or> conditionWrite a e) (reconcileMappingDependenciesForDeletion L r a)"
  unfolding reconcileMappingDependenciesForDeletion_def ListMappings_def
  by (intro emits_intro emits_mono [OF emits_deleteReferences] emits_mono [OF emits_waiting]) auto

lemmas grows_dependencies [simp] = emits_grows [OF emits_dependencies]

text \<open>The list that lets a deletion go on: read uncached, without a Mapping that references the
  Agent.\<close>

definition dependenciesClear ::
  "AgentReconciler \<Rightarrow> HarnessGitopsAgent \<Rightarrow> event \<Rightarrow> bool" where
  "dependenciesClear r a e \<longleftrightarrow>
     (\<exists>rd mappings. ar_APIReader r = Some rd \<and>
        e = EvListMappings (rd_Kind rd) (Some (Namespace (a_Meta a))) (Inr mappings) \<and>
        list_all (\<lambda>m. \<not> referencesAgent a m) mappings)"

lemma dependencies_done:
  assumes "result (reconcileMappingDependenciesForDeletion L r a) h = (res, False, err)"
  shows "\<exists>e. emitted (reconcileMappingDependenciesForDeletion L r a) h = [e] \<and> dependenciesClear r a e"
  using assms
  by (auto simp: reconcileMappingDependenciesForDeletion_def ListMappings_def result_bind emitted_bind
      dependenciesClear_def Let_def list_all_iff filter_empty_conv
      split: option.splits sum.splits if_splits prod.splits)

section \<open>Guards of the deletion\<close>

definition ownershipUnverified :: "HarnessGitopsAgent \<Rightarrow> bool" where
  "ownershipUnverified a \<longleftrightarrow>
     ast_AgentOwnership (a_Status a) \<noteq> OwnershipManaged \<and>
     \<not> agentCreationIsUncertain (ast_CreationState (a_Status a))"

abbreviation expectedRead :: "HarnessGitopsAgent \<Rightarrow> V1Agent \<Rightarrow> history \<Rightarrow> bool" where
  "expectedRead a v es \<equiv>
     agentRead (lookupAccount (expectedAgent a)) (getAgentOpts (expectedAgent a) False) (expectedAgent a) v es"

abbreviation expectedAbsent :: "HarnessGitopsAgent \<Rightarrow> history \<Rightarrow> bool" where
  "expectedAbsent a es \<equiv>
     agentAbsent (lookupAccount (expectedAgent a)) (getAgentOpts (expectedAgent a) False) (expectedAgent a) es"

text \<open>
  A delete of the remote Agent: no Mapping references the resource, its status does not rule out
  that it created the Agent, and the Agent was read in this pass with the resource's tag and tuple,
  directly before the delete (earlier candidates of the same delete apart).
\<close>

definition agentDeleteJustified ::
  "AgentReconciler \<Rightarrow> HarnessGitopsAgent \<Rightarrow> history \<Rightarrow> history \<Rightarrow> event \<Rightarrow> bool" where
  "agentDeleteJustified r a h pre e \<longleftrightarrow>
     \<not> ownershipUnverified a \<and> isAgentDeleteFor (expectedAgent a) e \<and>
     (\<exists>listed es looked v ds.
        pre = h @ [listed] @ es @ looked @ ds \<and> dependenciesClear r a listed \<and>
        expectedRead a v looked \<and> agentOwnedByCR a (expectedAgent a) (agentFromSDK v) \<and>
        list_all isAgentDelete ds)"

text \<open>
  Removal of the finalizer: no Mapping references the resource; and the Agent is an existing one,
  or was never registered, or was looked up in this pass and is absent or not this resource's, or
  its deletion was confirmed.
\<close>

definition agentReleaseJustified ::
  "AgentReconciler \<Rightarrow> HarnessGitopsAgent \<Rightarrow> bool \<Rightarrow> history \<Rightarrow> history \<Rightarrow> bool" where
  "agentReleaseJustified r a existing h pre \<longleftrightarrow>
     (\<exists>listed es. pre = h @ [listed] @ es \<and> dependenciesClear r a listed \<and>
        (existing \<or> ownershipUnverified a \<or>
         (\<exists>es0 looked. es = es0 @ looked \<and>
            (expectedAbsent a looked \<or>
             (\<exists>v. expectedRead a v looked \<and> \<not> agentOwnedByCR a (expectedAgent a) (agentFromSDK v)))) \<or>
         (\<exists>es0 ds. es = es0 @ ds \<and> deletionConfirmed (expectedAgent a) ds)))"

text \<open>The clients the library makes return no error of the operator's own.\<close>

definition foreignClients :: "Library \<Rightarrow> bool" where
  "foreignClients L \<longleftrightarrow> (\<forall>cfg c. lib_NewAPIClient L cfg = Some c \<longrightarrow> foreignErrors c)"

lemma session_foreign:
  assumes "foreignClients L" and "result (SessionForAgent L rd ns a) h = Inr s"
  shows "foreignErrors (s_client s)"
  using assms
  by (auto simp: SessionForAgent_def SessionFromSecret_def GetSecret_def NewSession_def
      NewSessionWithClient_def result_bind foreignClients_def Let_def
      split: if_splits sum.splits option.splits)

definition deletionGuard ::
  "Library \<Rightarrow> AgentReconciler \<Rightarrow> HarnessGitopsAgent \<Rightarrow> bool \<Rightarrow> history \<Rightarrow> history \<Rightarrow> event \<Rightarrow> bool" where
  "deletionGuard L r a existing h pre e \<longleftrightarrow>
     (isAgentDelete e \<longrightarrow> \<not> existing \<and> agentDeleteJustified r a h pre e) \<and>
     (\<forall>sent x. e = EvUpdateAgent sent x \<longrightarrow> foreignClients L \<longrightarrow>
        agentReleaseJustified r a existing h pre) \<and>
     (\<forall>sent x. e = EvUpdateAgentStatus sent x \<longrightarrow>
        registration (a_Status sent) = registration (a_Status a) \<and> ownershipSettled a h pre sent) \<and>
     \<not> isAgentCreate e \<and> \<not> isRegenerate e"

lemma deletionGuard_quiet:
  "isAgentGet e \<or> isSecretRead e \<or> dependencyEvent e \<Longrightarrow> deletionGuard L r a existing h pre e"
  by (cases e) (auto simp: deletionGuard_def)

lemma deletionGuard_condition: "conditionWrite a e \<Longrightarrow> deletionGuard L r a existing h (h @ es) e"
  by (cases e) (auto simp: deletionGuard_def ownershipSettled_def registration_def intro!: exI [of _ a])

lemma emits_removeAgentFinalizer:
  "emits (\<lambda>e. \<exists>sent x. e = EvUpdateAgent sent x) (RemoveFinalizer L (agentWriter cl) a f)"
  by (rule agent_finalizer.remove_emits) auto

lemmas grows_removeAgentFinalizer [simp] = emits_grows [OF emits_removeAgentFinalizer]

lemma release_lookup:
  assumes "dependenciesClear r a listed"
    and "expectedAbsent a looked \<or>
      (\<exists>v. expectedRead a v looked \<and> \<not> agentOwnedByCR a (expectedAgent a) (agentFromSDK v))"
  shows "agentReleaseJustified r a existing h (h @ listed # es @ looked)"
  using assms unfolding agentReleaseJustified_def
  by (intro exI [of _ listed] exI [of _ "es @ looked"] conjI) (simp, blast+)

lemma release_unverified:
  "dependenciesClear r a listed \<Longrightarrow> ownershipUnverified a \<Longrightarrow>
     agentReleaseJustified r a existing h (h @ listed # es)"
  unfolding agentReleaseJustified_def by (intro exI [of _ listed] exI [of _ es]) simp

lemma release_guarded:
  assumes "foreignClients L \<Longrightarrow> agentReleaseJustified r a existing h h'"
  shows "guarded (deletionGuard L r a existing h) (RemoveFinalizer L (agentWriter cl) a f) h'"
proof (rule guarded_one)
  show "grows (RemoveFinalizer L (agentWriter cl) a f)" by simp
  show "\<exists>e. emitted (RemoveFinalizer L (agentWriter cl) a f) h' = [e]"
    by (simp add: agent_finalizer.remove_events Let_def)
  show "deletionGuard L r a existing h h' e" if "emitted (RemoveFinalizer L (agentWriter cl) a f) h' = [e]" for e
    using assms that by (auto simp: agent_finalizer.remove_events Let_def deletionGuard_def)
qed

lemma expectedRead_identifier:
  "expectedRead a v es \<Longrightarrow> TrimSpace (as_Identifier (a_Spec a)) \<noteq> ''''"
  using candidates_Nil_iff [of "ag_Scope (expectedAgent a)" "ag_Identifier (expectedAgent a)"]
  by (auto simp: agentRead_def harnessAgentFor_def Let_def)

lemma harnessAgentFor_trim [simp]: "harnessAgentFor a (TrimSpace i) = harnessAgentFor a i"
  by (simp add: harnessAgentFor_def)

context agent_api
begin

lemma lookupOwned_run:
  assumes api: "harnessAgentAPI L r = api"
  shows "emits isAgentGet (lookupAgentOwnedByCR L r s a)"
    and "result (lookupAgentOwnedByCR L r s a) h = Inr owned \<Longrightarrow>
      if owned then \<exists>v. expectedRead a v (emitted (lookupAgentOwnedByCR L r s a) h) \<and>
          agentOwnedByCR a (expectedAgent a) (agentFromSDK v)
      else expectedAbsent a (emitted (lookupAgentOwnedByCR L r s a) h) \<or>
        (\<exists>v. expectedRead a v (emitted (lookupAgentOwnedByCR L r s a) h) \<and>
          \<not> agentOwnedByCR a (expectedAgent a) (agentFromSDK v))"
proof -
  show "emits isAgentGet (lookupAgentOwnedByCR L r s a)"
    unfolding lookupAgentOwnedByCR_def api by (intro emits_intro lookup_calls)
next
  assume res: "result (lookupAgentOwnedByCR L r s a) h = Inr owned"
  let ?l = "api_Lookup api s (expectedAgent a)"
  from res obtain lk where lk: "result ?l h = Inr lk"
    and owned: "owned \<longleftrightarrow> lk_Exists lk \<and> agentOwnedByCR a (expectedAgent a) (lk_Agent lk)"
    by (auto simp: lookupAgentOwnedByCR_def api result_bind Let_def split: sum.splits)
  have run: "emitted (lookupAgentOwnedByCR L r s a) h = emitted ?l h"
    by (simp add: lookupAgentOwnedByCR_def api emitted_bind Let_def)
  show "if owned then \<exists>v. expectedRead a v (emitted (lookupAgentOwnedByCR L r s a) h) \<and>
          agentOwnedByCR a (expectedAgent a) (agentFromSDK v)
      else expectedAbsent a (emitted (lookupAgentOwnedByCR L r s a) h) \<or>
        (\<exists>v. expectedRead a v (emitted (lookupAgentOwnedByCR L r s a) h) \<and>
          \<not> agentOwnedByCR a (expectedAgent a) (agentFromSDK v))"
    using lookup_found [OF lk] lookup_absent [OF lk] owned unfolding run
    by (cases "lk_Exists lk") auto
qed

lemma emits_authorizeDeletion:
  assumes "harnessAgentAPI L r = api"
  shows "emits (\<lambda>e. isSecretRead e \<or> isAgentGet e) (authorizeDeletion L r a)"
  unfolding authorizeDeletion_def
  by (intro emits_intro emits_mono [OF emits_SessionForAgent] emits_mono [OF lookupOwned_run(1) [OF assms]])
    auto

lemma authorize_result:
  assumes api: "harnessAgentAPI L r = api"
    and res: "result (authorizeDeletion L r a) h = Inr (session, authorized)"
  shows "if authorized
    then \<not> ownershipUnverified a \<and> (\<exists>s es looked v. session = Some s \<and>
      (foreignClients L \<longrightarrow> foreignErrors (s_client s)) \<and>
      emitted (authorizeDeletion L r a) h = es @ looked \<and> expectedRead a v looked \<and>
      agentOwnedByCR a (expectedAgent a) (agentFromSDK v))
    else ownershipUnverified a \<or> (\<exists>es looked. emitted (authorizeDeletion L r a) h = es @ looked \<and>
      (expectedAbsent a looked \<or>
       (\<exists>v. expectedRead a v looked \<and> \<not> agentOwnedByCR a (expectedAgent a) (agentFromSDK v))))"
proof (cases "ownershipUnverified a")
  case True
  with res show ?thesis
    by (auto simp: authorizeDeletion_def ownershipUnverified_def)
next
  case False
  let ?open = "SessionForAgent L (agentApiReader r) (ar_APIKeySecretNamespace r) a"
  from False res obtain s where s: "result ?open h = Inr s" "session = Some s"
    and owned: "result (lookupAgentOwnedByCR L r s a) (h @ emitted ?open h) = Inr authorized"
    using emits_grows [OF lookupOwned_run(1) [OF api]]
    by (auto simp: authorizeDeletion_def ownershipUnverified_def result_bind Let_def split: sum.splits)
  have run: "emitted (authorizeDeletion L r a) h =
      emitted ?open h @ emitted (lookupAgentOwnedByCR L r s a) (h @ emitted ?open h)"
    using False s emits_grows [OF lookupOwned_run(1) [OF api]]
    by (auto simp: authorizeDeletion_def ownershipUnverified_def emitted_bind grows_cases Let_def)
  show ?thesis
    using lookupOwned_run(2) [OF api owned] False s(2) session_foreign [OF _ s(1)] unfolding run
    by (auto split: if_splits)
qed

lemma deleteRemote_guarded:
  assumes api: "harnessAgentAPI L r = api"
    and foreign: "foreignClients L \<longrightarrow> foreignErrors (s_client s)"
    and clear: "dependenciesClear r a listed" and verified: "\<not> ownershipUnverified a"
    and read: "expectedRead a v looked" "agentOwnedByCR a (expectedAgent a) (agentFromSDK v)"
  shows "guarded (deletionGuard L r a False h) (deleteRemoteAgent L r a s) (h @ listed # es @ looked)"
proof -
  let ?d = "api_DeleteAgent api s (expectedAgent a)" and ?h = "h @ listed # es @ looked"
  have del: "guarded (deletionGuard L r a False h) ?d ?h"
    unfolding guarded_def
  proof (intro conjI allI impI)
    show "\<exists>fs. snd (run_state ?d ?h) = ?h @ fs"
      using emits_grows [OF delete_calls] unfolding grows_def by blast
  next
    fix ds e rest
    assume ev: "emitted ?d ?h = ds @ e # rest"
    have calls: "isAgentDeleteFor (expectedAgent a) e'" if "e' \<in> set (ds @ e # rest)" for e'
      using emits_mem [OF delete_calls] ev that by metis
    have del: "isAgentDeleteFor b e' \<Longrightarrow> isAgentDelete e'" for b e' by (cases e') auto
    have "list_all isAgentDelete ds" using calls del by (auto simp: list_all_iff)
    moreover have e: "isAgentDeleteFor (expectedAgent a) e" using calls by simp
    ultimately have "agentDeleteJustified r a h (?h @ ds) e"
      using clear verified read unfolding agentDeleteJustified_def
      by (intro conjI exI [of _ listed] exI [of _ es] exI [of _ looked] exI [of _ v] exI [of _ ds])
        simp_all
    with e show "deletionGuard L r a False h (?h @ ds) e"
      by (cases e) (auto simp: deletionGuard_def)
  qed
  have gone: "agentReleaseJustified r a False h (?h @ emitted ?d ?h)"
    if "foreignClients L" "result ?d ?h = None \<or> isAgentNotFound (result ?d ?h)"
    using delete_gone [OF _ that(2)] foreign that(1) clear unfolding agentReleaseJustified_def
    by (intro exI [of _ listed] exI [of _ "es @ looked @ emitted ?d ?h"]) auto
  show ?thesis
    using expectedRead_identifier [OF read(1)]
    unfolding deleteRemoteAgent_def api
    by (auto intro!: guarded_bind guarded_ret del release_guarded gone [simplified] simp: Let_def)
qed

lemma reconcileDeletion_guarded:
  assumes api: "harnessAgentAPI L r = api"
  shows "guarded (deletionGuard L r a existing h) (reconcileDeletion L r a i existing) h"
proof -
  let ?G = "\<lambda>x. deletionGuard L r a x h"
  let ?deps = "reconcileMappingDependenciesForDeletion L r a" and ?auth = "authorizeDeletion L r a"
  have deps: "guarded (?G x) ?deps h" for x
    by (rule guarded_emits_from [OF emits_dependencies])
      (auto intro: deletionGuard_quiet deletionGuard_condition)
  have auth: "guarded (?G x) ?auth h'" for x h'
    by (rule guarded_emits [OF emits_authorizeDeletion [OF api]]) (auto intro: deletionGuard_quiet)
  have open_s: "guarded (?G x) (SessionForAgent L rd ns a) h'" for x rd ns h'
    by (rule guarded_emits [OF emits_SessionForAgent]) (auto intro: deletionGuard_quiet)
  have go_on: "\<exists>e. emitted ?deps h = [e] \<and> dependenciesClear r a e"
    if "result ?deps h = (res, False, err)" for res err
    by (rule dependencies_done [OF that])
  have released: "agentReleaseJustified r a True h (h @ emitted ?deps h)"
    if "\<exists>res err. result ?deps h = (res, False, err)"
    using go_on that by (auto simp: agentReleaseJustified_def)
  have skip: "agentReleaseJustified r a x h (h @ emitted ?deps h @ emitted ?auth (h @ emitted ?deps h))"
    if "\<exists>res err. result ?deps h = (res, False, err)"
      "\<exists>s. result ?auth (h @ emitted ?deps h) = Inr (s, False)" for x
  proof -
    from that obtain e s where "emitted ?deps h = [e]" "dependenciesClear r a e"
      "result ?auth (h @ emitted ?deps h) = Inr (s, False)" using go_on by blast
    with authorize_result [OF api this(3)] show ?thesis
      by (auto intro: release_lookup [OF _ disjI1] release_lookup [OF _ disjI2, OF _ exI, OF _ conjI]
          release_unverified)
  qed
  have remote: "guarded (?G False) (deleteRemoteAgent L r a s)
      (h @ emitted ?deps h @ emitted ?auth (h @ emitted ?deps h))"
    if "\<exists>res err. result ?deps h = (res, False, err)"
      "result ?auth (h @ emitted ?deps h) = Inr (Some s, True)" for s
  proof -
    from that obtain e where "emitted ?deps h = [e]" "dependenciesClear r a e" using go_on by blast
    with authorize_result [OF api that(2)] show ?thesis
      by (auto intro!: deleteRemote_guarded [OF api])
  qed
  have some: "result ?auth h' \<noteq> Inr (None, True)" for h'
    using authorize_result [OF api, of a h' None True] by auto
  show ?thesis
    unfolding reconcileDeletion_def
    by (auto intro!: guarded_bind guarded_ret deps auth release_guarded released skip remote
        simp: some split: prod.split sum.split option.split)
qed

end

section \<open>Properties\<close>

text \<open>
  C32: an Agent that is still referenced is not touched. When the uncached list shows Mappings that
  reference the Agent, the dependency check stops the deletion pass: each of them that is not yet deleting is
  deleted exactly once, in ascending order of names, no other call is made but the status write
  that names them, and the Agent is requeued after 10 seconds; the pass reports success only
  when every delete was accepted.
\<close>

theorem agent_deletion_waits_for_mappings:
  assumes "ar_APIReader r = Some rd" and "rd_ListMappings rd h (Some (Namespace (a_Meta a))) = Inr mappings"
    and "filter (referencesAgent a) mappings \<noteq> []"
  shows "let run = reconcileMappingDependenciesForDeletion L r a;
             references = sortSlice mappingNameLess (filter (referencesAgent a) mappings);
             (res, stop, err) = result run h
    in stop \<and> RequeueAfter res = 10 * Second \<and>
       sorted (map (\<lambda>m. Name (m_Meta m)) references) \<and>
       mset references = mset (filter (referencesAgent a) mappings) \<and>
       (\<exists>deletes writes. emitted run h =
          EvListMappings (rd_Kind rd) (Some (Namespace (a_Meta a))) (Inr mappings) # deletes @ writes \<and>
          list_all2 isMappingCRDelete (liveMappings references) deletes \<and>
          list_all (conditionWrite a) writes \<and>
          (err = None \<longrightarrow> list_all acceptedDelete deletes))"
proof -
  let ?refs = "sortSlice mappingNameLess (filter (referencesAgent a) mappings)"
  let ?h = "h @ [EvListMappings (rd_Kind rd) (Some (Namespace (a_Meta a))) (Inr mappings)]"
  let ?del = "deleteReferences (ar_Client r) ?refs None"
  let ?wait = "setAgentWaitingForMappings L r a (map (\<lambda>m. Name (m_Meta m)) ?refs)"
  let ?run = "reconcileMappingDependenciesForDeletion L r a"
  have ev: "emitted ?run h = EvListMappings (rd_Kind rd) (Some (Namespace (a_Meta a))) (Inr mappings) #
      emitted ?del ?h @ emitted ?wait (?h @ emitted ?del ?h)"
    using assms
    by (simp add: reconcileMappingDependenciesForDeletion_def ListMappings_def emitted_bind Let_def grows_cases
        split: prod.split)
  have res: "result ?run h = (requeueAfter agentMappingDependencyRetryInterval, True,
      errorsJoin (result ?del ?h) (fst (result ?wait (?h @ emitted ?del ?h))))"
    using assms
    by (simp add: reconcileMappingDependenciesForDeletion_def ListMappings_def result_bind Let_def
        split: prod.split)
  have "list_all (conditionWrite a) (emitted ?wait (?h @ emitted ?del ?h))"
    using emits_mem [OF emits_waiting] by (auto simp: list_all_iff)
  with deleteReferences_events [of ?refs "ar_Client r" None ?h] ev show ?thesis
    using mapping_name_order.sorted_keys [of "filter (referencesAgent a) mappings"]
    unfolding Let_def res
    by (auto simp: requeueAfter_def agentMappingDependencyRetryInterval_def)
qed

theorem agent_deletion_waits_for_mappings_witness:
  "let r = sampleAgentReconciler [] [sampleMapping];
       run = reconcileMappingDependenciesForDeletion (sampleLibrary presentAPI) r sampleAgent
   in fst (snd (result run [])) \<and> (\<exists>deletes writes. emitted run [] =
      EvListMappings UncachedReader (Some ''ns'') (Inr [sampleMapping]) # deletes @ writes \<and>
      list_all2 isMappingCRDelete [sampleMapping] deletes)"
proof -
  let ?r = "sampleAgentReconciler [] [sampleMapping]" and ?rd = "sampleReader UncachedReader [] [sampleMapping]"
  have refs: "filter (referencesAgent sampleAgent) [sampleMapping] = [sampleMapping]"
    by (simp add: referencesAgent_def sampleAgent_def sampleMapping_def sampleMeta_def)
  have live: "liveMappings (sortSlice mappingNameLess [sampleMapping]) = [sampleMapping]"
    by (simp add: sortSlice_def sampleMapping_def sampleMeta_def timeIsZero_def)
  have rd: "ar_APIReader ?r = Some ?rd" "rd_Kind ?rd = UncachedReader"
    "Namespace (a_Meta sampleAgent) = ''ns''"
    by (simp_all add: sampleAgentReconciler_def sampleReader_def sampleAgent_def sampleMeta_def)
  have "rd_ListMappings ?rd [] (Some (Namespace (a_Meta sampleAgent))) = Inr [sampleMapping]"
    by (simp add: sampleReader_def)
  from agent_deletion_waits_for_mappings [OF rd(1) this, of "sampleLibrary presentAPI"] refs
  show ?thesis unfolding Let_def refs live rd(2,3) by (auto split: prod.splits)
qed

end
