(* ===== verification/Agent_Reconciler.thy ===== *)
theory Agent_Reconciler
  imports Agent_Finalizer Mapping_Kubernetes
begin

text \<open>
  \<open>internal/resource/agent/reconciler.go\<close>: the handler of one Agent. An existing Agent is only
  observed; otherwise the Agent is registered, its token is written to a Secret, and its health
  is published.
\<close>

section \<open>The token Secret\<close>

definition gitopsAgentTokenSecretKey :: string where
  "gitopsAgentTokenSecretKey = ''GITOPS_AGENT_TOKEN''"

definition ManagedByLabelKey :: string where
  "ManagedByLabelKey = ''app.kubernetes.io/managed-by''"

definition ManagedByLabelValue :: string where
  "ManagedByLabelValue = ''harness-gitops-agent-operator''"

definition tokenSecretExists ::
  "AgentReconciler \<Rightarrow> HarnessGitopsAgent \<Rightarrow> string \<Rightarrow> bool M" where
  "tokenSecretExists r agentCR secretName = do {
     got \<leftarrow> GetSecret (agentApiReader r) (Namespace (a_Meta agentCR), secretName);
     ret (case got of
            Inl err \<Rightarrow> False
          | Inr existing \<Rightarrow>
              (case sec_Data existing gitopsAgentTokenSecretKey of
                 None \<Rightarrow> False
               | Some token \<Rightarrow> length token > 0))
   }"

text \<open>The mutation given to \<open>controllerutil.CreateOrUpdate\<close>; nil maps are empty maps.\<close>

definition mutateTokenSecret ::
  "Library \<Rightarrow> HarnessGitopsAgent \<Rightarrow> string \<Rightarrow> Secret \<Rightarrow> go_error + Secret" where
  "mutateTokenSecret L agentCR agentToken tokenSecret =
     (case lib_SetControllerReference L agentCR tokenSecret of
        Inl err \<Rightarrow> Inl err
      | Inr tokenSecret \<Rightarrow>
          Inr (tokenSecret
            \<lparr>sec_Labels := (sec_Labels tokenSecret)(ManagedByLabelKey \<mapsto> ManagedByLabelValue),
             sec_Type := ''Opaque'',
             sec_Data := (sec_Data tokenSecret)(gitopsAgentTokenSecretKey \<mapsto> agentToken)\<rparr>))"

definition upsertAgentTokenSecret ::
  "Library \<Rightarrow> AgentReconciler \<Rightarrow> HarnessGitopsAgent \<Rightarrow> string \<Rightarrow> string \<Rightarrow> go_error option M" where
  "upsertAgentTokenSecret L r agentCR secretName agentToken = do {
     let tokenSecret =
       \<lparr>sec_Name = secretName, sec_Namespace = Namespace (a_Meta agentCR), sec_Labels = Map.empty,
        sec_Type = '''', sec_Data = Map.empty, sec_OwnerReferences = []\<rparr>;
     written \<leftarrow> CreateOrUpdateSecret (ar_Client r) tokenSecret (mutateTokenSecret L agentCR agentToken);
     ret (case written of Inl err \<Rightarrow> Some err | Inr stored \<Rightarrow> None)
   }"

section \<open>The handler\<close>

definition agentIdentifierForStatus :: "HarnessGitopsAgent \<Rightarrow> string" where
  "agentIdentifierForStatus agentCR =
     (let identifier = TrimSpace (ast_AgentIdentifier (a_Status agentCR)) in
      if identifier \<noteq> '''' then identifier else TrimSpace (as_Identifier (a_Spec agentCR)))"

text \<open>Lines 122 to 134: an existing Agent is recorded as External and observed.\<close>

definition observeExisting ::
  "Library \<Rightarrow> AgentReconciler \<Rightarrow> HarnessGitopsAgent \<Rightarrow> string \<Rightarrow> (Result \<times> go_error option) M" where
  "observeExisting L r agentCR existingAgentIdentifier =
     (if ast_AgentIdentifier (a_Status agentCR) \<noteq> existingAgentIdentifier \<or>
         ast_AgentOwnership (a_Status agentCR) \<noteq> OwnershipExternal then do {
        (err, agentCR) \<leftarrow> updateAgentStatus r
          (agentCR\<lparr>a_Status := (a_Status agentCR)
            \<lparr>ast_AgentIdentifier := existingAgentIdentifier, ast_AgentOwnership := OwnershipExternal\<rparr>\<rparr>);
        (case err of
           Some e \<Rightarrow> ret (emptyResult, Some e)
         | None \<Rightarrow> refreshAgentHealth L r agentCR existingAgentIdentifier)
      }
      else refreshAgentHealth L r agentCR existingAgentIdentifier)"

text \<open>Lines 201 to 220: the token is resolved and written unless it was already there.\<close>

definition provideToken ::
  "Library \<Rightarrow> AgentReconciler \<Rightarrow> HarnessGitopsAgent \<Rightarrow> Session \<Rightarrow> string \<Rightarrow> bool \<Rightarrow> string \<Rightarrow> string \<Rightarrow>
     (Result \<times> go_error option) M" where
  "provideToken L r agentCR session tokenSecretName tokenSecretReady agentIdentifier initialAgentToken =
     (if tokenSecretReady then agentHealthResult L r agentCR (Inr session) agentIdentifier
      else do {
        resolved \<leftarrow> api_ResolveToken (harnessAgentAPI L r) session
          (harnessAgentFor agentCR agentIdentifier) initialAgentToken;
        (case resolved of
           Inl err \<Rightarrow> ret (emptyResult, Some err)
         | Inr agentToken \<Rightarrow> do {
             err \<leftarrow> upsertAgentTokenSecret L r agentCR tokenSecretName agentToken;
             (case err of
                Some e \<Rightarrow> ret (emptyResult, Some e)
              | None \<Rightarrow> agentHealthResult L r agentCR (Inr session) agentIdentifier)
           })
      })"

definition reconcileReady ::
  "Library \<Rightarrow> AgentReconciler \<Rightarrow> ObjectKey \<Rightarrow> HarnessGitopsAgent \<Rightarrow> string \<Rightarrow> bool \<Rightarrow>
     (Result \<times> go_error option) M" where
  "reconcileReady L r req agentCR existingAgentIdentifier existingAgentMode =
     (if existingAgentMode then observeExisting L r agentCR existingAgentIdentifier
      else do {
        let agentDone = (ast_AgentIdentifier (a_Status agentCR) \<noteq> '''');
        let registrationRequired =
          (agentCreationIsUncertain (ast_CreationState (a_Status agentCR)) \<or> \<not> agentDone);
        let tokenSecretName =
          (if as_TokenSecretRef (a_Spec agentCR) = '''' then Name (a_Meta agentCR) @ ''-agent-token''
           else as_TokenSecretRef (a_Spec agentCR));
        tokenSecretReady \<leftarrow> tokenSecretExists r agentCR tokenSecretName;
        (if agentDone \<and> tokenSecretReady \<and> \<not> registrationRequired
         then refreshAgentHealth L r agentCR (ast_AgentIdentifier (a_Status agentCR))
         else if \<not> registrationRequired \<and> agentDone \<and> \<not> tokenSecretReady \<and>
           ast_AgentOwnership (a_Status agentCR) \<noteq> OwnershipManaged then
           ret (emptyResult, Some (ErrFmt
             (sentinelText ErrHarnessAgentOwnershipUnknown @ '' for '' @
              fmt_q (agentIdentifierForStatus agentCR) @
              ''; create a replacement HarnessGitopsAgent CR with '' @
              ''spec.existingAgentIdentifier set to reference the running Agent'')
             [ErrNew ErrHarnessAgentOwnershipUnknown]))
         else do {
           opened \<leftarrow> SessionForAgent L (agentApiReader r) (ar_APIKeySecretNamespace r) agentCR;
           (case opened of
              Inl err \<Rightarrow> ret (emptyResult, Some err)
            | Inr harnessSession \<Rightarrow>
                if registrationRequired then do {
                  (outcome, err, agentCR) \<leftarrow>
                    reconcileAgentRegistration L r harnessSession agentCR (fst req);
                  (case err of
                     Some e \<Rightarrow> ret (emptyResult, Some e)
                   | None \<Rightarrow>
                       if ro_done outcome then ret (ro_result outcome, None)
                       else provideToken L r agentCR harnessSession tokenSecretName tokenSecretReady
                         (ro_identifier outcome) (ro_initialToken outcome))
                }
                else
                  provideToken L r agentCR harnessSession tokenSecretName tokenSecretReady
                    (ast_AgentIdentifier (a_Status agentCR)) '''')
         })
      })"

definition ReconcileAgent ::
  "Library \<Rightarrow> AgentReconciler \<Rightarrow> ObjectKey \<Rightarrow> (Result \<times> go_error option) M" where
  "ReconcileAgent L r req = do {
     got \<leftarrow> GetAgent (cl_Reader (ar_Client r)) req;
     (case got of
        Inl err \<Rightarrow> ret (emptyResult, IgnoreNotFound L err)
      | Inr agentCR \<Rightarrow>
          (let existingAgentIdentifier = TrimSpace (as_ExistingAgentIdentifier (a_Spec agentCR));
               existingAgentMode = (existingAgentIdentifier \<noteq> '''')
           in
           if DeletionTimestamp (a_Meta agentCR) \<noteq> None
           then reconcileDeletion L r agentCR existingAgentIdentifier existingAgentMode
           else do {
             (result, done, err) \<leftarrow>
               EnsureFinalizer L (agentWriter (ar_Client r)) agentCR harnessAgentFinalizer;
             (if done then ret (result, err)
              else reconcileReady L r req agentCR existingAgentIdentifier existingAgentMode)
           }))
   }"

section \<open>Watches\<close>

text \<open>A Mapping event enqueues the Agent it references.\<close>

definition projectMappingToAgentRequests :: "ClientObject \<Rightarrow> ObjectKey list" where
  "projectMappingToAgentRequests object =
     (case object of
        MappingObject mapping \<Rightarrow>
          (let agentName = TrimSpace (ref_Name (ms_AgentRef (m_Spec mapping))) in
           if agentName = '''' then [] else [(Namespace (m_Meta mapping), agentName)])
      | _ \<Rightarrow> [])"

section \<open>Guards of the handler\<close>

text \<open>The name of the token Secret, and an answer that holds no token.\<close>

definition tokenSecretNameOf :: "HarnessGitopsAgent \<Rightarrow> string" where
  "tokenSecretNameOf a =
     (if as_TokenSecretRef (a_Spec a) = '''' then Name (a_Meta a) @ ''-agent-token''
      else as_TokenSecretRef (a_Spec a))"

definition holdsToken :: "go_error + Secret \<Rightarrow> bool" where
  "holdsToken answer \<longleftrightarrow>
     (\<exists>secret token. answer = Inr secret \<and> sec_Data secret gitopsAgentTokenSecretKey = Some token \<and>
        token \<noteq> '''')"

definition tokenMissing :: "AgentReconciler \<Rightarrow> HarnessGitopsAgent \<Rightarrow> history \<Rightarrow> bool" where
  "tokenMissing r a es \<longleftrightarrow>
     (\<exists>answer. EvGetSecret (rd_Kind (agentApiReader r)) (Namespace (a_Meta a), tokenSecretNameOf a) answer
        \<in> set es \<and> \<not> holdsToken answer)"

lemma tokenSecretExists_run:
  "emitted (tokenSecretExists r a n) h = [EvGetSecret (rd_Kind (agentApiReader r))
     (Namespace (a_Meta a), n) (rd_GetSecret (agentApiReader r) h (Namespace (a_Meta a), n))]"
  "result (tokenSecretExists r a n) h \<longleftrightarrow>
     holdsToken (rd_GetSecret (agentApiReader r) h (Namespace (a_Meta a), n))"
  "grows (tokenSecretExists r a n)"
  by (auto simp: tokenSecretExists_def GetSecret_def emitted_bind result_bind holdsToken_def
      split: sum.splits option.splits)

text \<open>
  Regeneration: the resource is not in existing-agent mode, no token was read in this pass, and
  Managed ownership is on record, either settled before or stored in this pass.
\<close>

definition regenerateJustified ::
  "AgentReconciler \<Rightarrow> HarnessGitopsAgent \<Rightarrow> history \<Rightarrow> history \<Rightarrow> bool" where
  "regenerateJustified r a h pre \<longleftrightarrow>
     (\<exists>es. pre = h @ es \<and> tokenMissing r a es \<and>
        ((ast_AgentOwnership (a_Status a) = OwnershipManaged \<and>
          \<not> agentCreationIsUncertain (ast_CreationState (a_Status a))) \<or>
         (\<exists>a'. managedStored es a')))"

definition readyGuard ::
  "AgentReconciler \<Rightarrow> HarnessGitopsAgent \<Rightarrow> bool \<Rightarrow> string \<Rightarrow> history \<Rightarrow> history \<Rightarrow> event \<Rightarrow> bool" where
  "readyGuard r a existing ns h pre e \<longleftrightarrow>
     (isAgentCreate e \<longrightarrow> \<not> existing \<and> (\<exists>es. agentCreateJustified a ns (h @ es) pre e)) \<and>
     (\<forall>sent x. e = EvUpdateAgentStatus sent x \<longrightarrow>
        ast_AgentOwnership (a_Status sent) = OwnershipManaged \<longrightarrow> ownershipSettled a h pre sent) \<and>
     (isRegenerate e \<longrightarrow> \<not> existing \<and> regenerateJustified r a h pre) \<and>
     \<not> isAgentDelete e \<and> \<not> (\<exists>sent x. e = EvUpdateAgent sent x)"

lemma ownershipSettled_prefix:
  assumes "ownershipSettled a (h @ es) pre sent"
  shows "ownershipSettled a h pre sent"
proof -
  from assms obtain fs a' where "pre = h @ es @ fs" "seenFrom a fs a'"
    "ast_AgentOwnership (a_Status sent) = ast_AgentOwnership (a_Status a') \<or>
     lookupProof a' fs sent \<or> createProof a' fs sent"
    unfolding ownershipSettled_def by auto
  moreover have "lookupProof a' fs sent \<Longrightarrow> lookupProof a' (es @ fs) sent"
    unfolding lookupProof_def by (metis append.assoc)
  moreover have "createProof a' fs sent \<Longrightarrow> createProof a' (es @ fs) sent"
    unfolding createProof_def by (metis append.assoc)
  moreover have "seenFrom a fs a' \<Longrightarrow> seenFrom a (es @ fs) a'" by (auto simp: seenFrom_def)
  ultimately show ?thesis unfolding ownershipSettled_def by blast
qed

lemma readyGuard_registration:
  "registrationGuard a ns (h @ es) pre e \<Longrightarrow> readyGuard r a False ns h pre e"
  by (auto simp: registrationGuard_def readyGuard_def intro: ownershipSettled_prefix)

lemma readyGuard_health:
  assumes "healthEvent a' e" and "seenFrom a es a'"
  shows "readyGuard r a existing ns h (h @ es @ fs) e"
  using assms seenFrom_append [OF assms(2), of fs]
  by (cases e) (auto simp: healthEvent_def readyGuard_def ownershipSettled_def registration_def)

lemma guarded_health:
  assumes "emits (healthEvent a') m" and "seenFrom a es a'"
  shows "guarded (readyGuard r a existing ns h) m (h @ es)"
  by (rule guarded_emits_from [OF assms(1)]) (simp add: readyGuard_health [OF _ assms(2)])

lemma managedStored_seen: "managedStored es a' \<Longrightarrow> seenFrom a es a'"
  by (auto simp: managedStored_def seenFrom_def)

fun isSecretWrite :: "event \<Rightarrow> bool" where
  "isSecretWrite (EvCreateOrUpdateSecret key x) = True"
| "isSecretWrite _ = False"

lemma emits_upsert: "emits isSecretWrite (upsertAgentTokenSecret L r a n t)"
  unfolding upsertAgentTokenSecret_def CreateOrUpdateSecret_def by (intro emits_intro) simp

lemmas grows_upsert [simp] = emits_grows [OF emits_upsert]

context agent_api
begin

lemma provideToken_guarded:
  assumes api: "harnessAgentAPI L r = api" and seen: "seenFrom a es a'"
    and missing: "ready \<or> tokenMissing r a es"
    and managed: "(ast_AgentOwnership (a_Status a) = OwnershipManaged \<and>
        \<not> agentCreationIsUncertain (ast_CreationState (a_Status a))) \<or> managedStored es a'"
  shows "guarded (readyGuard r a False ns h) (provideToken L r a' s n ready i t) (h @ es)"
proof -
  let ?G = "readyGuard r a False ns h"
  let ?t = "api_ResolveToken api s (harnessAgentFor a' i) t"
  have health: "guarded ?G (agentHealthResult L r a' s' i) (h @ es @ fs)" for s' fs
    by (rule guarded_health [OF emits_healthResult [OF api]]) (rule seenFrom_append [OF seen])
  have token: "guarded ?G ?t (h @ es)" if "\<not> ready"
  proof (rule guarded_emits_from [OF token_calls])
    fix fs e assume e: "isAgentGet e \<or> isRegenerate e"
    have "regenerateJustified r a h (h @ es @ fs)"
      using that missing managed
      by (auto simp: regenerateJustified_def tokenMissing_def managedStored_def)
    with e show "?G ((h @ es) @ fs) e" by (cases e) (auto simp: readyGuard_def)
  qed
  have upsert: "guarded ?G (upsertAgentTokenSecret L r a' n tok) h'" for tok h'
    by (rule guarded_emits [OF emits_upsert]) (auto simp: readyGuard_def elim: isSecretWrite.elims)
  have "guarded ?G (agentHealthResult L r a' s' i) (h @ es)" for s'
    using health [of s' "[]"] by simp
  with token upsert health show ?thesis
    unfolding provideToken_def api
    by (auto intro!: guarded_bind guarded_ret split: sum.split option.split)
qed

lemma observeExisting_guarded:
  assumes api: "harnessAgentAPI L r = api"
  shows "guarded (readyGuard r a existing ns h) (observeExisting L r a i) h"
proof -
  let ?G = "readyGuard r a existing ns h"
  let ?sent = "a\<lparr>a_Status := (a_Status a)\<lparr>ast_AgentIdentifier := i, ast_AgentOwnership := OwnershipExternal\<rparr>\<rparr>"
  have update: "guarded ?G (updateAgentStatus r ?sent) h"
    by (rule guarded_update) (simp add: readyGuard_def)
  have same: "guarded ?G (refreshAgentHealth L r a i) h"
    using guarded_health [where es = "[]", OF emits_refresh [OF api] seenFrom_self] by simp
  have stored: "guarded ?G (refreshAgentHealth L r a' i) (h @ emitted (updateAgentStatus r ?sent) h)"
    if "result (updateAgentStatus r ?sent) h = (None, a')" for a'
    by (rule guarded_health [OF emits_refresh [OF api]])
      (use updateAgentStatus_seen [OF that] in \<open>auto simp: seenFrom_def\<close>)
  show ?thesis
    unfolding observeExisting_def
    by (auto intro!: guarded_bind guarded_ret update same stored split: prod.split option.split)
qed

lemma reconcileReady_guarded:
  assumes api: "harnessAgentAPI L r = api"
  shows "guarded (readyGuard r a existing ns h) (reconcileReady L r (ns, nm) a i existing) h"
proof (cases existing)
  case True
  then show ?thesis by (simp add: reconcileReady_def observeExisting_guarded [OF api])
next
  case False
  let ?G = "readyGuard r a False ns h" and ?n = "tokenSecretNameOf a"
  let ?tok = "tokenSecretExists r a ?n" let ?h = "h @ emitted ?tok h"
  let ?open = "SessionForAgent L (agentApiReader r) (ar_APIKeySecretNamespace r) a"
  let ?es = "emitted ?tok h @ emitted ?open ?h"
  have tok: "guarded ?G ?tok h"
    by (rule guarded_one)
      (auto simp: tokenSecretExists_run readyGuard_def)
  have opened: "guarded ?G ?open ?h"
    by (rule guarded_emits [OF emits_SessionForAgent]) (auto simp: readyGuard_def elim: isSecretRead.elims)
  have refresh: "guarded ?G (refreshAgentHealth L r a j) ?h" for j
    by (rule guarded_health [OF emits_refresh [OF api]]) simp
  have missing: "result ?tok h \<or> tokenMissing r a (?es @ fs)" for fs
    by (auto simp: tokenSecretExists_run tokenMissing_def)
  have reg: "guarded ?G (reconcileAgentRegistration L r s a ns) (h @ ?es)" for s
    by (rule guarded_mono [OF registration_guarded [OF api]]) (rule readyGuard_registration)
  let ?reg = "\<lambda>s. reconcileAgentRegistration L r s a ns"
  have token: "guarded ?G (provideToken L r a' s ?n ready j t) (h @ ?es @ emitted (?reg s) (h @ ?es))"
    if "\<exists>oc. result (?reg s) (h @ ?es) = (oc, None, a') \<and> \<not> ro_done oc"
      "\<not> ready \<longrightarrow> \<not> result ?tok h" for s a' ready j t
  proof -
    have "managedStored (emitted (?reg s) (h @ ?es)) a'"
      using that(1) registration_result [OF api] by blast
    then have m: "managedStored (?es @ emitted (?reg s) (h @ ?es)) a'" by (rule managedStored_append)
    from missing [of "emitted (?reg s) (h @ ?es)"] that(2)
    have "ready \<or> tokenMissing r a (?es @ emitted (?reg s) (h @ ?es))" by blast
    from provideToken_guarded [OF api managedStored_seen [OF m] this disjI2 [OF m]] show ?thesis
      by simp
  qed
  have managed: "guarded ?G (provideToken L r a s ?n ready j t) (h @ ?es)"
    if "ast_AgentOwnership (a_Status a) = OwnershipManaged"
      "\<not> agentCreationIsUncertain (ast_CreationState (a_Status a))" "\<not> ready \<longrightarrow> \<not> result ?tok h"
    for s ready j t
  proof -
    from missing [of "[]"] that(3) have "ready \<or> tokenMissing r a ?es" by auto
    from provideToken_guarded [OF api seenFrom_self this] that(1,2) show ?thesis by blast
  qed
  show ?thesis
    unfolding reconcileReady_def tokenSecretNameOf_def [symmetric] Let_def
    using False
    by (auto intro!: guarded_bind guarded_ret tok opened refresh reg [simplified] token [simplified]
        managed [simplified] split: sum.split option.split prod.split)
qed

end

text \<open>One pass over an Agent that was read: what may happen while it is deleted, and while it is
  live. The finalizer is present before anything but its own addition.\<close>

definition existingMode :: "HarnessGitopsAgent \<Rightarrow> bool" where
  "existingMode a \<longleftrightarrow> TrimSpace (as_ExistingAgentIdentifier (a_Spec a)) \<noteq> ''''"

abbreviation hasFinalizer :: "Library \<Rightarrow> HarnessGitopsAgent \<Rightarrow> bool" where
  "hasFinalizer L a \<equiv> lib_ContainsFinalizer L (Finalizers (a_Meta a)) harnessAgentFinalizer"

abbreviation readEvent :: "AgentReconciler \<Rightarrow> ObjectKey \<Rightarrow> HarnessGitopsAgent \<Rightarrow> event" where
  "readEvent r key a \<equiv> EvGetAgent (rd_Kind (cl_Reader (ar_Client r))) key (Inr a)"

definition passGuard ::
  "Library \<Rightarrow> AgentReconciler \<Rightarrow> ObjectKey \<Rightarrow> HarnessGitopsAgent \<Rightarrow> history \<Rightarrow> history \<Rightarrow> event \<Rightarrow> bool" where
  "passGuard L r key a h pre e \<longleftrightarrow>
     e = readEvent r key a \<or>
     (DeletionTimestamp (a_Meta a) \<noteq> None \<and> hasFinalizer L a \<and>
      deletionGuard L r a (existingMode a) h pre e) \<or>
     (DeletionTimestamp (a_Meta a) = None \<and> hasFinalizer L a \<and>
      readyGuard r a (existingMode a) (fst key) h pre e) \<or>
     (DeletionTimestamp (a_Meta a) = None \<and> \<not> hasFinalizer L a \<and>
      (\<exists>sent x. e = EvUpdateAgent sent x))"

context agent_api
begin

lemma ReconcileAgent_guarded:
  assumes api: "harnessAgentAPI L r = api"
    and got: "rd_GetAgent (cl_Reader (ar_Client r)) h key = Inr a"
  shows "guarded (passGuard L r key a (h @ [readEvent r key a])) (ReconcileAgent L r key) h"
proof -
  let ?h = "h @ [readEvent r key a]" let ?G = "passGuard L r key a ?h"
  let ?ens = "EnsureFinalizer L (agentWriter (ar_Client r)) a harnessAgentFinalizer"
  have get: "guarded ?G (GetAgent (cl_Reader (ar_Client r)) key) h"
    using got by (auto simp: GetAgent_def passGuard_def intro!: guarded_call)
  have deleting: "guarded ?G (reconcileDeletion L r a i (existingMode a)) ?h"
    if "DeletionTimestamp (a_Meta a) \<noteq> None" for i
  proof (cases "hasFinalizer L a")
    case True
    show ?thesis
      by (rule guarded_mono [OF reconcileDeletion_guarded [OF api]])
        (use True that in \<open>auto simp: passGuard_def\<close>)
  qed (simp add: reconcileDeletion_def guarded_ret)
  have ensure: "guarded ?G ?ens ?h" if "DeletionTimestamp (a_Meta a) = None"
  proof (cases "hasFinalizer L a")
    case True
    then show ?thesis by (simp add: EnsureFinalizer_def agentWriter_def guarded_ret)
  next
    case False
    have "emits (\<lambda>e. \<exists>sent x. e = EvUpdateAgent sent x) ?ens"
      by (rule agent_finalizer.ensure_emits) auto
    from guarded_emits [OF this] show ?thesis using False that by (auto simp: passGuard_def)
  qed
  have ready: "guarded ?G (reconcileReady L r key a i (existingMode a)) (?h @ emitted ?ens ?h)"
    if "DeletionTimestamp (a_Meta a) = None" "\<exists>res err. result ?ens ?h = (res, False, err)" for i
  proof -
    from that(2) agent_finalizer.ensure_done [of L "ar_Client r" a harnessAgentFinalizer ?h]
    have fin: "hasFinalizer L a" by (auto simp: agentWriter_def)
    then have "emitted ?ens ?h = []" by (simp add: EnsureFinalizer_def agentWriter_def)
    moreover have "guarded ?G (reconcileReady L r key a i (existingMode a)) ?h"
      by (rule guarded_mono [OF reconcileReady_guarded [OF api, where nm = "snd key" and ns = "fst key",
            unfolded prod.collapse]])
        (use fin that(1) in \<open>auto simp: passGuard_def\<close>)
    ultimately show ?thesis by simp
  qed
  have run: "result (GetAgent (cl_Reader (ar_Client r)) key) h = Inr a"
    "emitted (GetAgent (cl_Reader (ar_Client r)) key) h = [readEvent r key a]"
    using got by (simp_all add: GetAgent_def)
  show ?thesis
    unfolding ReconcileAgent_def Let_def existingMode_def [symmetric]
    by (auto intro!: guarded_bind guarded_ret get deleting ensure ready [simplified]
        simp: run split: sum.split prod.split)
qed

end

section \<open>Sample runs\<close>

text \<open>A live Agent that is not yet registered, one that is registered, and a deleted one.\<close>

definition freshAgent :: HarnessGitopsAgent where
  "freshAgent = sampleAgent\<lparr>
     a_Meta := (a_Meta sampleAgent)\<lparr>Finalizers := [harnessAgentFinalizer]\<rparr>,
     a_Status := (a_Status sampleAgent)\<lparr>ast_AgentIdentifier := '''', ast_AgentOwnership := OwnershipUnset\<rparr>\<rparr>"

definition registeredAgent :: HarnessGitopsAgent where
  "registeredAgent = sampleAgent\<lparr>
     a_Meta := (a_Meta sampleAgent)\<lparr>Finalizers := [harnessAgentFinalizer]\<rparr>\<rparr>"

definition deletedAgent :: HarnessGitopsAgent where
  "deletedAgent = sampleAgent\<lparr>
     a_Meta := (a_Meta sampleAgent)\<lparr>Finalizers := [harnessAgentFinalizer], DeletionTimestamp := Some Second\<rparr>\<rparr>"

lemmas agent_sample_defs = freshAgent_def registeredAgent_def deletedAgent_def sampleAgent_def sampleMeta_def

text \<open>A Harness without Agents that accepts creates, and one whose Agents have no key.\<close>

definition creatingAPI :: APIClient where
  "creatingAPI = absentAPI\<lparr>sdk_CreateAgent := (\<lambda>h key body. (sampleV1Agent, Some 200, None))\<rparr>"

abbreviation agentKey :: ObjectKey where
  "agentKey \<equiv> (''ns'', ''agent'')"

lemma sample_agent_session [simp]:
  "as_ApiKeySecretRef (a_Spec a) = ''key'' \<Longrightarrow>
   result (SessionForAgent (sampleLibrary api) (agentApiReader (sampleAgentReconciler as ms)) ns a) h =
   Inr (sampleSessionOf api)"
  by (simp add: SessionForAgent_def SessionFromSecret_def GetSecret_def NewSession_def
      NewSessionWithClient_def agentApiReader_def sampleAgentReconciler_def sampleLibrary_def
      sampleReader_def apiKeySecret_def sampleSessionOf_def Let_def result_bind)

lemma sample_agent_get [simp]:
  "metaKey (a_Meta a) = key \<Longrightarrow>
   result (GetAgent (cl_Reader (ar_Client (sampleAgentReconciler [a] ms))) key) h = Inr a"
  by (simp add: GetAgent_def sampleAgentReconciler_def sampleClient_def sampleReader_def)

lemma sample_agent_read:
  "metaKey (a_Meta a) = key \<Longrightarrow>
   rd_GetAgent (cl_Reader (ar_Client (sampleAgentReconciler [a] ms))) h key = Inr a"
  by (simp add: sampleAgentReconciler_def sampleClient_def sampleReader_def)

lemma sample_agent_fields [simp]:
  "metaKey (a_Meta freshAgent) = agentKey" "metaKey (a_Meta registeredAgent) = agentKey"
  "metaKey (a_Meta deletedAgent) = agentKey"
  "a_Spec freshAgent = a_Spec sampleAgent" "a_Spec registeredAgent = a_Spec sampleAgent"
  "a_Spec deletedAgent = a_Spec sampleAgent"
  "as_ApiKeySecretRef (a_Spec sampleAgent) = ''key''" "as_Identifier (a_Spec sampleAgent) = ''agent1''"
  "as_ExistingAgentIdentifier (a_Spec sampleAgent) = ''''"
  "as_TokenSecretRef (a_Spec sampleAgent) = ''tok''"
  "DeletionTimestamp (a_Meta freshAgent) = None" "DeletionTimestamp (a_Meta registeredAgent) = None"
  "DeletionTimestamp (a_Meta deletedAgent) = Some Second"
  "Finalizers (a_Meta freshAgent) = [harnessAgentFinalizer]"
  "Finalizers (a_Meta registeredAgent) = [harnessAgentFinalizer]"
  "Finalizers (a_Meta deletedAgent) = [harnessAgentFinalizer]"
  "UID (a_Meta freshAgent) = ''u-agent''" "UID (a_Meta deletedAgent) = ''u-agent''"
  by (simp_all add: agent_sample_defs metaKey_def)

lemma sample_agent_status [simp]:
  "a_Status freshAgent = (a_Status sampleAgent)\<lparr>ast_AgentIdentifier := '''', ast_AgentOwnership := OwnershipUnset\<rparr>"
  "a_Status registeredAgent = a_Status sampleAgent" "a_Status deletedAgent = a_Status sampleAgent"
  "ast_CreationState (a_Status sampleAgent) = AgentCreationUnset"
  "ast_AgentIdentifier (a_Status sampleAgent) = ''agent1''"
  "ast_AgentOwnership (a_Status sampleAgent) = OwnershipManaged"
  by (simp_all add: agent_sample_defs)

lemma sample_finalizer [simp]:
  "lib_ContainsFinalizer (sampleLibrary api) fs f \<longleftrightarrow> f \<in> set fs"
  "lib_RemoveFinalizer (sampleLibrary api) fs f = filter (\<lambda>g. g \<noteq> f) fs"
  by (simp_all add: sampleLibrary_def)

lemma sample_ensure [simp]:
  "Finalizers (a_Meta a) = [harnessAgentFinalizer] \<Longrightarrow>
   EnsureFinalizer (sampleLibrary api) (agentWriter cl) a harnessAgentFinalizer = ret (emptyResult, False, None)"
  by (simp add: EnsureFinalizer_def agentWriter_def)

lemma sample_token [simp]: "\<not> result (tokenSecretExists (sampleAgentReconciler as ms) a ''tok'') h"
  by (simp add: tokenSecretExists_run holdsToken_def agentApiReader_def sampleAgentReconciler_def
      sampleReader_def)

lemma sample_update [simp]:
  "result (updateAgentStatus (sampleAgentReconciler as ms) a) h = (None, a)"
  by (simp add: updateAgentStatus_run sampleAgentReconciler_def sampleClient_def)

text \<open>Lookups of the sample Agent.\<close>

lemma sample_lookup_present:
  "TrimSpace (ag_Identifier a) \<noteq> '''' \<Longrightarrow>
   result (SDK_Lookup (sampleSessionOf presentAPI) a) h =
   Inr \<lparr>lk_Exists = True, lk_Agent = agentFromSDK sampleV1Agent\<rparr>"
  by (rule sample_get [of a])
    (auto simp: SDK_Lookup_def result_bind Let_def candidates_Nil_iff)

lemma sample_getAgentLoop_absent:
  assumes "\<And>h cand. sdk_GetAgent (s_client s) h (s_apiKey s) cand account opts = (v, Some 404, Some e)"
  shows "result (getAgentLoop op s account opts cs) h = Inr None"
  by (induction cs arbitrary: h) (simp_all add: getAgentLoop_round [OF assms])

lemma sample_lookup_absent:
  "TrimSpace (ag_Identifier a) \<noteq> '''' \<Longrightarrow>
   result (SDK_Lookup (sampleSessionOf creatingAPI) a) h = Inr emptyLookup"
  by (simp add: SDK_Lookup_def result_bind Let_def candidates_Nil_iff sampleSessionOf_def
      sample_getAgentLoop_absent [of _ _ _ emptyV1Agent absentError] creatingAPI_def absentAPI_def)

lemma sample_owned:
  "a_Spec a = a_Spec sampleAgent \<Longrightarrow> UID (a_Meta a) = ''u-agent'' \<Longrightarrow>
   agentOwnedByCR a (expectedAgent a) (agentFromSDK sampleV1Agent)"
  unfolding agentOwnedByCR_iff
  by (simp add: sampleV1Agent_def harnessAgentCRUIDTag_def sampleAgent_def IdentifiersEquivalent_def
      trimmedOr_def OrgIdentifierForScope_def ProjectIdentifierForScope_def EqualFold_def)

lemma emitted_head:
  assumes "\<And>a. grows (f a)" and "grows m" and "\<exists>e\<in>set (emitted m h). P e"
  shows "\<exists>e\<in>set (emitted (State_Monad.bind m f) h). P e"
  using assms by (auto simp: emitted_bind)

lemma sample_sdk_api [simp]:
  "api_Lookup (SDKAgentAPI L) = SDK_Lookup" "api_CreateAgent (SDKAgentAPI L) = SDK_CreateAgent"
  "api_DeleteAgent (SDKAgentAPI L) = SDK_DeleteAgent" "api_ResolveToken (SDKAgentAPI L) = SDK_ResolveToken"
  by (simp_all add: SDKAgentAPI_def)

lemma identifier_harnessAgentFor [simp]: "ag_Identifier (harnessAgentFor a i) = TrimSpace i"
  by (simp add: harnessAgentFor_def Let_def)

lemmas grows_token [simp] = tokenSecretExists_run(3)

lemma grows_provideToken:
  "harnessAgentAPI L r = SDKAgentAPI L \<Longrightarrow> grows (provideToken L r a s n ready i t)"
  unfolding provideToken_def
  using emits_grows [OF agent_sdk.emits_healthResult] by (auto simp: grows_cases)

text \<open>Registering: the create, and the ownership write after a lookup that found the Agent.\<close>

lemma sample_creating_call:
  assumes "a_Spec a = a_Spec sampleAgent" and "UID (a_Meta a) = ''u-agent''"
  shows "\<exists>e\<in>set (emitted (registerIntended (sampleLibrary creatingAPI) (sampleAgentReconciler as ms)
     (sampleSessionOf creatingAPI) a ns) h). isAgentCreate e"
proof -
  have "\<exists>e\<in>set (emitted (createHarnessAgent (sampleLibrary creatingAPI) (sampleAgentReconciler as ms)
      (sampleSessionOf creatingAPI) a ns) h'). isAgentCreate e" for h'
    using SDK_CreateAgent_one [of "sampleSessionOf creatingAPI"
        "\<lparr>cq_Agent = taggedAgent a, cq_Namespace = ns\<rparr>" h'] assms
    by (auto simp: createHarnessAgent_def Let_def grows_cases intro!: emitted_head)
  then have "\<exists>e\<in>set (emitted (registerAbsent (sampleLibrary creatingAPI) (sampleAgentReconciler as ms)
      (sampleSessionOf creatingAPI) a ns) h'). isAgentCreate e" for h'
    unfolding registerAbsent_def
    by (intro emitted_head) (auto simp: agent_sdk.grows_createHarnessAgent grows_cases)
  then show ?thesis
    using assms
    by (auto simp: registerIntended_def Let_def sample_lookup_absent emptyLookup_def intro!: emitted_tail)
qed

lemma sample_owning_call:
  assumes "a_Spec a = a_Spec sampleAgent" and "UID (a_Meta a) = ''u-agent''"
  shows "\<exists>e\<in>set (emitted (registerIntended (sampleLibrary presentAPI) (sampleAgentReconciler as ms)
     (sampleSessionOf presentAPI) a ns) h).
       \<exists>sent x. e = EvUpdateAgentStatus sent x \<and> ast_AgentOwnership (a_Status sent) = OwnershipManaged"
proof -
  let ?P = "\<lambda>e. \<exists>sent x. e = EvUpdateAgentStatus sent x \<and> ast_AgentOwnership (a_Status sent) = OwnershipManaged"
  have "\<exists>e\<in>set (emitted (registerFound (sampleAgentReconciler as ms) a (expectedAgent a)
      (agentFromSDK sampleV1Agent)) h'). ?P e" for h'
    using sample_owned [OF assms]
    by (simp add: registerFound_def emitted_bind updateAgentStatus_run grows_cases)
  then show ?thesis
    using assms by (auto simp: registerIntended_def Let_def sample_lookup_present intro!: emitted_tail)
qed

lemma sample_registration:
  assumes "\<And>a h. a_Spec a = a_Spec sampleAgent \<Longrightarrow> UID (a_Meta a) = ''u-agent'' \<Longrightarrow>
      \<exists>e\<in>set (emitted (registerIntended (sampleLibrary api) (sampleAgentReconciler [freshAgent] [])
        (sampleSessionOf api) a ''ns'') h). P e"
  shows "\<exists>e\<in>set (emitted (ReconcileAgent (sampleLibrary api) (sampleAgentReconciler [freshAgent] []) agentKey) []). P e"
proof -
  let ?L = "sampleLibrary api" and ?r = "sampleAgentReconciler [freshAgent] []"
  have reg: "\<exists>e\<in>set (emitted (reconcileAgentRegistration ?L ?r (sampleSessionOf api) freshAgent ''ns'') h). P e"
    for h
    using assms
    by (auto simp: reconcileAgentRegistration_def setAgentCreationState_def intro!: emitted_tail)
  have then_reg: "\<exists>e\<in>set (emitted (State_Monad.bind
      (reconcileAgentRegistration ?L ?r (sampleSessionOf api) freshAgent ''ns'') f) h). P e"
    if "\<And>x. grows (f x)" for f :: "_ \<Rightarrow> (Result \<times> go_error option) M" and h
    by (rule emitted_head [OF that agent_sdk.grows_registration reg]) simp
  have "\<exists>e\<in>set (emitted (reconcileReady ?L ?r agentKey freshAgent '''' False) h). P e" for h
    by (auto simp: reconcileReady_def Let_def grows_provideToken grows_cases intro!: emitted_tail then_reg)
  then show ?thesis
    by (auto simp: ReconcileAgent_def Let_def intro!: emitted_tail)
qed

text \<open>Deleting: the delete request and the removal of the finalizer.\<close>

lemma sample_dependencies:
  "result (reconcileMappingDependenciesForDeletion L (sampleAgentReconciler as []) a) h =
   (emptyResult, False, None)"
  by (simp add: reconcileMappingDependenciesForDeletion_def sampleAgentReconciler_def ListMappings_def
      sampleReader_def result_bind)

lemma sample_authorized:
  "result (authorizeDeletion (sampleLibrary presentAPI) (sampleAgentReconciler as ms) deletedAgent) h =
   Inr (Some (sampleSessionOf presentAPI), True)"
  using sample_owned [of deletedAgent]
  by (simp add: authorizeDeletion_def lookupAgentOwnedByCR_def sample_lookup_present result_bind Let_def)

lemma sample_delete_result:
  assumes "TrimSpace (ag_Identifier a) \<noteq> ''''"
  shows "result (SDK_DeleteAgent (sampleSessionOf presentAPI) a) h = None"
    and "\<exists>e\<in>set (emitted (SDK_DeleteAgent (sampleSessionOf presentAPI) a) h). isAgentDelete e"
proof -
  obtain c cs where cs: "agentCandidates a = c # cs"
    using candidates_Nil_iff [of "ag_Scope a" "ag_Identifier a"] assms by (cases "agentCandidates a") auto
  have ans: "sdk_DeleteAgent (s_client (sampleSessionOf presentAPI)) h (s_apiKey (sampleSessionOf presentAPI))
      c (deleteAgentOpts a) = ((), Some 200, None)"
    by (simp add: presentAPI_def sampleSessionOf_def)
  show "result (SDK_DeleteAgent (sampleSessionOf presentAPI) a) h = None"
    and "\<exists>e\<in>set (emitted (SDK_DeleteAgent (sampleSessionOf presentAPI) a) h). isAgentDelete e"
    by (simp_all add: SDK_DeleteAgent_def cs deleteAgentLoop_round [OF ans])
qed

lemma sample_deletion:
  assumes "\<And>h. \<exists>e\<in>set (emitted (deleteRemoteAgent (sampleLibrary presentAPI) (sampleAgentReconciler [deletedAgent] [])
      deletedAgent (sampleSessionOf presentAPI)) h). P e"
  shows "\<exists>e\<in>set (emitted (ReconcileAgent (sampleLibrary presentAPI) (sampleAgentReconciler [deletedAgent] [])
    agentKey) []). P e"
proof -
  let ?L = "sampleLibrary presentAPI" and ?r = "sampleAgentReconciler [deletedAgent] []"
  have auth: "grows (authorizeDeletion ?L ?r a)" for a
    using emits_grows [OF agent_sdk.emits_authorizeDeletion] by simp
  have "\<exists>e\<in>set (emitted (reconcileDeletion ?L ?r deletedAgent '''' False) h). P e" for h
    using assms
    by (auto simp: reconcileDeletion_def sample_dependencies sample_authorized auth intro!: emitted_tail)
  then show ?thesis by (auto simp: ReconcileAgent_def Let_def intro!: emitted_tail)
qed

lemma sample_deleting_call:
  "\<exists>e\<in>set (emitted (deleteRemoteAgent (sampleLibrary presentAPI) (sampleAgentReconciler as ms)
     deletedAgent (sampleSessionOf presentAPI)) h). isAgentDelete e"
proof -
  have "grows (if err \<noteq> None \<and> \<not> isAgentNotFound err then ret (emptyResult, err)
      else RemoveFinalizer L (agentWriter cl) a f \<bind> (\<lambda>removed. ret (emptyResult, removed)))" for err L cl a f
    by (simp add: grows_cases)
  with sample_delete_result(2) [of "harnessAgentFor deletedAgent ''agent1''" h] show ?thesis
    by (auto simp: deleteRemoteAgent_def Let_def intro!: emitted_head)
qed

lemma sample_releasing_call:
  "\<exists>e\<in>set (emitted (deleteRemoteAgent (sampleLibrary presentAPI) (sampleAgentReconciler as ms)
     deletedAgent (sampleSessionOf presentAPI)) h). \<exists>sent x. e = EvUpdateAgent sent x"
  using sample_delete_result(1) [of "harnessAgentFor deletedAgent ''agent1''"]
  by (auto simp: deleteRemoteAgent_def Let_def emitted_bind agent_finalizer.remove_events intro!: emitted_tail)

text \<open>Regenerating the key of a registered Agent whose token Secret is missing.\<close>

lemma regenerating_run:
  assumes api: "ar_agentAPI r = None"
    and get: "\<And>h. result (GetAgent (cl_Reader (ar_Client r)) agentKey) h = Inr registeredAgent"
    and session: "\<And>h. result (SessionForAgent (sampleLibrary keylessAPI) (agentApiReader r)
      (ar_APIKeySecretNamespace r) registeredAgent) h = Inr (sampleSessionOf keylessAPI)"
    and token: "\<And>h. \<not> result (tokenSecretExists r registeredAgent ''tok'') h"
  shows "\<exists>e\<in>set (emitted (ReconcileAgent (sampleLibrary keylessAPI) r agentKey) []). isRegenerate e"
proof -
  let ?L = "sampleLibrary keylessAPI"
  let ?s = "sampleSessionOf keylessAPI" and ?a = "harnessAgentFor registeredAgent ''agent1''"
  have sdk [simp]: "harnessAgentAPI ?L r = SDKAgentAPI ?L" using api by (simp add: harnessAgentAPI_def)
  obtain c cs where cs: "agentCandidates ?a = c # cs"
    using candidates_Nil_iff [of "ag_Scope ?a" "ag_Identifier ?a"] by (cases "agentCandidates ?a") auto
  have ans: "sdk_GetAgent (s_client ?s) h (s_apiKey ?s) c account opts = (emptyV1Agent, Some 200, None)"
    for h account opts
    by (simp add: keylessAPI_def sampleSessionOf_def)
  have key: "\<exists>e\<in>set (emitted (SDK_ResolveToken ?s ?a '''') h). isRegenerate e" for h
    unfolding SDK_ResolveToken_events cs Let_def getAgentLoop_round [OF ans]
    by (simp add: resolveFound_events emptyV1Agent_def)
  have then_key: "\<exists>e\<in>set (emitted (State_Monad.bind (SDK_ResolveToken ?s ?a '''') f) h). isRegenerate e"
    if "\<And>x. grows (f x)" for f :: "_ \<Rightarrow> (Result \<times> go_error option) M" and h
    by (rule emitted_head [OF that _ key]) simp
  have health: "grows (agentHealthResult ?L r a s' j)" for a s' j
    using emits_grows [OF agent_sdk.emits_healthResult] by simp
  have "\<exists>e\<in>set (emitted (reconcileReady ?L r agentKey registeredAgent '''' False) h). isRegenerate e" for h
    by (auto simp: reconcileReady_def provideToken_def Let_def agentCreationIsUncertain_def grows_cases health
        session token intro!: emitted_tail then_key)
  then show ?thesis by (auto simp: ReconcileAgent_def Let_def get intro!: emitted_tail)
qed

lemma sample_regenerating:
  "\<exists>e\<in>set (emitted (ReconcileAgent (sampleLibrary keylessAPI) (sampleAgentReconciler [registeredAgent] [])
    agentKey) []). isRegenerate e"
  by (rule regenerating_run) simp_all

text \<open>A reader that may not read the token Secret.\<close>

definition forbiddenReader :: Reader where
  "forbiddenReader = (sampleReader UncachedReader [registeredAgent] [])\<lparr>
     rd_GetSecret := (\<lambda>h key. if snd key = ''key'' then Inr apiKeySecret
       else Inl (ErrStatus ''Forbidden'' ''secrets is forbidden''))\<rparr>"

text \<open>An event of a run, with what came before it.\<close>

lemma run_event:
  assumes "\<exists>e\<in>set (emitted m h). P e"
  obtains pre e post where "emitted m h = pre @ e # post" "P e"
  using assms by (metis split_list)

section \<open>Properties\<close>

lemma agent_pass_event:
  assumes "ar_agentAPI r = None" and "rd_GetAgent (cl_Reader (ar_Client r)) h key = Inr a"
    and "emitted (ReconcileAgent L r key) h = pre @ e # post"
  shows "passGuard L r key a (h @ [readEvent r key a]) (h @ pre) e"
proof -
  have "harnessAgentAPI L r = SDKAgentAPI L" using assms(1) by (simp add: harnessAgentAPI_def)
  from guarded_event [OF agent_sdk.ReconcileAgent_guarded [OF this assms(2)] assms(3)] show ?thesis .
qed

text \<open>
  C4: an Agent is created only on durable intent and confirmed absence. Every create request is for a live
  resource with its finalizer that does not name an existing Agent; before it, in this pass, the
  creation state was on record as uncertain or the server stored Pending, and after that every
  identifier candidate answered 404; and the request carries the resource's tuple and a tag with
  its non-blank UID.
\<close>

theorem agent_created_only_after_intent_and_absence:
  assumes "ar_agentAPI r = None" and "rd_GetAgent (cl_Reader (ar_Client r)) h key = Inr a"
    and "emitted (ReconcileAgent L r key) h = pre @ e # post" and "isAgentCreate e"
  shows "DeletionTimestamp (a_Meta a) = None \<and> hasFinalizer L a \<and> \<not> existingMode a \<and>
    (\<exists>es. agentCreateJustified a (fst key) (h @ readEvent r key a # es) (h @ pre) e)"
  using agent_pass_event [OF assms(1-3)] assms(4)
  by (auto simp: passGuard_def readyGuard_def deletionGuard_def)

theorem agent_created_only_after_intent_and_absence_witness:
  "\<exists>pre e es. isAgentCreate e \<and>
     agentCreateJustified freshAgent ''ns''
       (readEvent (sampleAgentReconciler [freshAgent] []) agentKey freshAgent # es) pre e"
proof (rule run_event [OF sample_registration [OF sample_creating_call]])
  fix pre e post
  assume ev: "emitted (ReconcileAgent (sampleLibrary creatingAPI) (sampleAgentReconciler [freshAgent] [])
      agentKey) [] = pre @ e # post" and e: "isAgentCreate e"
  from agent_created_only_after_intent_and_absence [OF sample_agent_api(1) sample_agent_read ev e] e
  show ?thesis by auto
qed simp_all

text \<open>
  C5: a remote Agent is deleted only by the resource that created it. Every delete request is for a
  deleted resource with its finalizer that does not name an existing Agent; in this pass the
  uncached list of its namespace showed no Mapping that references it, and directly before the
  delete the Agent was read and carried the resource's UID tag and complete tuple.
\<close>

theorem agent_deleted_only_when_owned_and_unreferenced:
  assumes "ar_agentAPI r = None" and "rd_GetAgent (cl_Reader (ar_Client r)) h key = Inr a"
    and "emitted (ReconcileAgent L r key) h = pre @ e # post" and "isAgentDelete e"
  shows "DeletionTimestamp (a_Meta a) \<noteq> None \<and> hasFinalizer L a \<and> \<not> existingMode a \<and>
    agentDeleteJustified r a (h @ [readEvent r key a]) (h @ pre) e"
  using agent_pass_event [OF assms(1-3)] assms(4)
  by (auto simp: passGuard_def readyGuard_def deletionGuard_def)

theorem agent_deleted_only_when_owned_and_unreferenced_witness:
  "\<exists>pre e. isAgentDelete e \<and>
     agentDeleteJustified (sampleAgentReconciler [deletedAgent] []) deletedAgent
       [readEvent (sampleAgentReconciler [deletedAgent] []) agentKey deletedAgent] pre e"
proof (rule run_event [OF sample_deletion [OF sample_deleting_call]])
  fix pre e post
  assume ev: "emitted (ReconcileAgent (sampleLibrary presentAPI) (sampleAgentReconciler [deletedAgent] [])
      agentKey) [] = pre @ e # post" and e: "isAgentDelete e"
  from agent_deleted_only_when_owned_and_unreferenced [OF sample_agent_api(1) sample_agent_read ev e] e
  show ?thesis by auto
qed

text \<open>
  C8: the finalizer of a deleted Agent is released only when nothing is left behind. Every write
  of the resource's metadata while it is deleted follows an uncached list without a Mapping that
  references it; and the resource names an existing Agent, never registered one, or the Agent was
  looked up in this pass and is absent or not this resource's, or its deletion was confirmed.
\<close>

theorem agent_finalizer_released_only_when_clean:
  assumes "ar_agentAPI r = None" and "rd_GetAgent (cl_Reader (ar_Client r)) h key = Inr a"
    and "emitted (ReconcileAgent L r key) h = pre @ EvUpdateAgent sent x # post"
    and "DeletionTimestamp (a_Meta a) \<noteq> None" and "foreignClients L"
  shows "agentReleaseJustified r a (existingMode a) (h @ [readEvent r key a]) (h @ pre)"
  using agent_pass_event [OF assms(1-3)] assms(4,5)
  by (auto simp: passGuard_def deletionGuard_def)

theorem agent_finalizer_released_only_when_clean_witness:
  "foreignClients (sampleLibrary presentAPI) \<and>
   (\<exists>pre. agentReleaseJustified (sampleAgentReconciler [deletedAgent] []) deletedAgent
     (existingMode deletedAgent)
     [readEvent (sampleAgentReconciler [deletedAgent] []) agentKey deletedAgent] pre)"
proof (rule run_event [OF sample_deletion [OF sample_releasing_call]])
  fix pre e post
  assume ev: "emitted (ReconcileAgent (sampleLibrary presentAPI) (sampleAgentReconciler [deletedAgent] [])
      agentKey) [] = pre @ e # post" and "\<exists>sent x. e = EvUpdateAgent sent x"
  then obtain sent x where ev: "emitted (ReconcileAgent (sampleLibrary presentAPI)
      (sampleAgentReconciler [deletedAgent] []) agentKey) [] = pre @ EvUpdateAgent sent x # post" by auto
  have foreign: "foreignClients (sampleLibrary presentAPI)"
    by (simp add: foreignClients_def foreignErrors_def sampleLibrary_def presentAPI_def)
  from agent_finalizer_released_only_when_clean [OF sample_agent_api(1) sample_agent_read ev _ foreign] foreign
  show ?thesis by auto
qed

text \<open>
  C9: Managed ownership is never assumed. Every status the handler writes with Managed ownership
  either keeps the ownership of the Agent as read, or as stored by an earlier write of this
  pass, or follows directly on the proof: a read of the Agent with the resource's UID tag and
  tuple, or an accepted create that returned the requested identifier.
\<close>

theorem agent_ownership_only_by_proof:
  assumes "ar_agentAPI r = None" and "rd_GetAgent (cl_Reader (ar_Client r)) h key = Inr a"
    and "emitted (ReconcileAgent L r key) h = pre @ EvUpdateAgentStatus sent x # post"
    and "ast_AgentOwnership (a_Status sent) = OwnershipManaged"
  shows "ownershipSettled a (h @ [readEvent r key a]) (h @ pre) sent"
  using agent_pass_event [OF assms(1-3)] assms(4)
  by (auto simp: passGuard_def deletionGuard_def readyGuard_def)

theorem agent_ownership_only_by_proof_witness:
  "\<exists>pre sent. ast_AgentOwnership (a_Status sent) = OwnershipManaged \<and>
     ownershipSettled freshAgent
       [readEvent (sampleAgentReconciler [freshAgent] []) agentKey freshAgent] pre sent"
proof (rule run_event [OF sample_registration [OF sample_owning_call]])
  fix pre e post
  assume ev: "emitted (ReconcileAgent (sampleLibrary presentAPI) (sampleAgentReconciler [freshAgent] [])
      agentKey) [] = pre @ e # post"
    and "\<exists>sent x. e = EvUpdateAgentStatus sent x \<and> ast_AgentOwnership (a_Status sent) = OwnershipManaged"
  then obtain sent x where "emitted (ReconcileAgent (sampleLibrary presentAPI)
      (sampleAgentReconciler [freshAgent] []) agentKey) [] = pre @ EvUpdateAgentStatus sent x # post"
    and managed: "ast_AgentOwnership (a_Status sent) = OwnershipManaged" by auto
  from agent_ownership_only_by_proof [OF sample_agent_api(1) sample_agent_read this] managed
  show ?thesis by auto
qed simp_all

text \<open>
  C10: credentials of a running Agent are not invalidated lightly. Every regeneration request is for
  a live resource that does not name an existing Agent, after a read of its token Secret in this
  pass that returned no token, with Managed ownership on record: settled before this pass, or
  stored by a status write of this pass.
\<close>

theorem agent_token_regenerated_only_when_managed:
  assumes "ar_agentAPI r = None" and "rd_GetAgent (cl_Reader (ar_Client r)) h key = Inr a"
    and "emitted (ReconcileAgent L r key) h = pre @ e # post" and "isRegenerate e"
  shows "DeletionTimestamp (a_Meta a) = None \<and> \<not> existingMode a \<and>
    regenerateJustified r a (h @ [readEvent r key a]) (h @ pre)"
  using agent_pass_event [OF assms(1-3)] assms(4)
  by (auto simp: passGuard_def readyGuard_def deletionGuard_def)

theorem agent_token_regenerated_only_when_managed_witness:
  "\<exists>pre e. isRegenerate e \<and>
     regenerateJustified (sampleAgentReconciler [registeredAgent] []) registeredAgent
       [readEvent (sampleAgentReconciler [registeredAgent] []) agentKey registeredAgent] pre"
proof (rule run_event [OF sample_regenerating])
  fix pre e post
  assume ev: "emitted (ReconcileAgent (sampleLibrary keylessAPI) (sampleAgentReconciler [registeredAgent] [])
      agentKey) [] = pre @ e # post" and e: "isRegenerate e"
  from agent_token_regenerated_only_when_managed [OF sample_agent_api(1) sample_agent_read ev e] e
  show ?thesis by auto
qed

text \<open>
  An unreadable token Secret counts as a missing one, shown by a run: for a registered Agent whose token
  Secret cannot be read because the read is forbidden, the handler requests new credentials,
  although the Secret may well hold the token the running Agent uses.
\<close>

lemma unreadable_token_secret_regenerates:
  "let r = (sampleAgentReconciler [registeredAgent] [])\<lparr>ar_APIReader := Some forbiddenReader\<rparr>
   in rd_GetSecret (agentApiReader r) [] (''ns'', ''tok'') =
        Inl (ErrStatus ''Forbidden'' ''secrets is forbidden'') \<and>
      (\<exists>e\<in>set (emitted (ReconcileAgent (sampleLibrary keylessAPI) r agentKey) []). isRegenerate e)"
proof -
  let ?r = "(sampleAgentReconciler [registeredAgent] [])\<lparr>ar_APIReader := Some forbiddenReader\<rparr>"
  have "\<exists>e\<in>set (emitted (ReconcileAgent (sampleLibrary keylessAPI) ?r agentKey) []). isRegenerate e"
  proof (rule regenerating_run)
    show "result (SessionForAgent (sampleLibrary keylessAPI) (agentApiReader ?r)
        (ar_APIKeySecretNamespace ?r) registeredAgent) h = Inr (sampleSessionOf keylessAPI)" for h
      by (simp add: SessionForAgent_def SessionFromSecret_def GetSecret_def NewSession_def
          NewSessionWithClient_def agentApiReader_def forbiddenReader_def sampleLibrary_def
          apiKeySecret_def sampleSessionOf_def Let_def result_bind)
    show "\<not> result (tokenSecretExists ?r registeredAgent ''tok'') h" for h
      by (simp add: tokenSecretExists_run holdsToken_def agentApiReader_def forbiddenReader_def)
  qed simp_all
  then show ?thesis by (simp add: Let_def agentApiReader_def forbiddenReader_def)
qed

text \<open>
  C37: the two watches and the dependency check agree on which Mappings belong to an Agent: a
  Mapping's event enqueues the Agent exactly when the Mapping is in the Agent's namespace and
  the dependency check of its deletion counts it as a reference, exactly when the index that an
  Agent's event uses lists it.
\<close>

theorem watches_agree_on_references:
  assumes "Name (a_Meta a) \<noteq> ''''"
  shows "((Namespace (a_Meta a), Name (a_Meta a)) \<in> set (projectMappingToAgentRequests (MappingObject m)) \<longleftrightarrow>
      Namespace (m_Meta m) = Namespace (a_Meta a) \<and> referencesAgent a m) \<and>
    (referencesAgent a m \<longleftrightarrow> Name (a_Meta a) \<in> set (projectMappingAgentRefIndexValues (MappingObject m)))"
  using assms
  by (auto simp: projectMappingToAgentRequests_def projectMappingAgentRefIndexValues_def referencesAgent_def
      Let_def)

theorem watches_agree_on_references_witness:
  "(''ns'', ''agent'') \<in> set (projectMappingToAgentRequests (MappingObject sampleMapping))"
  using watches_agree_on_references [of sampleAgent sampleMapping]
  by (simp add: referencesAgent_def sampleAgent_def sampleMapping_def sampleMeta_def)

end
