(* ===== verification/Agent_Progress.thy ===== *)
theory Agent_Progress
  imports Agent_Reconciler Outcome_Logic
begin

text \<open>
  Progress of the Agent handler: a pass that reports no error asks to be run again, or has
  released the finalizer of a deleted resource.
\<close>

section \<open>How a pass ends\<close>

definition agentDelay :: "AgentReconciler \<Rightarrow> Duration \<Rightarrow> bool" where
  "agentDelay r d \<longleftrightarrow>
     d = agentHealthResyncInterval r \<or> d = agentHealthFastResync \<or> d = agentRegistrationRetryInterval \<or>
     d = agentMappingDependencyRetryInterval \<or> d = Nanosecond"

text \<open>The object without this controller's finalizer; the last call is an accepted update with it.\<close>

definition releasedAgent :: "Library \<Rightarrow> HarnessGitopsAgent \<Rightarrow> HarnessGitopsAgent" where
  "releasedAgent L a = a\<lparr>a_Meta := (a_Meta a)\<lparr>Finalizers :=
     lib_RemoveFinalizer L (Finalizers (a_Meta a)) harnessAgentFinalizer\<rparr>\<rparr>"

definition agentReleased :: "Library \<Rightarrow> HarnessGitopsAgent \<Rightarrow> history \<Rightarrow> bool" where
  "agentReleased L a h \<longleftrightarrow>
     (\<exists>stored. h \<noteq> [] \<and> last h = EvUpdateAgent (releasedAgent L a) (Inr stored))"

definition agentRetried :: "AgentReconciler \<Rightarrow> Result \<times> go_error option \<Rightarrow> history \<Rightarrow> bool" where
  "agentRetried r out h \<longleftrightarrow> snd out \<noteq> None \<or> agentDelay r (RequeueAfter (fst out))"

definition agentCleaned ::
  "Library \<Rightarrow> HarnessGitopsAgent \<Rightarrow> AgentReconciler \<Rightarrow> Result \<times> go_error option \<Rightarrow> history \<Rightarrow> bool" where
  "agentCleaned L a r out h \<longleftrightarrow> agentRetried r out h \<or> agentReleased L a h"

lemma agentDelay_intervals [simp]:
  "agentDelay r (agentHealthResyncInterval r)" "agentDelay r agentHealthFastResync"
  "agentDelay r agentRegistrationRetryInterval" "agentDelay r agentMappingDependencyRetryInterval"
  "agentDelay r Nanosecond"
  by (simp_all add: agentDelay_def)

lemma agentDelay_positive: "agentDelay r d \<Longrightarrow> 0 < d"
  by (auto simp: agentDelay_def agentHealthResyncInterval_def DefaultAgentHealthResyncInterval_def
      agentHealthFastResync_def agentRegistrationRetryInterval_def agentMappingDependencyRetryInterval_def
      Second_def Minute_def Nanosecond_def split: if_splits)

lemma agentRetried_simps [simp]:
  "agentRetried r (res, Some e) h" "agentDelay r d \<Longrightarrow> agentRetried r (requeueAfter d, err) h"
  by (auto simp: agentRetried_def)

lemma agentCleaned_retried: "agentRetried r out h \<Longrightarrow> agentCleaned L a r out h"
  by (simp add: agentCleaned_def)

section \<open>A live resource\<close>

lemma ends_health [ends_intro]: "ends (agentRetried r) (agentHealthResult L r a s i) h"
proof -
  have "ends (\<lambda>out _. case out of Inl _ \<Rightarrow> True | Inr d \<Rightarrow> agentDelay r d) (publishAgentHealth L r a s i) h"
    unfolding publishAgentHealth_def Let_def
    by (intro ends_intro) (auto split: option.split)
  then show ?thesis
    unfolding agentHealthResult_def
    by (rule ends_then) (auto intro!: ends_ret split: sum.splits)
qed

lemma ends_refresh [ends_intro]: "ends (agentRetried r) (refreshAgentHealth L r a i) h"
  unfolding refreshAgentHealth_def by (intro ends_intro)

lemma ends_observe [ends_intro]: "ends (agentRetried r) (observeExisting L r a i) h"
  unfolding observeExisting_def by (intro ends_intro) simp_all

lemma ends_token [ends_intro]: "ends (agentRetried r) (provideToken L r a s n ready i t) h"
  unfolding provideToken_def by (intro ends_intro) simp_all

text \<open>A registration that is done without an error has set the retry.\<close>

abbreviation registrationAnswered ::
  "AgentReconciler \<Rightarrow> agentRegistrationOutcome \<times> go_error option \<times> HarnessGitopsAgent \<Rightarrow> history \<Rightarrow> bool" where
  "registrationAnswered r \<equiv> \<lambda>(out, err, a) h. err = None \<and> ro_done out \<longrightarrow>
     agentDelay r (RequeueAfter (ro_result out))"

lemma ends_registration: "ends (registrationAnswered r) (reconcileAgentRegistration L r s a ns) h"
proof -
  have found: "ends (registrationAnswered r) (registerFound r a' e o') h'" for a' e o' h'
    unfolding registerFound_def by (intro ends_intro) (auto simp: doneOutcome_def split: option.split)
  have absent: "ends (registrationAnswered r) (registerAbsent L r s a' ns) h'" for a' h'
    unfolding registerAbsent_def by (intro ends_intro) (auto simp: doneOutcome_def split: option.split)
  have intended: "ends (registrationAnswered r) (registerIntended L r s a' ns) h'" for a' h'
    unfolding registerIntended_def Let_def by (auto intro!: ends_intro found absent)
  show ?thesis
    unfolding reconcileAgentRegistration_def
    by (cases "ast_CreationState (a_Status a)") (auto intro!: ends_intro intended)
qed

lemma ends_ready [ends_intro]: "ends (agentRetried r) (reconcileReady L r req a i existing) h"
proof -
  have registered: "ends (agentRetried r) (State_Monad.bind (reconcileAgentRegistration L r s a ns)
      (\<lambda>(out, err, a'). case err of Some e \<Rightarrow> ret (emptyResult, Some e)
        | None \<Rightarrow> if ro_done out then ret (ro_result out, None)
            else provideToken L r a' s n ready (ro_identifier out) (ro_initialToken out))) h'"
    for s ns n ready h'
    by (rule ends_then [OF ends_registration])
      (auto intro!: ends_case_prod ends_case_option ends_if ends_ret ends_token simp: agentRetried_def)
  show ?thesis
    unfolding reconcileReady_def Let_def
    by (auto intro!: registered ends_observe ends_refresh ends_token ends_ret ends_bind ends_case_sum)
qed

section \<open>A deleted resource\<close>

lemma ends_agentRelease [ends_intro]:
  "ends (agentCleaned L a r) (do { removed \<leftarrow> RemoveFinalizer L (agentWriter (ar_Client r)) a harnessAgentFinalizer;
     ret (emptyResult, removed) }) h"
  unfolding RemoveFinalizer_def agentWriter_def
  by (auto simp: ends_bind_iff UpdateAgent_def ends_call ends_ret_iff agentCleaned_def agentRetried_def
      agentReleased_def releasedAgent_def split: sum.split)

lemma ends_deleteRemote [ends_intro]: "ends (agentCleaned L a r) (deleteRemoteAgent L r a s) h"
  unfolding deleteRemoteAgent_def Let_def
  by (auto intro!: ends_agentRelease ends_ret ends_if ends_bind simp: agentCleaned_retried)

lemma ends_dependencies:
  "ends (\<lambda>(res, stop, err) h. stop \<longrightarrow> agentRetried r (res, err) h)
     (reconcileMappingDependenciesForDeletion L r a) h"
  unfolding reconcileMappingDependenciesForDeletion_def Let_def by (intro ends_intro) simp_all

lemma ends_agentDeletion:
  assumes "lib_ContainsFinalizer L (Finalizers (a_Meta a)) harnessAgentFinalizer"
  shows "ends (agentCleaned L a r) (reconcileDeletion L r a i existing) h"
proof -
  have after: "ends (agentCleaned L a r) (State_Monad.bind (reconcileMappingDependenciesForDeletion L r a)
      (\<lambda>(res, stop, err). if stop then ret (res, err) else m)) h"
    if "\<And>h'. ends (agentCleaned L a r) m h'" for m
    by (rule ends_then [OF ends_dependencies])
      (auto intro!: ends_case_prod ends_if ends_ret that agentCleaned_retried)
  show ?thesis
    using assms unfolding reconcileDeletion_def
    by (auto intro!: after ends_agentRelease ends_deleteRemote ends_bind [where m = "authorizeDeletion L r a"]
        ends_bind [where m = "SessionForAgent L _ _ _"] ends_case_sum ends_case_prod ends_case_option ends_if
        ends_ret agentCleaned_retried)
qed

section \<open>The whole pass\<close>

lemma live_agent_pass:
  assumes "rd_GetAgent (cl_Reader (ar_Client r)) h key = Inr a" and "DeletionTimestamp (a_Meta a) = None"
    and "result (ReconcileAgent L r key) h = (res, None)"
  shows "agentDelay r (RequeueAfter res)"
proof -
  have "ends (agentRetried r) (ReconcileAgent L r key) h"
    using assms(1,2)
    by (auto simp: ReconcileAgent_def GetAgent_def ends_run Let_def EnsureFinalizer_def ends_bind_iff ends_call
        agentWriter_def UpdateAgent_def ends_ready split: sum.split)
  with assms(3) show ?thesis by (simp add: ends_def result_def agentRetried_def)
qed


text \<open>An existing Agent that is no longer to be observed.\<close>

definition forgottenAgent :: HarnessGitopsAgent where
  "forgottenAgent = deletedAgent\<lparr>a_Spec := (a_Spec deletedAgent)\<lparr>as_ExistingAgentIdentifier := ''agent1''\<rparr>\<rparr>"

lemma sample_forget_pass:
  "result (ReconcileAgent (sampleLibrary presentAPI) (sampleAgentReconciler [forgottenAgent] [])
     (''ns'', ''agent'')) [] = (emptyResult, None)"
  by (simp add: ReconcileAgent_def GetAgent_def forgottenAgent_def agent_sample_defs reconcileDeletion_def
      reconcileMappingDependenciesForDeletion_def sampleAgentReconciler_def sample_defs
      RemoveFinalizer_def agentWriter_def UpdateAgent_def ListMappings_def result_def Let_def)


end
