(* ===== verification/Manager_Setup.thy ===== *)
theory Manager_Setup
  imports Mapping_Progress Agent_Progress
begin

text \<open>
  \<open>cmd/main.go\<close>, \<open>internal/controller/setup.go\<close> and the two \<open>SetupWithManager\<close> methods: from
  the command-line flags to a started manager with both controllers. The manager is
  controller-runtime's and a parameter: what it was asked to do is kept in the model.
\<close>

section \<open>Registering controllers\<close>

datatype Kind = AgentKind | MappingKind | SecretKind

text \<open>What a controller builder was told before \<open>Complete\<close>.\<close>

record ControllerSpec =
  ct_Name :: string
  ct_For :: Kind
  ct_Owns :: "Kind list"
  ct_Watches :: "(Kind \<times> (ClientObject \<Rightarrow> ObjectKey list M)) list"
  ct_Reconcile :: "ObjectKey \<Rightarrow> (Result \<times> go_error option) M"

text \<open>\<open>ctrl.Manager\<close>, and \<open>dynamic.NewForConfig\<close> on its configuration.\<close>

record Manager =
  mg_Client :: Client
  mg_APIReader :: Reader
  mg_IndexField :: "Kind \<Rightarrow> string \<Rightarrow> (ClientObject \<Rightarrow> string list) \<Rightarrow> go_error option"
  mg_NewDynamicClient :: "go_error + DynamicClient"
  mg_Complete :: "ControllerSpec \<Rightarrow> go_error option"
  mg_AddHealthzCheck :: "string \<Rightarrow> go_error option"
  mg_AddReadyzCheck :: "string \<Rightarrow> go_error option"
  mg_Start :: "go_error option"

definition projectMappingAgentRefIndexField :: string where
  "projectMappingAgentRefIndexField = ''.spec.agentRef.name''"

definition registerProjectMappingAgentRefIndex :: "Manager \<Rightarrow> go_error option" where
  "registerProjectMappingAgentRefIndex mgr =
     mg_IndexField mgr MappingKind projectMappingAgentRefIndexField projectMappingAgentRefIndexValues"

text \<open>\<open>Complete\<close> adds the controller to those registered before.\<close>

definition complete ::
  "Manager \<Rightarrow> ControllerSpec \<Rightarrow> ControllerSpec list \<Rightarrow> go_error option \<times> ControllerSpec list" where
  "complete mgr spec registered =
     (case mg_Complete mgr spec of
        Some err \<Rightarrow> (Some err, registered)
      | None \<Rightarrow> (None, registered @ [spec]))"

definition mappingController :: "Library \<Rightarrow> Manager \<Rightarrow> Reconciler \<Rightarrow> ControllerSpec" where
  "mappingController L mgr r =
     \<lparr>ct_Name = ''harnessgitopsprojectmapping'', ct_For = MappingKind, ct_Owns = [],
      ct_Watches = [(AgentKind, agentToProjectMappingRequests (mg_Client mgr))],
      ct_Reconcile = Reconcile L r\<rparr>"

definition SetupMappingWithManager ::
  "Library \<Rightarrow> Manager \<Rightarrow> Reconciler \<Rightarrow> ControllerSpec list \<Rightarrow> go_error option \<times> ControllerSpec list" where
  "SetupMappingWithManager L mgr r registered =
     (case registerProjectMappingAgentRefIndex mgr of
        Some err \<Rightarrow>
          (Some (ErrFmt (''register project Mapping Agent index: '' @ Error err) [err]), registered)
      | None \<Rightarrow>
          (case mg_NewDynamicClient mgr of
             Inl err \<Rightarrow>
               (Some (ErrFmt (''create AppProject dynamic client: '' @ Error err) [err]), registered)
           | Inr appProjectClient \<Rightarrow>
               complete mgr
                 (mappingController L mgr (r\<lparr>rc_appProjectClient := Some appProjectClient\<rparr>)) registered))"

definition agentController :: "Library \<Rightarrow> AgentReconciler \<Rightarrow> ControllerSpec" where
  "agentController L r =
     \<lparr>ct_Name = ''harnessgitopsagent'', ct_For = AgentKind, ct_Owns = [SecretKind],
      ct_Watches = [(MappingKind, \<lambda>object. ret (projectMappingToAgentRequests object))],
      ct_Reconcile = ReconcileAgent L r\<rparr>"

definition SetupAgentWithManager ::
  "Library \<Rightarrow> Manager \<Rightarrow> AgentReconciler \<Rightarrow> ControllerSpec list \<Rightarrow> go_error option \<times> ControllerSpec list" where
  "SetupAgentWithManager L mgr r registered = complete mgr (agentController L r) registered"

record Options =
  opt_APIKeySecretNamespace :: string
  opt_AppProjectPendingRetryInterval :: Duration
  opt_HarnessMappingResyncInterval :: Duration

text \<open>The composite literals of \<open>SetupWithManager\<close>: fields not named are zero.\<close>

definition mappingReconcilerFor :: "Manager \<Rightarrow> Options \<Rightarrow> Reconciler" where
  "mappingReconcilerFor mgr options =
     \<lparr>rc_Client = mg_Client mgr, rc_APIReader = Some (mg_APIReader mgr),
      rc_APIKeySecretNamespace = opt_APIKeySecretNamespace options,
      rc_AppProjectPendingRetryInterval = opt_AppProjectPendingRetryInterval options,
      rc_HarnessMappingResyncInterval = opt_HarnessMappingResyncInterval options,
      rc_mappingAPI = None, rc_appProjectClient = None\<rparr>"

definition agentReconcilerFor :: "Manager \<Rightarrow> Options \<Rightarrow> AgentReconciler" where
  "agentReconcilerFor mgr options =
     \<lparr>ar_Client = mg_Client mgr, ar_APIReader = Some (mg_APIReader mgr),
      ar_APIKeySecretNamespace = opt_APIKeySecretNamespace options,
      ar_AgentHealthResyncInterval = 0, ar_agentAPI = None\<rparr>"

definition SetupWithManager ::
  "Library \<Rightarrow> Manager \<Rightarrow> Options \<Rightarrow> ControllerSpec list \<Rightarrow> go_error option \<times> ControllerSpec list" where
  "SetupWithManager L mgr options registered =
     (case SetupMappingWithManager L mgr (mappingReconcilerFor mgr options) registered of
        (Some err, registered) \<Rightarrow>
          (Some (ErrFmt (''set up HarnessGitopsProjectMapping controller: '' @ Error err) [err]), registered)
      | (None, registered) \<Rightarrow>
          (case SetupAgentWithManager L mgr (agentReconcilerFor mgr options) registered of
             (Some err, registered) \<Rightarrow>
               (Some (ErrFmt (''set up HarnessGitopsAgent controller: '' @ Error err) [err]), registered)
           | (None, registered) \<Rightarrow> (None, registered)))"

section \<open>The program\<close>

text \<open>The flags \<open>main\<close> declares, without those of the logger.\<close>

record Flags =
  fl_metricsAddr :: string
  fl_probeAddr :: string
  fl_enableLeaderElection :: bool
  fl_secureMetrics :: bool
  fl_webhookCertPath :: string
  fl_webhookCertName :: string
  fl_webhookCertKey :: string
  fl_metricsCertPath :: string
  fl_metricsCertName :: string
  fl_metricsCertKey :: string
  fl_enableHTTP2 :: bool
  fl_apiKeySecretNamespace :: string
  fl_appProjectPendingRetryInterval :: Duration
  fl_harnessMappingResyncInterval :: Duration

definition defaultFlags :: Flags where
  "defaultFlags =
     \<lparr>fl_metricsAddr = ''0'', fl_probeAddr = '':8081'', fl_enableLeaderElection = False,
      fl_secureMetrics = True, fl_webhookCertPath = '''', fl_webhookCertName = ''tls.crt'',
      fl_webhookCertKey = ''tls.key'', fl_metricsCertPath = '''', fl_metricsCertName = ''tls.crt'',
      fl_metricsCertKey = ''tls.key'', fl_enableHTTP2 = False, fl_apiKeySecretNamespace = '''',
      fl_appProjectPendingRetryInterval = DefaultAppProjectPendingRetryInterval,
      fl_harnessMappingResyncInterval = DefaultHarnessMappingResyncInterval\<rparr>"

text \<open>\<open>tls.Config\<close>, of which the program sets \<open>NextProtos\<close>.\<close>

record TLSConfig =
  tls_NextProtos :: "string list"

definition disableHTTP2 :: "TLSConfig \<Rightarrow> TLSConfig" where
  "disableHTTP2 c = c\<lparr>tls_NextProtos := [''http/1.1'']\<rparr>"

text \<open>The options of the webhook and the metrics server; \<open>srv_Authenticated\<close> is the filter
  provider with authentication and authorization.\<close>

record ServerOptions =
  srv_BindAddress :: string
  srv_SecureServing :: bool
  srv_Authenticated :: bool
  srv_TLSOpts :: "(TLSConfig \<Rightarrow> TLSConfig) list"
  srv_CertDir :: string
  srv_CertName :: string
  srv_KeyName :: string

record ManagerOptions =
  mo_Metrics :: ServerOptions
  mo_Webhook :: ServerOptions
  mo_SecretSelector :: "string \<rightharpoonup> string"
  mo_HealthProbeBindAddress :: string
  mo_LeaderElection :: bool
  mo_LeaderElectionID :: string

definition tlsOpts :: "Flags \<Rightarrow> (TLSConfig \<Rightarrow> TLSConfig) list" where
  "tlsOpts f = (if \<not> fl_enableHTTP2 f then [] @ [disableHTTP2] else [])"

definition withCertificates :: "string \<Rightarrow> string \<Rightarrow> string \<Rightarrow> ServerOptions \<Rightarrow> ServerOptions" where
  "withCertificates path name key options =
     (if length path > 0
      then options\<lparr>srv_CertDir := path, srv_CertName := name, srv_KeyName := key\<rparr>
      else options)"

definition webhookServerOptions :: "Flags \<Rightarrow> ServerOptions" where
  "webhookServerOptions f =
     withCertificates (fl_webhookCertPath f) (fl_webhookCertName f) (fl_webhookCertKey f)
       \<lparr>srv_BindAddress = '''', srv_SecureServing = False, srv_Authenticated = False,
        srv_TLSOpts = tlsOpts f, srv_CertDir = '''', srv_CertName = '''', srv_KeyName = ''''\<rparr>"

definition metricsServerOptions :: "Flags \<Rightarrow> ServerOptions" where
  "metricsServerOptions f =
     (let options =
        \<lparr>srv_BindAddress = fl_metricsAddr f, srv_SecureServing = fl_secureMetrics f,
         srv_Authenticated = False, srv_TLSOpts = tlsOpts f,
         srv_CertDir = '''', srv_CertName = '''', srv_KeyName = ''''\<rparr>;
          options = (if fl_secureMetrics f then options\<lparr>srv_Authenticated := True\<rparr> else options)
      in withCertificates (fl_metricsCertPath f) (fl_metricsCertName f) (fl_metricsCertKey f) options)"

definition managerOptions :: "Flags \<Rightarrow> ManagerOptions" where
  "managerOptions f =
     \<lparr>mo_Metrics = metricsServerOptions f, mo_Webhook = webhookServerOptions f,
      mo_SecretSelector = [ManagedByLabelKey \<mapsto> ManagedByLabelValue],
      mo_HealthProbeBindAddress = fl_probeAddr f, mo_LeaderElection = fl_enableLeaderElection f,
      mo_LeaderElectionID = ''a7471a0b.harness.io''\<rparr>"

definition optionsFor :: "Flags \<Rightarrow> Options" where
  "optionsFor f =
     \<lparr>opt_APIKeySecretNamespace = fl_apiKeySecretNamespace f,
      opt_AppProjectPendingRetryInterval = fl_appProjectPendingRetryInterval f,
      opt_HarnessMappingResyncInterval = fl_harnessMappingResyncInterval f\<rparr>"

text \<open>
  A run of \<open>main\<close>: the controllers registered when \<open>Start\<close> was called, if it was, and the log
  line and error of the exit with status 1, if there was one. \<open>ctrl.NewManager\<close> is a parameter.
\<close>

record MainRun =
  run_started :: "ControllerSpec list option"
  run_exit :: "(string \<times> go_error) option"

definition exit1 :: "string \<Rightarrow> go_error \<Rightarrow> MainRun" where
  "exit1 message err = \<lparr>run_started = None, run_exit = Some (message, err)\<rparr>"

definition startManager :: "Manager \<Rightarrow> ControllerSpec list \<Rightarrow> MainRun" where
  "startManager mgr registered =
     (case mg_AddHealthzCheck mgr ''healthz'' of
        Some err \<Rightarrow> exit1 ''unable to set up health check'' err
      | None \<Rightarrow>
          (case mg_AddReadyzCheck mgr ''readyz'' of
             Some err \<Rightarrow> exit1 ''unable to set up ready check'' err
           | None \<Rightarrow>
               \<lparr>run_started = Some registered,
                run_exit = map_option (\<lambda>err. (''problem running manager'', err)) (mg_Start mgr)\<rparr>))"

definition main :: "Library \<Rightarrow> (ManagerOptions \<Rightarrow> go_error + Manager) \<Rightarrow> Flags \<Rightarrow> MainRun" where
  "main L NewManager f =
     (case ValidateMappingIntervals (fl_appProjectPendingRetryInterval f) (fl_harnessMappingResyncInterval f) of
        Some err \<Rightarrow> exit1 ''invalid mapping reconciliation intervals'' err
      | None \<Rightarrow>
          (case NewManager (managerOptions f) of
             Inl err \<Rightarrow> exit1 ''unable to start manager'' err
           | Inr mgr \<Rightarrow>
               (case SetupWithManager L mgr (optionsFor f) [] of
                  (Some err, registered) \<Rightarrow> exit1 ''unable to set up controllers'' err
                | (None, registered) \<Rightarrow> startManager mgr registered)))"

section \<open>What a started operator does\<close>

text \<open>The Mapping reconciler as registered: with the dynamic client set up by \<open>SetupWithManager\<close>.\<close>

definition startedMapping :: "Manager \<Rightarrow> Flags \<Rightarrow> DynamicClient \<Rightarrow> Reconciler" where
  "startedMapping mgr f dc = (mappingReconcilerFor mgr (optionsFor f))\<lparr>rc_appProjectClient := Some dc\<rparr>"

definition startedAgent :: "Manager \<Rightarrow> Flags \<Rightarrow> AgentReconciler" where
  "startedAgent mgr f = agentReconcilerFor mgr (optionsFor f)"

text \<open>A pass that asks to be run again does so at once after a write, or after a second or more.\<close>

definition paced :: "Result \<Rightarrow> bool" where
  "paced res \<longleftrightarrow> RequeueAfter res = Nanosecond \<or> Second \<le> RequeueAfter res"

lemma main_started:
  assumes "run_started (main L NewManager f) = Some specs"
  obtains mgr dc where "NewManager (managerOptions f) = Inr mgr" "mg_NewDynamicClient mgr = Inr dc"
    "specs = [mappingController L mgr (startedMapping mgr f dc), agentController L (startedAgent mgr f)]"
    "ValidateMappingIntervals (fl_appProjectPendingRetryInterval f) (fl_harnessMappingResyncInterval f) = None"
  using assms
  by (auto simp: main_def startManager_def exit1_def SetupWithManager_def SetupMappingWithManager_def
      SetupAgentWithManager_def complete_def startedMapping_def startedAgent_def
      split: option.splits sum.splits prod.splits)

lemma validated_intervals:
  "ValidateMappingIntervals p q = None \<longleftrightarrow> Second \<le> p \<and> Second \<le> q"
  by (auto simp: ValidateMappingIntervals_def MinimumMappingInterval_def)

lemma started_delays:
  assumes "Second \<le> fl_appProjectPendingRetryInterval f" "Second \<le> fl_harnessMappingResyncInterval f"
  shows "liveDelay (startedMapping mgr f dc) d \<Longrightarrow> d = Nanosecond \<or> Second \<le> d"
    and "agentDelay (startedAgent mgr f) d \<Longrightarrow> d = Nanosecond \<or> Second \<le> d"
  using assms
  by (auto simp: liveDelay_def agentDelay_def startedMapping_def startedAgent_def mappingReconcilerFor_def
      agentReconcilerFor_def optionsFor_def pendingRetryInterval_def resyncInterval_def
      agentHealthResyncInterval_def DefaultAgentHealthResyncInterval_def agentHealthFastResync_def
      agentRegistrationRetryInterval_def agentMappingDependencyRetryInterval_def interval_defs split: if_splits)

text \<open>
  C14: an operator that starts keeps its live resources under control without spinning. \<open>main\<close>
  calls \<open>Start\<close> only with both intervals at least a second and exactly the two controllers
  registered, the Mapping controller first. From then on every pass over a live Agent that
  reports no error asks to be run again, at once or after a second or more; and so does every
  pass over a live Mapping that reports no error, or it has stored the condition
  \<open>ResolutionInvalid\<close> and leaves the Mapping to the next change. A pass that reports an error is
  retried by the work queue and outside the statement.
\<close>

theorem started_operator_paces_reconciliation:
  assumes "run_started (main L NewManager f) = Some specs"
  shows "Second \<le> fl_appProjectPendingRetryInterval f \<and> Second \<le> fl_harnessMappingResyncInterval f \<and>
    (\<exists>mgr dc. NewManager (managerOptions f) = Inr mgr \<and>
      map ct_For specs = [MappingKind, AgentKind] \<and>
      map ct_Reconcile specs = [Reconcile L (startedMapping mgr f dc), ReconcileAgent L (startedAgent mgr f)] \<and>
      (\<forall>h key m res. rd_GetMapping (cl_Reader (mg_Client mgr)) h key = Inr m \<and>
         timeIsZero (DeletionTimestamp (m_Meta m)) \<and>
         result (Reconcile L (startedMapping mgr f dc) key) h = (res, None) \<longrightarrow>
         paced res \<or> resolutionReported L (startedMapping mgr f dc) key m h
           (emitted (Reconcile L (startedMapping mgr f dc) key) h)) \<and>
      (\<forall>h key a res. rd_GetAgent (cl_Reader (mg_Client mgr)) h key = Inr a \<and>
         DeletionTimestamp (a_Meta a) = None \<and>
         result (ReconcileAgent L (startedAgent mgr f) key) h = (res, None) \<longrightarrow> paced res))"
proof -
  from main_started [OF assms] obtain mgr dc where mgr: "NewManager (managerOptions f) = Inr mgr"
    and specs: "specs = [mappingController L mgr (startedMapping mgr f dc), agentController L (startedAgent mgr f)]"
    and "ValidateMappingIntervals (fl_appProjectPendingRetryInterval f) (fl_harnessMappingResyncInterval f) = None"
    by metis
  then have i: "Second \<le> fl_appProjectPendingRetryInterval f" "Second \<le> fl_harnessMappingResyncInterval f"
    by (simp_all add: validated_intervals)
  have client: "rc_Client (startedMapping mgr f dc) = mg_Client mgr" "ar_Client (startedAgent mgr f) = mg_Client mgr"
    by (simp_all add: startedMapping_def startedAgent_def mappingReconcilerFor_def agentReconcilerFor_def)
  have api: "rc_mappingAPI (startedMapping mgr f dc) = None"
    by (simp add: startedMapping_def mappingReconcilerFor_def)
  have mapping: "paced res \<or> resolutionReported L (startedMapping mgr f dc) key m h
      (emitted (Reconcile L (startedMapping mgr f dc) key) h)"
    if "rd_GetMapping (cl_Reader (mg_Client mgr)) h key = Inr m" "timeIsZero (DeletionTimestamp (m_Meta m))"
      "result (Reconcile L (startedMapping mgr f dc) key) h = (res, None)" for h key m res
    using live_pass [OF api _ that(2,3)] that(1) started_delays(1) [OF i] by (auto simp: client paced_def)
  have agent: "paced res"
    if "rd_GetAgent (cl_Reader (mg_Client mgr)) h key = Inr a" "DeletionTimestamp (a_Meta a) = None"
      "result (ReconcileAgent L (startedAgent mgr f) key) h = (res, None)" for h key a res
    using live_agent_pass [OF _ that(2,3)] that(1) started_delays(2) [OF i] by (simp add: client paced_def)
  show ?thesis
    unfolding specs
    by (intro conjI exI [of _ mgr] exI [of _ dc] i mgr allI impI)
      (use mapping agent in \<open>auto simp: mappingController_def agentController_def simp del: split_paired_All\<close>)
qed

text \<open>A manager that accepts everything, over the sample cluster.\<close>

definition sampleManager :: Manager where
  "sampleManager =
     \<lparr>mg_Client = sampleClient (sampleReader CachedClient [sampleAgent] [sampleMapping]),
      mg_APIReader = sampleReader UncachedReader [sampleAgent] [sampleMapping],
      mg_IndexField = (\<lambda>k n f. None), mg_NewDynamicClient = Inr \<lparr>dy_GetAppProject = (\<lambda>h key. None)\<rparr>,
      mg_Complete = (\<lambda>c. None), mg_AddHealthzCheck = (\<lambda>n. None), mg_AddReadyzCheck = (\<lambda>n. None),
      mg_Start = None\<rparr>"

theorem started_operator_paces_reconciliation_witness:
  "\<exists>specs. run_started (main (sampleLibrary presentAPI) (\<lambda>options. Inr sampleManager) defaultFlags) = Some specs \<and>
     map ct_For specs = [MappingKind, AgentKind] \<and>
     (let pass = result (ReconcileAgent (sampleLibrary presentAPI) (startedAgent sampleManager defaultFlags)
        (''ns'', ''agent'')) [] in snd pass = None \<and> paced (fst pass))"
proof -
  let ?L = "sampleLibrary presentAPI"
  let ?pass = "result (ReconcileAgent ?L (startedAgent sampleManager defaultFlags) (''ns'', ''agent'')) []"
  obtain specs where start: "run_started (main ?L (\<lambda>options. Inr sampleManager) defaultFlags) = Some specs"
    by (simp add: main_def ValidateMappingIntervals_def defaultFlags_def interval_defs SetupWithManager_def
        SetupMappingWithManager_def SetupAgentWithManager_def registerProjectMappingAgentRefIndex_def complete_def
        startManager_def sampleManager_def)
  have read: "rd_GetAgent (cl_Reader (mg_Client sampleManager)) [] (''ns'', ''agent'') = Inr sampleAgent"
    "DeletionTimestamp (a_Meta sampleAgent) = None"
    by (simp_all add: sampleManager_def sample_defs)
  have run: "snd ?pass = None"
    by (simp add: ReconcileAgent_def GetAgent_def EnsureFinalizer_def startedAgent_def agentReconcilerFor_def
        sampleManager_def sample_defs agentWriter_def UpdateAgent_def Let_def result_bind)
  then have pass: "?pass = (fst ?pass, None)" by (metis prod.collapse)
  from started_operator_paces_reconciliation [OF start] read pass
  have "map ct_For specs = [MappingKind, AgentKind] \<and> paced (fst ?pass)"
    by (elim conjE exE) (metis sum.inject(2))
  with start run show ?thesis by (auto simp: Let_def)
qed

text \<open>
  C38: the servers and the cache of a started operator. Unless HTTP/2 is enabled, the last word on
  the protocols of both servers is HTTP/1.1; a metrics server with TLS authenticates its
  clients; and every token Secret the Agent controller writes, whatever it was before, carries
  the labels the manager's Secret cache selects, so the controller's watch on the Secrets it
  owns sees it.
\<close>

theorem manager_options_match_controllers:
  "(\<not> fl_enableHTTP2 f \<longrightarrow>
      tls_NextProtos (fold id (srv_TLSOpts (mo_Metrics (managerOptions f))) c) = [''http/1.1''] \<and>
      tls_NextProtos (fold id (srv_TLSOpts (mo_Webhook (managerOptions f))) c) = [''http/1.1'']) \<and>
   (srv_SecureServing (mo_Metrics (managerOptions f)) \<longrightarrow> srv_Authenticated (mo_Metrics (managerOptions f))) \<and>
   (mutateTokenSecret L a token s = Inr s' \<longrightarrow>
      mo_SecretSelector (managerOptions f) \<subseteq>\<^sub>m sec_Labels s' \<and>
      sec_Data s' gitopsAgentTokenSecretKey = Some token)"
proof -
  have certs: "srv_TLSOpts (withCertificates p n k opts) = srv_TLSOpts opts"
    "srv_SecureServing (withCertificates p n k opts) = srv_SecureServing opts"
    "srv_Authenticated (withCertificates p n k opts) = srv_Authenticated opts" for p n k opts
    by (simp_all add: withCertificates_def)
  show ?thesis
    by (auto simp: managerOptions_def metricsServerOptions_def webhookServerOptions_def tlsOpts_def certs
        disableHTTP2_def mutateTokenSecret_def map_le_def Let_def split: sum.splits)
qed

theorem manager_options_match_controllers_witness:
  "tls_NextProtos (fold id (srv_TLSOpts (mo_Metrics (managerOptions defaultFlags))) \<lparr>tls_NextProtos = [''h2'']\<rparr>) =
     [''http/1.1''] \<and>
   (\<exists>s'. mutateTokenSecret (sampleLibrary presentAPI) sampleAgent ''token'' apiKeySecret = Inr s' \<and>
     mo_SecretSelector (managerOptions defaultFlags) \<subseteq>\<^sub>m sec_Labels s')"
proof -
  have "\<not> fl_enableHTTP2 defaultFlags" by (simp add: defaultFlags_def)
  moreover obtain s' where
    "mutateTokenSecret (sampleLibrary presentAPI) sampleAgent ''token'' apiKeySecret = Inr s'"
    by (simp add: mutateTokenSecret_def sampleLibrary_def)
  ultimately show ?thesis
    using manager_options_match_controllers [of defaultFlags "\<lparr>tls_NextProtos = [''h2'']\<rparr>"
        "sampleLibrary presentAPI" sampleAgent "''token''" apiKeySecret s'] by blast
qed

end
