(* ===== verification/Spec2Isabelle.thy ===== *)
theory Spec2Isabelle
  imports Mapping_Validity Manager_Setup
begin

text \<open>
  \<^bold>\<open>Verification library of the Harness GitOps agent operator\<close>

  \<^bold>\<open>The program.\<close> One controller-runtime manager (\<open>src/cmd/main.go\<close>) runs two controllers
  (\<open>src/internal/controller/setup.go\<close>). The Agent controller (\<open>src/internal/resource/agent\<close>)
  registers a Harness GitOps Agent for a \<open>HarnessGitopsAgent\<close> resource or observes an existing
  one, stores the Agent's token in a Secret and publishes its health. The Mapping controller
  (\<open>src/internal/resource/projectmapping\<close>) creates, adopts, observes and deletes the remote row
  that maps an Argo CD AppProject to a Harness project for a \<open>HarnessGitopsProjectMapping\<close>. The
  two meet in the resources: a Mapping reads the Agent it references and its health condition,
  an Agent event enqueues the Mappings that reference it and the other way round, and the
  deletion of an Agent first deletes these Mappings. Both use \<open>src/internal/harness\<close> (sessions,
  error verdicts, identifier candidates) and \<open>src/internal/resource/finalizer.go\<close>. Creating
  something at Harness is neither idempotent nor transactional, so both controllers store an
  intent before the request, treat an unanswered request as an unknown outcome, and act on a
  remote object only with proof of ownership. The properties are about this protocol.

  \<^bold>\<open>The model.\<close> Strings are byte lists, durations are integers with saturation and wrap-around
  written out, errors are values with their unwrapping tree, fallible functions return a sum
  with the error on the left. Everything outside the repository is a parameter (theory \<open>World\<close>):
  the Kubernetes clients, the dynamic client and the SDK endpoints are functions from the
  history of all calls so far to their answer, so that a theorem for all of them covers
  concurrent writers, stale caches and every failure; the pure helpers of the Kubernetes
  libraries and the clock are the record \<open>Library\<close>. Every call is an event of the history, with
  its arguments and its answer, and the code runs in the state monad over the history. What a
  theorem needs of a library function is a named hypothesis (\<open>finalizerLaws\<close>, \<open>foreignClients\<close>,
  the sorting contract \<open>slice_order\<close>) with a witness; \<open>Sample_World\<close> is a concrete instance of
  all parameters on which the witnesses run the handlers.

  \<^bold>\<open>The theories.\<close>
  \<^item> \<open>Go_Prelude\<close>, \<open>Go_Errors\<close>, \<open>Go_Sort\<close>: what the code uses of Go: string routines, durations,
    error wrapping, \<open>sort.Slice\<close> (locales \<open>slice_order\<close> and \<open>keyed_order\<close>, interpreted on the
    three comparison functions of the code).
  \<^item> \<open>Api_Types\<close>: \<open>src/api/v1alpha1\<close>, resources as records, states as datatypes, the validation
    rules of the Mapping status.
  \<^item> \<open>World\<close>, \<open>Trace_Logic\<close>, \<open>Outcome_Logic\<close>, \<open>Sample_World\<close>: the boundary and three small logics on
    runs. \<open>emits P m\<close>: all events of an action satisfy P. \<open>guarded G m h\<close>: every event is justified
    by the history before it, by which the safety properties are proved. \<open>ends P m h\<close>: how a
    run ends, by which the progress properties are proved.
  \<^item> \<open>Harness_Errors\<close>, \<open>Harness_Identifiers\<close>, \<open>Harness_Session\<close>: \<open>errors.go\<close>, \<open>identifiers.go\<close> and
    \<open>session.go\<close> of \<open>src/internal/harness\<close>.
  \<^item> \<open>Resource_Finalizer\<close>: \<open>src/internal/resource/finalizer.go\<close>, generic over the object as in
    the source (locale \<open>finalizer_object\<close>, interpreted on both resources).
  \<^item> \<open>Mapping_SDK\<close> (\<open>sdk.go\<close>; locale \<open>mapping_api\<close> is the interface \<open>mappingReconcileAPI\<close> with the
    laws the reconciler relies on, interpreted on the SDK adapter), \<open>Mapping_Scope\<close>
    (\<open>scope.go\<close>), \<open>Mapping_Kubernetes\<close> (\<open>kubernetes.go\<close>), \<open>Mapping_State\<close> (\<open>state.go\<close>),
    \<open>Mapping_Claims\<close> (\<open>claims.go\<close>), \<open>Mapping_Finalizer\<close> (\<open>finalizer.go\<close>), \<open>Mapping_Reconciler\<close>
    (\<open>reconciler.go\<close>), all of \<open>src/internal/resource/projectmapping\<close>; on top of them
    \<open>Mapping_Ownership\<close>, \<open>Mapping_Validity\<close> and \<open>Mapping_Progress\<close> prove properties of the whole
    handler.
  \<^item> \<open>Agent_SDK\<close> (\<open>sdk.go\<close>; locale \<open>agent_api\<close>, interpreted on the SDK adapter),
    \<open>Agent_Conditions\<close> (\<open>conditions.go\<close>), \<open>Agent_Registration\<close> (\<open>registration.go\<close>),
    \<open>Agent_Finalizer\<close> (\<open>finalizer.go\<close>), \<open>Agent_Reconciler\<close> (\<open>reconciler.go\<close>), all of
    \<open>src/internal/resource/agent\<close>; \<open>Agent_Progress\<close> proves how its passes end.
  \<^item> \<open>Manager_Setup\<close>: \<open>main.go\<close>, \<open>setup.go\<close> and the two \<open>SetupWithManager\<close> methods, from the parsed
    flags to the started controllers.

  Operations keep their Go names. A method of the two reconcilers takes the library and the
  reconciler as its first arguments; where the code goes on after a branch point in the middle
  of a long method, the rest is a definition of its own, named in the text before it. The Agent
  handler is \<open>ReconcileAgent\<close>, the Mapping handler \<open>Reconcile\<close>.

  \<^bold>\<open>What is shown.\<close>
  \<^item> Safety of the Mapping handler, for every run from every history: a DELETE is sent only by
    the settled owner of a listed, matching row after a won claim; a POST only on a stored
    Pending intent; ownership is gained only by a won claim; the finalizer is removed only when
    nothing is left to delete, where the reasons are stated on the stored status and the calls
    made, not on the flags the code computes; every status written obeys the validation rules.
  \<^item> Safety of the Agent handler: create, delete, ownership, finalizer and token regeneration
    each happen only on the proof the code is meant to have.
  \<^item> Arbitration, selection and scope resolution: a won claim is minimal among all recorded
    ones and exclusive; an owned row is selected or fails closed; resolution is exactly the
    scope table.
  \<^item> Adapters: fallback to the next candidate after 404 only, bounds on the requests, what each
    outcome says in terms of the HTTP answer, and that nil from Delete means gone.
  \<^item> Progress: a pass without an error requeues, has stored that the request does not resolve,
    or has removed the finalizer; for a started operator the requeue is immediate after a
    write or at least a second away.
  \<^item> Round trips (the cleanup identity of a stored row, the ownership tag of a created Agent),
    the wrap-around of the grace period, agreement of the watches with the field index, and
    of the cache selector with the labels written.

  \<^bold>\<open>Loops and bounds.\<close> Every loop of the code runs over a list (candidates, listed resources,
  rows, references) and is structural recursion, so all definitions are total and no fuel is
  needed; there are at most two identifier candidates, which bounds the requests of a call.
  Generations and statuses are integers; the only machine arithmetic is on durations, which are
  64-bit: \<open>timeSub\<close> saturates and \<open>wrapDuration\<close> wraps as in Go.

  \<^bold>\<open>What is not modelled.\<close> Generated deep copies and the scheme registration (HOL values are
  copies already), the CRD list types, RBAC markers, log lines, flag parsing, the end-to-end
  test helpers. The manager, its caches and work queue, the SDK and the Kubernetes libraries are
  parameters; that a requeue is honoured and that an error is retried is their promise. The
  rules on the condition list of a status are kept by the library function that sets a
  condition and are outside the validity invariant. Statements about one pass do not assume
  that the cluster stands still: what another client does between two calls is in the answers.
\<close>

end
